(* ===== verification/Prelude.thy ===== *)
theory Prelude
  imports Main "HOL-Library.Word" "HOL-Library.Sublist"
begin

text \<open>
  What every component of the model shares: the machine integers of the Rust code, its
  fallible results, a few facts on lists, maps and sums, and the interfaces (locales) that
  several components implement.

  \<^item> \<open>u8\<close> to \<open>u64\<close> are words, so that the arithmetic wraps as it does in a release build.
  \<^item> a \<open>Result<T, E>\<close> is a sum, \<open>Inl\<close> for \<open>Err\<close>, and \<open>?\<close> is \<open>res_bind\<close>.
  \<^item> \<open>registry\<close> is the contract of the name-indexed tables (profiles, sessions, jobs).
  \<^item> \<open>codec\<close> is the contract of a self-delimiting encoding (pkt-line, BPF instructions).
  \<^item> \<open>guarded_system\<close> is the contract of a component whose every step keeps an invariant.
\<close>

section \<open>Machine integers and results\<close>

type_synonym u8 = "8 word"
type_synonym u16 = "16 word"
type_synonym u32 = "32 word"
type_synonym u64 = "64 word"

named_theorems res_simps \<open>unfolding of the result monad\<close>
named_theorems path_simps \<open>facts on path components and file trees\<close>

definition res_bind :: "'e + 'a \<Rightarrow> ('a \<Rightarrow> 'e + 'b) \<Rightarrow> 'e + 'b" where
  "res_bind r f = (case r of Inl e \<Rightarrow> Inl e | Inr a \<Rightarrow> f a)"

text \<open>\<open>Result::map_err\<close>\<close>

definition map_err :: "('e \<Rightarrow> 'f) \<Rightarrow> 'e + 'a \<Rightarrow> 'f + 'a" where
  "map_err f r = (case r of Inl e \<Rightarrow> Inl (f e) | Inr x \<Rightarrow> Inr x)"

definition is_ok :: "'e + 'a \<Rightarrow> bool" where
  "is_ok r = (case r of Inl _ \<Rightarrow> False | Inr _ \<Rightarrow> True)"

lemma res_bind_simps [simp, res_simps]:
  "res_bind (Inl e) f = Inl e"
  "res_bind (Inr a) f = f a"
  by (simp_all add: res_bind_def)

lemma is_ok_simps [simp]: "is_ok (Inr a)" "\<not> is_ok (Inl e)"
  by (simp_all add: is_ok_def)

lemma is_ok_iff: "is_ok r \<longleftrightarrow> (\<exists>a. r = Inr a)"
  by (cases r) auto

lemma res_bind_Inr_iff: "res_bind r f = Inr b \<longleftrightarrow> (\<exists>a. r = Inr a \<and> f a = Inr b)"
  by (cases r) auto

lemma res_bind_Inl_iff:
  "res_bind r f = Inl e \<longleftrightarrow> r = Inl e \<or> (\<exists>a. r = Inr a \<and> f a = Inl e)"
  by (cases r) auto

text \<open>
  Code that also changes a state returns its result beside the new state; \<open>?\<close> is then
  \<open>st_bind\<close>, which keeps the effects made before the error.
\<close>

type_synonym ('s, 'e, 'a) st = "'s \<Rightarrow> ('e + 'a) \<times> 's"

definition st_ret :: "'a \<Rightarrow> ('s, 'e, 'a) st" where
  "st_ret a s = (Inr a, s)"

definition st_err :: "'e \<Rightarrow> ('s, 'e, 'a) st" where
  "st_err e s = (Inl e, s)"

definition st_bind :: "('s, 'e, 'a) st \<Rightarrow> ('a \<Rightarrow> ('s, 'e, 'b) st) \<Rightarrow> ('s, 'e, 'b) st" where
  "st_bind m f s = (case m s of (Inl e, s') \<Rightarrow> (Inl e, s') | (Inr a, s') \<Rightarrow> f a s')"

lemma st_simps [simp, res_simps]:
  "st_ret a s = (Inr a, s)"
  "st_err e s = (Inl e, s)"
  by (simp_all add: st_ret_def st_err_def)

lemma st_bind_Inr: "m s = (Inr a, s') \<Longrightarrow> st_bind m f s = f a s'"
  by (simp add: st_bind_def)

lemma st_bind_Inl: "m s = (Inl e, s') \<Longrightarrow> st_bind m f s = (Inl e, s')"
  by (simp add: st_bind_def)

text \<open>What every step of a computation preserves, the computation preserves.\<close>

definition st_keeps :: "('s \<Rightarrow> bool) \<Rightarrow> ('s, 'e, 'a) st \<Rightarrow> bool" where
  "st_keeps P m = (\<forall>s. P s \<longrightarrow> P (snd (m s)))"

lemma st_keeps_ret [intro]: "st_keeps P (st_ret a)"
  by (simp add: st_keeps_def)

lemma st_keeps_err [intro]: "st_keeps P (st_err e)"
  by (simp add: st_keeps_def)

lemma st_keeps_bind [intro]:
  "st_keeps P m \<Longrightarrow> (\<And>a. st_keeps P (f a)) \<Longrightarrow> st_keeps P (st_bind m f)"
  unfolding st_keeps_def st_bind_def
  by (auto split: prod.splits sum.splits)

lemma st_keeps_if [intro]:
  "(c \<Longrightarrow> st_keeps P m) \<Longrightarrow> (\<not> c \<Longrightarrow> st_keeps P m') \<Longrightarrow> st_keeps P (if c then m else m')"
  by simp

lemma st_keepsD: "st_keeps P m \<Longrightarrow> P s \<Longrightarrow> P (snd (m s))"
  by (simp add: st_keeps_def)

section \<open>Lists and maps\<close>

lemma takeWhile_dropWhile_split:
  "xs = takeWhile P xs @ dropWhile P xs"
  by simp

lemma list_all_takeWhile: "list_all P (takeWhile P xs)"
  by (induction xs) auto

lemma foldl_map_upd_notin:
  "k \<notin> fst ` set kvs \<Longrightarrow> foldl (\<lambda>m (k, v). m(k \<mapsto> v)) m kvs k = m k"
  by (induction kvs arbitrary: m) auto

lemma foldl_map_upd_in:
  "distinct (map fst kvs) \<Longrightarrow> (k, v) \<in> set kvs \<Longrightarrow>
     foldl (\<lambda>m (k, v). m(k \<mapsto> v)) m kvs k = Some v"
proof (induction kvs arbitrary: m)
  case Nil
  then show ?case by simp
next
  case (Cons a kvs)
  obtain k' v' where a: "a = (k', v')" by (cases a)
  show ?case
  proof (cases "(k, v) \<in> set kvs")
    case True
    then show ?thesis using Cons a by simp
  next
    case False
    then have "k' = k" "v' = v" "k \<notin> fst ` set kvs" using Cons.prems a by auto
    then show ?thesis using a foldl_map_upd_notin [of k kvs "m(k \<mapsto> v)"]
      by (simp del: fun_upd_apply) simp
  qed
qed

lemma set_enumerate_window:
  "set (map fst (filter (\<lambda>(i, b). \<not> b) (take m (drop k (enumerate 0 bs))))) =
     {i. k \<le> i \<and> i < k + m \<and> i < length bs \<and> \<not> bs ! i}" (is "set (map fst (filter _ ?xs)) = ?R")
proof -
  have nth: "?xs ! j = (k + j, bs ! (k + j))" if "j < length ?xs" for j
  proof -
    have "k \<le> length (enumerate 0 bs)" "k + j < length bs" "j < m" using that by auto
    then show ?thesis by (simp add: nth_enumerate_eq)
  qed
  have "set (map fst (filter (\<lambda>(i, b). \<not> b) ?xs)) = {fst p |p. p \<in> set ?xs \<and> \<not> snd p}"
    by (force simp: image_iff)
  also have "\<dots> = {k + j |j. j < length ?xs \<and> \<not> bs ! (k + j)}"
    unfolding in_set_conv_nth using nth by (auto simp del: nth_take nth_drop)
  also have "\<dots> = ?R"
  proof (intro set_eqI iffI)
    fix i assume "i \<in> ?R"
    then show "i \<in> {k + j |j. j < length ?xs \<and> \<not> bs ! (k + j)}"
      by (intro CollectI exI [of _ "i - k"]) auto
  qed auto
  finally show ?thesis .
qed

lemma length_filter_update:
  "i < length xs \<Longrightarrow>
     length (filter P (xs[i := y])) + (if P (xs ! i) then 1 else 0) = length (filter P xs) + (if P y then 1 else 0)"
proof (induction xs arbitrary: i)
  case (Cons x xs)
  then show ?case by (cases i) auto
qed simp

section \<open>Interfaces\<close>

text \<open>
  A table indexed by names: what a lookup returns after an entry was inserted. An entry has a
  key and a value.
\<close>

locale registry =
  fixes lookup_entry :: "'t \<Rightarrow> 'k \<Rightarrow> 'v option"
    and insert_entry :: "'e \<Rightarrow> 't \<Rightarrow> 't"
    and key :: "'e \<Rightarrow> 'k"
    and val :: "'e \<Rightarrow> 'v"
  assumes lookup_insert:
    "lookup_entry (insert_entry e t) k = (if k = key e then Some (val e) else lookup_entry t k)"
begin

lemma lookup_insert_same: "lookup_entry (insert_entry e t) (key e) = Some (val e)"
  by (simp add: lookup_insert)

text \<open>A batch of insertions: the last one for a name wins, and no other name changes.\<close>

lemma lookup_insert_all:
  "lookup_entry (fold insert_entry es t) k =
     (case map_of (rev (map (\<lambda>e. (key e, val e)) es)) k of
        Some v \<Rightarrow> Some v | None \<Rightarrow> lookup_entry t k)"
proof (induction es rule: rev_induct)
  case (snoc e es)
  then show ?case by (auto simp: lookup_insert)
qed simp

lemma lookup_insert_frame:
  "k \<notin> key ` set es \<Longrightarrow> lookup_entry (fold insert_entry es t) k = lookup_entry t k"
  by (induction es arbitrary: t) (auto simp: lookup_insert)

lemma lookup_insert_batch:
  "distinct (map key es) \<Longrightarrow> e \<in> set es \<Longrightarrow> lookup_entry (fold insert_entry es t) (key e) = Some (val e)"
proof (induction es arbitrary: t)
  case (Cons a es)
  show ?case
  proof (cases "e = a")
    case True
    then show ?thesis using Cons.prems by (simp add: lookup_insert_frame lookup_insert)
  next
    case False
    then show ?thesis using Cons by simp
  qed
qed simp

end

text \<open>A registry whose entries can be removed.\<close>

locale removable_registry = registry lookup_entry insert_entry key val
  for lookup_entry :: "'t \<Rightarrow> 'k \<Rightarrow> 'v option" and insert_entry :: "'e \<Rightarrow> 't \<Rightarrow> 't"
    and key :: "'e \<Rightarrow> 'k" and val :: "'e \<Rightarrow> 'v" +
  fixes remove_entry :: "'k \<Rightarrow> 't \<Rightarrow> 't"
  assumes lookup_remove:
    "lookup_entry (remove_entry k t) k' = (if k' = k then None else lookup_entry t k')"
begin

lemma remove_after_insert:
  "lookup_entry t (key e) = None \<Longrightarrow>
     lookup_entry (remove_entry (key e) (insert_entry e t)) k = lookup_entry t k"
  by (simp add: lookup_remove lookup_insert)

end

text \<open>
  A self-delimiting encoding: decoding an encoded value followed by anything gives the value
  back and leaves what followed.
\<close>

locale codec =
  fixes enc :: "'a \<Rightarrow> 'b list"
    and dec :: "'b list \<Rightarrow> ('a \<times> 'b list) option"
    and wf :: "'a \<Rightarrow> bool"
  assumes dec_enc: "wf x \<Longrightarrow> dec (enc x @ rest) = Some (x, rest)"
begin

fun dec_n :: "nat \<Rightarrow> 'b list \<Rightarrow> ('a list \<times> 'b list) option" where
  "dec_n 0 bs = Some ([], bs)"
| "dec_n (Suc n) bs =
     (case dec bs of
        None \<Rightarrow> None
      | Some (x, rest) \<Rightarrow> map_option (\<lambda>(xs, r). (x # xs, r)) (dec_n n rest))"

lemma dec_n_concat:
  "list_all wf xs \<Longrightarrow> dec_n (length xs) (concat (map enc xs) @ rest) = Some (xs, rest)"
  by (induction xs) (auto simp: dec_enc)

lemma enc_inj: "wf x \<Longrightarrow> wf y \<Longrightarrow> enc x = enc y \<Longrightarrow> x = y"
  using dec_enc [of x "[]"] dec_enc [of y "[]"] by simp

end

text \<open>
  A component with a state, an operation for each request and an invariant: what holds at the
  start and is kept by every operation holds after any sequence of requests.
\<close>

locale guarded_system =
  fixes step :: "'r \<Rightarrow> 's \<Rightarrow> 's"
    and inv :: "'s \<Rightarrow> bool"
  assumes step_inv: "inv s \<Longrightarrow> inv (step r s)"
begin

lemma fold_inv: "inv s \<Longrightarrow> inv (fold step rs s)"
  by (induction rs arbitrary: s) (auto intro: step_inv)

end

end
