(* ===== verification/RustStr.thy ===== *)
theory RustStr
  imports Prelude
begin

text \<open>
  The operations of Rust's \<open>str\<close> that the program uses. A Rust string is a sequence of bytes
  that is valid UTF-8; here it is a \<open>string\<close>, whose characters are those bytes. The functions
  that look at characters (\<open>chars\<close>, \<open>trim\<close>, \<open>split_whitespace\<close>) group the bytes into UTF-8
  sequences first; \<open>from_utf8_lossy\<close> replaces every maximal ill-formed prefix by U+FFFD, as the
  standard library does.
\<close>

section \<open>UTF-8\<close>

abbreviation code :: "char \<Rightarrow> nat" where
  "code c \<equiv> of_char c"

definition in_range :: "nat \<Rightarrow> nat \<Rightarrow> char list \<Rightarrow> nat \<Rightarrow> bool" where
  "in_range lo hi s i = (i < length s \<and> lo \<le> code (s ! i) \<and> code (s ! i) \<le> hi)"

text \<open>
  The first UTF-8 sequence of a byte string: whether it is well formed, and how many bytes it
  (or the ill-formed prefix) takes.
\<close>

definition utf8_chunk :: "char list \<Rightarrow> bool \<times> nat" where
  "utf8_chunk s =
     (case s of
        [] \<Rightarrow> (True, 0)
      | c # _ \<Rightarrow>
         (let b = code c; cont = in_range 128 191 s in
          if b < 128 then (True, 1)
          else if 194 \<le> b \<and> b \<le> 223 then (if cont 1 then (True, 2) else (False, 1))
          else if 224 \<le> b \<and> b \<le> 239 then
            (if in_range (if b = 224 then 160 else 128) (if b = 237 then 159 else 191) s 1
             then (if cont 2 then (True, 3) else (False, 2)) else (False, 1))
          else if 240 \<le> b \<and> b \<le> 244 then
            (if in_range (if b = 240 then 144 else 128) (if b = 244 then 143 else 191) s 1
             then (if cont 2 then (if cont 3 then (True, 4) else (False, 3)) else (False, 2))
             else (False, 1))
          else (False, 1)))"

lemma utf8_chunk_pos: "s \<noteq> [] \<Longrightarrow> 0 < snd (utf8_chunk s)"
  by (cases s) (auto simp: utf8_chunk_def Let_def)

lemma utf8_chunk_ascii: "code c < 128 \<Longrightarrow> utf8_chunk (c # s) = (True, 1)"
  by (simp add: utf8_chunk_def Let_def)

text \<open>\<open>str::chars\<close>: the sequences of a string, each as its bytes.\<close>

function chars :: "char list \<Rightarrow> char list list" where
  "chars s = (if s = [] then []
     else take (snd (utf8_chunk s)) s # chars (drop (snd (utf8_chunk s)) s))"
  by pat_completeness auto
termination
  by (relation "measure length") (auto intro!: diff_less utf8_chunk_pos)

declare chars.simps [simp del]

lemma chars_Nil [simp]: "chars [] = []"
  by (simp add: chars.simps)

lemma chars_ascii_Cons [simp]: "code c < 128 \<Longrightarrow> chars (c # s) = [c] # chars s"
  by (simp add: chars.simps [of "c # s"] utf8_chunk_ascii)

lemma concat_chars [simp]: "concat (chars s) = s"
proof (induction s rule: chars.induct)
  case (1 s)
  then show ?case
    by (cases "s = []") (simp_all add: chars.simps [of s])
qed

text \<open>\<open>String::from_utf8_lossy\<close> and the check of \<open>std::str::from_utf8\<close>.\<close>

definition replacement :: "char list" where
  "replacement = [CHR 0xEF, CHR 0xBF, CHR 0xBD]"

function utf8_lossy :: "char list \<Rightarrow> char list" where
  "utf8_lossy s = (if s = [] then []
     else (if fst (utf8_chunk s) then take (snd (utf8_chunk s)) s else replacement)
          @ utf8_lossy (drop (snd (utf8_chunk s)) s))"
  by pat_completeness auto
termination
  by (relation "measure length") (auto intro!: diff_less utf8_chunk_pos)

declare utf8_lossy.simps [simp del]

function utf8_valid :: "char list \<Rightarrow> bool" where
  "utf8_valid s = (if s = [] then True
     else if fst (utf8_chunk s) then utf8_valid (drop (snd (utf8_chunk s)) s) else False)"
  by pat_completeness auto
termination
  by (relation "measure length") (auto intro!: diff_less utf8_chunk_pos)

declare utf8_valid.simps [simp del]

lemma utf8_lossy_Nil [simp]: "utf8_lossy [] = []"
  by (simp add: utf8_lossy.simps)

lemma utf8_lossy_ascii_Cons [simp]: "code c < 128 \<Longrightarrow> utf8_lossy (c # s) = c # utf8_lossy s"
  by (simp add: utf8_lossy.simps [of "c # s"] utf8_chunk_ascii)

lemma utf8_valid_Nil [simp]: "utf8_valid []"
  by (simp add: utf8_valid.simps)

lemma utf8_valid_ascii_Cons [simp]: "code c < 128 \<Longrightarrow> utf8_valid (c # s) = utf8_valid s"
  by (simp add: utf8_valid.simps [of "c # s"] utf8_chunk_ascii)

lemma utf8_lossy_valid: "utf8_valid s \<Longrightarrow> utf8_lossy s = s"
proof (induction s rule: utf8_valid.induct)
  case (1 s)
  show ?case
  proof (cases "s = []")
    case False
    with "1.prems" have "fst (utf8_chunk s)" "utf8_valid (drop (snd (utf8_chunk s)) s)"
      by (simp_all add: utf8_valid.simps [of s] split: if_splits)
    with "1.IH" False show ?thesis
      by (simp add: utf8_lossy.simps [of s])
  qed simp
qed

definition ascii :: "char list \<Rightarrow> bool" where
  "ascii s = list_all (\<lambda>c. code c < 128) s"

lemma ascii_simps [simp]: "ascii []" "ascii (c # s) = (code c < 128 \<and> ascii s)"
  "ascii (s @ t) = (ascii s \<and> ascii t)"
  by (simp_all add: ascii_def)

lemma ascii_valid [simp]: "ascii s \<Longrightarrow> utf8_valid s"
  by (induction s) auto

lemma chars_ascii: "ascii w \<Longrightarrow> chars (w @ s) = map (\<lambda>c. [c]) w @ chars s"
  by (induction w) auto

section \<open>Characters\<close>

definition ascii_lower :: "char \<Rightarrow> char" where
  "ascii_lower c = (if 65 \<le> code c \<and> code c \<le> 90 then char_of (code c + 32) else c)"

lemmas ascii_lower_eval = ascii_lower_def char_of_eq_iff take_bit_eq_mod

definition to_ascii_lowercase :: "char list \<Rightarrow> char list" where
  "to_ascii_lowercase s = map ascii_lower s"

definition eq_ignore_ascii_case :: "char list \<Rightarrow> char list \<Rightarrow> bool" where
  "eq_ignore_ascii_case a b = (to_ascii_lowercase a = to_ascii_lowercase b)"

lemma ascii_lower_idem [simp]: "ascii_lower (ascii_lower c) = ascii_lower c"
  by (auto simp: ascii_lower_def of_char_of)

lemma to_ascii_lowercase_idem [simp]: "to_ascii_lowercase (to_ascii_lowercase s) = to_ascii_lowercase s"
  by (simp add: to_ascii_lowercase_def)

lemma eq_ignore_ascii_case_refl [simp]: "eq_ignore_ascii_case s s"
  by (simp add: eq_ignore_ascii_case_def)

text \<open>The characters with the Unicode property White\_Space (\<open>char::is_whitespace\<close>).\<close>

definition is_whitespace :: "char list \<Rightarrow> bool" where
  "is_whitespace q =
     (case map code q of
        [b] \<Rightarrow> (9 \<le> b \<and> b \<le> 13) \<or> b = 32
      | [b, c] \<Rightarrow> b = 194 \<and> (c = 133 \<or> c = 160)
      | [b, c, d] \<Rightarrow>
          (b = 225 \<and> c = 154 \<and> d = 128)
          \<or> (b = 226 \<and> c = 128 \<and> (d \<le> 138 \<or> d = 168 \<or> d = 169 \<or> d = 175))
          \<or> (b = 226 \<and> c = 129 \<and> d = 159)
          \<or> (b = 227 \<and> c = 128 \<and> d = 128)
      | _ \<Rightarrow> False)"

definition trim :: "char list \<Rightarrow> char list" where
  "trim s = concat (rev (dropWhile is_whitespace (rev (dropWhile is_whitespace (chars s)))))"


section \<open>Searching and splitting\<close>

text \<open>Every pattern of the program is ASCII, so that splitting by bytes is splitting by characters.\<close>

fun strip_prefix :: "char list \<Rightarrow> char list \<Rightarrow> char list option" where
  "strip_prefix [] s = Some s"
| "strip_prefix (p # ps) [] = None"
| "strip_prefix (p # ps) (c # s) = (if p = c then strip_prefix ps s else None)"

definition strip_suffix :: "char list \<Rightarrow> char list \<Rightarrow> char list option" where
  "strip_suffix p s = map_option rev (strip_prefix (rev p) (rev s))"

definition starts_with :: "char list \<Rightarrow> char list \<Rightarrow> bool" where
  "starts_with p s = (strip_prefix p s \<noteq> None)"

definition ends_with :: "char list \<Rightarrow> char list \<Rightarrow> bool" where
  "ends_with p s = (strip_suffix p s \<noteq> None)"

lemma strip_prefix_Some [simp]: "strip_prefix p s = Some t \<longleftrightarrow> s = p @ t"
  by (induction p s rule: strip_prefix.induct) auto

lemma strip_prefix_append [simp]: "strip_prefix p (p @ t) = Some t"
  by simp

lemma strip_suffix_Some: "strip_suffix p s = Some t \<longleftrightarrow> s = t @ p"
proof -
  have "strip_suffix p s = Some t \<longleftrightarrow> strip_prefix (rev p) (rev s) = Some (rev t)"
    by (auto simp: strip_suffix_def simp del: strip_prefix_Some)
  also have "\<dots> \<longleftrightarrow> rev s = rev (t @ p)"
    by simp
  finally show ?thesis
    by (simp only: rev_is_rev_conv)
qed

lemma starts_with_iff: "starts_with p s \<longleftrightarrow> (\<exists>t. s = p @ t)"
  by (simp add: starts_with_def not_None_eq)

lemma ends_with_iff: "ends_with p s \<longleftrightarrow> (\<exists>t. s = t @ p)"
  by (simp add: ends_with_def not_None_eq strip_suffix_Some)

text \<open>\<open>str::split\<close> by a character and by a string; both yield at least one piece.\<close>

fun split_char :: "char \<Rightarrow> char list \<Rightarrow> char list list" where
  "split_char d [] = [[]]"
| "split_char d (c # s) =
     (if c = d then [] # split_char d s
      else (case split_char d s of [] \<Rightarrow> [[c]] | w # ws \<Rightarrow> (c # w) # ws))"

lemma split_char_ne [simp]: "split_char d s \<noteq> []"
  by (induction s) (auto split: list.splits)

fun join :: "char list \<Rightarrow> char list list \<Rightarrow> char list" where
  "join d [] = []"
| "join d [w] = w"
| "join d (w # ws) = w @ d @ join d ws"

lemma join_Cons: "ws \<noteq> [] \<Longrightarrow> join d (w # ws) = w @ d @ join d ws"
  by (cases ws) auto

lemma join_split_char [simp]: "join [d] (split_char d s) = s"
proof (induction s)
  case (Cons c s)
  then show ?case
  proof (cases "c = d")
    case False
    then show ?thesis using Cons
      by (cases "split_char d s"; cases "tl (split_char d s)") auto
  qed (simp add: join_Cons)
qed simp

lemma split_char_notin: "d \<notin> set s \<Longrightarrow> split_char d s = [s]"
  by (induction s) auto

lemma split_char_append: "d \<notin> set w \<Longrightarrow> split_char d (w @ d # s) = w # split_char d s"
  by (induction w) auto

lemma split_char_join:
  "ws \<noteq> [] \<Longrightarrow> \<forall>w\<in>set ws. d \<notin> set w \<Longrightarrow> split_char d (join [d] ws) = ws"
proof (induction ws)
  case (Cons w ws)
  then show ?case
    by (cases ws) (auto simp: split_char_notin split_char_append)
qed simp

lemma split_char_pieces: "\<forall>w\<in>set (split_char d s). d \<notin> set w"
proof (induction s)
  case (Cons c s)
  then show ?case
    by (cases "split_char d s") auto
qed simp

fun split_once :: "char \<Rightarrow> char list \<Rightarrow> (char list \<times> char list) option" where
  "split_once d [] = None"
| "split_once d (c # s) =
     (if c = d then Some ([], s) else map_option (\<lambda>(a, b). (c # a, b)) (split_once d s))"

lemma split_once_Some: "split_once d s = Some (a, b) \<longleftrightarrow> s = a @ d # b \<and> d \<notin> set a"
proof (induction s arbitrary: a)
  case (Cons c s)
  then show ?case
    by (cases a) (auto simp: split: prod.splits)
qed simp

lemma split_once_None: "split_once d s = None \<longleftrightarrow> d \<notin> set s"
  by (induction s) auto

fun contains_str :: "char list \<Rightarrow> char list \<Rightarrow> bool" where
  "contains_str p [] = (p = [])"
| "contains_str p (c # s) = (starts_with p (c # s) \<or> contains_str p s)"

lemma contains_str_iff: "contains_str p s \<longleftrightarrow> sublist p s"
  by (induction s) (auto simp: sublist_Cons_right starts_with_iff prefix_def)

text \<open>\<open>replacen(old, new, 1)\<close>: the first occurrence; the empty string occurs at the beginning.\<close>

fun replace_first :: "string \<Rightarrow> string \<Rightarrow> string \<Rightarrow> string" where
  "replace_first old new [] = (if old = [] then new else [])"
| "replace_first old new (c # s) =
     (case strip_prefix old (c # s) of Some rest \<Rightarrow> new @ rest | None \<Rightarrow> c # replace_first old new s)"

text \<open>
  \<open>str::lines\<close>: split at line feeds, a carriage return before a line feed stripped, a final empty
  piece dropped.
\<close>

definition lines :: "char list \<Rightarrow> char list list" where
  "lines s =
     (let ws = split_char (CHR 0x0A) s
      in map (\<lambda>w. case strip_suffix [CHR 0x0D] w of Some v \<Rightarrow> v | None \<Rightarrow> w) (butlast ws)
         @ (if last ws = [] then [] else [last ws]))"

text \<open>\<open>str::split_whitespace\<close>: the maximal runs of characters that are not white space.\<close>

fun ws_words :: "char list list \<Rightarrow> char list \<Rightarrow> char list list" where
  "ws_words [] acc = (if acc = [] then [] else [acc])"
| "ws_words (q # qs) acc =
     (if is_whitespace q then (if acc = [] then ws_words qs [] else acc # ws_words qs [])
      else ws_words qs (acc @ q))"

definition split_whitespace :: "char list \<Rightarrow> char list list" where
  "split_whitespace s = ws_words (chars s) []"

section \<open>Numbers\<close>

definition digit :: "nat \<Rightarrow> char \<Rightarrow> nat option" where
  "digit radix c =
     (let b = code c;
          v = (if 48 \<le> b \<and> b \<le> 57 then b - 48
               else if 97 \<le> b \<and> b \<le> 122 then b - 87
               else if 65 \<le> b \<and> b \<le> 90 then b - 55 else radix)
      in if v < radix then Some v else None)"

fun digits_val :: "nat \<Rightarrow> nat \<Rightarrow> char list \<Rightarrow> nat option" where
  "digits_val radix acc [] = Some acc"
| "digits_val radix acc (c # s) =
     (case digit radix c of None \<Rightarrow> None | Some v \<Rightarrow> digits_val radix (acc * radix + v) s)"

text \<open>
  \<open>uN::from_str_radix\<close> (and \<open>str::parse\<close> with radix 10) for a type of \<open>bits\<close> bits: an optional
  plus sign, at least one digit, and no overflow.
\<close>

definition parse_uint :: "nat \<Rightarrow> nat \<Rightarrow> char list \<Rightarrow> nat option" where
  "parse_uint bits radix s =
     (let ds = (case s of c # d # r \<Rightarrow> if c = CHR ''+'' then d # r else s | _ \<Rightarrow> s)
      in if ds = [] then None
         else case digits_val radix 0 ds of
                None \<Rightarrow> None
              | Some v \<Rightarrow> if v < 2 ^ bits then Some v else None)"

text \<open>Decimal output of an unsigned integer (\<open>to_string\<close>).\<close>

function show_nat :: "nat \<Rightarrow> char list" where
  "show_nat n = (if n < 10 then [char_of (48 + n)]
     else show_nat (n div 10) @ [char_of (48 + n mod 10)])"
  by pat_completeness auto
termination
  by (relation "measure id") auto

declare show_nat.simps [simp del]

lemma show_nat_ne [simp]: "show_nat n \<noteq> []"
  by (simp add: show_nat.simps [of n])

lemma digit_char: "d < 10 \<Longrightarrow> digit 10 (char_of (48 + d)) = Some d"
  by (simp add: digit_def Let_def)

lemma digits_val_append:
  "digits_val r acc (s @ t) =
     (case digits_val r acc s of None \<Rightarrow> None | Some v \<Rightarrow> digits_val r v t)"
  by (induction s arbitrary: acc) (auto split: option.splits)

lemma digits_val_show: "digits_val 10 0 (show_nat n) = Some n"
proof (induction n rule: show_nat.induct)
  case (1 n)
  then show ?case
    by (cases "n < 10") (simp_all add: show_nat.simps [of n] digits_val_append digit_char)
qed

lemma show_nat_digits: "c \<in> set (show_nat n) \<Longrightarrow> 48 \<le> code c \<and> code c \<le> 57"
proof (induction n rule: show_nat.induct)
  case (1 n)
  then show ?case
    by (cases "n < 10") (auto simp: show_nat.simps [of n])
qed

text \<open>What is printed is parsed back, whenever it fits the type.\<close>

lemma parse_show_nat: "n < 2 ^ bits \<Longrightarrow> parse_uint bits 10 (show_nat n) = Some n"
proof -
  assume n: "n < 2 ^ bits"
  have "hd (show_nat n) \<noteq> CHR ''+''"
    using show_nat_digits [of "hd (show_nat n)" n] by auto
  then have "(case show_nat n of c # d # r \<Rightarrow> if c = CHR ''+'' then d # r else show_nat n
      | _ \<Rightarrow> show_nat n) = show_nat n"
    by (auto split: list.splits)
  then show ?thesis
    using n by (simp add: parse_uint_def digits_val_show)
qed

lemma show_nat_inj: "show_nat m = show_nat n \<Longrightarrow> m = n"
  by (metis digits_val_show option.inject)


section \<open>Paths\<close>

text \<open>\<open>Path::join\<close>: an absolute right-hand side replaces the left one.\<close>

definition path_join :: "string \<Rightarrow> string \<Rightarrow> string" where
  "path_join a b =
     (if starts_with ''/'' b then b
      else if a = [] \<or> last a = CHR ''/'' then a @ b else a @ ''/'' @ b)"

end
