(* ===== verification/Errors.thy ===== *)
theory Errors
  imports RustStr
begin

text \<open>
  The error types of the crates (\<open>thiserror\<close> enumerations) and the data types of a job:
  \<open>sandbox-landlock/src/error.rs\<close>, \<open>sandbox-seccomp/src/error.rs\<close>,
  \<open>sandbox-cgroup/src/error.rs\<close>, \<open>sandbox-core/src/error.rs\<close>, \<open>sandbox-core/src/job.rs\<close>.
  An \<open>std::io::Error\<close> is the error number of the failed call, a premature end of file, or a
  message.
\<close>

datatype io_error = OsError int | UnexpectedEof | IoOther string

datatype LandlockError =
    LlUnavailable string
  | AbiTooLow u32 u32
  | RulesetCreate string
  | LlRuleAdd string
  | RestrictSelf string
  | LlIo io_error

datatype SeccompError =
    ScUnavailable string
  | FilterCreate string
  | ScRuleAdd string
  | Load string
  | ScIo io_error

datatype CgroupError =
    CgUnavailable string
  | CreateFailed string
  | MigrateFailed string
  | ResourceWrite string
  | ReadFailed string
  | DestroyFailed string
  | CgIo io_error

datatype CoreError =
    SandboxInit string
  | ProcessErr string
  | WorkspaceErr string
  | EnvErr string
  | ConfigErr string
  | Timeout
  | NoCapacity
  | ProfileNotFound string
  | LandlockErr LandlockError
  | SeccompErr SeccompError
  | CgroupErr CgroupError
  | SerdeErr string
  | SyscallErr int
  | IoErr io_error

section \<open>Jobs\<close>

datatype SandboxViolation =
    SeccompDenied string
  | LandlockDenied string string
  | OomKill
  | FileSizeExceeded
  | ProcessLimitExceeded

datatype JobStatus =
    Completed
  | TimedOut
  | Killed
  | Cancelled
  | DiskQuotaExceeded
  | SandboxInitFailed string
  | ErrorStatus string

text \<open>Durations are in nanoseconds; a \<open>HashMap\<close> is the list of its entries in iteration order.\<close>

record JobRequest =
  jr_job_id :: string
  jr_argv :: "string list"
  jr_profile_name :: string
  jr_timeout :: "nat option"
  jr_custom_env :: "(string \<times> string) list"
  jr_stdin_data :: "string option"
  jr_cwd :: "string option"

record ResourceSummary =
  memory_peak_bytes :: "u64 option"
  cpu_usage_usec :: "u64 option"
  pids_peak :: "u64 option"

record JobResult =
  res_job_id :: string
  res_status :: JobStatus
  res_exit_code :: "int option"
  res_signal :: "int option"
  res_stdout :: string
  res_stderr :: string
  res_duration :: nat
  res_timed_out :: bool
  res_violations :: "SandboxViolation list"
  res_usage :: "ResourceSummary option"

datatype StreamEvent =
    Started string
  | Stdout string
  | ResultEv JobResult

end
