(* ===== verification/Seccomp.thy ===== *)
theory Seccomp
  imports Errors
begin

text \<open>
  The system-call filter, \<open>sandbox-seccomp/src\<close>: the system calls (\<open>syscall.rs\<close>), profiles and
  their builders (\<open>profile.rs\<close>, \<open>allowlist.rs\<close>, \<open>clone_filter.rs\<close>), and the preparation and
  loading of a filter (\<open>filter.rs\<close>). The library that compiles a filter and the kernel that
  runs it are parameters: \<open>scmp_lib\<close> collects what libseccomp answers, \<open>run\<close> is the verdict
  of a loaded program, and \<open>faithful\<close> is the documented contract between the two.
\<close>

unbundle bit_operations_syntax

section \<open>System calls and profiles\<close>

datatype Syscall =
    Mount | Umount2 | Ptrace | ProcessVmReadv | ProcessVmWritev | Bpf | Keyctl |
  AddKey | RequestKey | Reboot | KexecLoad | InitModule | FinitModule |
  DeleteModule | Swapon | Swapoff | Sethostname | Setdomainname | Socket |
  Socketpair | Connect | Bind | Listen | Accept | Accept4 | Sendto | Recvfrom |
  Sendmsg | Recvmsg | Sendmmsg | Recvmmsg | Getsockopt | Setsockopt | Shutdown |
  Getsockname | Getpeername | Setns | Unshare | Personality | Iopl | Ioperm |
  PerfEventOpen | Userfaultfd | IoUringSetup | IoUringEnter | IoUringRegister |
  Clone | Clone3 | Custom string

fun syscall_name :: "Syscall \<Rightarrow> string" where
  "syscall_name Mount = ''mount''"
| "syscall_name Umount2 = ''umount2''"
| "syscall_name Ptrace = ''ptrace''"
| "syscall_name ProcessVmReadv = ''process_vm_readv''"
| "syscall_name ProcessVmWritev = ''process_vm_writev''"
| "syscall_name Bpf = ''bpf''"
| "syscall_name Keyctl = ''keyctl''"
| "syscall_name AddKey = ''add_key''"
| "syscall_name RequestKey = ''request_key''"
| "syscall_name Reboot = ''reboot''"
| "syscall_name KexecLoad = ''kexec_load''"
| "syscall_name InitModule = ''init_module''"
| "syscall_name FinitModule = ''finit_module''"
| "syscall_name DeleteModule = ''delete_module''"
| "syscall_name Swapon = ''swapon''"
| "syscall_name Swapoff = ''swapoff''"
| "syscall_name Sethostname = ''sethostname''"
| "syscall_name Setdomainname = ''setdomainname''"
| "syscall_name Socket = ''socket''"
| "syscall_name Socketpair = ''socketpair''"
| "syscall_name Connect = ''connect''"
| "syscall_name Bind = ''bind''"
| "syscall_name Listen = ''listen''"
| "syscall_name Accept = ''accept''"
| "syscall_name Accept4 = ''accept4''"
| "syscall_name Sendto = ''sendto''"
| "syscall_name Recvfrom = ''recvfrom''"
| "syscall_name Sendmsg = ''sendmsg''"
| "syscall_name Recvmsg = ''recvmsg''"
| "syscall_name Sendmmsg = ''sendmmsg''"
| "syscall_name Recvmmsg = ''recvmmsg''"
| "syscall_name Getsockopt = ''getsockopt''"
| "syscall_name Setsockopt = ''setsockopt''"
| "syscall_name Shutdown = ''shutdown''"
| "syscall_name Getsockname = ''getsockname''"
| "syscall_name Getpeername = ''getpeername''"
| "syscall_name Setns = ''setns''"
| "syscall_name Unshare = ''unshare''"
| "syscall_name Personality = ''personality''"
| "syscall_name Iopl = ''iopl''"
| "syscall_name Ioperm = ''ioperm''"
| "syscall_name PerfEventOpen = ''perf_event_open''"
| "syscall_name Userfaultfd = ''userfaultfd''"
| "syscall_name IoUringSetup = ''io_uring_setup''"
| "syscall_name IoUringEnter = ''io_uring_enter''"
| "syscall_name IoUringRegister = ''io_uring_register''"
| "syscall_name Clone = ''clone''"
| "syscall_name Clone3 = ''clone3''"
| "syscall_name (Custom name) = name"

datatype SeccompAction = Allow | KillProcess | KillThread | Trap | ErrnoAct u32 | Log

datatype CompareOperator = Equal | NotEqual | MaskedEqual

record SeccompCondition =
  arg_index :: nat
  operator :: CompareOperator
  cond_value :: u64
  cond_mask :: "u64 option"

record SeccompRule =
  rule_syscall :: Syscall
  rule_action :: SeccompAction
  rule_conditions :: "SeccompCondition list"

record SeccompProfile =
  default_action :: SeccompAction
  rules :: "SeccompRule list"

definition denylist :: SeccompProfile where
  "denylist = \<lparr>default_action = Allow, rules = []\<rparr>"

definition allowlist :: SeccompProfile where
  "allowlist = \<lparr>default_action = KillProcess, rules = []\<rparr>"

definition push_rule :: "SeccompRule \<Rightarrow> SeccompProfile \<Rightarrow> SeccompProfile" where
  "push_rule r p = p\<lparr>rules := rules p @ [r]\<rparr>"

definition deny :: "Syscall \<Rightarrow> SeccompProfile \<Rightarrow> SeccompProfile" where
  "deny s = push_rule \<lparr>rule_syscall = s, rule_action = KillProcess, rule_conditions = []\<rparr>"

definition deny_with_conditions ::
    "Syscall \<Rightarrow> SeccompCondition list \<Rightarrow> SeccompProfile \<Rightarrow> SeccompProfile" where
  "deny_with_conditions s cs =
     push_rule \<lparr>rule_syscall = s, rule_action = KillProcess, rule_conditions = cs\<rparr>"

definition allow_with_conditions ::
    "Syscall \<Rightarrow> SeccompCondition list \<Rightarrow> SeccompProfile \<Rightarrow> SeccompProfile" where
  "allow_with_conditions s cs =
     push_rule \<lparr>rule_syscall = s, rule_action = Allow, rule_conditions = cs\<rparr>"

definition with_default_action :: "SeccompAction \<Rightarrow> SeccompProfile \<Rightarrow> SeccompProfile" where
  "with_default_action a p = p\<lparr>default_action := a\<rparr>"

definition errno :: "Syscall \<Rightarrow> u32 \<Rightarrow> SeccompProfile \<Rightarrow> SeccompProfile" where
  "errno s e = push_rule \<lparr>rule_syscall = s, rule_action = ErrnoAct e, rule_conditions = []\<rparr>"

definition AF_UNIX :: u64 where
  "AF_UNIX = 1"

definition deny_network :: "SeccompProfile \<Rightarrow> SeccompProfile" where
  "deny_network = push_rule
     \<lparr>rule_syscall = Socket, rule_action = KillProcess,
      rule_conditions =
        [\<lparr>arg_index = 0, operator = NotEqual, cond_value = AF_UNIX, cond_mask = None\<rparr>]\<rparr>"

definition allow :: "Syscall \<Rightarrow> SeccompProfile \<Rightarrow> SeccompProfile" where
  "allow s = push_rule \<lparr>rule_syscall = s, rule_action = Allow, rule_conditions = []\<rparr>"

definition default_denylist :: SeccompProfile where
  "default_denylist =
     deny_network (fold deny
       [Mount, Umount2,
        Ptrace, ProcessVmReadv, ProcessVmWritev,
        Bpf,
        Keyctl, AddKey, RequestKey,
        Reboot, KexecLoad,
        InitModule, FinitModule, DeleteModule,
        Swapon, Swapoff,
        Sethostname, Setdomainname,
        Setns, Unshare,
        Personality, Iopl, Ioperm, PerfEventOpen, Userfaultfd] denylist)"

section \<open>Allowlists of the runtimes\<close>

definition SHELL_ALLOWED :: "string list" where
  "SHELL_ALLOWED = [
     ''execve'', ''execveat'', ''exit'', ''exit_group'', ''clone'', ''clone3'', ''fork'',
     ''vfork'', ''wait4'', ''arch_prctl'', ''set_tid_address'', ''set_robust_list'',
     ''rseq'', ''prctl'', ''brk'', ''mmap'', ''munmap'', ''mprotect'', ''mremap'',
     ''madvise'', ''read'', ''write'', ''readv'', ''writev'', ''pread64'', ''pwrite64'',
     ''preadv'', ''pwritev'', ''open'', ''openat'', ''openat2'', ''close'', ''close_range'',
     ''stat'', ''fstat'', ''lstat'', ''newfstatat'', ''statx'', ''statfs'', ''fstatfs'',
     ''lseek'', ''access'', ''faccessat'', ''faccessat2'', ''readlink'', ''readlinkat'',
     ''dup'', ''dup2'', ''dup3'', ''fcntl'', ''flock'', ''ftruncate'', ''getcwd'',
     ''chdir'', ''fchdir'', ''umask'', ''pipe'', ''pipe2'', ''socketpair'', ''ioctl'',
     ''getdents64'', ''getxattr'', ''lgetxattr'', ''fgetxattr'', ''listxattr'',
     ''llistxattr'', ''flistxattr'', ''fadvise64'', ''utimensat'', ''futimens'', ''chmod'',
     ''fchmod'', ''fchmodat'', ''chown'', ''fchown'', ''lchown'', ''fchownat'', ''mkdir'',
     ''mkdirat'', ''rmdir'', ''unlink'', ''unlinkat'', ''rename'', ''renameat'',
     ''renameat2'', ''symlink'', ''symlinkat'', ''link'', ''linkat'', ''rt_sigaction'',
     ''rt_sigprocmask'', ''rt_sigreturn'', ''rt_sigsuspend'', ''sigaltstack'', ''kill'',
     ''tgkill'', ''tkill'', ''setitimer'', ''getitimer'', ''getpid'', ''getppid'',
     ''getuid'', ''geteuid'', ''getgid'', ''getegid'', ''getgroups'', ''getpgrp'',
     ''getsid'', ''setpgid'', ''clock_gettime'', ''clock_getres'', ''gettimeofday'',
     ''nanosleep'', ''clock_nanosleep'', ''times'', ''getrandom'', ''prlimit64'',
     ''getrlimit'', ''setrlimit'', ''sysinfo'', ''uname'', ''sched_getaffinity'',
     ''sched_yield'', ''getrusage'', ''pselect6'', ''ppoll'', ''poll'', ''epoll_create1'',
     ''epoll_ctl'', ''epoll_wait'', ''eventfd2'', ''futex'']"

definition PYTHON_EXTRA :: "string list" where
  "PYTHON_EXTRA = [
     ''gettid'']"

definition NODE_EXTRA :: "string list" where
  "NODE_EXTRA = [
     ''gettid'', ''capget'']"

definition build_profile :: "string list \<Rightarrow> SeccompProfile" where
  "build_profile allowed =
     allow_with_conditions Socket
       [\<lparr>arg_index = 0, operator = Equal, cond_value = AF_UNIX, cond_mask = None\<rparr>]
       (fold (\<lambda>name. allow (Custom name)) allowed allowlist)"

definition default_allowlist_shell :: SeccompProfile where
  "default_allowlist_shell = build_profile SHELL_ALLOWED"

definition default_allowlist_python :: SeccompProfile where
  "default_allowlist_python = build_profile (SHELL_ALLOWED @ PYTHON_EXTRA)"

definition default_allowlist_node :: SeccompProfile where
  "default_allowlist_node = build_profile (SHELL_ALLOWED @ NODE_EXTRA)"

section \<open>Namespace flags of clone\<close>

definition CLONE_NEWNS :: u64 where "CLONE_NEWNS = 0x00020000"
definition CLONE_NEWUTS :: u64 where "CLONE_NEWUTS = 0x04000000"
definition CLONE_NEWIPC :: u64 where "CLONE_NEWIPC = 0x08000000"
definition CLONE_NEWUSER :: u64 where "CLONE_NEWUSER = 0x10000000"
definition CLONE_NEWPID :: u64 where "CLONE_NEWPID = 0x20000000"
definition CLONE_NEWNET :: u64 where "CLONE_NEWNET = 0x40000000"
definition CLONE_NEWCGROUP :: u64 where "CLONE_NEWCGROUP = 0x02000000"

definition CLONE_NEW_MASK :: u64 where
  "CLONE_NEW_MASK = CLONE_NEWNS OR CLONE_NEWUTS OR CLONE_NEWIPC OR CLONE_NEWUSER OR CLONE_NEWPID
     OR CLONE_NEWNET OR CLONE_NEWCGROUP"

definition clone_namespace_conditions :: "SeccompCondition list" where
  "clone_namespace_conditions =
     [\<lparr>arg_index = 0, operator = MaskedEqual, cond_value = CLONE_NEW_MASK,
       cond_mask = Some CLONE_NEW_MASK\<rparr>]"

definition clone_syscalls :: "Syscall list" where
  "clone_syscalls = [Clone, Clone3]"

end
