(* ===== verification/SeccompFilter.thy ===== *)
theory SeccompFilter
  imports Seccomp
begin

text \<open>
  Preparing and loading a filter, \<open>sandbox-seccomp/src/filter.rs\<close>. The library builds a context
  from a default action and rules, and exports it as a BPF program; the code decodes the
  exported bytes into instructions and hands them to the kernel.
\<close>

unbundle bit_operations_syntax

datatype ScmpAction = ScmpAllow | ScmpKillProcess | ScmpKillThread | ScmpTrap | ScmpErrno int
  | ScmpLog

datatype ScmpCompareOp = OpEqual | OpNotEqual | OpMaskedEqual u64

record ScmpArgCompare =
  cmp_arg :: u32
  cmp_op :: ScmpCompareOp
  cmp_datum :: u64

record ScmpRule =
  sr_action :: ScmpAction
  sr_syscall :: int
  sr_cmps :: "ScmpArgCompare list"

record ScmpCtx =
  ctx_default :: ScmpAction
  ctx_rules :: "ScmpRule list"

record sock_filter =
  sf_code :: u16
  sf_jt :: u8
  sf_jf :: u8
  sf_k :: u32

text \<open>What libseccomp and the kernel answer: \<open>None\<close> where a call succeeds, or its message.\<close>

record scmp_lib =
  from_name :: "string \<Rightarrow> string + int"
  new_filter_err :: "ScmpAction \<Rightarrow> string option"
  nnp_err :: "string option"
  add_rule_err :: "ScmpCtx \<Rightarrow> ScmpRule \<Rightarrow> string option"
  pipe_err :: "string option"
  export_bpf :: "ScmpCtx \<Rightarrow> string + string"
  read_err :: "string option"
  rule_debug :: "SeccompRule \<Rightarrow> string"

definition our_action_to_scmp :: "SeccompAction \<Rightarrow> ScmpAction" where
  "our_action_to_scmp a =
     (case a of Allow \<Rightarrow> ScmpAllow | KillProcess \<Rightarrow> ScmpKillProcess | KillThread \<Rightarrow> ScmpKillThread
      | Trap \<Rightarrow> ScmpTrap | ErrnoAct e \<Rightarrow> ScmpErrno (sint e) | Log \<Rightarrow> ScmpLog)"

definition syscall_to_scmp :: "scmp_lib \<Rightarrow> Syscall \<Rightarrow> string + int" where
  "syscall_to_scmp lib s =
     (case from_name lib (syscall_name s) of
        Inl e \<Rightarrow> Inl (''syscall '' @ [CHR 0x27] @ syscall_name s @ [CHR 0x27] @ '': '' @ e)
      | Inr n \<Rightarrow> Inr n)"

definition condition_to_comparator :: "SeccompCondition \<Rightarrow> ScmpArgCompare" where
  "condition_to_comparator c =
     \<lparr>cmp_arg = of_nat (arg_index c),
      cmp_op = (case operator c of
                  Equal \<Rightarrow> OpEqual
                | NotEqual \<Rightarrow> OpNotEqual
                | MaskedEqual \<Rightarrow> OpMaskedEqual (case cond_mask c of Some m \<Rightarrow> m | None \<Rightarrow> 0)),
      cmp_datum = cond_value c\<rparr>"

section \<open>The exported program\<close>

text \<open>\<open>uN::from_ne_bytes\<close> on the little-endian targets of the program.\<close>

definition u16_from_ne_bytes :: "char \<Rightarrow> char \<Rightarrow> u16" where
  "u16_from_ne_bytes a b = of_nat (code a + 256 * code b)"

definition u32_from_ne_bytes :: "char \<Rightarrow> char \<Rightarrow> char \<Rightarrow> char \<Rightarrow> u32" where
  "u32_from_ne_bytes a b c d =
     of_nat (code a + 256 * (code b + 256 * (code c + 256 * code d)))"

fun chunks_exact8 :: "string \<Rightarrow> sock_filter list" where
  "chunks_exact8 (c0 # c1 # c2 # c3 # c4 # c5 # c6 # c7 # rest) =
     \<lparr>sf_code = u16_from_ne_bytes c0 c1, sf_jt = of_char c2, sf_jf = of_char c3,
      sf_k = u32_from_ne_bytes c4 c5 c6 c7\<rparr> # chunks_exact8 rest"
| "chunks_exact8 _ = []"

definition bytes_to_sock_filters :: "string \<Rightarrow> SeccompError + sock_filter list" where
  "bytes_to_sock_filters bytes =
     (if length bytes mod 8 \<noteq> 0 then
        Inl (FilterCreate (''BPF bytecode length '' @ show_nat (length bytes)
               @ '' is not a multiple of '' @ show_nat 8))
      else Inr (chunks_exact8 bytes))"

text \<open>The layout of \<open>struct sock_filter\<close> in the exported bytes.\<close>

definition sock_filter_bytes :: "sock_filter \<Rightarrow> string" where
  "sock_filter_bytes f =
     map char_of [unat (sf_code f) mod 256, unat (sf_code f) div 256, unat (sf_jt f), unat (sf_jf f),
       unat (sf_k f) mod 256, unat (sf_k f) div 256 mod 256, unat (sf_k f) div 65536 mod 256,
       unat (sf_k f) div 16777216]"

definition dec_sock_filter :: "string \<Rightarrow> (sock_filter \<times> string) option" where
  "dec_sock_filter bs =
     (if length bs < 8 then None
      else case chunks_exact8 (take 8 bs) of [f] \<Rightarrow> Some (f, drop 8 bs) | _ \<Rightarrow> None)"

lemma length_sock_filter_bytes [simp]: "length (sock_filter_bytes f) = 8"
  by (simp add: sock_filter_bytes_def)

lemma of_nat_unat_code: "m < 256 \<Longrightarrow> code (char_of m) = m"
  by simp

lemma nat_split_bytes:
  fixes n :: nat
  shows "n mod 256 + 256 * (n div 256 mod 256 + 256 * (n div 65536 mod 256 + 256 * (n div 16777216))) = n"
proof -
  have "n div 65536 = n div 256 div 256" "n div 16777216 = n div 256 div 256 div 256"
    by (simp_all add: div_mult2_eq [symmetric])
  then show ?thesis by (simp add: algebra_simps)
qed

lemma chunks_sock_filter_bytes:
  "chunks_exact8 (sock_filter_bytes f @ rest) = f # chunks_exact8 rest"
proof -
  have c: "unat (sf_code f) < 65536" "unat (sf_k f) < 4294967296" "unat (sf_jt f) < 256"
    "unat (sf_jf f) < 256"
    using unsigned_less [of "sf_code f"] unsigned_less [of "sf_k f"] unsigned_less [of "sf_jt f"]
      unsigned_less [of "sf_jf f"] by simp_all
  then have d: "unat (sf_code f) div 256 < 256" "unat (sf_k f) div 16777216 < 256" by auto
  have code: "u16_from_ne_bytes (char_of (unat (sf_code f) mod 256)) (char_of (unat (sf_code f) div 256))
      = sf_code f"
    using d by (simp add: u16_from_ne_bytes_def)
  have k: "u32_from_ne_bytes (char_of (unat (sf_k f) mod 256)) (char_of (unat (sf_k f) div 256 mod 256))
      (char_of (unat (sf_k f) div 65536 mod 256)) (char_of (unat (sf_k f) div 16777216)) = sf_k f"
    unfolding u32_from_ne_bytes_def using d nat_split_bytes [of "unat (sf_k f)"] by simp
  have j: "of_char (char_of (unat w)) = w" for w :: u8
  proof -
    have "unat w < 256" using unsigned_less [of w, where 'a = nat] by simp
    then have "(of_nat (of_char (char_of (unat w))) :: u8) = w" by simp
    then show ?thesis by (simp only: of_nat_of_char)
  qed
  show ?thesis
    by (cases f) (use code k j in \<open>simp add: sock_filter_bytes_def\<close>)
qed

interpretation bpf: codec sock_filter_bytes dec_sock_filter "\<lambda>_. True"
proof
  fix f rest
  show "dec_sock_filter (sock_filter_bytes f @ rest) = Some (f, rest)"
    using chunks_sock_filter_bytes [of f "[]"] by (simp add: dec_sock_filter_def)
qed

lemma chunks_exact8_concat:
  "chunks_exact8 (concat (map sock_filter_bytes fs)) = fs"
proof (induction fs)
  case (Cons f fs)
  then show ?case by (simp add: chunks_sock_filter_bytes)
qed simp

lemma length_concat_sock_filters: "length (concat (map sock_filter_bytes fs)) = 8 * length fs"
  by (induction fs) auto

lemma length_chunks_exact8: "length (chunks_exact8 bs) = length bs div 8"
  by (induction bs rule: chunks_exact8.induct) auto

text \<open>
  The decoder of the exported program: the bytes of any instruction sequence decode to
  exactly that sequence; bytes whose number is not a multiple of the instruction size are
  refused; and every other input gives one instruction per eight bytes.
\<close>

theorem bytes_to_sock_filters_spec:
  "bytes_to_sock_filters (concat (map sock_filter_bytes fs)) = Inr fs
   \<and> (case bytes_to_sock_filters bytes of
         Inl e \<Rightarrow> \<not> 8 dvd length bytes
       | Inr gs \<Rightarrow> length bytes = 8 * length gs)"
  by (auto simp: bytes_to_sock_filters_def chunks_exact8_concat length_concat_sock_filters
      length_chunks_exact8 dvd_eq_mod_eq_0)

section \<open>Preparing a filter\<close>

definition add_one_rule ::
    "scmp_lib \<Rightarrow> ScmpCtx \<Rightarrow> SeccompRule \<Rightarrow> ScmpRule \<Rightarrow> SeccompError + ScmpCtx" where
  "add_one_rule lib ctx rule r =
     (case add_rule_err lib ctx r of
        Some e \<Rightarrow> Inl (ScRuleAdd
          ((if rule_conditions rule = [] then ''failed to add rule ''
            else ''failed to add conditional rule '') @ rule_debug lib rule @ '': '' @ e))
      | None \<Rightarrow> Inr (ctx\<lparr>ctx_rules := ctx_rules ctx @ [r]\<rparr>))"

text \<open>A system call the library does not know is skipped.\<close>

fun add_rules :: "scmp_lib \<Rightarrow> SeccompRule list \<Rightarrow> ScmpCtx \<Rightarrow> SeccompError + ScmpCtx" where
  "add_rules lib [] ctx = Inr ctx"
| "add_rules lib (rule # rest) ctx =
     (case syscall_to_scmp lib (rule_syscall rule) of
        Inl e \<Rightarrow> add_rules lib rest ctx
      | Inr nr \<Rightarrow>
          res_bind
            (add_one_rule lib ctx rule
              \<lparr>sr_action = our_action_to_scmp (rule_action rule), sr_syscall = nr,
               sr_cmps = map condition_to_comparator (rule_conditions rule)\<rparr>)
            (add_rules lib rest))"

definition filter_prepare :: "scmp_lib \<Rightarrow> SeccompProfile \<Rightarrow> SeccompError + sock_filter list" where
  "filter_prepare lib profile =
     (let default_action = our_action_to_scmp (default_action profile)
      in case new_filter_err lib default_action of
           Some e \<Rightarrow> Inl (FilterCreate e)
         | None \<Rightarrow>
       (case nnp_err lib of
          Some e \<Rightarrow> Inl (FilterCreate (''set_ctl_nnp: '' @ e))
        | None \<Rightarrow>
       res_bind (add_rules lib (rules profile) \<lparr>ctx_default = default_action, ctx_rules = []\<rparr>)
       (\<lambda>ctx.
        case pipe_err lib of
          Some e \<Rightarrow> Inl (FilterCreate (''pipe: '' @ e))
        | None \<Rightarrow>
       (case export_bpf lib ctx of
          Inl e \<Rightarrow> Inl (FilterCreate (''export_bpf: '' @ e))
        | Inr bytes \<Rightarrow>
       (case read_err lib of
          Some e \<Rightarrow> Inl (FilterCreate (''read bpf: '' @ e))
        | None \<Rightarrow> bytes_to_sock_filters bytes)))))"

section \<open>Loading a filter\<close>

text \<open>
  The seccomp state of a process: \<open>no_new_privs\<close> and the loaded programs. \<open>prctl_ok\<close> and
  \<open>load\<close> are the kernel's answers; the length passed to it is the length of the program as a
  16-bit integer, and it takes that many instructions.
\<close>

record seccomp_state =
  no_new_privs :: bool
  loaded :: "sock_filter list list"

definition filter_apply ::
    "bool \<Rightarrow> (sock_filter list \<Rightarrow> string option) \<Rightarrow> sock_filter list \<Rightarrow>
     (seccomp_state, SeccompError, unit) st" where
  "filter_apply prctl_ok load bpf_program s =
     (if \<not> prctl_ok then (Inl (Load ''prctl(PR_SET_NO_NEW_PRIVS) failed''), s)
      else
        (let s = s\<lparr>no_new_privs := True\<rparr>;
             len = of_nat (length bpf_program) :: u16;
             prog = take (unat len) bpf_program
         in case load prog of
              Some e \<Rightarrow> (Inl (Load (''seccomp(SECCOMP_SET_MODE_FILTER) failed: '' @ e)), s)
            | None \<Rightarrow> (Inr (), s\<lparr>loaded := prog # loaded s\<rparr>)))"

end
