(* ===== verification/SeccompVerdict.thy ===== *)
theory SeccompVerdict
  imports SeccompFilter
begin

text \<open>
  What the filters of the program do to a system call. The library compiles a context into a
  program whose verdict is fixed by libseccomp's documentation (\<open>verdict_ok\<close>): the default
  action where no rule matches, and the action of the matching rules where they agree; the
  comparators of one rule must all hold, and a masked comparison compares the masked argument
  with the datum.
\<close>

unbundle bit_operations_syntax

type_synonym sysargs = "nat \<Rightarrow> u64"
type_synonym bpf_run = "sock_filter list \<Rightarrow> int \<Rightarrow> sysargs \<Rightarrow> ScmpAction"

definition cmp_holds :: "sysargs \<Rightarrow> ScmpArgCompare \<Rightarrow> bool" where
  "cmp_holds args c =
     (let x = args (unat (cmp_arg c))
      in case cmp_op c of
           OpEqual \<Rightarrow> x = cmp_datum c
         | OpNotEqual \<Rightarrow> x \<noteq> cmp_datum c
         | OpMaskedEqual m \<Rightarrow> x AND m = cmp_datum c)"

definition rule_matches :: "int \<Rightarrow> sysargs \<Rightarrow> ScmpRule \<Rightarrow> bool" where
  "rule_matches nr args r = (sr_syscall r = nr \<and> list_all (cmp_holds args) (sr_cmps r))"

definition verdict_ok :: "ScmpCtx \<Rightarrow> int \<Rightarrow> sysargs \<Rightarrow> ScmpAction \<Rightarrow> bool" where
  "verdict_ok ctx nr args a =
     (let acts = map sr_action (filter (rule_matches nr args) (ctx_rules ctx))
      in case acts of
           [] \<Rightarrow> a = ctx_default ctx
         | b # bs \<Rightarrow> (list_all (\<lambda>x. x = b) bs \<longrightarrow> a = b))"

definition faithful :: "scmp_lib \<Rightarrow> bpf_run \<Rightarrow> bool" where
  "faithful lib run =
     (\<forall>ctx bytes prog. export_bpf lib ctx = Inr bytes \<and> bytes_to_sock_filters bytes = Inr prog
        \<longrightarrow> (\<forall>nr args. verdict_ok ctx nr args (run prog nr args)))"

text \<open>The rules of a profile as the library gets them.\<close>

definition scmp_rules :: "scmp_lib \<Rightarrow> SeccompRule list \<Rightarrow> ScmpRule list" where
  "scmp_rules lib rs =
     concat (map (\<lambda>rule. case from_name lib (syscall_name (rule_syscall rule)) of
         Inl _ \<Rightarrow> []
       | Inr nr \<Rightarrow> [\<lparr>sr_action = our_action_to_scmp (rule_action rule), sr_syscall = nr,
               sr_cmps = map condition_to_comparator (rule_conditions rule)\<rparr>]) rs)"

lemma add_rules_ok:
  "add_rules lib rs ctx = Inr ctx' \<Longrightarrow>
     ctx_default ctx' = ctx_default ctx \<and> ctx_rules ctx' = ctx_rules ctx @ scmp_rules lib rs"
proof (induction rs arbitrary: ctx)
  case (Cons rule rs)
  show ?case
  proof (cases "from_name lib (syscall_name (rule_syscall rule))")
    case (Inl e)
    then show ?thesis using Cons by (simp add: syscall_to_scmp_def scmp_rules_def)
  next
    case (Inr nr)
    then show ?thesis using Cons.prems
      by (auto simp: syscall_to_scmp_def scmp_rules_def add_one_rule_def split: option.splits
          dest!: Cons.IH)
  qed
qed (simp add: scmp_rules_def)

lemma filter_prepare_ctx:
  assumes "filter_prepare lib p = Inr prog"
  shows "\<exists>bytes. export_bpf lib \<lparr>ctx_default = our_action_to_scmp (default_action p),
             ctx_rules = scmp_rules lib (rules p)\<rparr> = Inr bytes
           \<and> bytes_to_sock_filters bytes = Inr prog"
proof -
  let ?c0 = "\<lparr>ctx_default = our_action_to_scmp (default_action p), ctx_rules = []\<rparr>"
  from assms obtain ctx bytes where
    c: "add_rules lib (rules p) ?c0 = Inr ctx" "export_bpf lib ctx = Inr bytes"
      "bytes_to_sock_filters bytes = Inr prog"
    by (auto simp: filter_prepare_def Let_def res_bind_Inr_iff split: option.splits sum.splits)
  have "ctx = \<lparr>ctx_default = our_action_to_scmp (default_action p),
      ctx_rules = scmp_rules lib (rules p)\<rparr>"
    using add_rules_ok [OF c(1)] by (cases ctx) simp
  then show ?thesis using c by blast
qed

definition cond_holds :: "sysargs \<Rightarrow> SeccompCondition \<Rightarrow> bool" where
  "cond_holds args c = cmp_holds args (condition_to_comparator c)"

definition our_rule_matches :: "scmp_lib \<Rightarrow> int \<Rightarrow> sysargs \<Rightarrow> SeccompRule \<Rightarrow> bool" where
  "our_rule_matches lib nr args r =
     (from_name lib (syscall_name (rule_syscall r)) = Inr nr
      \<and> list_all (cond_holds args) (rule_conditions r))"

lemma scmp_rules_match:
  "(\<exists>q\<in>set (scmp_rules lib rs). rule_matches nr args q \<and> sr_action q = a) \<longleftrightarrow>
     (\<exists>r\<in>set rs. our_rule_matches lib nr args r \<and> our_action_to_scmp (rule_action r) = a)"
  by (induction rs)
     (auto simp: scmp_rules_def our_rule_matches_def rule_matches_def list_all_iff cond_holds_def
       split: sum.splits)

text \<open>
  The verdict of a prepared filter whose rules all have one action: that action where a rule
  matches, the default action elsewhere.
\<close>

lemma uniform_verdict:
  assumes "faithful lib run" and prep: "filter_prepare lib p = Inr prog"
    and act: "\<forall>r\<in>set (rules p). rule_action r = a"
  shows "run prog nr args =
    our_action_to_scmp (if \<exists>r\<in>set (rules p). our_rule_matches lib nr args r then a
                        else default_action p)"
proof -
  let ?ctx = "\<lparr>ctx_default = our_action_to_scmp (default_action p),
             ctx_rules = scmp_rules lib (rules p)\<rparr>"
  let ?m = "filter (rule_matches nr args) (scmp_rules lib (rules p))"
  have v: "verdict_ok ?ctx nr args (run prog nr args)"
    using assms(1) filter_prepare_ctx [OF prep] by (auto simp: faithful_def)
  have all: "\<forall>q\<in>set (scmp_rules lib (rules p)). sr_action q = our_action_to_scmp a"
    using act by (auto simp: scmp_rules_def split: sum.splits)
  have ex: "(\<exists>r\<in>set (rules p). our_rule_matches lib nr args r) \<longleftrightarrow> ?m \<noteq> []"
    using scmp_rules_match [of lib "rules p" nr args "our_action_to_scmp a"] act all
    by (auto simp: filter_empty_conv)
  show ?thesis
  proof (cases ?m)
    case Nil
    then show ?thesis using v ex by (simp add: verdict_ok_def)
  next
    case (Cons q qs)
    then have "\<forall>x\<in>set (q # qs). sr_action x = our_action_to_scmp a"
      using all by (metis filter_is_subset subsetD)
    then show ?thesis using v ex Cons by (simp add: verdict_ok_def list_all_iff)
  qed
qed

section \<open>The denylist\<close>

lemma rules_push [simp]: "rules (push_rule r p) = rules p @ [r]"
  "default_action (push_rule r p) = default_action p"
  by (simp_all add: push_rule_def)

lemma rules_fold_deny:
  "rules (fold deny ss p) =
     rules p @ map (\<lambda>s. \<lparr>rule_syscall = s, rule_action = KillProcess, rule_conditions = []\<rparr>) ss
   \<and> default_action (fold deny ss p) = default_action p"
  by (induction ss arbitrary: p) (auto simp: deny_def)

lemma rules_fold_allow:
  "rules (fold (\<lambda>n. allow (Custom n)) ns p) =
     rules p @ map (\<lambda>n. \<lparr>rule_syscall = Custom n, rule_action = Allow, rule_conditions = []\<rparr>) ns
   \<and> default_action (fold (\<lambda>n. allow (Custom n)) ns p) = default_action p"
  by (induction ns arbitrary: p) (auto simp: allow_def)

definition denied_names :: "string list" where
  "denied_names =
     [''mount'', ''umount2'', ''ptrace'', ''process_vm_readv'', ''process_vm_writev'', ''bpf'',
      ''keyctl'', ''add_key'', ''request_key'', ''reboot'', ''kexec_load'', ''init_module'',
      ''finit_module'', ''delete_module'', ''swapon'', ''swapoff'', ''sethostname'',
      ''setdomainname'', ''setns'', ''unshare'', ''personality'', ''iopl'', ''ioperm'',
      ''perf_event_open'', ''userfaultfd'']"

text \<open>
  A library that resolves the given names and exports one context, with the machine that runs
  it: an instance of the contract for the concrete evaluations below.
\<close>

definition ctx_for :: "(string \<Rightarrow> string + int) \<Rightarrow> SeccompProfile \<Rightarrow> ScmpCtx" where
  "ctx_for names p = \<lparr>ctx_default = our_action_to_scmp (default_action p),
     ctx_rules = concat (map (\<lambda>rule. case names (syscall_name (rule_syscall rule)) of
         Inl _ \<Rightarrow> []
       | Inr nr \<Rightarrow> [\<lparr>sr_action = our_action_to_scmp (rule_action rule), sr_syscall = nr,
               sr_cmps = map condition_to_comparator (rule_conditions rule)\<rparr>]) (rules p))\<rparr>"

definition lib_for :: "(string \<Rightarrow> string + int) \<Rightarrow> SeccompProfile \<Rightarrow> scmp_lib" where
  "lib_for names p = \<lparr>from_name = names, new_filter_err = (\<lambda>_. None), nnp_err = None,
     add_rule_err = (\<lambda>_ _. None), pipe_err = None,
     export_bpf = (\<lambda>ctx. if ctx = ctx_for names p then Inr [] else Inl ''unknown context''),
     read_err = None, rule_debug = (\<lambda>_. [])\<rparr>"

definition run_for :: "(string \<Rightarrow> string + int) \<Rightarrow> SeccompProfile \<Rightarrow> bpf_run" where
  "run_for names p prog nr args =
     (case filter (rule_matches nr args) (ctx_rules (ctx_for names p)) of
        [] \<Rightarrow> ctx_default (ctx_for names p)
      | r # _ \<Rightarrow> sr_action r)"

lemma faithful_for: "faithful (lib_for names p) (run_for names p)"
  by (auto simp: faithful_def lib_for_def run_for_def verdict_ok_def Let_def
      split: if_splits list.splits)

lemma add_rules_no_error:
  "(\<And>ctx r. add_rule_err lib ctx r = None) \<Longrightarrow>
     add_rules lib rs ctx = Inr (ctx\<lparr>ctx_rules := ctx_rules ctx @ scmp_rules lib rs\<rparr>)"
  by (induction rs arbitrary: ctx)
     (auto simp: syscall_to_scmp_def scmp_rules_def add_one_rule_def split: sum.splits)

lemma prepare_for: "filter_prepare (lib_for names p) p = Inr []"
proof -
  have "\<lparr>ctx_default = our_action_to_scmp (default_action p),
     ctx_rules = scmp_rules (lib_for names p) (rules p)\<rparr> = ctx_for names p"
    by (simp add: ctx_for_def scmp_rules_def lib_for_def)
  moreover have "add_rules (lib_for names p) rs ctx =
      Inr (ctx\<lparr>ctx_rules := ctx_rules ctx @ scmp_rules (lib_for names p) rs\<rparr>)" for rs ctx
    by (rule add_rules_no_error) (simp add: lib_for_def)
  ultimately show ?thesis
    by (simp add: filter_prepare_def lib_for_def bytes_to_sock_filters_def)
qed

lemma denylist_run:
  assumes "faithful lib run" and "filter_prepare lib default_denylist = Inr prog"
  shows "run prog nr args =
    (if (\<exists>n\<in>set denied_names. from_name lib n = Inr nr)
        \<or> (from_name lib ''socket'' = Inr nr \<and> args 0 \<noteq> AF_UNIX)
     then ScmpKillProcess else ScmpAllow)"
proof -
  have r: "rules default_denylist =
      map (\<lambda>s. \<lparr>rule_syscall = s, rule_action = KillProcess, rule_conditions = []\<rparr>)
        [Mount, Umount2, Ptrace, ProcessVmReadv, ProcessVmWritev, Bpf, Keyctl, AddKey, RequestKey,
         Reboot, KexecLoad, InitModule, FinitModule, DeleteModule, Swapon, Swapoff, Sethostname,
         Setdomainname, Setns, Unshare, Personality, Iopl, Ioperm, PerfEventOpen, Userfaultfd]
      @ [\<lparr>rule_syscall = Socket, rule_action = KillProcess, rule_conditions =
          [\<lparr>arg_index = 0, operator = NotEqual, cond_value = AF_UNIX, cond_mask = None\<rparr>]\<rparr>]"
    and d: "default_action default_denylist = Allow"
    unfolding default_denylist_def deny_network_def rules_push
    by (simp_all only: rules_fold_deny denylist_def append_Nil SeccompProfile.select_convs)
  have "\<forall>r\<in>set (rules default_denylist). rule_action r = KillProcess"
    by (simp add: r)
  from uniform_verdict [OF assms this, of nr args]
  show ?thesis
    by (simp add: r d our_rule_matches_def denied_names_def cond_holds_def cmp_holds_def
        condition_to_comparator_def our_action_to_scmp_def)
qed

text \<open>
  C1. The default filter. Once it is prepared, the loaded program kills the process on each of
  the 25 dangerous system calls whatever its arguments, and on \<open>socket\<close> for every domain but
  AF\_UNIX; every other call is allowed. A name that the library does not resolve to a number
  on the architecture is not filtered.
\<close>

theorem denylist_verdict:
  assumes "faithful lib run" and "filter_prepare lib default_denylist = Inr prog"
  shows "run prog nr args =
    (if (\<exists>n\<in>set denied_names. from_name lib n = Inr nr)
        \<or> (from_name lib ''socket'' = Inr nr \<and> args 0 \<noteq> AF_UNIX)
     then ScmpKillProcess else ScmpAllow)"
  by (rule denylist_run [OF assms])

definition demo_names :: "string \<Rightarrow> string + int" where
  "demo_names n =
     (if n = ''read'' then Inr 0 else if n = ''socket'' then Inr 41
      else if n = ''mount'' then Inr 165 else Inl ''unknown'')"

lemma demo_names_socket: "demo_names n = Inr 41 \<Longrightarrow> n = ''socket''"
  by (simp add: demo_names_def split: if_splits)

theorem denylist_verdict_witness:
  "run_for demo_names default_denylist [] 165 (\<lambda>_. 0) = ScmpKillProcess
   \<and> run_for demo_names default_denylist [] 41 (\<lambda>_. 2) = ScmpKillProcess
   \<and> run_for demo_names default_denylist [] 41 (\<lambda>_. 1) = ScmpAllow"
  by (simp add: denylist_verdict [OF faithful_for prepare_for] lib_for_def demo_names_def
      denied_names_def AF_UNIX_def)

section \<open>The allowlists\<close>

lemma allowlist_verdict_gen:
  assumes "faithful lib run" and "filter_prepare lib (build_profile ns) = Inr prog"
  shows "run prog nr args =
    (if (\<exists>n\<in>set ns. from_name lib n = Inr nr)
        \<or> (from_name lib ''socket'' = Inr nr \<and> args 0 = AF_UNIX)
     then ScmpAllow else ScmpKillProcess)"
proof -
  have r: "rules (build_profile ns) =
      map (\<lambda>n. \<lparr>rule_syscall = Custom n, rule_action = Allow, rule_conditions = []\<rparr>) ns
      @ [\<lparr>rule_syscall = Socket, rule_action = Allow, rule_conditions =
          [\<lparr>arg_index = 0, operator = Equal, cond_value = AF_UNIX, cond_mask = None\<rparr>]\<rparr>]"
    and d: "default_action (build_profile ns) = KillProcess"
    by (simp_all add: build_profile_def allow_with_conditions_def rules_fold_allow allowlist_def)
  have "\<forall>r\<in>set (rules (build_profile ns)). rule_action r = Allow"
    by (auto simp: r)
  from uniform_verdict [OF assms this, of nr args]
  show ?thesis
    by (auto simp add: r d our_rule_matches_def cond_holds_def cmp_holds_def
        condition_to_comparator_def our_action_to_scmp_def bex_Un)
qed

definition allowlist_of :: "string \<Rightarrow> string list option" where
  "allowlist_of runtime =
     (if runtime = ''shell'' then Some SHELL_ALLOWED
      else if runtime = ''python'' then Some (SHELL_ALLOWED @ PYTHON_EXTRA)
      else if runtime = ''node'' then Some (SHELL_ALLOWED @ NODE_EXTRA) else None)"

text \<open>
  C6. The allowlists of the runtimes. A loaded shell, Python or Node filter allows exactly the
  listed system calls and \<open>socket\<close> for AF\_UNIX, and kills the process on everything else; the
  Python and Node filters allow whatever the shell filter allows.
\<close>

theorem allowlists_verdict:
  assumes "faithful lib run"
    and "filter_prepare lib p = Inr prog"
    and "(p, ns) \<in> {(default_allowlist_shell, SHELL_ALLOWED),
        (default_allowlist_python, SHELL_ALLOWED @ PYTHON_EXTRA),
        (default_allowlist_node, SHELL_ALLOWED @ NODE_EXTRA)}"
  shows "run prog nr args =
    (if (\<exists>n\<in>set ns. from_name lib n = Inr nr)
        \<or> (from_name lib ''socket'' = Inr nr \<and> args 0 = AF_UNIX)
     then ScmpAllow else ScmpKillProcess)
    \<and> set SHELL_ALLOWED \<subseteq> set ns"
proof -
  have "p = build_profile ns \<and> set SHELL_ALLOWED \<subseteq> set ns"
    using assms(3) by (auto simp: default_allowlist_shell_def default_allowlist_python_def
        default_allowlist_node_def simp del: set_append)
      (simp_all add: set_append)
  then show ?thesis using allowlist_verdict_gen assms(1,2) by blast
qed

theorem allowlists_verdict_witness:
  "run_for demo_names default_allowlist_python [] 0 (\<lambda>_. 7) = ScmpAllow
   \<and> run_for demo_names default_allowlist_python [] 41 (\<lambda>_. 2) = ScmpKillProcess"
proof -
  let ?p = "default_allowlist_python"
  have "(?p, SHELL_ALLOWED @ PYTHON_EXTRA) \<in> {(default_allowlist_shell, SHELL_ALLOWED),
        (default_allowlist_python, SHELL_ALLOWED @ PYTHON_EXTRA),
        (default_allowlist_node, SHELL_ALLOWED @ NODE_EXTRA)}" by blast
  note v = allowlists_verdict [OF faithful_for prepare_for this, THEN conjunct1]
  have mem: "''read'' \<in> set SHELL_ALLOWED" "''socket'' \<notin> set (SHELL_ALLOWED @ PYTHON_EXTRA)"
    by (simp_all add: SHELL_ALLOWED_def PYTHON_EXTRA_def)
  have "\<exists>n\<in>set (SHELL_ALLOWED @ PYTHON_EXTRA). demo_names n = Inr 0"
    using mem(1) by (intro bexI [of _ "''read''"]) (simp_all add: demo_names_def)
  moreover have "\<not> (\<exists>n\<in>set (SHELL_ALLOWED @ PYTHON_EXTRA). demo_names n = Inr 41)"
    using mem(2) by (metis demo_names_socket)
  ultimately show ?thesis
    unfolding v by (simp add: lib_for_def AF_UNIX_def del: set_append)
qed

section \<open>The namespace condition\<close>

lemma and_eq_mask_iff:
  fixes w m :: u64
  shows "w AND m = m \<longleftrightarrow> (\<forall>n. bit m n \<longrightarrow> bit w n)"
proof
  assume "w AND m = m"
  then show "\<forall>n. bit m n \<longrightarrow> bit w n" by (metis bit_and_iff)
next
  assume "\<forall>n. bit m n \<longrightarrow> bit w n"
  then show "w AND m = m" by (intro bit_eqI) (auto simp: bit_and_iff)
qed

lemma bit_clone_mask:
  "bit CLONE_NEW_MASK n \<longleftrightarrow> n \<in> {17, 25, 26, 27, 28, 29, 30}"
proof -
  have eq: "CLONE_NEW_MASK = 2 ^ 17 OR 2 ^ 26 OR 2 ^ 27 OR 2 ^ 28 OR 2 ^ 29 OR 2 ^ 30 OR 2 ^ 25"
    by (simp add: CLONE_NEW_MASK_def CLONE_NEWNS_def CLONE_NEWUTS_def CLONE_NEWIPC_def
        CLONE_NEWUSER_def CLONE_NEWPID_def CLONE_NEWNET_def CLONE_NEWCGROUP_def)
  have b: "bit ((2::u64) ^ k) n \<longleftrightarrow> n = k" if "k < 64" for k
    using that by (auto simp: bit_exp_iff)
  have "bit CLONE_NEW_MASK n \<longleftrightarrow>
      n = 17 \<or> n = 26 \<or> n = 27 \<or> n = 28 \<or> n = 29 \<or> n = 30 \<or> n = 25"
    unfolding eq bit_or_iff by (intro arg_cong2 [where f = "(\<or>)"] b) simp_all
  then show ?thesis by blast
qed

text \<open>
  The namespace condition for \<open>clone\<close> matches exactly the calls whose flags contain all
  seven namespace bits at once; a call that asks for one new namespace only, as every container
  escape does, is not matched. (The comment says that any of the flags is refused.)
\<close>

theorem clone_condition_needs_all_flags:
  "list_all (cond_holds args) clone_namespace_conditions \<longleftrightarrow>
     bit (args 0) 17 \<and> bit (args 0) 25 \<and> bit (args 0) 26 \<and> bit (args 0) 27 \<and> bit (args 0) 28
     \<and> bit (args 0) 29 \<and> bit (args 0) 30"
proof -
  have "list_all (cond_holds args) clone_namespace_conditions \<longleftrightarrow>
      args 0 AND CLONE_NEW_MASK = CLONE_NEW_MASK"
    by (simp add: clone_namespace_conditions_def cond_holds_def cmp_holds_def
      condition_to_comparator_def)
  also have "\<dots> \<longleftrightarrow> (\<forall>n\<in>{17, 25, 26, 27, 28, 29, 30}. bit (args 0) n)"
    by (simp only: and_eq_mask_iff bit_clone_mask Ball_def)
  finally show ?thesis by simp
qed

end
