(* ===== verification/Landlock.thy ===== *)
theory Landlock
  imports Errors
begin

text \<open>
  File-system confinement, \<open>sandbox-landlock/src\<close>: the policy of a job (\<open>access.rs\<close>,
  \<open>policy.rs\<close>), the detection of the kernel's ABI (\<open>abi.rs\<close>) and the ruleset built from a
  policy (\<open>ruleset.rs\<close>). The \<open>landlock\<close> crate and the kernel are the parameter \<open>lib\<close>: the
  access rights that each ABI handles and reads or writes with, and the answers of its calls.
\<close>

datatype AccessFs = ReadWriteExecute | ReadExecute | ReadOnly | ReadWrite

record AccessRule =
  ar_path :: string
  ar_access :: AccessFs

datatype RuntimeKind = ShellRt | PythonRt | NodeRt | CustomRt

type_synonym FsPolicy = "AccessRule list"

definition add_rule :: "string \<Rightarrow> AccessFs \<Rightarrow> FsPolicy \<Rightarrow> FsPolicy" where
  "add_rule path access policy = policy @ [\<lparr>ar_path = path, ar_access = access\<rparr>]"

definition system_exec_paths :: "string list" where
  "system_exec_paths = [''/bin'', ''/usr/bin'']"

definition system_lib_paths :: "string list" where
  "system_lib_paths = [''/lib'', ''/lib64'', ''/usr/lib'', ''/etc/ld.so.cache'']"

definition runtime_paths :: "RuntimeKind \<Rightarrow> string list" where
  "runtime_paths runtime =
     (case runtime of
        ShellRt \<Rightarrow> []
      | PythonRt \<Rightarrow> [''/usr/lib/python3'', ''/usr/local/lib/python3'']
      | NodeRt \<Rightarrow> [''/usr/lib/node_modules'']
      | CustomRt \<Rightarrow> [])"

definition device_paths :: "string list" where
  "device_paths = [''/dev/null'', ''/dev/zero'', ''/dev/random'', ''/dev/urandom'']"

definition etc_paths :: "string list" where
  "etc_paths = [''/etc/ssl/certs'', ''/etc/resolv.conf'', ''/etc/hosts'', ''/etc/nsswitch.conf'',
     ''/etc/localtime'']"

definition proc_paths :: "string list" where
  "proc_paths = [''/proc/cpuinfo'', ''/proc/meminfo'', ''/proc/stat'', ''/proc/version'',
     ''/proc/filesystems'', ''/proc/uptime'', ''/proc/loadavg'']"

definition for_job :: "string \<Rightarrow> RuntimeKind \<Rightarrow> FsPolicy" where
  "for_job job_workspace runtime =
     (let policy = add_rule job_workspace ReadWrite [];
          policy = fold (\<lambda>path. add_rule path ReadExecute) system_exec_paths policy;
          policy = fold (\<lambda>path. add_rule path ReadOnly) system_lib_paths policy;
          policy = fold (\<lambda>path. add_rule path ReadOnly) (runtime_paths runtime) policy;
          policy = fold (\<lambda>path. add_rule path ReadOnly) device_paths policy;
          policy = fold (\<lambda>path. add_rule path ReadOnly) etc_paths policy
      in fold (\<lambda>path. add_rule path ReadOnly) proc_paths policy)"

section \<open>Capabilities\<close>

record LandlockCapabilities =
  ll_supported :: bool
  ll_abi_version :: u32
  ll_fs_access :: bool
  ll_network_tcp_port :: bool
  ll_network_socket :: bool
  ll_signal_control :: bool

text \<open>\<open>ret\<close> is what the version query returned.\<close>

definition detect_landlock :: "64 word \<Rightarrow> LandlockCapabilities" where
  "detect_landlock ret =
     (if sint ret < 0 then
        \<lparr>ll_supported = False, ll_abi_version = 0, ll_fs_access = False,
         ll_network_tcp_port = False, ll_network_socket = False, ll_signal_control = False\<rparr>
      else
        (let abi_v = ucast ret :: u32
         in \<lparr>ll_supported = True, ll_abi_version = abi_v, ll_fs_access = 1 \<le> abi_v,
             ll_network_tcp_port = 4 \<le> abi_v, ll_network_socket = 5 \<le> abi_v,
             ll_signal_control = 6 \<le> abi_v\<rparr>))"

datatype ABI = V1 | V2 | V3 | V4 | V5 | V6 | V7

definition abi_from_version :: "u32 \<Rightarrow> LandlockError + ABI" where
  "abi_from_version v =
     (if v = 0 then Inl (AbiTooLow 1 0)
      else if v = 1 then Inr V1 else if v = 2 then Inr V2 else if v = 3 then Inr V3
      else if v = 4 then Inr V4 else if v = 5 then Inr V5 else if v = 6 then Inr V6
      else Inr V7)"

section \<open>Rulesets\<close>

record 'acc landlock_lib =
  ll_from_all :: "ABI \<Rightarrow> 'acc set"
  ll_from_read :: "ABI \<Rightarrow> 'acc set"
  ll_from_write :: "ABI \<Rightarrow> 'acc set"
  ll_execute :: 'acc
  ll_handle_fs_err :: "ABI \<Rightarrow> string option"
  ll_handle_net_err :: "ABI \<Rightarrow> string option"
  ll_create_err :: "string option"
  ll_exists :: "string \<Rightarrow> bool"
  ll_open_err :: "string \<Rightarrow> string option"
  ll_add_rule_err :: "string \<Rightarrow> 'acc set \<Rightarrow> string option"
  ll_restrict_err :: "string option"

text \<open>A created ruleset: whether network rights are handled too, and its path rules.\<close>

record 'acc created_ruleset =
  cr_net :: bool
  cr_rules :: "(string \<times> 'acc set) list"

record 'acc PreparedRuleset =
  pr_inner :: "'acc created_ruleset option"
  pr_abi :: ABI

definition our_access_to_landlock :: "'acc landlock_lib \<Rightarrow> AccessFs \<Rightarrow> ABI \<Rightarrow> 'acc set" where
  "our_access_to_landlock lib access abi =
     (case access of
        ReadWriteExecute \<Rightarrow> ll_from_all lib abi
      | ReadExecute \<Rightarrow> insert (ll_execute lib) (ll_from_read lib abi)
      | ReadOnly \<Rightarrow> ll_from_read lib abi
      | ReadWrite \<Rightarrow> ll_from_read lib abi \<union> ll_from_write lib abi)"

definition add_path_rule ::
    "'acc landlock_lib \<Rightarrow> string \<Rightarrow> 'acc set \<Rightarrow> string \<Rightarrow> 'acc created_ruleset
      \<Rightarrow> LandlockError + 'acc created_ruleset" where
  "add_path_rule lib path access pre created =
     (case ll_add_rule_err lib path access of
        Some e \<Rightarrow> Inl (LlRuleAdd (pre @ e))
      | None \<Rightarrow> Inr (created\<lparr>cr_rules := cr_rules created @ [(path, access)]\<rparr>))"

fun add_policy_rules ::
    "'acc landlock_lib \<Rightarrow> ABI \<Rightarrow> FsPolicy \<Rightarrow> 'acc created_ruleset
      \<Rightarrow> LandlockError + 'acc created_ruleset" where
  "add_policy_rules lib abi [] created = Inr created"
| "add_policy_rules lib abi (rule # rs) created =
     (if \<not> ll_exists lib (ar_path rule) then add_policy_rules lib abi rs created
      else if ll_open_err lib (ar_path rule) \<noteq> None then add_policy_rules lib abi rs created
      else res_bind
             (add_path_rule lib (ar_path rule) (our_access_to_landlock lib (ar_access rule) abi) []
               created)
             (add_policy_rules lib abi rs))"

definition ruleset_prepare ::
    "'acc landlock_lib \<Rightarrow> FsPolicy \<Rightarrow> LandlockCapabilities \<Rightarrow> LandlockError + 'acc PreparedRuleset" where
  "ruleset_prepare lib policy caps =
     (if \<not> ll_supported caps \<or> \<not> ll_fs_access caps then
        Inl (LlUnavailable ''kernel lacks Landlock / filesystem access control'')
      else
        res_bind (abi_from_version (ll_abi_version caps)) (\<lambda>abi.
        case ll_handle_fs_err lib abi of
          Some e \<Rightarrow> Inl (RulesetCreate e)
        | None \<Rightarrow>
        (case (if ll_network_socket caps then ll_handle_net_err lib abi else None) of
          Some e \<Rightarrow> Inl (RulesetCreate (''net handle_access: '' @ e))
        | None \<Rightarrow>
        (case ll_create_err lib of
          Some e \<Rightarrow> Inl (RulesetCreate e)
        | None \<Rightarrow>
          res_bind (add_policy_rules lib abi policy \<lparr>cr_net = ll_network_socket caps, cr_rules = []\<rparr>)
            (\<lambda>created. Inr \<lparr>pr_inner = Some created, pr_abi = abi\<rparr>)))))"

text \<open>
  \<open>PreparedRuleset::apply\<close> in the child: it grants the child's own \<open>/proc\<close> directory when that
  can be opened, and restricts the process. The state is the prepared ruleset and the ruleset
  in force.
\<close>

definition ruleset_apply ::
    "'acc landlock_lib \<Rightarrow> nat \<Rightarrow>
     ('acc PreparedRuleset \<times> 'acc created_ruleset option, LandlockError, unit) st" where
  "ruleset_apply lib pid st =
     (case st of (pr, active) \<Rightarrow>
       (case pr_inner pr of
          None \<Rightarrow> (Inl (RestrictSelf ''ruleset already consumed''), st)
        | Some created \<Rightarrow>
            (let pr = pr\<lparr>pr_inner := None\<rparr>;
                 self_proc = ''/proc/'' @ show_nat pid
             in case (if ll_open_err lib self_proc = None
                      then add_path_rule lib self_proc (ll_from_read lib (pr_abi pr))
                             ''dynamic /proc/<pid>: '' created
                      else Inr created) of
                  Inl e \<Rightarrow> (Inl e, (pr, active))
                | Inr created \<Rightarrow>
                    (case ll_restrict_err lib of
                       Some e \<Rightarrow> (Inl (RestrictSelf e), (pr, active))
                     | None \<Rightarrow> (Inr (), (pr, Some created))))))"

section \<open>What the child may do\<close>

text \<open>
  The kernel grants a right on a file exactly when a rule of the ruleset in force has that
  right on one of the directories the file is beneath.
\<close>

definition path_comps :: "string \<Rightarrow> string list" where
  "path_comps p = filter (\<lambda>w. w \<noteq> []) (split_char (CHR ''/'') p)"

definition beneath :: "string \<Rightarrow> string \<Rightarrow> bool" where
  "beneath dir p = prefix (path_comps dir) (path_comps p)"

definition granted :: "'acc created_ruleset \<Rightarrow> string \<Rightarrow> 'acc set" where
  "granted rs p = \<Union> (snd ` set (filter (\<lambda>(dir, acc). beneath dir p) (cr_rules rs)))"

lemma in_granted:
  "a \<in> granted rs p \<longleftrightarrow> (\<exists>dir acc. (dir, acc) \<in> set (cr_rules rs) \<and> beneath dir p \<and> a \<in> acc)"
  by (auto simp: granted_def)

lemma set_add_rule [simp]:
  "set (add_rule path access policy) = insert \<lparr>ar_path = path, ar_access = access\<rparr> (set policy)"
  by (simp add: add_rule_def)

lemma set_fold_add_rule:
  "set (fold (\<lambda>path. add_rule path access) paths policy) =
     (\<lambda>path. \<lparr>ar_path = path, ar_access = access\<rparr>) ` set paths \<union> set policy"
  by (induction paths arbitrary: policy) auto

definition read_only_paths :: "RuntimeKind \<Rightarrow> string list" where
  "read_only_paths runtime =
     system_lib_paths @ runtime_paths runtime @ device_paths @ etc_paths @ proc_paths"

lemma for_job_rules:
  "r \<in> set (for_job ws runtime) \<longleftrightarrow>
     r = \<lparr>ar_path = ws, ar_access = ReadWrite\<rparr>
     \<or> (\<exists>p\<in>set system_exec_paths. r = \<lparr>ar_path = p, ar_access = ReadExecute\<rparr>)
     \<or> (\<exists>p\<in>set (read_only_paths runtime). r = \<lparr>ar_path = p, ar_access = ReadOnly\<rparr>)"
  by (auto simp: for_job_def Let_def set_fold_add_rule read_only_paths_def)

lemma add_policy_rules_ok:
  "add_policy_rules lib abi rs created = Inr created' \<Longrightarrow>
     cr_net created' = cr_net created \<and>
     cr_rules created' = cr_rules created @
       map (\<lambda>r. (ar_path r, our_access_to_landlock lib (ar_access r) abi))
         (filter (\<lambda>r. ll_exists lib (ar_path r) \<and> ll_open_err lib (ar_path r) = None) rs)"
proof (induction rs arbitrary: created)
  case (Cons r rs)
  then show ?case
    by (auto simp: add_path_rule_def split: if_splits option.splits dest!: Cons.IH)
qed simp

lemma ruleset_prepare_ok:
  assumes "ruleset_prepare lib policy caps = Inr pr"
  shows "\<exists>created. pr_inner pr = Some created \<and>
    cr_net created = ll_network_socket caps \<and>
    cr_rules created = map (\<lambda>r. (ar_path r, our_access_to_landlock lib (ar_access r) (pr_abi pr)))
      (filter (\<lambda>r. ll_exists lib (ar_path r) \<and> ll_open_err lib (ar_path r) = None) policy)"
  using assms
  by (fastforce simp: ruleset_prepare_def res_bind_Inr_iff split: if_splits option.splits
      dest!: add_policy_rules_ok)

lemma ruleset_apply_ok:
  assumes "ruleset_apply lib pid (pr, active) = (Inr u, st)"
  shows "\<exists>created active'. pr_inner pr = Some created \<and> st = (pr\<lparr>pr_inner := None\<rparr>, Some active')
    \<and> cr_net active' = cr_net created
    \<and> set (cr_rules active') \<subseteq> set (cr_rules created) \<union> {(''/proc/'' @ show_nat pid, ll_from_read lib (pr_abi pr))}
    \<and> set (cr_rules created) \<subseteq> set (cr_rules active')"
  using assms
  by (auto simp: ruleset_apply_def add_path_rule_def Let_def split: option.splits sum.splits if_splits)

lemma granted_job_policy:
  assumes pr: "ruleset_prepare lib (for_job ws runtime) caps = Inr pr" "pr_inner pr = Some created"
    and sub: "set (cr_rules rs) \<subseteq> insert (''/proc/'' @ show_nat pid, ll_from_read lib (pr_abi pr))
        (set (cr_rules created))"
    and a: "a \<in> granted rs p"
  shows "(if a \<in> ll_from_read lib (pr_abi pr) \<or> a = ll_execute lib
          then list_ex (\<lambda>dir. beneath dir p)
                 (ws # (''/proc/'' @ show_nat pid) # system_exec_paths @ read_only_paths runtime)
          else beneath ws p)"
proof -
  have c: "cr_rules created =
        map (\<lambda>r. (ar_path r, our_access_to_landlock lib (ar_access r) (pr_abi pr)))
      (filter (\<lambda>r. ll_exists lib (ar_path r) \<and> ll_open_err lib (ar_path r) = None) (for_job ws runtime))"
    using ruleset_prepare_ok [OF pr(1)] pr(2) by auto
  obtain dir acc where d: "(dir, acc) \<in> set (cr_rules rs)" "beneath dir p" "a \<in> acc"
    using a by (auto simp: in_granted)
  have "(dir = ''/proc/'' @ show_nat pid \<and> acc = ll_from_read lib (pr_abi pr))
      \<or> (\<exists>r\<in>set (for_job ws runtime). dir = ar_path r
            \<and> acc = our_access_to_landlock lib (ar_access r) (pr_abi pr))"
    using d(1) sub c by auto
  then show ?thesis
  proof
    assume "\<exists>r\<in>set (for_job ws runtime). dir = ar_path r
            \<and> acc = our_access_to_landlock lib (ar_access r) (pr_abi pr)"
    then obtain r where "r \<in> set (for_job ws runtime)" "dir = ar_path r"
      "acc = our_access_to_landlock lib (ar_access r) (pr_abi pr)" by blast
    then show ?thesis
      using d(2,3) by (auto simp: for_job_rules our_access_to_landlock_def list_ex_iff)
  qed (use d in auto)
qed

text \<open>
  C2. The workspace is the only place a confined job can write. When the ruleset built from
  the policy of a job is in force, a right that belongs to writing (one that \<open>from_read\<close> does
  not contain and that is not execution) is granted on a file only if the file is beneath the
  job's workspace; and nothing at all is granted outside the workspace, the listed system
  paths and the job's own \<open>/proc\<close> directory.
\<close>

theorem landlock_writes_only_workspace:
  assumes "ruleset_prepare lib (for_job ws runtime) caps = Inr pr"
    and "ruleset_apply lib pid (pr, None) = (Inr u, st)"
    and "snd st = Some rs"
    and "a \<in> granted rs p"
  shows "(if a \<in> ll_from_read lib (pr_abi pr) \<or> a = ll_execute lib
          then list_ex (\<lambda>dir. beneath dir p)
                 (ws # (''/proc/'' @ show_nat pid) # system_exec_paths @ read_only_paths runtime)
          else beneath ws p)"
proof -
  obtain created where c: "pr_inner pr = Some created" using ruleset_prepare_ok [OF assms(1)] by blast
  then have "set (cr_rules rs) \<subseteq> insert (''/proc/'' @ show_nat pid, ll_from_read lib (pr_abi pr))
      (set (cr_rules created))"
    using ruleset_apply_ok [OF assms(2)] assms(3) by auto
  from granted_job_policy [OF assms(1) c this assms(4)] show ?thesis .
qed

text \<open>The rights of ABI 1 as the crate documents them, for a concrete instance.\<close>

datatype demo_acc = Execute | ReadFile | ReadDir | WriteFile | MakeReg

definition demo_lib :: "demo_acc landlock_lib" where
  "demo_lib = \<lparr>ll_from_all = (\<lambda>_. {Execute, ReadFile, ReadDir, WriteFile, MakeReg}),
     ll_from_read = (\<lambda>_. {Execute, ReadFile, ReadDir}), ll_from_write = (\<lambda>_. {WriteFile, MakeReg}),
     ll_execute = Execute, ll_handle_fs_err = (\<lambda>_. None), ll_handle_net_err = (\<lambda>_. None),
     ll_create_err = None, ll_exists = (\<lambda>p. p \<in> {''/w/j'', ''/bin''}), ll_open_err = (\<lambda>_. None),
     ll_add_rule_err = (\<lambda>_ _. None), ll_restrict_err = None\<rparr>"

definition demo_active :: "demo_acc created_ruleset" where
  "demo_active = \<lparr>cr_net = False, cr_rules =
     [(''/w/j'', {Execute, ReadFile, ReadDir, WriteFile, MakeReg}),
      (''/bin'', {Execute, ReadFile, ReadDir}),
      (''/proc/7'', {Execute, ReadFile, ReadDir})]\<rparr>"

definition demo_prepared :: "demo_acc PreparedRuleset" where
  "demo_prepared = \<lparr>pr_inner = Some \<lparr>cr_net = False, cr_rules =
     [(''/w/j'', {Execute, ReadFile, ReadDir, WriteFile, MakeReg}),
      (''/bin'', {Execute, ReadFile, ReadDir})]\<rparr>, pr_abi = V1\<rparr>"

lemma demo_prepare:
  "ruleset_prepare demo_lib (for_job ''/w/j'' ShellRt) (detect_landlock 1) = Inr demo_prepared"
  by (simp add: ruleset_prepare_def detect_landlock_def abi_from_version_def demo_lib_def demo_prepared_def
      for_job_def add_rule_def system_exec_paths_def system_lib_paths_def runtime_paths_def
      device_paths_def etc_paths_def proc_paths_def add_path_rule_def our_access_to_landlock_def
      insert_commute word_le_nat_alt)

lemma demo_apply:
  "ruleset_apply demo_lib 7 (demo_prepared, None) =
     (Inr (), (demo_prepared\<lparr>pr_inner := None\<rparr>, Some demo_active))"
proof -
  have "show_nat 7 = ''7''" by (simp add: show_nat.simps [of 7] char_of_eq_iff take_bit_eq_mod)
  then show ?thesis
    by (simp add: ruleset_apply_def add_path_rule_def demo_lib_def demo_active_def demo_prepared_def)
qed

theorem landlock_writes_only_workspace_witness:
  "WriteFile \<in> granted demo_active ''/w/j/out.txt'' \<and> beneath ''/w/j'' ''/w/j/out.txt''"
proof -
  have b: "beneath ''/w/j'' ''/w/j/out.txt''"
    by (simp add: beneath_def path_comps_def)
  have g: "WriteFile \<in> granted demo_active ''/w/j/out.txt''"
    unfolding in_granted
    by (intro exI [of _ "''/w/j''"] exI [of _ "{Execute, ReadFile, ReadDir, WriteFile, MakeReg}"])
      (simp add: demo_active_def b)
  from landlock_writes_only_workspace [OF demo_prepare demo_apply _ g] g show ?thesis
    by (simp add: demo_lib_def demo_prepared_def)
qed

end
