(* ===== verification/EnvFd.thy ===== *)
theory EnvFd
  imports Errors
begin

text \<open>
  What the child inherits: its environment (\<open>sandbox-core/src/env.rs\<close>) and its open file
  descriptors (\<open>sandbox-core/src/fd.rs\<close>). A \<open>HashMap\<close> that is iterated is the list of its
  entries in iteration order, its keys distinct; the map that is built is a HOL map.
\<close>

section \<open>The environment\<close>

type_synonym env = "string \<rightharpoonup> string"

definition PROTECTED :: "string list" where
  "PROTECTED = [''HOME'', ''TMPDIR'']"

definition core_defaults :: "string \<Rightarrow> env" where
  "core_defaults home_root =
     [''PATH'' \<mapsto> ''/usr/bin:/bin'',
      ''HOME'' \<mapsto> utf8_lossy home_root,
      ''TMPDIR'' \<mapsto> utf8_lossy (path_join home_root ''tmp''),
      ''LANG'' \<mapsto> ''C.UTF-8'']"

definition profile_stage :: "string \<times> string \<Rightarrow> env \<Rightarrow> env" where
  "profile_stage kv env =
     (case kv of (k, v) \<Rightarrow> if k \<notin> set PROTECTED then env(k \<mapsto> v) else env)"

definition extra_stage :: "string \<times> string \<Rightarrow> env \<Rightarrow> env" where
  "extra_stage kv env =
     (case kv of (k, v) \<Rightarrow>
        if k \<notin> set PROTECTED \<and> env k = None then env(k \<mapsto> v) else env)"

definition build_sanitized_env ::
    "string \<Rightarrow> string \<Rightarrow> (string \<times> string) list \<Rightarrow> (string \<times> string) list \<Rightarrow> env" where
  "build_sanitized_env job_id home_root profile_env extra =
     fold extra_stage extra (fold profile_stage profile_env (core_defaults home_root))"

lemma fold_profile_stage:
  "distinct (map fst kvs) \<Longrightarrow>
     fold profile_stage kvs env k =
       (if k \<in> set PROTECTED then env k
        else (case map_of kvs k of Some v \<Rightarrow> Some v | None \<Rightarrow> env k))"
proof (induction kvs arbitrary: env)
  case (Cons a kvs)
  obtain k' v where a: "a = (k', v)" by (cases a)
  have "map_of kvs k' = None" using Cons.prems a by (simp add: map_of_eq_None_iff)
  then show ?case using Cons a
    by (auto simp: profile_stage_def split: option.splits)
qed simp

lemma fold_extra_stage:
  "fold extra_stage kvs env k =
     (if k \<in> set PROTECTED then env k
      else (case env k of Some v \<Rightarrow> Some v | None \<Rightarrow> map_of kvs k))"
proof (induction kvs arbitrary: env)
  case (Cons a kvs)
  obtain k' v where a: "a = (k', v)" by (cases a)
  show ?case using Cons a
    by (auto simp: extra_stage_def split: option.splits)
qed (simp split: option.splits)

text \<open>
  The environment of a job, name by name: HOME and TMPDIR always point into the writable
  workspace whatever the profile and the request ask for; any other name takes the profile's
  value, else the built-in default (PATH, LANG), else the request's value, so a request can
  only add names; nothing of the runner's own environment is present. In particular the
  result does not depend on the order in which the maps are iterated.
\<close>

theorem sanitized_env_pointwise:
  assumes "distinct (map fst profile_env)"
  shows "build_sanitized_env job_id home_root profile_env extra k =
    (if k = ''HOME'' then Some (utf8_lossy home_root)
     else if k = ''TMPDIR'' then Some (utf8_lossy (path_join home_root ''tmp''))
     else case map_of profile_env k of
            Some v \<Rightarrow> Some v
          | None \<Rightarrow> if k = ''PATH'' then Some ''/usr/bin:/bin''
                    else if k = ''LANG'' then Some ''C.UTF-8''
                    else map_of extra k)"
  using assms
  by (auto simp: build_sanitized_env_def fold_extra_stage fold_profile_stage core_defaults_def
      PROTECTED_def split: option.splits)

theorem sanitized_env_pointwise_witness:
  "build_sanitized_env ''j'' ''/w/j/workspace'' [(''PATH'', ''/opt/bin''), (''HOME'', ''/root'')]
     [(''PATH'', ''/evil''), (''A'', ''1'')] ''PATH'' = Some ''/opt/bin''
   \<and> build_sanitized_env ''j'' ''/w/j/workspace'' [(''PATH'', ''/opt/bin''), (''HOME'', ''/root'')]
     [(''PATH'', ''/evil''), (''A'', ''1'')] ''HOME'' = Some ''/w/j/workspace''"
  by (simp add: sanitized_env_pointwise)

section \<open>File descriptors\<close>

definition MAX_SCAN :: nat where
  "MAX_SCAN = 4096"

text \<open>
  \<open>get_max_fd\<close>: the soft limit of RLIMIT\_NOFILE when \<open>getrlimit\<close> succeeds, at most 4096.
  A \<open>RawFd\<close> is a 32-bit signed integer; \<open>as usize\<close> extends the sign.
\<close>

definition get_max_fd :: "u64 option \<Rightarrow> nat" where
  "get_max_fd rlim_cur = (case rlim_cur of Some c \<Rightarrow> min (unat c) 4096 | None \<Rightarrow> 1024)"

definition fd_as_usize :: "32 word \<Rightarrow> nat" where
  "fd_as_usize fd = unat (scast fd :: 64 word)"

definition mark_kept :: "32 word \<Rightarrow> bool list \<Rightarrow> bool list" where
  "mark_kept fd keep = (if fd_as_usize fd < MAX_SCAN then keep[fd_as_usize fd := True] else keep)"

definition keep_table :: "32 word list \<Rightarrow> bool list" where
  "keep_table keep_fds =
     fold mark_kept keep_fds ((replicate MAX_SCAN False)[0 := True, 1 := True, 2 := True])"

text \<open>The descriptors that \<open>close\<close> is called on, and what stays open.\<close>

definition closed_fds :: "u64 option \<Rightarrow> 32 word list \<Rightarrow> nat list" where
  "closed_fds rlim_cur keep_fds =
     (let limit = min (get_max_fd rlim_cur) MAX_SCAN
      in map fst (filter (\<lambda>(fd, should_keep). \<not> should_keep)
           (take (limit - 3) (drop 3 (enumerate 0 (keep_table keep_fds))))))"

definition close_unneeded_fds :: "u64 option \<Rightarrow> 32 word list \<Rightarrow> nat set \<Rightarrow> nat set" where
  "close_unneeded_fds rlim_cur keep_fds open_fds = open_fds - set (closed_fds rlim_cur keep_fds)"

lemma length_mark_kept [simp]: "length (mark_kept fd keep) = length keep"
  by (simp add: mark_kept_def)

lemma length_fold_mark_kept [simp]: "length (fold mark_kept fds keep) = length keep"
  by (induction fds arbitrary: keep) auto

lemma fold_mark_kept_nth:
  "length keep = MAX_SCAN \<Longrightarrow> i < MAX_SCAN \<Longrightarrow>
     fold mark_kept fds keep ! i \<longleftrightarrow> keep ! i \<or> i \<in> fd_as_usize ` set fds"
  by (induction fds arbitrary: keep) (auto simp: mark_kept_def nth_list_update)

lemma keep_table_nth:
  "i < MAX_SCAN \<Longrightarrow> keep_table fds ! i \<longleftrightarrow> i < 3 \<or> i \<in> fd_as_usize ` set fds"
  by (auto simp: keep_table_def fold_mark_kept_nth nth_list_update MAX_SCAN_def)

lemma length_keep_table [simp]: "length (keep_table fds) = MAX_SCAN"
  by (simp add: keep_table_def)

lemma set_closed_fds:
  "set (closed_fds rlim_cur fds) =
     {fd. 3 \<le> fd \<and> fd < get_max_fd rlim_cur \<and> fd \<notin> fd_as_usize ` set fds}"
proof -
  let ?limit = "min (get_max_fd rlim_cur) MAX_SCAN"
  have le: "get_max_fd rlim_cur \<le> MAX_SCAN"
    by (auto simp: get_max_fd_def MAX_SCAN_def split: option.splits)
  then show ?thesis
    by (auto simp: closed_fds_def Let_def set_enumerate_window keep_table_nth
        simp del: set_map set_filter)
qed

text \<open>
  Exactly which descriptors survive: the standard streams, the ones asked for, and every
  descriptor at or above the limit that was read from RLIMIT\_NOFILE (at most 4096). The limit
  is the one in force when the function runs, so a descriptor that was opened before the limit
  was lowered stays open.
\<close>

theorem close_unneeded_fds_exact:
  "fd \<in> close_unneeded_fds rlim_cur keep_fds open_fds \<longleftrightarrow>
     fd \<in> open_fds \<and>
     (fd < 3 \<or> fd \<in> fd_as_usize ` set keep_fds \<or> get_max_fd rlim_cur \<le> fd)"
  by (auto simp: close_unneeded_fds_def set_closed_fds)

end
