(* ===== verification/Rlimit.thy ===== *)
theory Rlimit
  imports Errors
begin

text \<open>
  The resource limits of a job, \<open>sandbox-core/src/rlimit.rs\<close>. The kernel's answer to
  \<open>setrlimit\<close> is a parameter: \<open>krn ls r v\<close> is the error it reports for the value \<open>v\<close> of
  resource \<open>r\<close> when the limits are \<open>ls\<close>, or \<open>None\<close> when it sets them.
\<close>

record RlimitConfig =
  cpu_seconds :: "u64 option"
  nofile :: "u64 option"
  nproc :: "u64 option"
  fsize_bytes :: "u64 option"
  core :: "u64 option"
  stack_bytes :: "u64 option"
  memlock :: "u64 option"
  address_space_bytes :: "u64 option"

definition rlimit_new :: RlimitConfig where
  "rlimit_new = \<lparr>cpu_seconds = None, nofile = None, nproc = None, fsize_bytes = None,
     core = None, stack_bytes = None, memlock = None, address_space_bytes = None\<rparr>"

definition with_cpu_seconds :: "u64 \<Rightarrow> RlimitConfig \<Rightarrow> RlimitConfig" where
  "with_cpu_seconds secs c = c\<lparr>cpu_seconds := Some secs\<rparr>"

definition with_nofile :: "u64 \<Rightarrow> RlimitConfig \<Rightarrow> RlimitConfig" where
  "with_nofile limit c = c\<lparr>nofile := Some limit\<rparr>"

definition with_nproc :: "u64 \<Rightarrow> RlimitConfig \<Rightarrow> RlimitConfig" where
  "with_nproc limit c = c\<lparr>nproc := Some limit\<rparr>"

definition with_fsize_mb :: "u64 \<Rightarrow> RlimitConfig \<Rightarrow> RlimitConfig" where
  "with_fsize_mb mb c = c\<lparr>fsize_bytes := Some (mb * 1024 * 1024)\<rparr>"

definition core_disabled :: "RlimitConfig \<Rightarrow> RlimitConfig" where
  "core_disabled c = c\<lparr>core := Some 0\<rparr>"

definition core_disabled_with :: "u64 \<Rightarrow> RlimitConfig \<Rightarrow> RlimitConfig" where
  "core_disabled_with v c = c\<lparr>core := Some v\<rparr>"

definition with_stack_mb :: "u64 \<Rightarrow> RlimitConfig \<Rightarrow> RlimitConfig" where
  "with_stack_mb mb c = c\<lparr>stack_bytes := Some (mb * 1024 * 1024)\<rparr>"

definition memlock_disabled :: "RlimitConfig \<Rightarrow> RlimitConfig" where
  "memlock_disabled c = c\<lparr>memlock := Some 0\<rparr>"

definition memlock_with :: "u64 \<Rightarrow> RlimitConfig \<Rightarrow> RlimitConfig" where
  "memlock_with v c = c\<lparr>memlock := Some v\<rparr>"

definition with_address_space_gb :: "u64 \<Rightarrow> RlimitConfig \<Rightarrow> RlimitConfig" where
  "with_address_space_gb gb c = c\<lparr>address_space_bytes := Some (gb * 1024 * 1024 * 1024)\<rparr>"

section \<open>Applying the limits\<close>

datatype Resource = RLIMIT_CPU | RLIMIT_FSIZE | RLIMIT_NOFILE | RLIMIT_NPROC | RLIMIT_CORE
  | RLIMIT_STACK | RLIMIT_MEMLOCK | RLIMIT_AS

text \<open>The limits in force: soft and hard value of every resource.\<close>

type_synonym limits = "Resource \<Rightarrow> u64 \<times> u64"
type_synonym kernel_rlimit = "limits \<Rightarrow> Resource \<Rightarrow> u64 \<Rightarrow> int option"

definition try_setrlimit ::
    "kernel_rlimit \<Rightarrow> Resource \<Rightarrow> u64 option \<Rightarrow> (limits, CoreError, unit) st" where
  "try_setrlimit krn r v ls =
     (case v of
        None \<Rightarrow> (Inr (), ls)
      | Some x \<Rightarrow> (case krn ls r x of
                      Some e \<Rightarrow> (Inl (SyscallErr e), ls)
                    | None \<Rightarrow> (Inr (), ls(r := (x, x)))))"

definition rlimit_apply :: "kernel_rlimit \<Rightarrow> RlimitConfig \<Rightarrow> (limits, CoreError, unit) st" where
  "rlimit_apply krn c =
     st_bind (try_setrlimit krn RLIMIT_CPU (cpu_seconds c)) (\<lambda>_.
     st_bind (try_setrlimit krn RLIMIT_FSIZE (fsize_bytes c)) (\<lambda>_.
     st_bind (try_setrlimit krn RLIMIT_NOFILE (nofile c)) (\<lambda>_.
     st_bind (try_setrlimit krn RLIMIT_NPROC (nproc c)) (\<lambda>_.
     st_bind (try_setrlimit krn RLIMIT_CORE (core c)) (\<lambda>_.
     st_bind (try_setrlimit krn RLIMIT_STACK (stack_bytes c)) (\<lambda>_.
     st_bind (try_setrlimit krn RLIMIT_MEMLOCK (memlock c)) (\<lambda>_.
     st_bind (try_setrlimit krn RLIMIT_AS (address_space_bytes c)) st_ret)))))))"

definition shell_default :: RlimitConfig where
  "shell_default =
     memlock_disabled (with_stack_mb 8 (core_disabled (with_fsize_mb 10 (with_nproc 32
       (with_nofile 64 (with_cpu_seconds 2 rlimit_new))))))"

definition python_default :: RlimitConfig where
  "python_default =
     memlock_disabled (with_stack_mb 8 (core_disabled (with_fsize_mb 10 (with_nproc 32
       (with_nofile 64 (with_cpu_seconds 2 rlimit_new))))))"

definition node_default :: RlimitConfig where
  "node_default =
     memlock_disabled (with_stack_mb 8 (core_disabled (with_fsize_mb 10 (with_nproc 32
       (with_nofile 64 (with_cpu_seconds 2 rlimit_new))))))"

text \<open>What a configuration asks of each resource, in the order of the calls.\<close>

fun configured :: "RlimitConfig \<Rightarrow> Resource \<Rightarrow> u64 option" where
  "configured c RLIMIT_CPU = cpu_seconds c"
| "configured c RLIMIT_FSIZE = fsize_bytes c"
| "configured c RLIMIT_NOFILE = nofile c"
| "configured c RLIMIT_NPROC = nproc c"
| "configured c RLIMIT_CORE = core c"
| "configured c RLIMIT_STACK = stack_bytes c"
| "configured c RLIMIT_MEMLOCK = memlock c"
| "configured c RLIMIT_AS = address_space_bytes c"

definition call_order :: "Resource list" where
  "call_order = [RLIMIT_CPU, RLIMIT_FSIZE, RLIMIT_NOFILE, RLIMIT_NPROC, RLIMIT_CORE,
     RLIMIT_STACK, RLIMIT_MEMLOCK, RLIMIT_AS]"

fun set_all :: "kernel_rlimit \<Rightarrow> RlimitConfig \<Rightarrow> Resource list \<Rightarrow> (limits, CoreError, unit) st" where
  "set_all krn c [] = st_ret ()"
| "set_all krn c (r # rs) = st_bind (try_setrlimit krn r (configured c r)) (\<lambda>_. set_all krn c rs)"

lemma rlimit_apply_set_all: "rlimit_apply krn c ls = set_all krn c call_order ls"
  by (simp add: rlimit_apply_def call_order_def st_bind_def)

lemma set_all_limits:
  "distinct rs \<Longrightarrow> set_all krn c rs ls = (Inr (), ls') \<Longrightarrow>
     ls' r = (if r \<in> set rs then (case configured c r of Some v \<Rightarrow> (v, v) | None \<Rightarrow> ls r) else ls r)"
proof (induction rs arbitrary: ls)
  case (Cons r' rs)
  from Cons.prems obtain ls1 where
    1: "try_setrlimit krn r' (configured c r') ls = (Inr (), ls1)" "set_all krn c rs ls1 = (Inr (), ls')"
    by (auto simp: st_bind_def split: prod.splits sum.splits)
  have "ls1 r = (if r = r' then (case configured c r of Some v \<Rightarrow> (v, v) | None \<Rightarrow> ls r) else ls r)"
    using 1(1) by (auto simp: try_setrlimit_def split: option.splits)
  then show ?case
    using Cons.IH [OF _ 1(2)] Cons.prems(1) by (auto split: option.splits)
qed simp

lemma set_all_prefix:
  "set_all krn c rs ls = (Inl e, ls') \<Longrightarrow>
     \<exists>ps r qs. rs = ps @ r # qs \<and> set_all krn c ps ls = (Inr (), ls') \<and>
       (\<exists>v n. configured c r = Some v \<and> krn ls' r v = Some n \<and> e = SyscallErr n)"
proof (induction rs arbitrary: ls)
  case (Cons r rs)
  show ?case
  proof (cases "try_setrlimit krn r (configured c r) ls")
    case (Pair x ls1)
    show ?thesis
    proof (cases x)
      case (Inl e')
      then have "e' = e" "ls1 = ls'" using Cons.prems Pair by (auto simp: st_bind_def)
      then have "ls1 = ls \<and> (\<exists>v n. configured c r = Some v \<and> krn ls r v = Some n \<and> e = SyscallErr n)"
        using Pair Inl by (auto simp: try_setrlimit_def split: option.splits)
      then show ?thesis using \<open>ls1 = ls'\<close> by (intro exI [of _ "[]"] exI [of _ r] exI [of _ rs]) auto
    next
      case (Inr u)
      then have "set_all krn c rs ls1 = (Inl e, ls')" using Cons.prems Pair by (simp add: st_bind_def)
      from Cons.IH [OF this] obtain ps r' qs where
        ps: "rs = ps @ r' # qs" "set_all krn c ps ls1 = (Inr (), ls')"
        "\<exists>v n. configured c r' = Some v \<and> krn ls' r' v = Some n \<and> e = SyscallErr n" by blast
      then show ?thesis using Pair Inr
        by (intro exI [of _ "r # ps"] exI [of _ r'] exI [of _ qs]) (auto simp: st_bind_def)
    qed
  qed
qed simp

lemma rlimit_apply_limits:
  assumes "rlimit_apply krn c ls = (Inr u, ls')"
  shows "ls' r = (case configured c r of Some v \<Rightarrow> (v, v) | None \<Rightarrow> ls r)"
proof -
  have "distinct call_order" "r \<in> set call_order"
    by (simp_all add: call_order_def) (cases r; simp)
  then show ?thesis
    using set_all_limits [of call_order krn c ls ls' r] assms by (simp add: rlimit_apply_set_all)
qed

text \<open>
  When the limits were applied, every configured resource has exactly its configured value
  as soft and hard limit and every other resource is untouched; so a limit can no longer be
  raised. The built-in profiles (same values for shell, Python and Node) limit seven resources
  and leave the address space alone.
\<close>

theorem rlimit_apply_exact:
  assumes "rlimit_apply krn c ls = (Inr u, ls')"
  shows "ls' r = (case configured c r of Some v \<Rightarrow> (v, v) | None \<Rightarrow> ls r)"
  by (rule rlimit_apply_limits [OF assms])

theorem rlimit_apply_exact_witness:
  "snd (rlimit_apply (\<lambda>ls r v. if v \<le> snd (ls r) then None else Some 1) shell_default
      (\<lambda>_. (1000000000, 1000000000))) RLIMIT_NOFILE = (64, 64)"
proof -
  let ?k = "\<lambda>ls r v. if v \<le> snd (ls r :: u64 \<times> u64) then None else Some (1 :: int)"
  have "fst (rlimit_apply ?k shell_default (\<lambda>_. (1000000000, 1000000000))) = Inr ()"
    by (simp add: rlimit_apply_def shell_default_def memlock_disabled_def with_stack_mb_def
        core_disabled_def with_fsize_mb_def with_nproc_def with_nofile_def with_cpu_seconds_def
        rlimit_new_def st_bind_def try_setrlimit_def)
  then obtain ls' where "rlimit_apply ?k shell_default (\<lambda>_. (1000000000, 1000000000)) = (Inr (), ls')"
    by (metis prod.collapse)
  from this rlimit_apply_exact [OF this, of RLIMIT_NOFILE] show ?thesis
    by (simp add: shell_default_def memlock_disabled_def with_stack_mb_def core_disabled_def
        with_fsize_mb_def with_nproc_def with_nofile_def)
qed

end
