(* ===== verification/FsModel.thy ===== *)
theory FsModel
  imports Errors "HOL-Library.AList"
begin

text \<open>
  The file system that the workspace, session and snapshot code works on: a tree of files,
  symbolic links and directories, and the calls of \<open>std::fs\<close> that the program makes. Paths are
  resolved component by component as the kernel does, following symbolic links (at most 40);
  relative paths start at the root. The tree is healthy: a call fails only for a reason that
  the tree itself gives (a missing entry, a wrong kind, a loop of links).
\<close>

datatype node = FFile string | FLink string | FDir "(string \<times> node) list"

type_synonym path = "string list"
type_synonym 'a fs = "(node, io_error, 'a) st"

abbreviation ENOENT :: io_error where "ENOENT \<equiv> OsError 2"
abbreviation EEXIST :: io_error where "EEXIST \<equiv> OsError 17"
abbreviation ENOTDIR :: io_error where "ENOTDIR \<equiv> OsError 20"
abbreviation EISDIR :: io_error where "EISDIR \<equiv> OsError 21"
abbreviation EINVAL :: io_error where "EINVAL \<equiv> OsError 22"
abbreviation EBUSY :: io_error where "EBUSY \<equiv> OsError 16"
abbreviation ELOOP :: io_error where "ELOOP \<equiv> OsError 40"

definition is_dir_node :: "node \<Rightarrow> bool" where
  "is_dir_node n = (case n of FDir _ \<Rightarrow> True | _ \<Rightarrow> False)"

definition is_link_node :: "node \<Rightarrow> bool" where
  "is_link_node n = (case n of FLink _ \<Rightarrow> True | _ \<Rightarrow> False)"

section \<open>The tree\<close>

fun lookup :: "node \<Rightarrow> path \<Rightarrow> node option" where
  "lookup n [] = Some n"
| "lookup (FDir es) (c # cs) = (case map_of es c of None \<Rightarrow> None | Some m \<Rightarrow> lookup m cs)"
| "lookup (FFile _) (c # cs) = None"
| "lookup (FLink _) (c # cs) = None"

fun put :: "node \<Rightarrow> path \<Rightarrow> node \<Rightarrow> node" where
  "put n [] m = m"
| "put (FDir es) (c # cs) m =
     (if cs = [] then FDir (AList.update c m es)
      else case map_of es c of None \<Rightarrow> FDir es | Some k \<Rightarrow> FDir (AList.update c (put k cs m) es))"
| "put (FFile d) (c # cs) m = FFile d"
| "put (FLink d) (c # cs) m = FLink d"

fun del :: "node \<Rightarrow> path \<Rightarrow> node" where
  "del n [] = n"
| "del (FDir es) (c # cs) =
     (if cs = [] then FDir (AList.delete c es)
      else case map_of es c of None \<Rightarrow> FDir es | Some k \<Rightarrow> FDir (AList.update c (del k cs) es))"
| "del (FFile d) (c # cs) = FFile d"
| "del (FLink d) (c # cs) = FLink d"

definition dir_at :: "node \<Rightarrow> path \<Rightarrow> bool" where
  "dir_at t p = (case lookup t p of Some n \<Rightarrow> is_dir_node n | None \<Rightarrow> False)"

lemma dir_at_iff: "dir_at t p \<longleftrightarrow> (\<exists>es. lookup t p = Some (FDir es))"
  by (auto simp: dir_at_def is_dir_node_def split: option.splits node.splits)

lemma dir_at_simps [simp]:
  "dir_at n [] = is_dir_node n"
  "dir_at (FDir es) (c # cs) = (case map_of es c of None \<Rightarrow> False | Some k \<Rightarrow> dir_at k cs)"
  "dir_at (FFile d) (c # cs) = False"
  "dir_at (FLink d) (c # cs) = False"
  by (auto simp: dir_at_def split: option.splits)

lemma is_dir_node_simps [simp]:
  "is_dir_node (FDir es)" "\<not> is_dir_node (FFile d)" "\<not> is_dir_node (FLink d)"
  by (simp_all add: is_dir_node_def)

lemma lookup_append:
  "lookup t (p @ q) = (case lookup t p of None \<Rightarrow> None | Some n \<Rightarrow> lookup n q)"
proof (induction t p rule: lookup.induct)
  case (2 es c cs)
  then show ?case by (auto split: option.splits)
qed auto

lemma lookup_snoc_dir:
  "lookup t (p @ [c]) = Some n \<Longrightarrow> dir_at t p"
  by (auto simp: lookup_append dir_at_def is_dir_node_def split: option.splits node.splits)

lemma dir_at_prefix: "dir_at t (p @ q) \<Longrightarrow> dir_at t p"
proof (induction q arbitrary: p)
  case (Cons c q)
  then have "dir_at t ((p @ [c]) @ q)" by simp
  from Cons.IH [OF this] obtain es where "lookup t (p @ [c]) = Some (FDir es)"
    by (auto simp: dir_at_iff)
  then show ?case by (rule lookup_snoc_dir)
qed simp

lemma lookup_put_at:
  "p \<noteq> [] \<Longrightarrow> dir_at t (butlast p) \<Longrightarrow> lookup (put t p m) (p @ q) = lookup m q"
proof (induction t p m rule: put.induct)
  case (2 es c cs m)
  show ?case
  proof (cases "cs = []")
    case False
    then obtain k where "map_of es c = Some k" "dir_at k (butlast cs)"
      using "2.prems" by (auto simp: dir_at_def split: option.splits)
    then show ?thesis using 2 False by (simp add: update_conv')
  qed (simp add: update_conv')
qed (auto simp: dir_at_def is_dir_node_def split: list.splits if_splits)

lemma lookup_put_other:
  "\<not> prefix p q \<Longrightarrow> \<not> prefix q p \<Longrightarrow> lookup (put t p m) q = lookup t q"
proof (induction t p m arbitrary: q rule: put.induct)
  case (2 es c cs m)
  show ?case
  proof (cases q)
    case (Cons d ds)
    then show ?thesis using 2
      by (auto simp: update_conv' split: option.splits)
  qed (use 2 in simp)
qed auto

lemma dir_at_put_above:
  "strict_prefix q p \<Longrightarrow> dir_at (put t p m) q = dir_at t q"
proof (induction t p m arbitrary: q rule: put.induct)
  case (2 es c cs m)
  show ?case
  proof (cases q)
    case Nil
    then show ?thesis by (auto split: option.splits)
  next
    case (Cons d ds)
    then have "c = d" "strict_prefix ds cs" "cs \<noteq> []"
      using "2.prems" by (auto simp: strict_prefix_def)
    then show ?thesis using 2 Cons
      by (auto simp: update_conv' split: option.splits)
  qed
qed (auto simp: strict_prefix_def)

lemma lookup_del_under:
  "p \<noteq> [] \<Longrightarrow> lookup (del t p) (p @ q) = None"
proof (induction t p rule: del.induct)
  case (2 es c cs)
  then show ?case by (auto simp: update_conv' delete_conv' split: option.splits)
qed auto

lemma lookup_del_other:
  "\<not> prefix p q \<Longrightarrow> \<not> prefix q p \<Longrightarrow> lookup (del t p) q = lookup t q"
proof (induction t p arbitrary: q rule: del.induct)
  case (2 es c cs)
  show ?case
  proof (cases q)
    case (Cons d ds)
    then show ?thesis using 2
      by (auto simp: update_conv' delete_conv' split: option.splits)
  qed (use 2 in simp)
qed auto

lemma dir_at_del_above:
  "strict_prefix q p \<Longrightarrow> dir_at (del t p) q = dir_at t q"
proof (induction t p arbitrary: q rule: del.induct)
  case (2 es c cs)
  show ?case
  proof (cases q)
    case Nil
    then show ?thesis by (auto split: option.splits)
  next
    case (Cons d ds)
    then have "c = d" "strict_prefix ds cs" "cs \<noteq> []"
      using "2.prems" by (auto simp: strict_prefix_def)
    then show ?thesis using 2 Cons
      by (auto simp: update_conv' split: option.splits)
  qed
qed (auto simp: strict_prefix_def)

section \<open>Paths\<close>

text \<open>
  The components of a path (\<open>Path::components\<close> without the root), and what the kernel walks: a
  path that ends with a slash or a dot must name a directory.
\<close>

definition comps :: "string \<Rightarrow> path" where
  "comps p = filter (\<lambda>w. w \<noteq> [] \<and> w \<noteq> ''.'') (split_char (CHR ''/'') p)"

definition kcomps :: "string \<Rightarrow> path" where
  "kcomps p = comps p @ (if last (split_char (CHR ''/'') p) \<in> {[], ''.''} then [''.''] else [])"

definition name_ok :: "string \<Rightarrow> bool" where
  "name_ok c = (c \<noteq> [] \<and> c \<noteq> ''.'' \<and> c \<noteq> ''..'' \<and> CHR ''/'' \<notin> set c)"

lemma split_char_append_gen:
  "split_char d (a @ d # b) = split_char d a @ split_char d b"
proof (induction a)
  case (Cons c a)
  then show ?case by (cases "split_char d a") auto
qed simp

lemma comps_append_slash: "comps (a @ CHR ''/'' # b) = comps a @ comps b"
  by (simp add: comps_def split_char_append_gen)

lemma comps_Nil [simp]: "comps [] = []"
  by (simp add: comps_def)

lemma comps_join: "\<not> starts_with ''/'' b \<Longrightarrow> comps (path_join a b) = comps a @ comps b"
proof -
  assume b: "\<not> starts_with ''/'' b"
  show ?thesis
  proof (cases "a = []")
    case False
    show ?thesis
    proof (cases "last a = CHR ''/''")
      case True
      with False obtain a' where a: "a = a' @ ''/''" by (metis append_butlast_last_id)
      then show ?thesis
        using b comps_append_slash [of a' b] comps_append_slash [of a' "[]"] by (simp add: path_join_def)
    next
      case False
      then show ?thesis using b \<open>a \<noteq> []\<close> comps_append_slash [of a b] by (simp add: path_join_def)
    qed
  qed (use b in \<open>simp add: path_join_def\<close>)
qed

lemma comps_name [simp]: "name_ok c \<Longrightarrow> comps c = [c]"
  by (simp add: comps_def name_ok_def split_char_notin)

lemma kcomps_name [simp]: "name_ok c \<Longrightarrow> kcomps c = [c]"
  by (simp add: kcomps_def name_ok_def split_char_notin comps_def)

lemma name_ok_relative: "name_ok c \<Longrightarrow> \<not> starts_with ''/'' c"
  by (auto simp: name_ok_def starts_with_iff)

lemma last_split_append: "last (split_char d (a @ d # b)) = last (split_char d b)"
  by (simp add: split_char_append_gen)

lemma last_split_join:
  "\<not> starts_with ''/'' b \<Longrightarrow> a \<noteq> [] \<Longrightarrow>
     last (split_char (CHR ''/'') (path_join a b)) = last (split_char (CHR ''/'') b)"
proof -
  assume b: "\<not> starts_with ''/'' b" and a: "a \<noteq> []"
  show ?thesis
  proof (cases "last a = CHR ''/''")
    case True
    with a obtain a' where "a = a' @ ''/''" by (metis append_butlast_last_id)
    then show ?thesis using b a last_split_append [of "CHR ''/''" a' b] by (simp add: path_join_def)
  next
    case False
    then show ?thesis using b a last_split_append [of "CHR ''/''" a b] by (simp add: path_join_def)
  qed
qed

lemma kcomps_join_name:
  "name_ok c \<Longrightarrow> a \<noteq> [] \<Longrightarrow> kcomps (path_join a c) = comps a @ [c]"
  by (simp add: kcomps_def last_split_join name_ok_relative comps_join)
     (simp add: name_ok_def split_char_notin)

section \<open>Resolving a path\<close>

text \<open>
  The place in the tree that a path names: all links on the way are followed, the last one if
  \<open>follow\<close>. The last component need not exist.
\<close>

function resolve :: "node \<Rightarrow> bool \<Rightarrow> nat \<Rightarrow> path \<Rightarrow> path \<Rightarrow> io_error + path" where
  "resolve t follow n cur [] = Inr cur"
| "resolve t follow n cur (c # cs) =
     (if \<not> dir_at t cur then Inl ENOTDIR
      else if c = ''.'' then resolve t follow n cur cs
      else if c = ''..'' then resolve t follow n (butlast cur) cs
      else (case lookup t (cur @ [c]) of
              None \<Rightarrow> if cs = [] then Inr (cur @ [c]) else Inl ENOENT
            | Some (FLink target) \<Rightarrow>
                if cs = [] \<and> \<not> follow then Inr (cur @ [c])
                else (case n of
                        0 \<Rightarrow> Inl ELOOP
                      | Suc m \<Rightarrow> resolve t follow m
                                   (if starts_with ''/'' target then [] else cur) (kcomps target @ cs))
            | Some _ \<Rightarrow> resolve t follow n (cur @ [c]) cs))"
  by pat_completeness auto
termination
  by (relation "measures [\<lambda>(t, f, n, cur, cs). n, \<lambda>(t, f, n, cur, cs). length cs]") auto

definition resolve_path :: "node \<Rightarrow> bool \<Rightarrow> path \<Rightarrow> io_error + path" where
  "resolve_path t follow p = resolve t follow 40 [] p"

text \<open>A path whose proper prefixes are directories and whose last entry is no link.\<close>

definition plain :: "node \<Rightarrow> path \<Rightarrow> bool" where
  "plain t p = (list_all name_ok p \<and> (p = [] \<or> dir_at t (butlast p))
     \<and> (case lookup t p of Some n \<Rightarrow> \<not> is_link_node n | None \<Rightarrow> True))"

lemma resolve_plain_aux:
  "list_all name_ok cs \<Longrightarrow> dir_at t cur \<Longrightarrow> (cs = [] \<or> dir_at t (cur @ butlast cs)) \<Longrightarrow>
     (follow \<Longrightarrow> case lookup t (cur @ cs) of Some n \<Rightarrow> \<not> is_link_node n | None \<Rightarrow> True) \<Longrightarrow>
     resolve t follow n cur cs = Inr (cur @ cs)"
proof (induction cs arbitrary: cur)
  case (Cons c cs)
  have c: "c \<noteq> ''.''" "c \<noteq> ''..''" using Cons.prems(1) by (auto simp: name_ok_def)
  show ?case
  proof (cases "cs = []")
    case True
    then show ?thesis using Cons.prems c
      by (auto simp: is_link_node_def split: option.splits node.splits)
  next
    case False
    then have d: "dir_at t ((cur @ [c]) @ butlast cs)" using Cons.prems by simp
    then have "dir_at t (cur @ [c])" by (rule dir_at_prefix)
    moreover from this obtain es where "lookup t (cur @ [c]) = Some (FDir es)"
      by (auto simp: dir_at_iff)
    ultimately show ?thesis
      using Cons.IH [of "cur @ [c]"] Cons.prems c d by auto
  qed
qed simp

lemma resolve_plain: "dir_at t [] \<Longrightarrow> plain t p \<Longrightarrow> resolve_path t follow p = Inr p"
  unfolding resolve_path_def
  using resolve_plain_aux [of p t "[]" follow 40] by (auto simp: plain_def)

lemma resolve_plain_nofollow:
  "dir_at t [] \<Longrightarrow> list_all name_ok p \<Longrightarrow> p = [] \<or> dir_at t (butlast p) \<Longrightarrow>
     resolve_path t False p = Inr p"
  unfolding resolve_path_def using resolve_plain_aux [of p t "[]" False 40] by auto

lemma dir_at_plain: "dir_at t p \<Longrightarrow> list_all name_ok p \<Longrightarrow> plain t p"
proof -
  assume d: "dir_at t p" and n: "list_all name_ok p"
  have "dir_at t (butlast p)" if "p \<noteq> []"
    using dir_at_prefix [of t "butlast p" "[last p]"] d that by simp
  then show ?thesis
    using d n by (auto simp: plain_def dir_at_iff is_link_node_def split: option.splits)
qed

section \<open>The calls of \<open>std::fs\<close>\<close>

definition stat :: "bool \<Rightarrow> string \<Rightarrow> node \<Rightarrow> io_error + node" where
  "stat follow p t =
     res_bind (resolve_path t follow (kcomps p)) (\<lambda>q.
     case lookup t q of None \<Rightarrow> Inl ENOENT | Some n \<Rightarrow> Inr n)"

definition path_exists :: "string \<Rightarrow> node \<Rightarrow> bool" where
  "path_exists p t = is_ok (stat True p t)"

definition is_dir_path :: "string \<Rightarrow> node \<Rightarrow> bool" where
  "is_dir_path p t = (case stat True p t of Inr n \<Rightarrow> is_dir_node n | Inl _ \<Rightarrow> False)"

definition read_dir :: "string \<Rightarrow> node \<Rightarrow> io_error + (string \<times> node) list" where
  "read_dir p t =
     res_bind (stat True p t) (\<lambda>n.
     case n of FDir es \<Rightarrow> Inr es | _ \<Rightarrow> Inl ENOTDIR)"

definition fs_read :: "string \<Rightarrow> node \<Rightarrow> io_error + string" where
  "fs_read p t =
     res_bind (stat True p t) (\<lambda>n.
     case n of FFile d \<Rightarrow> Inr d | _ \<Rightarrow> Inl EISDIR)"

definition fs_write :: "string \<Rightarrow> string \<Rightarrow> unit fs" where
  "fs_write p data t =
     (case resolve_path t True (kcomps p) of
        Inl e \<Rightarrow> (Inl e, t)
      | Inr q \<Rightarrow> (case lookup t q of
                     Some (FDir _) \<Rightarrow> (Inl EISDIR, t)
                   | _ \<Rightarrow> (Inr (), put t q (FFile data))))"

definition mkdir :: "path \<Rightarrow> unit fs" where
  "mkdir cs t =
     (case resolve_path t False cs of
        Inl e \<Rightarrow> (Inl e, t)
      | Inr q \<Rightarrow> (case lookup t q of
                     Some _ \<Rightarrow> (Inl EEXIST, t)
                   | None \<Rightarrow> (Inr (), put t q (FDir []))))"

text \<open>\<open>Path::is_dir\<close> on components; \<open>create_dir_all\<close> as the standard library does it.\<close>

definition is_dir_comps :: "path \<Rightarrow> node \<Rightarrow> bool" where
  "is_dir_comps cs t = (case resolve_path t True cs of Inr q \<Rightarrow> dir_at t q | Inl _ \<Rightarrow> False)"

definition mkdir_or_dir :: "path \<Rightarrow> unit fs" where
  "mkdir_or_dir cs t =
     (case mkdir cs t of
        (Inr u, t') \<Rightarrow> (Inr u, t')
      | (Inl e, t') \<Rightarrow> if is_dir_comps cs t' then (Inr (), t') else (Inl e, t'))"

function create_dir_comps :: "path \<Rightarrow> unit fs" where
  "create_dir_comps cs t =
     (if cs = [] then (Inr (), t)
      else (case mkdir cs t of
              (Inr u, t') \<Rightarrow> (Inr u, t')
            | (Inl e, t') \<Rightarrow>
                if e \<noteq> ENOENT then (if is_dir_comps cs t' then (Inr (), t') else (Inl e, t'))
                else st_bind (create_dir_comps (butlast cs)) (\<lambda>_. mkdir_or_dir cs) t'))"
  by pat_completeness auto
termination
  by (relation "measure (\<lambda>(cs, t). length cs)") auto

declare create_dir_comps.simps [simp del]

definition create_dir_all :: "string \<Rightarrow> unit fs" where
  "create_dir_all p = create_dir_comps (comps p)"

definition remove_file :: "string \<Rightarrow> unit fs" where
  "remove_file p t =
     (case resolve_path t False (kcomps p) of
        Inl e \<Rightarrow> (Inl e, t)
      | Inr q \<Rightarrow> (case lookup t q of
                     None \<Rightarrow> (Inl ENOENT, t)
                   | Some (FDir _) \<Rightarrow> (Inl EISDIR, t)
                   | Some _ \<Rightarrow> (Inr (), del t q)))"

text \<open>\<open>remove_dir_all\<close>: a link is removed itself, not what it points to.\<close>

definition remove_dir_all :: "string \<Rightarrow> unit fs" where
  "remove_dir_all p t =
     (case resolve_path t False (comps p) of
        Inl e \<Rightarrow> (Inl e, t)
      | Inr q \<Rightarrow> (case lookup t q of
                     None \<Rightarrow> (Inl ENOENT, t)
                   | Some (FFile _) \<Rightarrow> (Inl ENOTDIR, t)
                   | Some (FLink _) \<Rightarrow> (Inr (), del t q)
                   | Some (FDir _) \<Rightarrow> if q = [] then (Inl EBUSY, t) else (Inr (), del t q)))"

definition fs_symlink :: "string \<Rightarrow> string \<Rightarrow> unit fs" where
  "fs_symlink target p t =
     (case resolve_path t False (kcomps p) of
        Inl e \<Rightarrow> (Inl e, t)
      | Inr q \<Rightarrow> (case lookup t q of
                     Some _ \<Rightarrow> (Inl EEXIST, t)
                   | None \<Rightarrow> (Inr (), put t q (FLink target))))"

definition fs_copy :: "string \<Rightarrow> string \<Rightarrow> unit fs" where
  "fs_copy src dst t =
     (case stat True src t of
        Inl e \<Rightarrow> (Inl e, t)
      | Inr (FFile d) \<Rightarrow> fs_write dst d t
      | Inr _ \<Rightarrow> (Inl EINVAL, t))"

end
