(* ===== verification/FsLemmas.thy ===== *)
theory FsLemmas
  imports FsModel
begin

text \<open>
  What the calls of the file system do on link-free paths: the effect of each at its own path,
  and that every unrelated path keeps what it had.
\<close>

section \<open>Well-formed trees\<close>

text \<open>The entries of every directory have distinct and proper names.\<close>

fun tree_ok :: "node \<Rightarrow> bool" where
  "tree_ok (FFile d) = True"
| "tree_ok (FLink l) = True"
| "tree_ok (FDir es) = (distinct (map fst es) \<and> (\<forall>e\<in>set es. name_ok (fst e) \<and> tree_ok (snd e)))"

lemma tree_ok_map_of: "tree_ok (FDir es) \<Longrightarrow> map_of es c = Some k \<Longrightarrow> tree_ok k \<and> name_ok c"
  by (auto dest: map_of_SomeD)

lemma set_alist_update: "x \<in> set (AList.update c k es) \<Longrightarrow> x = (c, k) \<or> x \<in> set es"
  by (induction es) (auto split: if_splits)

lemma tree_ok_update:
  "tree_ok (FDir es) \<Longrightarrow> name_ok c \<Longrightarrow> tree_ok k \<Longrightarrow> tree_ok (FDir (AList.update c k es))"
  by (auto simp: distinct_update dest!: set_alist_update)

lemma tree_ok_put:
  "tree_ok t \<Longrightarrow> tree_ok m \<Longrightarrow> list_all name_ok p \<Longrightarrow> tree_ok (put t p m)"
proof (induction t p m rule: put.induct)
  case (2 es c cs m)
  then show ?case
    by (auto split: option.splits intro!: tree_ok_update simp del: tree_ok.simps(3)
        dest: tree_ok_map_of)
qed auto

lemma tree_ok_lookup: "tree_ok t \<Longrightarrow> lookup t p = Some n \<Longrightarrow> tree_ok n"
proof (induction t p rule: lookup.induct)
  case (2 es c cs)
  then show ?case by (auto split: option.splits simp del: tree_ok.simps(3) dest: tree_ok_map_of)
qed auto

lemma lookup_entry:
  "tree_ok t \<Longrightarrow> lookup t p = Some (FDir es) \<Longrightarrow> (c, k) \<in> set es \<Longrightarrow> lookup t (p @ [c]) = Some k"
  using tree_ok_lookup [of t p "FDir es"] by (simp add: lookup_append)

lemma tree_ok_names: "tree_ok t \<Longrightarrow> lookup t p \<noteq> None \<Longrightarrow> list_all name_ok p"
proof (induction t p rule: lookup.induct)
  case (2 es c cs)
  then show ?case by (auto split: option.splits simp del: tree_ok.simps(3) dest: tree_ok_map_of)
qed auto

section \<open>Creating directories\<close>

definition free_dir :: "node \<Rightarrow> path \<Rightarrow> bool" where
  "free_dir t p = (list_all name_ok p \<and> (\<forall>q. prefix q p \<longrightarrow> lookup t q = None \<or> dir_at t q))"

lemma dir_at_lookup: "dir_at t p \<Longrightarrow> lookup t p \<noteq> None"
  by (auto simp: dir_at_iff)

lemma free_dir_prefix: "free_dir t (p @ q) \<Longrightarrow> free_dir t p"
  unfolding free_dir_def by (metis list_all_append prefix_append prefix_order.trans prefixI)

lemma lookup_None_append: "lookup t p = None \<Longrightarrow> lookup t (p @ q) = None"
  by (simp add: lookup_append)

lemma resolve_missing:
  "list_all name_ok cs \<Longrightarrow> dir_at t cur \<Longrightarrow> cs \<noteq> [] \<Longrightarrow> lookup t (cur @ butlast cs) = None \<Longrightarrow>
     (\<And>q. prefix q cs \<Longrightarrow> lookup t (cur @ q) = None \<or> dir_at t (cur @ q)) \<Longrightarrow>
     resolve t follow n cur cs = Inl ENOENT"
proof (induction cs arbitrary: cur)
  case (Cons c cs)
  have c: "c \<noteq> ''.''" "c \<noteq> ''..''" using Cons.prems(1) by (auto simp: name_ok_def)
  have ne: "cs \<noteq> []" using Cons.prems by (auto dest: dir_at_lookup)
  show ?case
  proof (cases "lookup t (cur @ [c])")
    case None
    then show ?thesis using c ne Cons.prems by simp
  next
    case (Some m)
    have d: "dir_at t (cur @ [c])" using Cons.prems(5) [of "[c]"] Some by simp
    then obtain es where m: "m = FDir es" using Some by (auto simp: dir_at_iff)
    have "resolve t follow n (cur @ [c]) cs = Inl ENOENT"
    proof (rule Cons.IH)
      show "lookup t ((cur @ [c]) @ butlast cs) = None" using Cons.prems(4) ne by simp
      show "lookup t ((cur @ [c]) @ q) = None \<or> dir_at t ((cur @ [c]) @ q)" if "prefix q cs" for q
        using Cons.prems(5) [of "c # q"] that by simp
    qed (use Cons.prems d ne in simp_all)
    then show ?thesis using c Some m Cons.prems(2) by simp
  qed
qed simp

lemma mkdir_present: "dir_at t [] \<Longrightarrow> dir_at t p \<Longrightarrow> list_all name_ok p \<Longrightarrow> mkdir p t = (Inl EEXIST, t)"
  using resolve_plain [OF _ dir_at_plain, of t p False]
  by (auto simp: mkdir_def dir_at_iff)

lemma mkdir_fresh:
  "dir_at t [] \<Longrightarrow> list_all name_ok p \<Longrightarrow> p \<noteq> [] \<Longrightarrow> dir_at t (butlast p) \<Longrightarrow> lookup t p = None \<Longrightarrow>
     mkdir p t = (Inr (), put t p (FDir []))"
  by (simp add: mkdir_def resolve_plain_nofollow)

lemma is_dir_comps_plain: "dir_at t [] \<Longrightarrow> dir_at t p \<Longrightarrow> list_all name_ok p \<Longrightarrow> is_dir_comps p t"
  by (simp add: is_dir_comps_def resolve_plain dir_at_plain)

text \<open>
  \<open>create_dir_all\<close> where nothing is in the way: the directory is there afterwards, with what it
  had before, and nothing outside the created chain has changed.
\<close>

definition dir_created :: "node \<Rightarrow> path \<Rightarrow> node \<Rightarrow> bool" where
  "dir_created t p t' = (dir_at t' p
     \<and> (lookup t p = None \<longrightarrow> lookup t' p = Some (FDir []))
     \<and> (lookup t p \<noteq> None \<longrightarrow> t' = t)
     \<and> (\<forall>q. \<not> prefix q p \<longrightarrow> lookup t' q = lookup t q)
     \<and> (\<forall>q. dir_at t q \<longrightarrow> dir_at t' q)
     \<and> (tree_ok t \<longrightarrow> tree_ok t'))"

lemma put_fresh_dir:
  assumes "p \<noteq> []" "dir_at t (butlast p)" "lookup t p = None" "list_all name_ok p"
  shows "dir_created t p (put t p (FDir []))"
proof -
  let ?t = "put t p (FDir [])"
  have at: "lookup ?t (p @ q) = lookup (FDir []) q" for q
    by (rule lookup_put_at) fact+
  have "lookup ?t q = lookup t q" if q: "\<not> prefix q p" for q
  proof (cases "prefix p q")
    case True
    then obtain r where "q = p @ r" "r \<noteq> []" using q by (auto simp: prefix_def)
    then show ?thesis using at [of r] assms(3) by (cases r) (simp_all add: lookup_None_append)
  qed (use q in \<open>simp add: lookup_put_other\<close>)
  moreover have "dir_at ?t q" if d: "dir_at t q" for q
  proof (cases "prefix q p")
    case True
    then have "strict_prefix q p" using d assms(3) by (auto simp: dir_at_iff strict_prefix_def)
    then show ?thesis using d by (simp add: dir_at_put_above)
  next
    case False
    then show ?thesis using d calculation by (simp add: dir_at_def)
  qed
  ultimately show ?thesis
    using at [of "[]"] assms(3,4) by (simp add: dir_created_def dir_at_def tree_ok_put)
qed

lemma dir_created_refl: "dir_at t p \<Longrightarrow> dir_created t p t"
  by (auto simp: dir_created_def dir_at_iff)

lemma create_dir_comps_free:
  "dir_at t [] \<Longrightarrow> free_dir t p \<Longrightarrow> \<exists>t'. create_dir_comps p t = (Inr (), t') \<and> dir_created t p t'"
proof (induction p arbitrary: t rule: rev_induct)
  case Nil
  then show ?case by (simp add: create_dir_comps.simps dir_created_refl del: dir_at_simps)
next
  case (snoc c p)
  have ok: "list_all name_ok (p @ [c])" using snoc.prems by (simp add: free_dir_def)
  have fp: "free_dir t p" by (rule free_dir_prefix) fact
  show ?case
  proof (cases "lookup t (p @ [c])")
    case (Some n)
    then have "dir_at t (p @ [c])" using snoc.prems(2) by (auto simp: free_dir_def)
    then show ?thesis using snoc.prems(1) ok
      by (simp add: create_dir_comps.simps [of "p @ [c]"] mkdir_present is_dir_comps_plain
          dir_created_refl del: dir_at_simps)
  next
    case None
    show ?thesis
    proof (cases "dir_at t p")
      case True
      then show ?thesis
        using put_fresh_dir [of "p @ [c]" t] mkdir_fresh [of t "p @ [c]"] None snoc.prems(1) ok
        by (simp add: create_dir_comps.simps [of "p @ [c]"] del: dir_at_simps)
    next
      case False
      then have np: "lookup t p = None" using fp by (auto simp: free_dir_def)
      have "resolve_path t False (p @ [c]) = Inl ENOENT"
        unfolding resolve_path_def
        by (rule resolve_missing) (use snoc.prems ok np in \<open>auto simp: free_dir_def\<close>)
      then have m: "mkdir (p @ [c]) t = (Inl ENOENT, t)" by (simp add: mkdir_def)
      obtain t1 where t1: "create_dir_comps p t = (Inr (), t1)" "dir_created t p t1"
        using snoc.IH [OF snoc.prems(1) fp] by blast
      have d1: "dir_at t1 []" "dir_at t1 p" "lookup t1 (p @ [c]) = None"
        using t1(2) snoc.prems(1) None by (auto simp: dir_created_def prefix_def simp del: dir_at_simps)
      have 2: "mkdir (p @ [c]) t1 = (Inr (), put t1 (p @ [c]) (FDir []))"
        using d1 ok by (intro mkdir_fresh) simp_all
      have 3: "dir_created t1 (p @ [c]) (put t1 (p @ [c]) (FDir []))"
        using d1 ok by (intro put_fresh_dir) simp_all
      have "create_dir_comps (p @ [c]) t = (Inr (), put t1 (p @ [c]) (FDir []))"
        by (simp add: create_dir_comps.simps [of "p @ [c]"] m t1 st_bind_def mkdir_or_dir_def 2)
      moreover have "dir_created t (p @ [c]) (put t1 (p @ [c]) (FDir []))"
        using 3 t1(2) None d1(3) unfolding dir_created_def
        by (auto simp: prefix_append)
      ultimately show ?thesis by blast
    qed
  qed
qed

section \<open>Files\<close>

lemma stat_plain: "dir_at t [] \<Longrightarrow> plain t (kcomps p) \<Longrightarrow> lookup t (kcomps p) = Some n \<Longrightarrow>
    stat follow p t = Inr n"
  by (simp add: stat_def resolve_plain)

lemma fs_write_plain:
  "dir_at t [] \<Longrightarrow> plain t (kcomps p) \<Longrightarrow> \<not> dir_at t (kcomps p) \<Longrightarrow>
     fs_write p data t = (Inr (), put t (kcomps p) (FFile data))"
  by (auto simp: fs_write_def resolve_plain dir_at_def split: option.splits node.splits)

lemma fs_read_file:
  "dir_at t [] \<Longrightarrow> plain t (kcomps p) \<Longrightarrow> lookup t (kcomps p) = Some (FFile d) \<Longrightarrow>
     fs_read p t = Inr d"
  by (simp add: fs_read_def stat_plain)

end
