(* ===== verification/FsView.thy ===== *)
theory FsView
  imports FsLemmas
begin

text \<open>
  The abstract view of a file system: which paths there are and what is at each, without the
  order of the entries of a directory. On link-free paths every call is an update of this view.
\<close>

datatype entry = VFile string | VLink string | VDir

definition entry_of :: "node \<Rightarrow> entry" where
  "entry_of n = (case n of FFile d \<Rightarrow> VFile d | FLink l \<Rightarrow> VLink l | FDir _ \<Rightarrow> VDir)"

definition view :: "node \<Rightarrow> path \<Rightarrow> entry option" where
  "view t p = map_option entry_of (lookup t p)"

lemma entry_of_simps [simp]:
  "entry_of (FFile d) = VFile d" "entry_of (FLink l) = VLink l" "entry_of (FDir es) = VDir"
  by (simp_all add: entry_of_def)

lemma entry_of_eq [simp]:
  "entry_of n = VDir \<longleftrightarrow> (\<exists>es. n = FDir es)"
  "entry_of n = VFile d \<longleftrightarrow> n = FFile d"
  "entry_of n = VLink l \<longleftrightarrow> n = FLink l"
  by (cases n; auto)+

lemma view_None: "view t p = None \<longleftrightarrow> lookup t p = None"
  by (simp add: view_def)

lemma view_VDir: "view t p = Some VDir \<longleftrightarrow> dir_at t p"
  by (auto simp: view_def dir_at_iff)

lemma view_VFile: "view t p = Some (VFile d) \<longleftrightarrow> lookup t p = Some (FFile d)"
  by (auto simp: view_def)

lemma view_VLink: "view t p = Some (VLink d) \<longleftrightarrow> lookup t p = Some (FLink d)"
  by (auto simp: view_def)

lemma plain_view:
  "plain t p \<longleftrightarrow> list_all name_ok p \<and> (p = [] \<or> view t (butlast p) = Some VDir)
     \<and> (\<forall>l. view t p \<noteq> Some (VLink l))"
  by (auto simp: plain_def view_VDir view_VLink is_link_node_def split: option.splits node.splits)

lemma view_below_not_dir: "\<not> dir_at t p \<Longrightarrow> r \<noteq> [] \<Longrightarrow> view t (p @ r) = None"
  by (cases r) (auto simp: view_def lookup_append dir_at_def is_dir_node_def split: option.splits node.splits)

lemma view_parent: "view t (p @ r) \<noteq> None \<Longrightarrow> r \<noteq> [] \<Longrightarrow> view t p = Some VDir"
  by (metis view_VDir view_below_not_dir)

lemma view_put:
  assumes "p \<noteq> []" "dir_at t (butlast p)"
  shows "view (put t p m) q = (if prefix p q then view m (drop (length p) q)
     else view t q)"
proof (cases "prefix p q")
  case True
  then obtain r where "q = p @ r" by (auto simp: prefix_def)
  then show ?thesis using lookup_put_at [OF assms, of m r] by (simp add: view_def)
next
  case False
  show ?thesis
  proof (cases "prefix q p")
    case True
    then have "strict_prefix q p" using False by (auto simp: strict_prefix_def)
    moreover from this obtain r where "butlast p = q @ r"
      by (metis assms(1) append_butlast_last_id prefix_def prefix_snoc strict_prefix_def)
    then have "dir_at t q" using assms(2) dir_at_prefix by metis
    ultimately have "dir_at (put t p m) q" by (simp add: dir_at_put_above)
    then show ?thesis using False \<open>dir_at t q\<close> view_VDir [of t q] view_VDir [of "put t p m" q] by simp
  next
    case False
    then show ?thesis using \<open>\<not> prefix p q\<close> by (simp add: view_def lookup_put_other)
  qed
qed

lemma view_put_leaf:
  assumes "p \<noteq> []" "dir_at t (butlast p)" "\<not> dir_at t p" "\<not> is_dir_node m \<or> m = FDir []"
  shows "view (put t p m) = (view t)(p := Some (entry_of m))"
proof
  fix q
  have "view m r = None" if "r \<noteq> []" for r
    using that assms(4) by (cases m; cases r) (auto simp: view_None)
  then show "view (put t p m) q = ((view t)(p := Some (entry_of m))) q"
    using view_put [OF assms(1,2), of m q] view_below_not_dir [OF assms(3)]
    by (cases "q = p") (simp add: view_def, metis append_eq_conv_conj append.right_neutral
      fun_upd_other prefix_def)
qed

lemma view_del:
  assumes "p \<noteq> []"
  shows "view (del t p) q = (if prefix p q then None else view t q)"
proof (cases "prefix p q")
  case True
  then show ?thesis using lookup_del_under [OF assms, of t] by (auto simp: prefix_def view_None)
next
  case False
  show ?thesis
  proof (cases "prefix q p")
    case True
    then have sp: "strict_prefix q p" using False by (auto simp: strict_prefix_def)
    show ?thesis
    proof (cases "dir_at t q")
      case True
      then show ?thesis using False dir_at_del_above [OF sp, of t] view_VDir [of t q]
          view_VDir [of "del t p" q] by simp
    next
      case nd: False
      obtain r where r: "p = q @ r" using True by (auto simp: prefix_def)
      have "del t p = t" using nd unfolding r
      proof (induction q arbitrary: t)
        case Nil
        then show ?case using r assms False by (cases t; cases r) auto
      next
        case (Cons c cs)
        have ne: "cs @ r \<noteq> []" using sp r by auto
        show ?case
        proof (cases t)
          case (FDir es)
          show ?thesis
          proof (cases "map_of es c")
            case (Some k)
            then have "del k (cs @ r) = k" using Cons FDir by simp
            then show ?thesis using FDir Some ne by (auto simp: update_triv)
          qed (use FDir ne in auto)
        qed auto
      qed
      then show ?thesis using False by simp
    qed
  next
    case False
    then show ?thesis using \<open>\<not> prefix p q\<close> by (simp add: view_def lookup_del_other)
  qed
qed

lemma view_dir_created:
  "dir_created t p t' \<Longrightarrow> view t' q = (if prefix q p then Some VDir else view t q)"
proof -
  assume d: "dir_created t p t'"
  show ?thesis
  proof (cases "prefix q p")
    case True
    then obtain r where "p = q @ r" by (auto simp: prefix_def)
    then show ?thesis using d dir_at_prefix [of t' q r] True by (simp add: dir_created_def view_VDir)
  next
    case False
    then show ?thesis using d by (simp add: dir_created_def view_def)
  qed
qed

lemma free_dir_view:
  "free_dir t p \<longleftrightarrow> list_all name_ok p \<and> (\<forall>q. prefix q p \<longrightarrow> view t q = None \<or> view t q = Some VDir)"
  by (simp add: free_dir_def view_VDir view_None)

lemma create_dir_all_view:
  assumes "dir_at t []" "free_dir t (comps p)"
  shows "\<exists>t'. create_dir_all p t = (Inr (), t') \<and> (\<forall>q. view t' q = (if prefix q (comps p) then Some VDir else view t q))
    \<and> dir_created t (comps p) t'"
  using create_dir_comps_free [OF assms] view_dir_created by (fastforce simp: create_dir_all_def)

lemma fs_write_view:
  assumes "dir_at t []" "kcomps p \<noteq> []" "list_all name_ok (kcomps p)" "dir_at t (butlast (kcomps p))"
    "view t (kcomps p) = None \<or> (\<exists>d. view t (kcomps p) = Some (VFile d))"
  shows "\<exists>t'. fs_write p data t = (Inr (), t') \<and> view t' = (view t)(kcomps p := Some (VFile data))
    \<and> t' = put t (kcomps p) (FFile data)"
proof -
  have nd: "\<not> dir_at t (kcomps p)" using assms(5) view_VDir [of t "kcomps p"] by auto
  have pl: "plain t (kcomps p)" using assms by (auto simp: plain_view view_VDir)
  show ?thesis
    using fs_write_plain [OF assms(1) pl nd] view_put_leaf [OF assms(2,4) nd, of "FFile data"] by simp
qed

end
