(* ===== verification/Workspace.thy ===== *)
theory Workspace
  imports FsView
begin

text \<open>
  Workspaces on disk, \<open>sandbox-core/src/workspace.rs\<close>: the directories of jobs, sessions,
  snapshots and volumes under one base directory, recursive size and copy, and the file
  operations of a session, confined by \<open>sanitize_relpath\<close>. The state is the file system. JSON
  encoding (\<open>serde_json\<close>) is a parameter, as are the attributes of an inode other than its kind
  and size.
\<close>

datatype JobState = Initializing | Running | Finished | Failed

record JobMetadata =
  jm_job_id :: string
  jm_created_at :: u64
  jm_state :: JobState
  jm_pid :: "u32 option"
  jm_pgid :: "u32 option"
  jm_sid :: "u32 option"
  jm_pid_starttime :: "string option"
  jm_cgroup_path :: "string option"
  jm_workspace :: string
  jm_timeout_ms :: u64

record WorkspaceManager =
  base_dir :: string
  disk_watermark_bytes :: u64

record JobWorkspace =
  jw_root :: string
  jw_workspace :: string
  jw_tmp :: string
  jw_input :: string
  jw_output :: string

type_synonym 'a cfs = "(node, CoreError, 'a) st"

text \<open>The conversion that \<open>?\<close> makes from an \<open>io::Error\<close>.\<close>

definition lift_io :: "'a fs \<Rightarrow> 'a cfs" where
  "lift_io m t = (case m t of (Inl e, t') \<Rightarrow> (Inl (IoErr e), t') | (Inr a, t') \<Rightarrow> (Inr a, t'))"

definition lift_query :: "(node \<Rightarrow> io_error + 'a) \<Rightarrow> 'a cfs" where
  "lift_query q t = (case q t of Inl e \<Rightarrow> (Inl (IoErr e), t) | Inr a \<Rightarrow> (Inr a, t))"

lemma lift_io_simps:
  "m t = (Inr a, t') \<Longrightarrow> lift_io m t = (Inr a, t')"
  "m t = (Inl e, t') \<Longrightarrow> lift_io m t = (Inl (IoErr e), t')"
  by (simp_all add: lift_io_def)

section \<open>Job and session directories\<close>

text \<open>The four directories of a workspace rooted at \<open>base\<close>, created in this order.\<close>

definition create_workspace_at :: "string \<Rightarrow> JobWorkspace cfs" where
  "create_workspace_at base =
     (let workspace = path_join base ''workspace''; tmp = path_join workspace ''tmp''
      in st_bind (lift_io (create_dir_all workspace)) (\<lambda>_.
         st_bind (lift_io (create_dir_all (path_join base ''input''))) (\<lambda>_.
         st_bind (lift_io (create_dir_all (path_join base ''output''))) (\<lambda>_.
         st_bind (lift_io (create_dir_all tmp)) (\<lambda>_.
         st_ret \<lparr>jw_root = base, jw_workspace = workspace, jw_tmp = tmp,
           jw_input = path_join base ''input'', jw_output = path_join base ''output''\<rparr>)))))"

definition create_job_workspace :: "WorkspaceManager \<Rightarrow> string \<Rightarrow> JobWorkspace cfs" where
  "create_job_workspace m job_id = create_workspace_at (path_join (base_dir m) job_id)"

definition write_metadata ::
    "(JobMetadata \<Rightarrow> string + string) \<Rightarrow> WorkspaceManager \<Rightarrow> string \<Rightarrow> JobMetadata \<Rightarrow> unit cfs" where
  "write_metadata to_json m job_id meta =
     (let path = path_join (path_join (base_dir m) job_id) ''.sandbox-meta.json''
      in case to_json meta of
           Inl e \<Rightarrow> st_err (SerdeErr e)
         | Inr json \<Rightarrow> lift_io (fs_write path json))"

definition read_metadata ::
    "(string \<Rightarrow> string + JobMetadata) \<Rightarrow> WorkspaceManager \<Rightarrow> string \<Rightarrow> JobMetadata option cfs" where
  "read_metadata from_json m job_id t =
     (let path = path_join (path_join (base_dir m) job_id) ''.sandbox-meta.json''
      in if \<not> path_exists path t then (Inr None, t)
         else st_bind (lift_query (fs_read path)) (\<lambda>data.
           if \<not> utf8_valid data then st_err (IoErr (IoOther ''stream did not contain valid UTF-8''))
           else case from_json data of
                  Inl e \<Rightarrow> st_err (SerdeErr e)
                | Inr meta \<Rightarrow> st_ret (Some meta)) t)"

text \<open>The subdirectories of a directory whose names are valid UTF-8; links do not count.\<close>

definition list_subdirs :: "string \<Rightarrow> string list cfs" where
  "list_subdirs dir t =
     (if \<not> path_exists dir t then (Inr [], t)
      else st_bind (lift_query (read_dir dir)) (\<lambda>es.
        st_ret (map fst (filter (\<lambda>(name, n). is_dir_node n \<and> utf8_valid name) es))) t)"

definition list_jobs :: "WorkspaceManager \<Rightarrow> string list cfs" where
  "list_jobs m = list_subdirs (base_dir m)"

definition remove_if_exists :: "string \<Rightarrow> unit cfs" where
  "remove_if_exists path t =
     (if path_exists path t then lift_io (remove_dir_all path) t else (Inr (), t))"

definition cleanup_job :: "WorkspaceManager \<Rightarrow> string \<Rightarrow> unit cfs" where
  "cleanup_job m job_id = remove_if_exists (path_join (base_dir m) job_id)"

text \<open>\<open>statvfs\<close> gives the block size and the number of available blocks.\<close>

definition check_disk_watermark ::
    "(string \<Rightarrow> int + u64 \<times> u64) \<Rightarrow> WorkspaceManager \<Rightarrow> CoreError + bool" where
  "check_disk_watermark statvfs m =
     (case statvfs (base_dir m) of
        Inl e \<Rightarrow> Inl (SyscallErr e)
      | Inr (block_size, blocks_available) \<Rightarrow>
          Inr (disk_watermark_bytes m \<le> block_size * blocks_available))"

section \<open>Sizes\<close>

fun node_size :: "node \<Rightarrow> u64" where
  "node_size (FDir es) =
     sum_list (map (\<lambda>(name, n). case n of
        FFile d \<Rightarrow> of_nat (length d)
      | FDir _ \<Rightarrow> node_size n
      | FLink _ \<Rightarrow> 0) es)"
| "node_size (FFile d) = 0"
| "node_size (FLink l) = 0"

definition dir_size :: "string \<Rightarrow> node \<Rightarrow> u64" where
  "dir_size path t = (case read_dir path t of Inl _ \<Rightarrow> 0 | Inr es \<Rightarrow> node_size (FDir es))"

definition workspace_size :: "WorkspaceManager \<Rightarrow> string \<Rightarrow> u64 cfs" where
  "workspace_size m job_id t =
     (let path = path_join (base_dir m) job_id
      in if \<not> path_exists path t then (Inr 0, t) else (Inr (dir_size path t), t))"

fun cleanup_each :: "WorkspaceManager \<Rightarrow> string list \<Rightarrow> nat \<Rightarrow> node \<Rightarrow> nat \<times> node" where
  "cleanup_each m [] cleaned t = (cleaned, t)"
| "cleanup_each m (j # js) cleaned t =
     (case cleanup_job m j t of
        (Inr _, t') \<Rightarrow> cleanup_each m js (cleaned + 1) t'
      | (Inl _, t') \<Rightarrow> cleanup_each m js cleaned t')"

definition cleanup_all_jobs :: "WorkspaceManager \<Rightarrow> nat cfs" where
  "cleanup_all_jobs m =
     st_bind (list_jobs m) (\<lambda>jobs t. case cleanup_each m jobs 0 t of (n, t') \<Rightarrow> (Inr n, t'))"

section \<open>Sessions\<close>

definition session_path :: "WorkspaceManager \<Rightarrow> string \<Rightarrow> string" where
  "session_path m sid = path_join (path_join (base_dir m) ''sessions'') sid"

definition create_session_workspace :: "WorkspaceManager \<Rightarrow> string \<Rightarrow> JobWorkspace cfs" where
  "create_session_workspace m sid = create_workspace_at (session_path m sid)"

definition cleanup_session :: "WorkspaceManager \<Rightarrow> string \<Rightarrow> unit cfs" where
  "cleanup_session m sid = remove_if_exists (session_path m sid)"

definition list_sessions :: "WorkspaceManager \<Rightarrow> string list cfs" where
  "list_sessions m = list_subdirs (path_join (base_dir m) ''sessions'')"

section \<open>Recursive copy\<close>

text \<open>
  The entries of the source are read once per directory, while the copy goes on; a copy into
  the source itself would not end, so the recursion has fuel, and \<open>None\<close> is its running out.
\<close>

fun copy_entries ::
    "(string \<Rightarrow> string \<Rightarrow> node \<Rightarrow> ((CoreError + unit) \<times> node) option) \<Rightarrow> string \<Rightarrow> string
      \<Rightarrow> (string \<times> node) list \<Rightarrow> node \<Rightarrow> ((CoreError + unit) \<times> node) option" where
  "copy_entries rec src dst [] t = Some (Inr (), t)"
| "copy_entries rec src dst ((name, k) # es) t =
     (case k of
        FDir _ \<Rightarrow>
          (case rec (path_join src name) (path_join dst name) t of
             Some (Inr _, t') \<Rightarrow> copy_entries rec src dst es t'
           | r \<Rightarrow> r)
      | FFile _ \<Rightarrow>
          (case lift_io (fs_copy (path_join src name) (path_join dst name)) t of
             (Inr _, t') \<Rightarrow> copy_entries rec src dst es t'
           | r \<Rightarrow> Some r)
      | FLink _ \<Rightarrow> copy_entries rec src dst es t)"

fun copy_dir_recursive ::
    "nat \<Rightarrow> string \<Rightarrow> string \<Rightarrow> node \<Rightarrow> ((CoreError + unit) \<times> node) option" where
  "copy_dir_recursive 0 src dst t = None"
| "copy_dir_recursive (Suc fuel) src dst t =
     (case lift_io (create_dir_all dst) t of
        (Inl e, t') \<Rightarrow> Some (Inl e, t')
      | (Inr _, t') \<Rightarrow>
          (case read_dir src t' of
             Inl e \<Rightarrow> Some (Inl (IoErr e), t')
           | Inr es \<Rightarrow> copy_entries (copy_dir_recursive fuel) src dst es t'))"

section \<open>Snapshots and volumes\<close>

definition snapshots_dir :: "WorkspaceManager \<Rightarrow> string" where
  "snapshots_dir m = path_join (base_dir m) ''snapshots''"

definition create_snapshot ::
    "nat \<Rightarrow> WorkspaceManager \<Rightarrow> string \<Rightarrow> string \<Rightarrow> node \<Rightarrow> ((CoreError + unit) \<times> node) option" where
  "create_snapshot fuel m src_workspace sid =
     copy_dir_recursive fuel src_workspace (path_join (snapshots_dir m) sid)"

definition restore_snapshot ::
    "nat \<Rightarrow> WorkspaceManager \<Rightarrow> string \<Rightarrow> string \<Rightarrow> node \<Rightarrow> ((CoreError + unit) \<times> node) option" where
  "restore_snapshot fuel m sid dst_workspace t =
     (let src = path_join (snapshots_dir m) sid
      in if \<not> path_exists src t then Some (Inl (WorkspaceErr (''snapshot not found: '' @ sid)), t)
         else copy_dir_recursive fuel src dst_workspace t)"

definition list_snapshots :: "WorkspaceManager \<Rightarrow> string list cfs" where
  "list_snapshots m = list_subdirs (snapshots_dir m)"

definition cleanup_snapshot :: "WorkspaceManager \<Rightarrow> string \<Rightarrow> unit cfs" where
  "cleanup_snapshot m sid = remove_if_exists (path_join (snapshots_dir m) sid)"

definition volumes_dir :: "WorkspaceManager \<Rightarrow> string" where
  "volumes_dir m = path_join (base_dir m) ''volumes''"

definition volume_path :: "WorkspaceManager \<Rightarrow> string \<Rightarrow> string" where
  "volume_path m name = path_join (volumes_dir m) name"

definition create_volume :: "WorkspaceManager \<Rightarrow> string \<Rightarrow> unit cfs" where
  "create_volume m name = lift_io (create_dir_all (volume_path m name))"

definition list_volumes :: "WorkspaceManager \<Rightarrow> string list cfs" where
  "list_volumes m = list_subdirs (volumes_dir m)"

definition cleanup_volume :: "WorkspaceManager \<Rightarrow> string \<Rightarrow> unit cfs" where
  "cleanup_volume m name = remove_if_exists (volume_path m name)"

section \<open>Session files\<close>

definition sanitize_relpath :: "string \<Rightarrow> string \<Rightarrow> CoreError + string" where
  "sanitize_relpath base rel =
     (if rel = [] then Inl (WorkspaceErr ''empty path'')
      else if starts_with ''/'' rel then Inl (WorkspaceErr (''absolute path not allowed: '' @ rel))
      else if ''..'' \<in> set (comps rel) then Inl (WorkspaceErr (''parent-dir not allowed: '' @ rel))
      else Inr (path_join base rel))"

text \<open>\<open>Path::parent\<close>, on components.\<close>

definition put_file :: "string \<Rightarrow> string \<Rightarrow> string \<Rightarrow> unit cfs" where
  "put_file base rel data =
     (case sanitize_relpath base rel of
        Inl e \<Rightarrow> st_err e
      | Inr path \<Rightarrow>
          st_bind (if comps path = [] then st_ret ()
                   else lift_io (create_dir_comps (butlast (comps path)))) (\<lambda>_.
          lift_io (fs_write path data)))"

definition get_file :: "string \<Rightarrow> string \<Rightarrow> string cfs" where
  "get_file base rel =
     (case sanitize_relpath base rel of
        Inl e \<Rightarrow> st_err e
      | Inr path \<Rightarrow> lift_query (fs_read path))"

record FileEntry =
  fe_name :: string
  fe_size :: u64
  fe_is_dir :: bool
  fe_is_symlink :: bool
  fe_mode :: u32
  fe_owner :: string
  fe_group :: string
  fe_modified_at :: "int option"
  fe_created_at :: "int option"
  fe_symlink_target :: "string option"

text \<open>
  What an inode has besides its kind: mode, user, group, times and the size of a directory; the
  account databases translate the numbers when they know them.
\<close>

record inode_attrs =
  ia_mode :: u32
  ia_uid :: u32
  ia_gid :: u32
  ia_mtime :: int
  ia_ctime :: int
  ia_dir_len :: u64

record accounts =
  getpwuid :: "u32 \<Rightarrow> string option"
  getgrgid :: "u32 \<Rightarrow> string option"

definition user_name :: "accounts \<Rightarrow> u32 \<Rightarrow> string" where
  "user_name db uid =
     (case getpwuid db uid of None \<Rightarrow> show_nat (unat uid) | Some n \<Rightarrow> utf8_lossy n)"

definition group_name :: "accounts \<Rightarrow> u32 \<Rightarrow> string" where
  "group_name db gid =
     (case getgrgid db gid of None \<Rightarrow> show_nat (unat gid) | Some n \<Rightarrow> utf8_lossy n)"

definition file_name :: "string \<Rightarrow> string option" where
  "file_name p =
     (case rev (comps p) of [] \<Rightarrow> None | c # _ \<Rightarrow> if c = ''..'' then None else Some c)"

definition build_file_entry :: "accounts \<Rightarrow> inode_attrs \<Rightarrow> string \<Rightarrow> node \<Rightarrow> FileEntry" where
  "build_file_entry db md path n =
     \<lparr>fe_name = (case file_name path of Some f \<Rightarrow> utf8_lossy f | None \<Rightarrow> []),
      fe_size = (case n of FFile d \<Rightarrow> of_nat (length d) | FLink l \<Rightarrow> of_nat (length l)
                 | FDir _ \<Rightarrow> ia_dir_len md),
      fe_is_dir = is_dir_node n,
      fe_is_symlink = is_link_node n,
      fe_mode = ia_mode md,
      fe_owner = user_name db (ia_uid md),
      fe_group = group_name db (ia_gid md),
      fe_modified_at = Some (ia_mtime md),
      fe_created_at = Some (ia_ctime md),
      fe_symlink_target = (case n of FLink l \<Rightarrow> if utf8_valid l then Some l else None | _ \<Rightarrow> None)\<rparr>"

definition file_entry :: "accounts \<Rightarrow> (string \<Rightarrow> inode_attrs) \<Rightarrow> string \<Rightarrow> FileEntry cfs" where
  "file_entry db md path t =
     (case stat False path t of
        Inl e \<Rightarrow> (Inl (IoErr e), t)
      | Inr n \<Rightarrow> (Inr (build_file_entry db (md path) path n), t))"

fun entries_of :: "accounts \<Rightarrow> (string \<Rightarrow> inode_attrs) \<Rightarrow> string \<Rightarrow> string list \<Rightarrow> FileEntry list cfs" where
  "entries_of db md dir [] = st_ret []"
| "entries_of db md dir (name # names) =
     st_bind (file_entry db md (path_join dir name)) (\<lambda>e.
     st_bind (entries_of db md dir names) (\<lambda>es. st_ret (e # es)))"

definition list_files ::
    "accounts \<Rightarrow> (string \<Rightarrow> inode_attrs) \<Rightarrow> string \<Rightarrow> string \<Rightarrow> FileEntry list cfs" where
  "list_files db md base rel =
     (case (if rel = [] then Inr base else sanitize_relpath base rel) of
        Inl e \<Rightarrow> st_err e
      | Inr dir \<Rightarrow> st_bind (lift_query (read_dir dir)) (\<lambda>es. entries_of db md dir (map fst es)))"

definition delete_file :: "string \<Rightarrow> string \<Rightarrow> unit cfs" where
  "delete_file base rel t =
     (case sanitize_relpath base rel of
        Inl e \<Rightarrow> (Inl e, t)
      | Inr path \<Rightarrow>
          if is_dir_path path t then lift_io (remove_dir_all path) t
          else lift_io (remove_file path) t)"

definition make_dir :: "string \<Rightarrow> string \<Rightarrow> unit cfs" where
  "make_dir base rel =
     (case sanitize_relpath base rel of
        Inl e \<Rightarrow> st_err e
      | Inr path \<Rightarrow> lift_io (create_dir_all path))"

definition file_exists :: "string \<Rightarrow> string \<Rightarrow> node \<Rightarrow> bool" where
  "file_exists base rel t =
     (case sanitize_relpath base rel of Inr p \<Rightarrow> is_ok (stat False p t) | Inl _ \<Rightarrow> False)"

end
