(* ===== verification/WorkspaceProofs.thy ===== *)
theory WorkspaceProofs
  imports Workspace
begin

text \<open>
  The properties of workspaces: confinement of session paths, reading back what was written,
  creation and removal of job directories, and the copy that snapshots are made with.
\<close>

section \<open>Confinement\<close>

text \<open>
  \<open>sanitize_relpath\<close> accepts exactly the non-empty relative paths without a parent
  component, and the path it returns consists of the components of the base followed by those
  of the relative path: it stays under the base.
\<close>

theorem sanitize_confines:
  "case sanitize_relpath base rel of
     Inr p \<Rightarrow> rel \<noteq> [] \<and> \<not> starts_with ''/'' rel \<and> ''..'' \<notin> set (comps rel)
              \<and> comps p = comps base @ comps rel
   | Inl e \<Rightarrow> rel = [] \<or> starts_with ''/'' rel \<or> ''..'' \<in> set (comps rel)"
  by (simp add: sanitize_relpath_def comps_join)

lemma comps_not_dot: "w \<in> set (comps p) \<Longrightarrow> w \<noteq> [] \<and> w \<noteq> ''.'' \<and> CHR ''/'' \<notin> set w"
  using split_char_pieces [of "CHR ''/''" p] by (auto simp: comps_def)

lemma names_of_sanitized: "''..'' \<notin> set (comps rel) \<Longrightarrow> list_all name_ok (comps rel)"
  unfolding list_all_iff name_ok_def using comps_not_dot by blast

lemma kcomps_join:
  "\<not> starts_with ''/'' b \<Longrightarrow> a \<noteq> [] \<Longrightarrow> kcomps b = comps b \<Longrightarrow>
     kcomps (path_join a b) = comps a @ comps b"
  unfolding kcomps_def by (simp add: last_split_join comps_join)

lemma kcomps_eq_comps: "kcomps p = comps p \<longleftrightarrow> last (split_char (CHR ''/'') p) \<notin> {[], ''.''}"
  unfolding kcomps_def by simp

lemma kcomps_ne: "kcomps p = comps p \<Longrightarrow> comps p \<noteq> []"
proof -
  assume "kcomps p = comps p"
  then have "last (split_char (CHR ''/'') p) \<notin> {[], ''.''}" by (simp only: kcomps_eq_comps not_False_eq_True)
  then have "last (split_char (CHR ''/'') p) \<in> set (comps p)"
    using last_in_set [OF split_char_ne [of "CHR ''/''" p]] by (simp add: comps_def)
  then show ?thesis by auto
qed

section \<open>Writing and reading back\<close>

lemma lift_query_simps:
  "q t = Inr a \<Longrightarrow> lift_query q t = (Inr a, t)"
  "q t = Inl e \<Longrightarrow> lift_query q t = (Inl (IoErr e), t)"
  by (simp_all add: lift_query_def)

text \<open>
  A file that is put into a link-free workspace is read back with the same bytes, whatever
  it contains; missing parent directories are created, and every other path of the file system
  keeps what it had.
\<close>

theorem put_file_get_file:
  assumes "dir_at t []" and "base \<noteq> []" and "list_all name_ok (comps base)"
    and rel: "rel \<noteq> []" "\<not> starts_with ''/'' rel" "''..'' \<notin> set (comps rel)" "kcomps rel = comps rel"
    and free: "free_dir t (comps base @ butlast (comps rel))"
    and target: "view t (comps base @ comps rel) = None
       \<or> (\<exists>d. view t (comps base @ comps rel) = Some (VFile d))"
  shows "\<exists>t'. put_file base rel data t = (Inr (), t') \<and> get_file base rel t' = (Inr data, t')
    \<and> (\<forall>q. view t' q = (if q = comps base @ comps rel then Some (VFile data)
          else if strict_prefix q (comps base @ comps rel) then Some VDir else view t q))"
proof -
  let ?p = "path_join base rel"
  let ?cs = "comps base @ comps rel"
  have k: "kcomps ?p = ?cs" "comps ?p = ?cs" using assms by (simp_all add: kcomps_join comps_join)
  have ne: "comps rel \<noteq> []" using kcomps_ne [OF rel(4)] .
  have bl: "butlast ?cs = comps base @ butlast (comps rel)" using ne by (simp add: butlast_append)
  have names: "list_all name_ok ?cs" using assms(3) names_of_sanitized [OF rel(3)] by simp
  obtain t1 where t1: "create_dir_comps (butlast ?cs) t = (Inr (), t1)" "dir_created t (butlast ?cs) t1"
    using create_dir_comps_free [OF assms(1) free] bl by auto
  have v1: "view t1 q = (if prefix q (butlast ?cs) then Some VDir else view t q)" for q
    by (rule view_dir_created) (rule t1(2))
  have d1: "dir_at t1 []" "dir_at t1 (butlast ?cs)"
    using v1 [of "[]"] v1 [of "butlast ?cs"] by (simp_all add: view_VDir del: dir_at_simps)
  have notpre: "\<not> prefix ?cs (butlast ?cs)"
    using ne prefix_length_le [of ?cs "butlast ?cs"] by (cases ?cs) auto
  obtain t2 where t2: "fs_write ?p data t1 = (Inr (), t2)" "view t2 = (view t1)(?cs := Some (VFile data))"
    "t2 = put t1 ?cs (FFile data)"
    using fs_write_view [of t1 ?p data] d1 ne names target notpre v1 [of ?cs] unfolding k by auto
  have put: "put_file base rel data t = (Inr (), t2)"
    using rel ne k t1(1) t2(1) by (simp add: put_file_def sanitize_relpath_def st_bind_def lift_io_def)
  have nonempty: "?cs \<noteq> []" using ne by simp
  have v2: "view t2 q = (if q = ?cs then Some (VFile data) else view t1 q)" for q
    by (simp add: t2(2))
  have d2: "dir_at t2 []" "dir_at t2 (butlast ?cs)"
    using d1 nonempty notpre v2 [of "[]"] v2 [of "butlast ?cs"] unfolding view_VDir [symmetric]
    by (metis prefix_order.refl)+
  have "lookup t2 ?cs = Some (FFile data)"
    using view_VFile [of t2 ?cs data] t2(2) by simp
  moreover from this have "plain t2 ?cs"
    using names d2 by (auto simp: plain_def is_link_node_def simp del: dir_at_simps)
  ultimately have "fs_read ?p t2 = Inr data"
    using fs_read_file [of t2 ?p data] d2 by (simp add: k del: dir_at_simps)
  then have get: "get_file base rel t2 = (Inr data, t2)"
    using rel by (simp add: get_file_def sanitize_relpath_def lift_query_def)
  have "view t2 q = (if q = ?cs then Some (VFile data)
          else if strict_prefix q ?cs then Some VDir else view t q)" for q
  proof -
    have "strict_prefix q ?cs \<longleftrightarrow> prefix q (butlast ?cs)"
      using nonempty by (metis append_butlast_last_id prefix_snoc strict_prefix_def notpre)
    then show ?thesis by (simp add: t2(2) v1)
  qed
  then show ?thesis using put get by blast
qed

definition demo_tree :: node where
  "demo_tree = FDir [(''w'', FDir [(''a.txt'', FFile ''old'')])]"

theorem put_file_get_file_witness:
  "\<exists>t'. put_file ''w'' ''out/a.txt'' ''new'' demo_tree = (Inr (), t')
     \<and> get_file ''w'' ''out/a.txt'' t' = (Inr ''new'', t') \<and> view t' [''w'', ''a.txt''] = Some (VFile ''old'')"
proof -
  have c: "comps ''w'' = [''w'']" "comps ''out/a.txt'' = [''out'', ''a.txt'']"
    "kcomps ''out/a.txt'' = [''out'', ''a.txt'']"
    by (simp_all add: comps_def kcomps_def)
  have n: "list_all name_ok [''w'', ''out'', ''a.txt'']" by (simp add: name_ok_def)
  have pre: "prefix q [''w'', ''out''] \<longleftrightarrow> q = [] \<or> q = [''w''] \<or> q = [''w'', ''out'']" for q
    by (cases q; cases "tl q"; cases "tl (tl q)") (auto simp: prefix_Cons)
  have f: "free_dir demo_tree (comps ''w'' @ butlast (comps ''out/a.txt''))"
    using n by (auto simp: c free_dir_def pre demo_tree_def)
  have "view demo_tree (comps ''w'' @ comps ''out/a.txt'') = None"
    by (simp add: c demo_tree_def view_def)
  then obtain t' where "put_file ''w'' ''out/a.txt'' ''new'' demo_tree = (Inr (), t')"
    "get_file ''w'' ''out/a.txt'' t' = (Inr ''new'', t')"
    "view t' [''w'', ''a.txt''] = view demo_tree [''w'', ''a.txt'']"
    using put_file_get_file [of demo_tree "''w''" "''out/a.txt''" "''new''"] f n
    by (auto simp: c demo_tree_def starts_with_iff strict_prefix_def)
  then show ?thesis by (auto simp: demo_tree_def view_def)
qed

end
