(* ===== verification/CopyProofs.thy ===== *)
theory CopyProofs
  imports WorkspaceProofs
begin

text \<open>
  The recursive copy behind snapshots: what \<open>copy_dir_recursive\<close> leaves at the destination, as
  an overlay of the source's view over the destination's.
\<close>

definition no_link :: "entry option \<Rightarrow> entry option" where
  "no_link e = (case e of Some (VLink l) \<Rightarrow> None | _ \<Rightarrow> e)"

definition rel_to :: "path \<Rightarrow> path \<Rightarrow> path option" where
  "rel_to d q = (if prefix d q then Some (drop (length d) q) else None)"

lemma rel_to_append [simp]: "rel_to d (d @ r) = Some r"
  by (simp add: rel_to_def)

lemma rel_to_Some: "rel_to d q = Some r \<longleftrightarrow> q = d @ r"
  by (auto simp: rel_to_def prefix_def split: if_splits)

lemma rel_to_None: "rel_to d q = None \<longleftrightarrow> \<not> prefix d q"
  by (simp add: rel_to_def)

text \<open>
  The view after the entries \<open>D\<close> of the directory \<open>s\<close> were copied to \<open>d\<close>, where \<open>v\<close> is the
  view before.
\<close>

definition overlay :: "string set \<Rightarrow> (path \<Rightarrow> entry option) \<Rightarrow> path \<Rightarrow> path \<Rightarrow> path \<Rightarrow> entry option" where
  "overlay D v s d q =
     (if prefix q d then Some VDir
      else case rel_to d q of
             Some (c # r) \<Rightarrow>
               (if c \<in> D then (case no_link (v (s @ c # r)) of Some e \<Rightarrow> Some e | None \<Rightarrow> v q) else v q)
           | _ \<Rightarrow> v q)"

definition copied :: "(path \<Rightarrow> entry option) \<Rightarrow> path \<Rightarrow> path \<Rightarrow> path \<Rightarrow> entry option" where
  "copied v s d = overlay UNIV v s d"

text \<open>Nothing at the destination is in the way of the copy.\<close>

definition compat :: "(path \<Rightarrow> entry option) \<Rightarrow> path \<Rightarrow> path \<Rightarrow> bool" where
  "compat v s d = (\<forall>r.
     (v (s @ r) = Some VDir \<longrightarrow> v (d @ r) = None \<or> v (d @ r) = Some VDir) \<and>
     (\<forall>x. v (s @ r) = Some (VFile x) \<longrightarrow> v (d @ r) = None \<or> (\<exists>y. v (d @ r) = Some (VFile y))))"

definition apart :: "path \<Rightarrow> path \<Rightarrow> bool" where
  "apart s d = (\<not> prefix s d \<and> \<not> prefix d s)"

definition depth_below :: "(path \<Rightarrow> entry option) \<Rightarrow> path \<Rightarrow> nat \<Rightarrow> bool" where
  "depth_below v s n = (\<forall>r. v (s @ r) = Some VDir \<longrightarrow> length r < n)"

lemma apart_append: "apart s d \<Longrightarrow> s @ r \<noteq> d @ r'"
proof
  assume a: "apart s d" and e: "s @ r = d @ r'"
  then have "prefix s (d @ r')" "prefix d (d @ r')" by (metis prefixI, simp)
  then show False using a prefix_same_cases unfolding apart_def by blast
qed

lemma apart_snoc: "apart s d \<Longrightarrow> apart (s @ [c]) (d @ [c'])"
  unfolding apart_def prefix_def
  by (metis append.assoc apart_append apart_def prefix_def)

lemma overlay_source: "apart s d \<Longrightarrow> overlay D v s d (s @ r) = v (s @ r)"
proof -
  assume a: "apart s d"
  have "\<not> prefix d (s @ r)" using apart_append [OF a] by (metis prefix_def)
  moreover have "\<not> prefix (s @ r) d" using a by (metis apart_def append_prefixD)
  ultimately show ?thesis by (simp add: overlay_def rel_to_def)
qed

lemma overlay_dest:
  "overlay D v s d (d @ c # r) =
     (if c \<in> D then (case no_link (v (s @ c # r)) of Some e \<Rightarrow> Some e | None \<Rightarrow> v (d @ c # r))
      else v (d @ c # r))"
  by (simp add: overlay_def)

text \<open>One more entry, copied by a recursive call or as a file.\<close>

lemma overlay_step:
  assumes a: "apart s d" and c: "c \<notin> D"
    and e: "no_link (v (s @ [c])) = Some VDir"
  shows "overlay UNIV (overlay D v s d) (s @ [c]) (d @ [c]) = overlay (insert c D) v s d"
proof
  fix q
  let ?o = "overlay D v s d"
  consider "prefix q d" | "q = d @ [c]" | x r where "q = d @ c # x # r"
    | x r where "q = d @ x # r" "x \<noteq> c" | "\<not> prefix q d" "\<not> prefix d q"
    by (metis append_Nil2 neq_Nil_conv prefix_def)
  then show "overlay UNIV ?o (s @ [c]) (d @ [c]) q = overlay (insert c D) v s d q"
  proof cases
    case 1
    then show ?thesis by (simp add: overlay_def)
  next
    case 2
    then show ?thesis using e by (simp add: overlay_def rel_to_def)
  next
    case (3 x r)
    have "overlay UNIV ?o (s @ [c]) (d @ [c]) ((d @ [c]) @ x # r) =
        (case no_link (?o ((s @ [c]) @ x # r)) of Some e \<Rightarrow> Some e | None \<Rightarrow> ?o ((d @ [c]) @ x # r))"
      by (simp only: overlay_dest UNIV_I if_True)
    also have "?o ((s @ [c]) @ x # r) = v (s @ c # x # r)"
      using overlay_source [OF a, of D v "c # x # r"] by simp
    also have "?o ((d @ [c]) @ x # r) = v (d @ c # x # r)"
      using overlay_dest [of D v s d c "x # r"] c by simp
    finally show ?thesis using overlay_dest [of "insert c D" v s d c "x # r"] by (simp add: 3)
  next
    case (4 x r)
    have "\<not> prefix (d @ [c]) q" "\<not> prefix q (d @ [c])" "\<not> prefix q d"
      using 4 by (auto simp: prefix_def)
    then have "overlay UNIV ?o (s @ [c]) (d @ [c]) q = ?o q" by (simp add: overlay_def rel_to_def)
    then show ?thesis using 4 overlay_dest [of D v s d x r] overlay_dest [of "insert c D" v s d x r] by simp
  next
    case 5
    then have "\<not> prefix (d @ [c]) q" "\<not> prefix q (d @ [c])"
      by (auto simp: prefix_def) (metis append_eq_append_conv2 append_Nil2 Cons_eq_append_conv append_is_Nil_conv)
    then show ?thesis using 5 by (simp add: overlay_def rel_to_def)
  qed
qed

lemma overlay_file:
  assumes c: "c \<notin> D" and e: "no_link (v (s @ [c])) = Some x" and leaf: "\<And>r. r \<noteq> [] \<Longrightarrow> v (s @ c # r) = None"
  shows "(overlay D v s d)(d @ [c] := Some x) = overlay (insert c D) v s d"
proof
  fix q
  show "((overlay D v s d)(d @ [c] := Some x)) q = overlay (insert c D) v s d q"
  proof (cases "rel_to d q")
    case None
    then have "q \<noteq> d @ [c]" by (auto simp: rel_to_None)
    then show ?thesis by (simp add: overlay_def None)
  next
    case (Some r)
    then have q: "q = d @ r" by (simp add: rel_to_Some)
    show ?thesis
    proof (cases r)
      case Nil
      then show ?thesis by (simp add: q overlay_def)
    next
      case (Cons y ys)
      then show ?thesis using c e leaf [of ys]
        by (cases "y = c"; cases ys) (auto simp: q overlay_dest no_link_def)
    qed
  qed
qed

lemma overlay_skip:
  "(\<And>r. no_link (v (s @ c # r)) = None) \<Longrightarrow> overlay (insert c D) v s d = overlay D v s d"
  by (rule ext) (auto simp: overlay_def split: option.splits list.splits)

section \<open>The copy\<close>

text \<open>What the copy needs: distinct places, no obstacle, and fuel above the depth of the source.\<close>

definition copy_ready :: "nat \<Rightarrow> string \<Rightarrow> string \<Rightarrow> node \<Rightarrow> bool" where
  "copy_ready n src dst t =
     (tree_ok t \<and> dir_at t [] \<and> src \<noteq> [] \<and> dst \<noteq> [] \<and> kcomps src = comps src
      \<and> view t (comps src) = Some VDir \<and> free_dir t (comps dst) \<and> apart (comps src) (comps dst)
      \<and> compat (view t) (comps src) (comps dst) \<and> depth_below (view t) (comps src) n)"

definition copy_done :: "string \<Rightarrow> string \<Rightarrow> node \<Rightarrow> node \<Rightarrow> bool" where
  "copy_done src dst t t' = (tree_ok t' \<and> view t' = copied (view t) (comps src) (comps dst))"

lemma view_below_leaf: "view t p = Some e \<Longrightarrow> e \<noteq> VDir \<Longrightarrow> r \<noteq> [] \<Longrightarrow> view t (p @ r) = None"
  using view_below_not_dir [of t p r] view_VDir [of t p] by auto

lemma plain_source:
  "tree_ok t \<Longrightarrow> dir_at t [] \<Longrightarrow> view t p = Some e \<Longrightarrow> (\<And>l. e \<noteq> VLink l) \<Longrightarrow> plain t p"
proof -
  assume t: "tree_ok t" "dir_at t []" "view t p = Some e" "\<And>l. e \<noteq> VLink l"
  have "list_all name_ok p" using tree_ok_names [OF t(1), of p] t(3) view_None [of t p] by auto
  moreover have "view t (butlast p) = Some VDir" if "p \<noteq> []"
    using view_parent [of t "butlast p" "[last p]"] t(3) that by simp
  ultimately show ?thesis using t(3,4) by (auto simp: plain_view)
qed

lemma copy_file_entry:
  assumes t: "tree_ok t" "dir_at t []" "src \<noteq> []" "dst \<noteq> []" "name_ok c"
    and s: "view t (comps src @ [c]) = Some (VFile x)" and d: "view t (comps dst) = Some VDir"
    and f: "view t (comps dst @ [c]) = None \<or> (\<exists>y. view t (comps dst @ [c]) = Some (VFile y))"
  shows "\<exists>t'. lift_io (fs_copy (path_join src c) (path_join dst c)) t = (Inr (), t') \<and> tree_ok t'
    \<and> view t' = (view t)(comps dst @ [c] := Some (VFile x))"
proof -
  have k: "kcomps (path_join src c) = comps src @ [c]" "kcomps (path_join dst c) = comps dst @ [c]"
    using t by (simp_all add: kcomps_join_name)
  have "plain t (comps src @ [c])" by (rule plain_source [OF t(1,2) s]) simp
  moreover have "lookup t (comps src @ [c]) = Some (FFile x)" using s by (simp add: view_VFile)
  ultimately have st: "stat True (path_join src c) t = Inr (FFile x)"
    using stat_plain [OF t(2)] by (simp add: k)
  have names: "list_all name_ok (comps dst @ [c])"
    using tree_ok_names [OF t(1), of "comps dst"] d view_None [of t "comps dst"] t(5) by auto
  obtain t' where t': "fs_write (path_join dst c) x t = (Inr (), t')"
    "view t' = (view t)(comps dst @ [c] := Some (VFile x))" "t' = put t (comps dst @ [c]) (FFile x)"
    using fs_write_view [of t "path_join dst c" x] t names d f unfolding k view_VDir by auto
  have "tree_ok t'" using tree_ok_put [OF t(1) _ names, of "FFile x"] t'(3) by simp
  then show ?thesis using t' st by (auto simp: fs_copy_def lift_io_def)
qed

lemma copy_entries_overlay:
  assumes rec: "\<And>src dst t. copy_ready n src dst t \<Longrightarrow>
      \<exists>t'. rec src dst t = Some (Inr (), t') \<and> copy_done src dst t t'"
    and v: "v = view t0" "apart s d" "compat v s d" "depth_below v s (Suc n)"
    and sd: "s = comps src" "d = comps dst" "src \<noteq> []" "dst \<noteq> []" "list_all name_ok d"
  shows "tree_ok t \<Longrightarrow> view t = overlay D v s d \<Longrightarrow> distinct (map fst es) \<Longrightarrow>
      D \<inter> fst ` set es = {} \<Longrightarrow>
      \<forall>e\<in>set es. name_ok (fst e) \<and> v (s @ [fst e]) = Some (entry_of (snd e)) \<Longrightarrow>
      \<exists>t'. copy_entries rec src dst es t = Some (Inr (), t') \<and> tree_ok t'
        \<and> view t' = overlay (D \<union> fst ` set es) v s d"
proof (induction es arbitrary: t D)
  case Nil
  then show ?case by simp
next
  case (Cons e es)
  obtain c k where e: "e = (c, k)" by (cases e)
  have c: "name_ok c" "v (s @ [c]) = Some (entry_of k)" "c \<notin> D" using Cons.prems e by auto
  have root: "dir_at t []" using Cons.prems(2) by (simp add: overlay_def flip: view_VDir del: dir_at_simps)
  have vs: "view t (s @ r) = v (s @ r)" for r using Cons.prems(2) overlay_source [OF v(2)] by simp
  have vd: "view t (d @ c # r) = v (d @ c # r)" for r using Cons.prems(2) c(3) by (simp add: overlay_dest)
  have vdir: "view t d = Some VDir" using Cons.prems(2) by (simp add: overlay_def)
  have step: "\<exists>t'. copy_entries rec src dst (e # es) t = Some (Inr (), t') \<and> tree_ok t'
        \<and> view t' = overlay (D \<union> fst ` set (e # es)) v s d"
    if t1: "tree_ok t1" "view t1 = overlay (insert c D) v s d"
      and eq: "copy_entries rec src dst (e # es) t = copy_entries rec src dst es t1" for t1
  proof -
    have "insert c D \<inter> fst ` set es = {}" using Cons.prems(3,4) e by auto
    from Cons.IH [OF t1 _ this] show ?thesis using Cons.prems(3,5) e eq by (simp add: insert_commute)
  qed
  show ?case
  proof (cases k)
    case (FFile x)
    obtain t1 where t1: "lift_io (fs_copy (path_join src c) (path_join dst c)) t = (Inr (), t1)"
      "tree_ok t1" "view t1 = (view t)(d @ [c] := Some (VFile x))"
      using copy_file_entry [OF Cons.prems(1) root sd(3,4) c(1), of x] vs [of "[c]"] vd [of "[]"] vdir
        c(2) FFile v(3) sd(1,2) unfolding compat_def by (auto simp: sd(1,2))
    have "view t1 = overlay (insert c D) v s d"
      unfolding t1(3) Cons.prems(2)
    proof (rule overlay_file)
      show "v (s @ c # r) = None" if "r \<noteq> []" for r
        using view_below_leaf [of t0 "s @ [c]" "VFile x" r] c(2) FFile that v(1) by simp
    qed (use c FFile in \<open>simp_all add: no_link_def\<close>)
    then show ?thesis using t1 e FFile by (intro step [OF t1(2)]) simp_all
  next
    case (FLink l)
    have "no_link (v (s @ c # r)) = None" for r
      using view_below_leaf [of t0 "s @ [c]" "VLink l" r] c(2) FLink v(1)
      by (cases "r = []") (simp_all add: no_link_def)
    then have "overlay (insert c D) v s d = overlay D v s d" by (rule overlay_skip)
    then show ?thesis using Cons.prems(1,2) e FLink by (intro step [of t]) simp_all
  next
    case (FDir ks)
    let ?src = "path_join src c" and ?dst = "path_join dst c"
    have k: "kcomps ?src = s @ [c]" "comps ?src = s @ [c]" "comps ?dst = d @ [c]" "?src \<noteq> []" "?dst \<noteq> []"
      using c(1) sd by (simp_all add: kcomps_join_name comps_join name_ok_relative)
        (auto simp: path_join_def name_ok_def)
    have vc: "view t (s @ [c]) = Some VDir" using vs [of "[c]"] c(2) FDir by simp
    have "compat (view t) (s @ [c]) (d @ [c])"
      using v(3) vs vd unfolding compat_def by (metis append.assoc append_Cons append_Nil)
    moreover have "depth_below (view t) (s @ [c]) n"
      using v(4) vs unfolding depth_below_def by (metis Suc_less_SucD append.assoc append_Cons append_Nil length_Cons)
    moreover have "free_dir t (d @ [c])"
    proof -
      have "view t q = None \<or> view t q = Some VDir" if q: "prefix q (d @ [c])" for q
      proof (cases "prefix q d")
        case True
        then show ?thesis using Cons.prems(2) by (simp add: overlay_def)
      next
        case False
        then have "q = d @ [c]" using q by (auto simp: prefix_snoc)
        then show ?thesis using vd [of "[]"] v(3) c(2) FDir unfolding compat_def by auto
      qed
      then show ?thesis using sd(5) c(1) by (simp add: free_dir_view)
    qed
    ultimately have "copy_ready n ?src ?dst t"
      using Cons.prems(1) root k vc apart_snoc [OF v(2)] by (simp add: copy_ready_def del: dir_at_simps)
    then obtain t1 where t1: "rec ?src ?dst t = Some (Inr (), t1)" "copy_done ?src ?dst t t1"
      using rec by blast
    have "view t1 = overlay (insert c D) v s d"
      using t1(2) overlay_step [OF v(2) c(3), of v] c(2) FDir Cons.prems(2)
      by (simp add: copy_done_def copied_def k no_link_def)
    then show ?thesis using t1 e FDir by (intro step [of t1]) (simp_all add: copy_done_def)
  qed
qed

lemma copy_dir_copies:
  "copy_ready n src dst t \<Longrightarrow>
     \<exists>t'. copy_dir_recursive n src dst t = Some (Inr (), t') \<and> copy_done src dst t t'"
proof (induction n arbitrary: src dst t)
  case 0
  then show ?case unfolding copy_ready_def depth_below_def by (metis append_Nil2 not_less0)
next
  case (Suc n)
  let ?s = "comps src" and ?d = "comps dst" and ?v = "view t"
  note r = Suc.prems [unfolded copy_ready_def]
  obtain t1 where t1: "create_dir_all dst t = (Inr (), t1)" "dir_created t ?d t1"
    "\<And>q. view t1 q = (if prefix q ?d then Some VDir else ?v q)"
    using create_dir_all_view [of t dst] r by auto
  have ok1: "tree_ok t1" using t1(2) r by (simp add: dir_created_def)
  have v1: "view t1 = overlay {} ?v ?s ?d"
    by (rule ext) (auto simp: t1(3) overlay_def split: option.splits list.splits)
  have s1: "view t1 ?s = Some VDir" using overlay_source [of ?s ?d "{}" ?v "[]"] r v1 by simp
  have root: "dir_at t1 []" using t1(3) [of "[]"] by (simp add: view_VDir del: dir_at_simps)
  obtain es where es: "lookup t1 ?s = Some (FDir es)" using s1 by (auto simp: view_VDir dir_at_iff)
  have "read_dir src t1 = Inr es"
    using stat_plain [OF root, of src "FDir es"] plain_source [OF ok1 root s1] es r
    by (simp add: read_dir_def)
  moreover have "\<exists>t'. copy_entries (copy_dir_recursive n) src dst es t1 = Some (Inr (), t')
      \<and> tree_ok t' \<and> view t' = overlay ({} \<union> fst ` set es) ?v ?s ?d"
  proof (rule copy_entries_overlay [OF Suc.IH refl, where s = ?s and d = ?d])
    have "tree_ok (FDir es)" by (rule tree_ok_lookup [OF ok1 es])
    then show "distinct (map fst es)" by simp
    show "\<forall>e\<in>set es. name_ok (fst e) \<and> ?v (?s @ [fst e]) = Some (entry_of (snd e))"
    proof
      fix e assume e: "e \<in> set es"
      have "lookup t1 (?s @ [fst e]) = Some (snd e)" using lookup_entry [OF ok1 es, of "fst e" "snd e"] e by simp
      then have "view t1 (?s @ [fst e]) = Some (entry_of (snd e))" by (simp add: view_def)
      then have "?v (?s @ [fst e]) = Some (entry_of (snd e))"
        using overlay_source [of ?s ?d "{}" ?v "[fst e]"] r v1 by simp
      then show "name_ok (fst e) \<and> ?v (?s @ [fst e]) = Some (entry_of (snd e))"
        using \<open>tree_ok (FDir es)\<close> e by simp
    qed
  qed (use r ok1 v1 in \<open>auto simp: free_dir_def\<close>)
  then obtain t' where t': "copy_entries (copy_dir_recursive n) src dst es t1 = Some (Inr (), t')"
    "tree_ok t'" "view t' = overlay (fst ` set es) ?v ?s ?d" by auto
  have "view t' = copied ?v ?s ?d"
    unfolding t'(3) copied_def
  proof (rule ext)
    fix q
    have none: "?v (?s @ c # r') = None" if c: "c \<notin> fst ` set es" for c r'
    proof -
      have "map_of es c = None" using c by (simp add: map_of_eq_None_iff)
      then have "lookup t1 (?s @ c # r') = None" using es by (simp add: lookup_append)
      then show ?thesis using overlay_source [of ?s ?d "{}" ?v "c # r'"] r v1
        by (metis view_None)
    qed
    show "overlay (fst ` set es) ?v ?s ?d q = overlay UNIV ?v ?s ?d q"
      by (auto simp: overlay_def no_link_def none split: option.splits list.splits)
  qed
  ultimately show ?case using t1(1) t'(1,2) by (simp add: lift_io_def copy_done_def)
qed

section \<open>Snapshots\<close>

lemma view_overlay_dest:
  "view t (s @ []) = Some VDir \<Longrightarrow>
     copied (view t) s d (d @ r) = (case no_link (view t (s @ r)) of Some e \<Rightarrow> Some e | None \<Rightarrow> view t (d @ r))"
proof (cases r)
  case Nil
  assume "view t (s @ []) = Some VDir"
  then show ?thesis using Nil by (simp add: copied_def overlay_def no_link_def)
next
  case (Cons c r')
  then show ?thesis by (simp add: copied_def overlay_dest split: option.split)
qed

lemma no_link_idem [simp]: "no_link (no_link e) = no_link e"
  by (auto simp: no_link_def split: option.splits entry.splits)

text \<open>
  C4. A snapshot restores what was saved. Saving a workspace under a fresh snapshot id and
  restoring it into another workspace both succeed; every directory and file of the saved
  workspace is then in the target with the same contents, links are left out, what the target
  had elsewhere is kept, and the saved workspace itself is unchanged.
\<close>

theorem snapshot_restore_roundtrip:
  fixes m sid dst ws t
  defines "snap \<equiv> path_join (snapshots_dir m) sid"
  assumes ready: "copy_ready n ws snap t" and fresh: "view t (comps snap) = None"
    and snap: "kcomps snap = comps snap"
    and dst: "dst \<noteq> []" "free_dir t (comps dst)" "compat (view t) (comps ws) (comps dst)"
      "apart (comps snap) (comps dst)" "apart (comps ws) (comps dst)"
  shows "\<exists>t1 t2. create_snapshot n m ws sid t = Some (Inr (), t1)
    \<and> restore_snapshot n m sid dst t1 = Some (Inr (), t2)
    \<and> (\<forall>r. view t2 (comps dst @ r) =
          (case no_link (view t (comps ws @ r)) of Some e \<Rightarrow> Some e | None \<Rightarrow> view t (comps dst @ r)))
    \<and> (\<forall>r. view t2 (comps ws @ r) = view t (comps ws @ r))"
proof -
  let ?w = "comps ws" and ?s = "comps snap" and ?d = "comps dst"
  note r = ready [unfolded copy_ready_def]
  have wdir: "view t ?w = Some VDir" using r by simp
  obtain t1 where t1: "copy_dir_recursive n ws snap t = Some (Inr (), t1)" "tree_ok t1"
    "view t1 = copied (view t) ?w ?s"
    using copy_dir_copies [OF ready] by (auto simp: copy_done_def)
  have below: "view t (?s @ q) = None" for q
    using fresh by (simp add: view_None lookup_None_append)
  have vs: "view t1 (?s @ q) = no_link (view t (?w @ q))" for q
    using view_overlay_dest [of t ?w ?s q] wdir below by (simp add: t1(3) split: option.splits)
  have vd: "view t1 (?d @ q) = view t (?d @ q)" for q
  proof -
    have "\<not> prefix ?s (?d @ q)" using apart_append [OF dst(4)] by (metis prefix_def)
    moreover have "\<not> prefix (?d @ q) ?s" using dst(4) by (metis apart_def append_prefixD)
    ultimately show ?thesis by (simp add: t1(3) copied_def overlay_def rel_to_def)
  qed
  have vw: "view t1 (?w @ q) = view t (?w @ q)" for q
    using overlay_source [of ?w ?s UNIV "view t" q] r by (simp add: t1(3) copied_def)
  have root: "dir_at t1 []"
    unfolding view_VDir [symmetric] by (simp add: t1(3) copied_def overlay_def)
  have ready2: "copy_ready n snap dst t1"
  proof -
    have "compat (view t1) ?s ?d"
      using dst(3) unfolding compat_def vs vd by (auto simp: no_link_def split: option.splits entry.splits)
    moreover have "depth_below (view t1) ?s n"
      using r unfolding depth_below_def vs by (auto simp: no_link_def split: option.splits entry.splits)
    moreover have "free_dir t1 ?d"
      using dst(2) unfolding free_dir_view t1(3) copied_def
      by (auto simp: overlay_def rel_to_def prefix_def no_link_def split: option.splits list.splits)
        (metis apart_append append.assoc dst(4))+
    moreover have "view t1 ?s = Some VDir" using vs [of "[]"] wdir by (simp add: no_link_def)
    ultimately show ?thesis
      using t1(2) root r snap dst(1,4) by (simp add: copy_ready_def del: dir_at_simps)
  qed
  obtain t2 where t2: "copy_dir_recursive n snap dst t1 = Some (Inr (), t2)"
    "view t2 = copied (view t1) ?s ?d"
    using copy_dir_copies [OF ready2] by (auto simp: copy_done_def)
  have sdir: "view t1 ?s = Some VDir" using vs [of "[]"] wdir by (simp add: no_link_def)
  then have "stat True snap t1 = stat True snap t1 \<and> path_exists snap t1"
    using plain_source [OF t1(2) root sdir] resolve_plain [OF root, of ?s True] snap
    by (auto simp: path_exists_def stat_def view_VDir dir_at_iff)
  moreover have "view t2 (?d @ q) =
      (case no_link (view t (?w @ q)) of Some e \<Rightarrow> Some e | None \<Rightarrow> view t (?d @ q))" for q
    using view_overlay_dest [of t1 ?s ?d q] sdir
    by (simp add: t2(2) vs vd split: option.split)
  moreover have "view t2 (?w @ q) = view t (?w @ q)" for q
  proof -
    have "\<not> prefix ?d (?w @ q)" using apart_append [OF dst(5)] by (metis prefix_def)
    moreover have "\<not> prefix (?w @ q) ?d" using dst(5) by (metis apart_def append_prefixD)
    ultimately show ?thesis using vw by (simp add: t2(2) copied_def overlay_def rel_to_def)
  qed
  ultimately show ?thesis
    using t1(1) t2(1) by (auto simp: create_snapshot_def restore_snapshot_def snap_def)
qed

text \<open>A workspace with one file, and an empty directory to restore it into.\<close>

definition copy_demo :: node where
  "copy_demo = FDir [(''w'', FDir [(''a'', FFile ''x'')]), (''d'', FDir [])]"

definition copy_mgr :: WorkspaceManager where
  "copy_mgr = \<lparr>base_dir = ''b'', disk_watermark_bytes = 0\<rparr>"

lemma copy_demo_w:
  "view copy_demo (''w'' # r) =
     (if r = [] then Some VDir else if r = [''a''] then Some (VFile ''x'') else None)"
  by (cases r; cases "tl r") (auto simp: copy_demo_def view_def)

lemma copy_demo_d: "view copy_demo (''d'' # r) = (if r = [] then Some VDir else None)"
  by (cases r) (auto simp: copy_demo_def view_def)

lemma copy_demo_b: "view copy_demo (''b'' # r) = None"
  by (simp add: copy_demo_def view_def)

lemma free_single: "dir_at t [] \<Longrightarrow> name_ok c \<Longrightarrow> view t [c] \<in> {None, Some VDir} \<Longrightarrow> free_dir t [c]"
  using view_VDir [of t "[]"] by (auto simp: free_dir_view prefix_Cons simp del: dir_at_simps)

theorem snapshot_restore_roundtrip_witness:
  "\<exists>t1 t2. create_snapshot 2 copy_mgr ''w'' ''p'' copy_demo = Some (Inr (), t1)
     \<and> restore_snapshot 2 copy_mgr ''p'' ''d'' t1 = Some (Inr (), t2)
     \<and> view t2 [''d'', ''a''] = Some (VFile ''x'')"
proof -
  let ?snap = "path_join (snapshots_dir copy_mgr) ''p''"
  have snap: "?snap = ''b/snapshots/p''"
    by (simp add: snapshots_dir_def copy_mgr_def path_join_def starts_with_def)
  have c: "comps ''b/snapshots/p'' = [''b'', ''snapshots'', ''p'']" "kcomps ''b/snapshots/p'' = [''b'', ''snapshots'', ''p'']"
    "comps ''w'' = [''w'']" "kcomps ''w'' = [''w'']" "comps ''d'' = [''d'']"
    by (simp_all add: comps_def kcomps_def)
  have root: "dir_at copy_demo []" by (simp add: copy_demo_def)
  have names: "name_ok ''b''" "name_ok ''snapshots''" "name_ok ''p''" "name_ok ''w''" "name_ok ''d''"
    by (simp_all add: name_ok_def)
  have "view copy_demo q = None \<or> view copy_demo q = Some VDir" if "prefix q [''b'', ''snapshots'', ''p'']" for q
    using that copy_demo_b root view_VDir [of copy_demo "[]"] by (auto simp: prefix_Cons simp del: dir_at_simps)
  then have fs: "free_dir copy_demo [''b'', ''snapshots'', ''p'']" using names by (simp add: free_dir_view)
  have ok: "tree_ok copy_demo" by (simp add: copy_demo_def name_ok_def)
  have ready: "copy_ready 2 ''w'' ?snap copy_demo"
    unfolding copy_ready_def snap c
    using fs root ok copy_demo_w [of "[]"]
    by (auto simp: apart_def compat_def depth_below_def copy_demo_w copy_demo_b)
  have fd: "free_dir copy_demo (comps ''d'')"
    unfolding c by (rule free_single [OF root names(5)]) (simp add: copy_demo_d)
  have cd: "compat (view copy_demo) (comps ''w'') (comps ''d'')"
    unfolding c by (auto simp: compat_def copy_demo_w copy_demo_d)
  have ap: "apart (comps ?snap) (comps ''d'')" "apart (comps ''w'') (comps ''d'')"
    unfolding snap c by (simp_all add: apart_def)
  have fresh: "view copy_demo (comps ?snap) = None" "kcomps ?snap = comps ?snap"
    unfolding snap c by (simp_all add: copy_demo_b)
  obtain t1 t2 where t: "create_snapshot 2 copy_mgr ''w'' ''p'' copy_demo = Some (Inr (), t1)"
    "restore_snapshot 2 copy_mgr ''p'' ''d'' t1 = Some (Inr (), t2)"
    "\<And>r. view t2 (comps ''d'' @ r) = (case no_link (view copy_demo (comps ''w'' @ r)) of Some e \<Rightarrow> Some e
        | None \<Rightarrow> view copy_demo (comps ''d'' @ r))"
    using snapshot_restore_roundtrip [OF ready fresh _ fd cd ap] by auto
  show ?thesis using t(1,2) t(3) [of "[''a'']"] by (auto simp: c copy_demo_w no_link_def)
qed

end
