(* ===== verification/WorkspaceLife.thy ===== *)
theory WorkspaceLife
  imports CopyProofs
begin

text \<open>
  The life of a directory of the base area: its creation, its listing and its removal, for jobs,
  sessions, snapshots and volumes alike, and the size that the disk watchdog measures.
\<close>

section \<open>Creation\<close>

lemma create_workspace_at_view:
  assumes t: "tree_ok t" "dir_at t []" and b: "list_all name_ok (comps base)"
    and free: "free_dir t (comps base @ [''workspace'', ''tmp''])"
      "free_dir t (comps base @ [''input''])" "free_dir t (comps base @ [''output''])"
  shows "\<exists>w t'. create_workspace_at base t = (Inr w, t') \<and> tree_ok t' \<and> jw_root w = base
    \<and> comps (jw_workspace w) = comps base @ [''workspace'']
    \<and> comps (jw_tmp w) = comps base @ [''workspace'', ''tmp'']
    \<and> (\<forall>q. view t' q =
         (if prefix q (comps base @ [''workspace'', ''tmp'']) \<or> prefix q (comps base @ [''input''])
            \<or> prefix q (comps base @ [''output'']) then Some VDir else view t q))"
proof -
  let ?b = "comps base"
  let ?w = "path_join base ''workspace''"
  have rel: "\<not> starts_with ''/'' ''workspace''" "\<not> starts_with ''/'' ''tmp''" "\<not> starts_with ''/'' ''input''"
    "\<not> starts_with ''/'' ''output''"
    by (auto simp: starts_with_iff)
  have sing: "comps ''workspace'' = [''workspace'']" "comps ''tmp'' = [''tmp'']"
    "comps ''input'' = [''input'']" "comps ''output'' = [''output'']"
    by (simp_all add: comps_def)
  have c: "comps ?w = ?b @ [''workspace'']" "comps (path_join base ''input'') = ?b @ [''input'']"
    "comps (path_join base ''output'') = ?b @ [''output'']"
    "comps (path_join ?w ''tmp'') = ?b @ [''workspace'', ''tmp'']"
    using rel by (simp_all add: comps_join sing)
  have step: "\<exists>t'. create_dir_all p u = (Inr (), t') \<and> tree_ok t' \<and> dir_at t' []
      \<and> (\<forall>q. view t' q = (if prefix q (comps p) then Some VDir else view u q))"
    if u: "tree_ok u" "dir_at u []" "free_dir u (comps p)" for p u
  proof -
    obtain t' where "create_dir_all p u = (Inr (), t')" "dir_created u (comps p) t'"
      "\<forall>q. view t' q = (if prefix q (comps p) then Some VDir else view u q)"
      using create_dir_all_view [OF u(2,3)] by blast
    then show ?thesis using u by (auto simp: dir_created_def simp del: dir_at_simps)
  qed
  have keep: "free_dir u' p" if "free_dir u p" "\<And>q. view u' q = (if prefix q r then Some VDir else view u q)"
    for u u' p r
    using that by (auto simp: free_dir_view)
  obtain t1 where t1: "create_dir_all ?w t = (Inr (), t1)" "tree_ok t1" "dir_at t1 []"
    "\<And>q. view t1 q = (if prefix q (?b @ [''workspace'']) then Some VDir else view t q)"
    using step [OF t, of ?w] free_dir_prefix [of t "?b @ [''workspace'']" "[''tmp'']"] free(1) by (auto simp: c)
  obtain t2 where t2: "create_dir_all (path_join base ''input'') t1 = (Inr (), t2)" "tree_ok t2" "dir_at t2 []"
    "\<And>q. view t2 q = (if prefix q (?b @ [''input'']) then Some VDir else view t1 q)"
    using step [OF t1(2,3), of "path_join base ''input''"] keep [OF free(2) t1(4)] by (auto simp: c)
  obtain t3 where t3: "create_dir_all (path_join base ''output'') t2 = (Inr (), t3)" "tree_ok t3" "dir_at t3 []"
    "\<And>q. view t3 q = (if prefix q (?b @ [''output'']) then Some VDir else view t2 q)"
    using step [OF t2(2,3), of "path_join base ''output''"] keep [OF keep [OF free(3) t1(4)] t2(4)] by (auto simp: c)
  obtain t4 where t4: "create_dir_all (path_join ?w ''tmp'') t3 = (Inr (), t4)" "tree_ok t4" "dir_at t4 []"
    "\<And>q. view t4 q = (if prefix q (?b @ [''workspace'', ''tmp'']) then Some VDir else view t3 q)"
    using step [OF t3(2,3), of "path_join ?w ''tmp''"]
      keep [OF keep [OF keep [OF free(1) t1(4)] t2(4)] t3(4)] by (auto simp: c)
  have pre: "prefix q (?b @ [''workspace'']) \<Longrightarrow> prefix q (?b @ [''workspace'', ''tmp''])" for q
    using prefix_prefix [of q "?b @ [''workspace'']" "[''tmp'']"] by simp
  show ?thesis
    using t1(1) t2(1) t3(1) t4(1,2) c(1,4)
    by (auto simp: create_workspace_at_def Let_def st_bind_def lift_io_def t4(4) t3(4) t2(4) t1(4) dest: pre)
qed

section \<open>Removal\<close>

text \<open>\<open>remove_if_exists\<close> on a link-free place: the whole subtree goes, and nothing else.\<close>

definition pruned :: "path \<Rightarrow> node \<Rightarrow> node \<Rightarrow> bool" where
  "pruned p t t' = (tree_ok t' \<and> (\<forall>q. view t' q = (if prefix p q then None else view t q)))"

lemma tree_ok_del: "tree_ok t \<Longrightarrow> tree_ok (del t p)"
proof (induction t p rule: del.induct)
  case (2 es c cs)
  have "tree_ok (FDir (AList.delete c es))"
    using "2.prems" by (auto simp: AList.delete_eq intro: distinct_map_filter)
  moreover have "tree_ok (FDir (AList.update c (del k cs) es))" if "map_of es c = Some k" "cs \<noteq> []" for k
    using 2 that tree_ok_map_of [OF "2.prems" that(1)] by (intro tree_ok_update) auto
  ultimately show ?case using "2.prems" by (simp del: tree_ok.simps(3) split: option.split)
qed auto

lemma path_missing:
  assumes t: "dir_at t []" and p: "kcomps p = comps p" and free: "free_dir t (comps p)"
    and none: "view t (comps p) = None"
  shows "\<not> path_exists p t"
proof -
  have ne: "comps p \<noteq> []" using t none by (auto simp: view_None)
  show ?thesis
  proof (cases "dir_at t (butlast (comps p))")
    case True
    then have "plain t (comps p)" using none free by (auto simp: plain_view view_VDir free_dir_def)
    from resolve_plain [OF t this, of True] none show ?thesis
      by (simp add: path_exists_def stat_def p view_None)
  next
    case False
    have "prefix (butlast (comps p)) (comps p)" using ne by (metis append_butlast_last_id prefixI)
    then have "lookup t (butlast (comps p)) = None" using False free by (auto simp: free_dir_def)
    then have "resolve_path t True (comps p) = Inl ENOENT"
      unfolding resolve_path_def
      by (intro resolve_missing) (use t ne free in \<open>auto simp: free_dir_def\<close>)
    then show ?thesis by (simp add: path_exists_def stat_def p)
  qed
qed

lemma remove_if_exists_view:
  assumes t: "tree_ok t" "dir_at t []" and p: "kcomps p = comps p" "comps p \<noteq> []"
    and free: "free_dir t (comps p)"
  shows "\<exists>t'. remove_if_exists p t = (Inr (), t') \<and> pruned (comps p) t t'"
proof (cases "view t (comps p) = None")
  case False
  then have d: "dir_at t (comps p)" using free by (auto simp: free_dir_view view_VDir)
  then have pl: "plain t (comps p)" using dir_at_plain free by (simp add: free_dir_def)
  obtain es where es: "lookup t (comps p) = Some (FDir es)" using d by (auto simp: dir_at_iff)
  have "path_exists p t"
    using stat_plain [OF t(2), of p "FDir es" True] pl es p by (simp add: path_exists_def)
  moreover have "remove_dir_all p t = (Inr (), del t (comps p))"
    using resolve_plain [OF t(2) pl, of False] es p by (simp add: remove_dir_all_def)
  ultimately show ?thesis
    using view_del [OF p(2)] tree_ok_del [OF t(1)] by (simp add: remove_if_exists_def lift_io_def pruned_def)
next
  case True
  have "\<not> path_exists p t" by (rule path_missing) fact+
  moreover have "view t q = None" if "prefix (comps p) q" for q
    using True that by (auto simp: prefix_def view_None lookup_None_append)
  ultimately show ?thesis using t(1) by (simp add: remove_if_exists_def pruned_def)
qed

lemma pruned_root: "pruned p t t' \<Longrightarrow> p \<noteq> [] \<Longrightarrow> dir_at t [] \<Longrightarrow> dir_at t' []"
  unfolding view_VDir [symmetric] by (simp add: pruned_def)

lemma pruned_free: "pruned p t t' \<Longrightarrow> free_dir t q \<Longrightarrow> free_dir t' q"
  by (auto simp: pruned_def free_dir_view)

section \<open>Listing\<close>

lemma is_dir_node_iff: "is_dir_node k \<longleftrightarrow> (\<exists>es. k = FDir es)"
  by (cases k) auto

lemma list_subdirs_set:
  assumes t: "tree_ok t" "dir_at t []" and d: "kcomps dir = comps dir"
    and free: "free_dir t (comps dir)"
  shows "\<exists>ns. list_subdirs dir t = (Inr ns, t) \<and> distinct ns
    \<and> set ns = {n. view t (comps dir @ [n]) = Some VDir \<and> utf8_valid n}"
proof (cases "view t (comps dir) = None")
  case True
  have "\<not> path_exists dir t" by (rule path_missing) fact+
  moreover have "view t (comps dir @ [n]) = None" for n
    using True by (simp add: view_None lookup_None_append)
  ultimately show ?thesis by (simp add: list_subdirs_def)
next
  case False
  then have dd: "dir_at t (comps dir)" using free by (auto simp: free_dir_view view_VDir)
  then have pl: "plain t (comps dir)" using dir_at_plain free by (simp add: free_dir_def)
  obtain es where es: "lookup t (comps dir) = Some (FDir es)" using dd by (auto simp: dir_at_iff)
  have st: "stat True dir t = Inr (FDir es)"
    using stat_plain [OF t(2), of dir "FDir es" True] pl es d by simp
  let ?ns = "map fst (filter (\<lambda>(name, n). is_dir_node n \<and> utf8_valid name) es)"
  have ok: "distinct (map fst es)" using tree_ok_lookup [OF t(1) es] by simp
  have "list_subdirs dir t = (Inr ?ns, t)"
    using st by (simp add: list_subdirs_def path_exists_def read_dir_def lift_query_def st_bind_def)
  moreover have "distinct ?ns" using ok by (rule distinct_map_filter)
  moreover have "n \<in> set ?ns \<longleftrightarrow> view t (comps dir @ [n]) = Some VDir \<and> utf8_valid n" for n
  proof -
    have "view t (comps dir @ [n]) = map_option entry_of (map_of es n)"
      using es by (auto simp: view_def lookup_append split: option.split)
    then have "view t (comps dir @ [n]) = Some VDir \<longleftrightarrow> (\<exists>k. (n, k) \<in> set es \<and> is_dir_node k)"
      using ok by (auto simp: is_dir_node_iff)
    then show ?thesis by (force simp: image_iff)
  qed
  ultimately show ?thesis by blast
qed

section \<open>Removing many\<close>

text \<open>Removing the subdirectories \<open>ids\<close> of a directory one after another.\<close>

lemma name_child: "name_ok c \<Longrightarrow> dir \<noteq> [] \<Longrightarrow>
    kcomps (path_join dir c) = comps dir @ [c] \<and> comps (path_join dir c) = comps dir @ [c]"
  by (simp add: kcomps_join_name comps_join name_ok_relative)

lemma remove_child:
  assumes "tree_ok t" "dir_at t []" "dir \<noteq> []" "free_dir t (comps dir)" "name_ok c"
    "view t (comps dir @ [c]) = None \<or> view t (comps dir @ [c]) = Some VDir"
  shows "\<exists>t'. remove_if_exists (path_join dir c) t = (Inr (), t')
    \<and> pruned (comps dir @ [c]) t t' \<and> dir_at t' [] \<and> free_dir t' (comps dir)"
proof -
  note k = name_child [OF assms(5,3)]
  have "free_dir t (comps dir @ [c])"
    using assms(4,5,6) by (auto simp: free_dir_view prefix_snoc)
  then obtain t' where "remove_if_exists (path_join dir c) t = (Inr (), t')" "pruned (comps dir @ [c]) t t'"
    using remove_if_exists_view [OF assms(1,2), of "path_join dir c"] k by auto
  then show ?thesis using pruned_root [OF _ _ assms(2)] pruned_free assms(4) by blast
qed

text \<open>A loop that removes one child after another and counts what it did.\<close>

fun remove_loop :: "(string \<Rightarrow> unit cfs) \<Rightarrow> string list \<Rightarrow> nat \<times> nat \<Rightarrow> node \<Rightarrow> (nat \<times> nat) \<times> node" where
  "remove_loop cleanup [] counts t = (counts, t)"
| "remove_loop cleanup (i # ids) (cleaned, errors) t =
     (case cleanup i t of
        (Inr _, t') \<Rightarrow> remove_loop cleanup ids (cleaned + 1, errors) t'
      | (Inl _, t') \<Rightarrow> remove_loop cleanup ids (cleaned, errors + 1) t')"

lemma remove_loop_view:
  assumes "dir \<noteq> []"
  shows "tree_ok t \<Longrightarrow> dir_at t [] \<Longrightarrow> free_dir t (comps dir) \<Longrightarrow>
     \<forall>i\<in>set ids. name_ok i \<and> view t (comps dir @ [i]) \<in> {None, Some VDir} \<Longrightarrow>
     \<exists>t'. remove_loop (\<lambda>i. remove_if_exists (path_join dir i)) ids (n, e) t = ((n + length ids, e), t')
       \<and> tree_ok t' \<and> dir_at t' [] \<and> free_dir t' (comps dir)
       \<and> (\<forall>q. view t' q = (if \<exists>i\<in>set ids. prefix (comps dir @ [i]) q then None else view t q))"
proof (induction ids arbitrary: t n)
  case Nil
  then show ?case by simp
next
  case (Cons i ids)
  obtain t1 where t1: "remove_if_exists (path_join dir i) t = (Inr (), t1)"
    "pruned (comps dir @ [i]) t t1" "dir_at t1 []" "free_dir t1 (comps dir)"
    using remove_child [OF Cons.prems(1,2) assms Cons.prems(3), of i] Cons.prems(4) by auto
  have v1: "tree_ok t1" "\<And>q. view t1 q = (if prefix (comps dir @ [i]) q then None else view t q)"
    using t1(2) by (simp_all add: pruned_def)
  have "\<forall>j\<in>set ids. name_ok j \<and> view t1 (comps dir @ [j]) \<in> {None, Some VDir}"
    using Cons.prems(4) by (simp add: v1(2))
  from Cons.IH [OF v1(1) t1(3,4) this, of "n + 1"] obtain t' where
    t': "remove_loop (\<lambda>i. remove_if_exists (path_join dir i)) ids (n + 1, e) t1 = ((n + 1 + length ids, e), t')"
      "tree_ok t'" "dir_at t' []" "free_dir t' (comps dir)"
      "\<And>q. view t' q = (if \<exists>i\<in>set ids. prefix (comps dir @ [i]) q then None else view t1 q)" by blast
  have "view t' q = (if \<exists>j\<in>set (i # ids). prefix (comps dir @ [j]) q then None else view t q)" for q
    by (auto simp: t'(5) v1(2))
  then show ?case using t'(1-4) t1(1) by simp
qed

end
