(* ===== verification/Recovery.thy ===== *)
theory Recovery
  imports WorkspaceLife
begin

text \<open>
  Crash recovery, \<open>sandbox-core/src/recovery.rs\<close>: the start-up scan of the base directory, and
  the life of a job's directory from its creation to its removal.
\<close>

record RecoveryReport =
  scanned :: nat
  cleaned :: nat
  rec_errors :: nat

definition recover_with ::
    "string list cfs \<Rightarrow> (string \<Rightarrow> unit cfs) \<Rightarrow> RecoveryReport cfs" where
  "recover_with list_ids cleanup =
     st_bind list_ids (\<lambda>ids t.
       case remove_loop cleanup ids (0, 0) t of
         ((c, e), t') \<Rightarrow> (Inr \<lparr>scanned = length ids, cleaned = c, rec_errors = e\<rparr>, t'))"

definition recover :: "WorkspaceManager \<Rightarrow> RecoveryReport cfs" where
  "recover m = recover_with (list_jobs m) (cleanup_job m)"

definition recover_sessions :: "WorkspaceManager \<Rightarrow> RecoveryReport cfs" where
  "recover_sessions m = recover_with (list_sessions m) (cleanup_session m)"

text \<open>The base directory of a manager is there, and no link leads to it.\<close>

definition base_ready :: "WorkspaceManager \<Rightarrow> node \<Rightarrow> bool" where
  "base_ready m t =
     (tree_ok t \<and> dir_at t [] \<and> base_dir m \<noteq> [] \<and> kcomps (base_dir m) = comps (base_dir m)
      \<and> view t (comps (base_dir m)) = Some VDir)"

lemma view_dir_prefix: "view t p = Some VDir \<Longrightarrow> prefix q p \<Longrightarrow> view t q = Some VDir"
  using dir_at_prefix [of t q] by (auto simp: view_VDir prefix_def)

lemma dir_free: "tree_ok t \<Longrightarrow> view t p = Some VDir \<Longrightarrow> free_dir t p"
proof -
  assume t: "tree_ok t" "view t p = Some VDir"
  have "view t q = Some VDir" if "prefix q p" for q
    using view_dir_prefix [OF t(2) that] .
  moreover have "list_all name_ok p"
    using tree_ok_names [OF t(1), of p] t(2) view_None [of t p] by auto
  ultimately show ?thesis by (simp add: free_dir_view)
qed

lemma base_free: "base_ready m t \<Longrightarrow> free_dir t (comps (base_dir m))"
  by (auto simp: base_ready_def intro: dir_free)

lemma base_child_free:
  "base_ready m t \<Longrightarrow> name_ok c \<Longrightarrow> view t (comps (base_dir m) @ [c]) \<in> {None, Some VDir} \<Longrightarrow>
     free_dir t (comps (base_dir m) @ [c])"
  using base_free [of m t] by (auto simp: free_dir_view prefix_snoc)

section \<open>The start-up scan\<close>

lemma list_area_empty:
  assumes t: "tree_ok t" "dir_at t []" and d: "kcomps dir = comps dir" "free_dir t (comps dir)"
    and none: "view t (comps dir) = None"
  shows "list_subdirs dir t = (Inr [], t)"
proof -
  obtain ns where "list_subdirs dir t = (Inr ns, t)"
    "set ns = {n. view t (comps dir @ [n]) = Some VDir \<and> utf8_valid n}"
    using list_subdirs_set [OF t d] by blast
  moreover have "view t (comps dir @ [n]) = None" for n
    using none by (simp add: view_None lookup_None_append)
  ultimately show ?thesis by simp
qed

lemma list_jobs_set:
  assumes "base_ready m t"
  shows "\<exists>ns. list_jobs m t = (Inr ns, t) \<and> distinct ns
    \<and> set ns = {n. view t (comps (base_dir m) @ [n]) = Some VDir \<and> utf8_valid n}"
  using list_subdirs_set [of t "base_dir m"] base_free [OF assms] assms
  by (simp add: list_jobs_def base_ready_def)

lemma recover_spec:
  assumes m: "base_ready m t"
    and areas: "\<forall>a\<in>{''sessions'', ''snapshots'', ''volumes''}. view t (comps (base_dir m) @ [a]) \<in> {None, Some VDir}"
  shows "\<exists>rep t'. recover m t = (Inr rep, t') \<and> rec_errors rep = 0 \<and> cleaned rep = scanned rep
    \<and> (\<forall>q. view t' q =
         (if \<exists>n. utf8_valid n \<and> view t (comps (base_dir m) @ [n]) = Some VDir
               \<and> prefix (comps (base_dir m) @ [n]) q then None else view t q))
    \<and> list_sessions m t' = (Inr [], t') \<and> list_snapshots m t' = (Inr [], t')
    \<and> list_volumes m t' = (Inr [], t')"
proof -
  let ?b = "comps (base_dir m)"
  note r = m [unfolded base_ready_def]
  obtain ns where ns: "list_jobs m t = (Inr ns, t)"
    "set ns = {n. view t (?b @ [n]) = Some VDir \<and> utf8_valid n}"
    using list_jobs_set [OF m] by blast
  have "\<forall>i\<in>set ns. name_ok i \<and> view t (?b @ [i]) \<in> {None, Some VDir}"
  proof
    fix i assume "i \<in> set ns"
    then have "view t (?b @ [i]) = Some VDir" by (simp add: ns(2))
    then show "name_ok i \<and> view t (?b @ [i]) \<in> {None, Some VDir}"
      using dir_free [of t "?b @ [i]"] r by (simp add: free_dir_def)
  qed
  then obtain t' where t': "remove_loop (cleanup_job m) ns (0, 0) t = ((length ns, 0), t')"
    "tree_ok t'" "dir_at t' []" "free_dir t' ?b"
    "\<And>q. view t' q = (if \<exists>i\<in>set ns. prefix (?b @ [i]) q then None else view t q)"
    using remove_loop_view [of "base_dir m" t ns 0 0] r base_free [OF m]
    unfolding cleanup_job_def by auto
  have view: "view t' q = (if \<exists>n. utf8_valid n \<and> view t (?b @ [n]) = Some VDir \<and> prefix (?b @ [n]) q
      then None else view t q)" for q
    by (auto simp: t'(5) ns(2))
  have gone: "list_subdirs (path_join (base_dir m) a) t' = (Inr [], t')"
    if a: "a \<in> {''sessions'', ''snapshots'', ''volumes''}" for a
  proof -
    have ok: "name_ok a" "utf8_valid a" using a by (auto simp: name_ok_def)
    have none: "view t' (?b @ [a]) = None"
      using areas a ok by (auto simp: view)
    note k = name_child [OF ok(1), of "base_dir m"]
    have "free_dir t' (?b @ [a])"
      using t'(4) ok(1) none by (auto simp: free_dir_view prefix_snoc)
    then show ?thesis
      using list_area_empty [OF t'(2,3), of "path_join (base_dir m) a"] k none r by simp
  qed
  have "recover m t = (Inr \<lparr>scanned = length ns, cleaned = length ns, rec_errors = 0\<rparr>, t')"
    using ns(1) t'(1) by (simp add: recover_def recover_with_def st_bind_def)
  then show ?thesis
    using view gone by (simp add: list_sessions_def list_snapshots_def list_volumes_def
        snapshots_dir_def volumes_dir_def)
qed

text \<open>
  What the start-up scan removes. On a base directory that is there, \<open>recover\<close> succeeds
  without a failure and removes every directory directly below the base directory (with a
  UTF-8 name) together with all it contains, and nothing else: not only the directories of
  crashed jobs but also the areas of sessions, snapshots and volumes, so that the listings of
  all three are empty afterwards.
\<close>

theorem recover_wipes_all_areas:
  assumes m: "base_ready m t"
    and areas: "\<forall>a\<in>{''sessions'', ''snapshots'', ''volumes''}. view t (comps (base_dir m) @ [a]) \<in> {None, Some VDir}"
  shows "\<exists>rep t'. recover m t = (Inr rep, t') \<and> rec_errors rep = 0 \<and> cleaned rep = scanned rep
    \<and> (\<forall>q. view t' q =
         (if \<exists>n. utf8_valid n \<and> view t (comps (base_dir m) @ [n]) = Some VDir
               \<and> prefix (comps (base_dir m) @ [n]) q then None else view t q))
    \<and> list_sessions m t' = (Inr [], t') \<and> list_snapshots m t' = (Inr [], t')
    \<and> list_volumes m t' = (Inr [], t')"
  using assms by (rule recover_spec)

text \<open>A base directory with one session, one snapshot and the remains of one job.\<close>

definition demo_mgr :: WorkspaceManager where
  "demo_mgr = \<lparr>base_dir = ''b'', disk_watermark_bytes = 0\<rparr>"

definition demo_disk :: node where
  "demo_disk = FDir [(''b'', FDir
     [(''j1'', FDir [(''workspace'', FDir [])]),
      (''sessions'', FDir [(''s1'', FDir [(''workspace'', FDir [(''a'', FFile ''data'')])])]),
      (''snapshots'', FDir [(''p'', FDir [])])])]"

lemma demo_ready: "base_ready demo_mgr demo_disk"
  by (simp add: base_ready_def demo_mgr_def demo_disk_def comps_def kcomps_def view_def name_ok_def)

theorem recover_wipes_all_areas_witness:
  "\<exists>rep t'. recover demo_mgr demo_disk = (Inr rep, t')
     \<and> list_sessions demo_mgr t' = (Inr [], t') \<and> list_snapshots demo_mgr t' = (Inr [], t')
     \<and> view demo_disk [''b'', ''sessions'', ''s1''] = Some VDir"
proof -
  have "\<forall>a\<in>{''sessions'', ''snapshots'', ''volumes''}.
      view demo_disk (comps (base_dir demo_mgr) @ [a]) \<in> {None, Some VDir}"
    by (simp add: demo_mgr_def demo_disk_def comps_def view_def)
  from recover_wipes_all_areas [OF demo_ready this] obtain rep t' where
    "recover demo_mgr demo_disk = (Inr rep, t')" "list_sessions demo_mgr t' = (Inr [], t')"
    "list_snapshots demo_mgr t' = (Inr [], t')" by blast
  then show ?thesis by (simp add: demo_disk_def view_def)
qed

section \<open>The life of a job directory\<close>

lemma job_dir_facts:
  assumes m: "base_ready m t" and j: "name_ok j"
  shows "comps (path_join (base_dir m) j) = comps (base_dir m) @ [j]"
    "kcomps (path_join (base_dir m) j) = comps (base_dir m) @ [j]"
    "list_all name_ok (comps (base_dir m) @ [j])"
proof -
  note r = m [unfolded base_ready_def]
  show "comps (path_join (base_dir m) j) = comps (base_dir m) @ [j]"
    "kcomps (path_join (base_dir m) j) = comps (base_dir m) @ [j]"
    using name_child [OF j, of "base_dir m"] r by simp_all
  show "list_all name_ok (comps (base_dir m) @ [j])"
    using base_free [OF m] j by (simp add: free_dir_def)
qed

lemma create_job_view:
  assumes m: "base_ready m t" and j: "name_ok j" "view t (comps (base_dir m) @ [j]) = None"
  shows "\<exists>w t1. create_job_workspace m j t = (Inr w, t1) \<and> tree_ok t1
    \<and> comps (jw_workspace w) = comps (base_dir m) @ [j, ''workspace'']
    \<and> comps (jw_tmp w) = comps (base_dir m) @ [j, ''workspace'', ''tmp'']
    \<and> (\<forall>q. view t1 q = (if prefix q (comps (base_dir m) @ [j, ''workspace'', ''tmp''])
        \<or> prefix q (comps (base_dir m) @ [j, ''input'']) \<or> prefix q (comps (base_dir m) @ [j, ''output''])
        then Some VDir else view t q))"
proof -
  let ?b = "comps (base_dir m)"
  note r = m [unfolded base_ready_def]
  have below: "view t (?b @ j # d) = None" for d
    using j(2) lookup_None_append [of t "?b @ [j]" d] by (simp add: view_None)
  have free: "free_dir t (?b @ j # d)" if "list_all name_ok d" for d
  proof -
    have "view t q = None \<or> view t q = Some VDir" if q: "prefix q (?b @ j # d)" for q
    proof (cases "prefix q ?b")
      case True
      then show ?thesis using base_free [OF m] by (simp add: free_dir_view)
    next
      case False
      then have "\<exists>d'. q = ?b @ j # d'" using q by (auto simp: prefix_append prefix_Cons)
      then show ?thesis using below by auto
    qed
    then show ?thesis using job_dir_facts(3) [OF m j(1)] that by (simp add: free_dir_view)
  qed
  have "list_all name_ok [''workspace'', ''tmp'', ''input'', ''output'']" by (simp add: name_ok_def)
  then show ?thesis
    using create_workspace_at_view [of t "path_join (base_dir m) j"] r job_dir_facts [OF m j(1)] free
    by (auto simp: create_job_workspace_def)
qed

text \<open>A created job directory, whatever was put into it, is removed with all it holds.\<close>

lemma cleanup_job_view:
  assumes m: "base_ready m t" and j: "name_ok j" and ok: "tree_ok t1"
    and dirs: "\<forall>q. prefix q (comps (base_dir m) @ [j]) \<longrightarrow> view t1 q = Some VDir"
  shows "\<exists>t2. cleanup_job m j t1 = (Inr (), t2) \<and> pruned (comps (base_dir m) @ [j]) t1 t2"
proof -
  have d1: "dir_at t1 []" unfolding view_VDir [symmetric] using dirs by simp
  have "free_dir t1 (comps (base_dir m) @ [j])"
    using dirs job_dir_facts(3) [OF m j] by (auto simp: free_dir_view)
  then show ?thesis
    using remove_if_exists_view [OF ok d1, of "path_join (base_dir m) j"] job_dir_facts [OF m j]
    by (auto simp: cleanup_job_def)
qed

lemma job_view_restored:
  assumes m: "base_ready m t" and j: "view t (comps (base_dir m) @ [j]) = None"
    and same: "\<forall>q. \<not> prefix (comps (base_dir m) @ [j]) q \<longrightarrow> \<not> prefix q (comps (base_dir m)) \<longrightarrow> view t1 q = view t q"
    and dirs: "\<forall>q. prefix q (comps (base_dir m)) \<longrightarrow> view t1 q = Some VDir"
    and pr: "pruned (comps (base_dir m) @ [j]) t1 t2"
  shows "view t2 q = view t q"
proof (cases "prefix (comps (base_dir m) @ [j]) q")
  case True
  then obtain d where "q = comps (base_dir m) @ j # d" by (auto simp: prefix_def)
  then have "view t q = None" using j lookup_None_append [of t "comps (base_dir m) @ [j]" d]
    by (simp add: view_None)
  then show ?thesis using pr True by (simp add: pruned_def)
next
  case False
  have "view t q = Some VDir" if "prefix q (comps (base_dir m))"
    using that m [unfolded base_ready_def] view_dir_prefix by blast
  then show ?thesis using pr False same dirs by (cases "prefix q (comps (base_dir m))") (auto simp: pruned_def)
qed

text \<open>
  A job leaves nothing behind. Creating the workspace of a new job succeeds and makes the
  workspace with its \<open>tmp\<close> directory inside, the input and the output directory; cleaning the
  job up then restores the file system to exactly what it was.
\<close>

theorem job_workspace_lifecycle:
  assumes m: "base_ready m t" and j: "name_ok j" "view t (comps (base_dir m) @ [j]) = None"
  shows "\<exists>w t1 t2. create_job_workspace m j t = (Inr w, t1)
    \<and> (\<forall>d\<in>{[], [''workspace''], [''workspace'', ''tmp''], [''input''], [''output'']}.
         view t1 (comps (base_dir m) @ j # d) = Some VDir)
    \<and> comps (jw_tmp w) = comps (jw_workspace w) @ [''tmp'']
    \<and> cleanup_job m j t1 = (Inr (), t2) \<and> (\<forall>q. view t2 q = view t q)"
proof -
  let ?b = "comps (base_dir m)"
  obtain w t1 where w: "create_job_workspace m j t = (Inr w, t1)" "tree_ok t1"
    "comps (jw_workspace w) = ?b @ [j, ''workspace'']" "comps (jw_tmp w) = ?b @ [j, ''workspace'', ''tmp'']"
    "\<And>q. view t1 q = (if prefix q (?b @ [j, ''workspace'', ''tmp'']) \<or> prefix q (?b @ [j, ''input''])
        \<or> prefix q (?b @ [j, ''output'']) then Some VDir else view t q)"
    using create_job_view [OF m j] by blast
  have "prefix q (?b @ [j, ''input''])" if "prefix q (?b @ [j])" for q
    using that by (auto simp: prefix_append prefix_Cons)
  then have dirs: "\<forall>q. prefix q (?b @ [j]) \<longrightarrow> view t1 q = Some VDir" by (simp add: w(5))
  obtain t2 where t2: "cleanup_job m j t1 = (Inr (), t2)" "pruned (?b @ [j]) t1 t2"
    using cleanup_job_view [OF m j(1) w(2) dirs] by blast
  moreover have "view t2 q = view t q" for q
    by (rule job_view_restored [OF m j(2) _ _ t2(2)]) (auto simp: w(5) prefix_append prefix_Cons)
  moreover have "\<forall>d\<in>{[], [''workspace''], [''workspace'', ''tmp''], [''input''], [''output'']}.
         view t1 (?b @ j # d) = Some VDir"
    by (simp add: w(5))
  ultimately show ?thesis using w t2(1) by auto
qed

theorem job_workspace_lifecycle_witness:
  "\<exists>w t1 t2. create_job_workspace demo_mgr ''j2'' demo_disk = (Inr w, t1)
    \<and> view t1 [''b'', ''j2'', ''workspace'', ''tmp''] = Some VDir
    \<and> cleanup_job demo_mgr ''j2'' t1 = (Inr (), t2) \<and> (\<forall>q. view t2 q = view demo_disk q)"
proof -
  have j: "name_ok ''j2''" "view demo_disk (comps (base_dir demo_mgr) @ [''j2'']) = None"
    by (simp_all add: name_ok_def demo_mgr_def demo_disk_def comps_def view_def)
  have b: "comps (base_dir demo_mgr) = [''b'']" by (simp add: demo_mgr_def comps_def)
  show ?thesis
    using job_workspace_lifecycle [OF demo_ready j] unfolding b by force
qed

section \<open>Sizes\<close>

text \<open>The contents of all files below a node, links left out.\<close>

fun file_contents :: "node \<Rightarrow> string list" where
  "file_contents (FDir es) =
     concat (map (\<lambda>(name, n). case n of FFile d \<Rightarrow> [d] | FDir _ \<Rightarrow> file_contents n | FLink _ \<Rightarrow> []) es)"
| "file_contents (FFile d) = []"
| "file_contents (FLink l) = []"

lemma sum_of_lengths:
  "\<forall>e\<in>set es. f e = of_nat (sum_list (map length (g e))) \<Longrightarrow>
     sum_list (map f es) = of_nat (sum_list (map length (concat (map g es))))"
  by (induction es) auto

text \<open>
  The size that the disk watchdog compares with the quota is the total length of all files
  below the directory, in 64-bit arithmetic; links and the directories themselves count nothing.
\<close>

theorem dir_size_is_total:
  "dir_size path t =
     (case read_dir path t of
        Inl _ \<Rightarrow> 0
      | Inr es \<Rightarrow> of_nat (sum_list (map length (file_contents (FDir es)))))"
proof -
  have "node_size n = of_nat (sum_list (map length (file_contents n)))" for n
  proof (induction n)
    case (FDir es)
    have "\<forall>e\<in>set es. (case e of (name, n) \<Rightarrow>
        case n of FFile d \<Rightarrow> of_nat (length d) | FDir _ \<Rightarrow> node_size n | FLink _ \<Rightarrow> (0::u64)) =
        of_nat (sum_list (map length (case e of (name, n) \<Rightarrow>
          case n of FFile d \<Rightarrow> [d] | FDir _ \<Rightarrow> file_contents n | FLink _ \<Rightarrow> [])))"
    proof (intro ballI, goal_cases)
      case (1 e)
      obtain c k where "e = (c, k)" by (cases e)
      then show ?case using FDir [OF 1, of k] by (cases k) simp_all
    qed
    then show ?case
      unfolding node_size.simps(1) file_contents.simps(1) by (rule sum_of_lengths)
  qed simp_all
  then show ?thesis by (simp add: dir_size_def split: sum.split)
qed

end
