(* ===== verification/Cgroup.thy ===== *)
theory Cgroup
  imports Errors
begin

text \<open>
  Resource control groups, \<open>sandbox-cgroup/src\<close>: detection (\<open>detect.rs\<close>), the limits
  (\<open>resources.rs\<close>) and the group of a job (\<open>manager.rs\<close>). The cgroup file system is a map from
  the directory of a group to its control files, beside the processes that were sent SIGKILL;
  what the kernel answers is the parameter \<open>k\<close>.
\<close>

record IoMax =
  io_major :: u64
  io_minor :: u64
  read_bps :: "u64 option"
  write_bps :: "u64 option"
  read_iops :: "u64 option"
  write_iops :: "u64 option"

record CgroupResources =
  memory_max :: "u64 option"
  cpu_max_quota :: "u64 option"
  cpu_max_period :: "u64 option"
  pids_max :: "u64 option"
  io_max :: "IoMax option"

record ResourceUsage =
  ru_memory_current :: "u64 option"
  ru_memory_peak :: "u64 option"
  ru_cpu_usage_usec :: "u64 option"
  ru_pids_current :: "u64 option"

datatype CgroupController = Memory | Cpu | Pids | Io

record CgroupAvailability =
  cg_available :: bool
  cg_cgroup_path :: "string option"
  cg_controllers :: "CgroupController list"
  can_create_subgroup :: bool
  can_migrate_processes :: bool
  cg_reason :: "string option"

record JobCgroup =
  cg_path :: string
  cg_job_id :: string

record cgfs =
  cg_dirs :: "string \<Rightarrow> (string \<rightharpoonup> string) option"
  cg_killed :: "u32 list"

text \<open>
  The kernel: the control files of a new group, why a group cannot be made or removed, why a
  value is refused, and how a path prints in a message.
\<close>

record cg_kernel =
  k_new_files :: "string \<Rightarrow> (string \<rightharpoonup> string)"
  k_mkdir_err :: "cgfs \<Rightarrow> string \<Rightarrow> io_error option"
  k_rmdir_err :: "cgfs \<Rightarrow> string \<Rightarrow> io_error option"
  k_write_err :: "string \<Rightarrow> string \<Rightarrow> string \<Rightarrow> string option"
  k_debug :: "string \<Rightarrow> string"

type_synonym 'a cgst = "(cgfs, CgroupError, 'a) st"

definition show_u64 :: "u64 \<Rightarrow> string" where
  "show_u64 w = show_nat (unat w)"

definition cg_read_file :: "cgfs \<Rightarrow> string \<Rightarrow> string \<Rightarrow> string option" where
  "cg_read_file s path file = (case cg_dirs s path of None \<Rightarrow> None | Some fs \<Rightarrow> fs file)"

text \<open>A control file is written only when the group has it.\<close>

definition cg_write :: "cg_kernel \<Rightarrow> string \<Rightarrow> string \<Rightarrow> string \<Rightarrow> unit cgst" where
  "cg_write k path file v s =
     (case cg_read_file s path file of
        None \<Rightarrow> (Inr (), s)
      | Some _ \<Rightarrow>
          (case k_write_err k path file v of
             Some e \<Rightarrow> (Inl (ResourceWrite (''failed to write '' @ k_debug k (path_join path file) @ '': '' @ e)), s)
           | None \<Rightarrow> (Inr (), s\<lparr>cg_dirs := (cg_dirs s)(path := map_option (\<lambda>fs. fs(file \<mapsto> v)) (cg_dirs s path))\<rparr>)))"

definition cpu_max_value :: "CgroupResources \<Rightarrow> string" where
  "cpu_max_value r =
     (case cpu_max_quota r of None \<Rightarrow> ''max'' | Some q \<Rightarrow> show_u64 q) @ '' ''
     @ show_u64 (case cpu_max_period r of Some p \<Rightarrow> p | None \<Rightarrow> 100000)"

definition io_part :: "string \<Rightarrow> u64 option \<Rightarrow> string list" where
  "io_part key v = (case v of None \<Rightarrow> [] | Some x \<Rightarrow> [key @ ''='' @ show_u64 x])"

definition io_max_value :: "IoMax \<Rightarrow> string" where
  "io_max_value io =
     join '' '' ([show_u64 (io_major io) @ '':'' @ show_u64 (io_minor io)]
       @ io_part ''rbps'' (read_bps io) @ io_part ''wbps'' (write_bps io)
       @ io_part ''riops'' (read_iops io) @ io_part ''wiops'' (write_iops io))"

definition apply_resources :: "cg_kernel \<Rightarrow> JobCgroup \<Rightarrow> CgroupResources \<Rightarrow> unit cgst" where
  "apply_resources k cg r =
     st_bind (case memory_max r of
                None \<Rightarrow> st_ret () | Some m \<Rightarrow> cg_write k (cg_path cg) ''memory.max'' (show_u64 m)) (\<lambda>_.
     st_bind (if cpu_max_quota r \<noteq> None \<or> cpu_max_period r \<noteq> None
              then cg_write k (cg_path cg) ''cpu.max'' (cpu_max_value r) else st_ret ()) (\<lambda>_.
     st_bind (case pids_max r of
                None \<Rightarrow> st_ret () | Some m \<Rightarrow> cg_write k (cg_path cg) ''pids.max'' (show_u64 m)) (\<lambda>_.
     case io_max r of
       None \<Rightarrow> st_ret () | Some io \<Rightarrow> cg_write k (cg_path cg) ''io.max'' (io_max_value io))))"

text \<open>The process numbers of \<open>cgroup.procs\<close>; lines that are none are skipped.\<close>

definition parse_pids :: "string \<Rightarrow> u32 list" where
  "parse_pids content =
     concat (map (\<lambda>l. case parse_uint 32 10 (trim l) of Some p \<Rightarrow> [of_nat p] | None \<Rightarrow> []) (lines content))"

definition kill_all :: "u32 list \<Rightarrow> cgfs \<Rightarrow> cgfs" where
  "kill_all pids s = s\<lparr>cg_killed := cg_killed s @ pids\<rparr>"

definition kill_residual :: "string \<Rightarrow> cgfs \<Rightarrow> cgfs" where
  "kill_residual path s =
     (case cg_read_file s path ''cgroup.procs'' of
        Some content \<Rightarrow> if utf8_valid content then kill_all (parse_pids content) s else s
      | None \<Rightarrow> s)"

definition cg_rmdir :: "cg_kernel \<Rightarrow> string \<Rightarrow> (cgfs, io_error, unit) st" where
  "cg_rmdir k path s =
     (case k_rmdir_err k s path of
        Some e \<Rightarrow> (Inl e, s)
      | None \<Rightarrow> (Inr (), s\<lparr>cg_dirs := (cg_dirs s)(path := None)\<rparr>))"

definition cgroup_create ::
    "cg_kernel \<Rightarrow> string \<Rightarrow> string \<Rightarrow> CgroupResources \<Rightarrow> CgroupAvailability \<Rightarrow> JobCgroup cgst" where
  "cgroup_create k job_id parent resources avail s =
     (let path = path_join parent (''sandbox-'' @ job_id);
          s = (if cg_dirs s path \<noteq> None then snd (cg_rmdir k path (kill_residual path s)) else s)
      in case k_mkdir_err k s path of
           Some e \<Rightarrow> (Inl (CgIo e), s)
         | None \<Rightarrow>
             (let cg = \<lparr>cg_path = path, cg_job_id = job_id\<rparr>
              in st_bind (apply_resources k cg resources) (\<lambda>_. st_ret cg)
                   (s\<lparr>cg_dirs := (cg_dirs s)(path := Some (k_new_files k path))\<rparr>)))"

definition migrate_process :: "cg_kernel \<Rightarrow> JobCgroup \<Rightarrow> u32 \<Rightarrow> unit cgst" where
  "migrate_process k cg pid = cg_write k (cg_path cg) ''cgroup.procs'' (show_nat (unat pid))"

text \<open>The second word of the first line that starts with \<open>key\<close> and a space, as a number.\<close>

fun keyed_line :: "string \<Rightarrow> string list \<Rightarrow> u64 option" where
  "keyed_line key [] = None"
| "keyed_line key (l # ls) =
     (if starts_with (key @ '' '') l then
        (case split_whitespace l of
           _ # w # _ \<Rightarrow> map_option of_nat (parse_uint 64 10 w)
         | _ \<Rightarrow> None)
      else keyed_line key ls)"

definition parse_oom_kill_count :: "string \<Rightarrow> u64 option" where
  "parse_oom_kill_count content = keyed_line ''oom_kill'' (lines content)"

definition cg_read_u64 :: "cg_kernel \<Rightarrow> JobCgroup \<Rightarrow> string \<Rightarrow> u64 option cgst" where
  "cg_read_u64 k cg file s =
     (case cg_read_file s (cg_path cg) file of
        None \<Rightarrow> (Inr None, s)
      | Some content \<Rightarrow>
          if \<not> utf8_valid content then
            (Inl (ReadFailed (''failed to read '' @ k_debug k (path_join (cg_path cg) file)
               @ '': stream did not contain valid UTF-8'')), s)
          else (Inr (map_option of_nat (parse_uint 64 10 (trim content))), s))"

definition resource_usage :: "cg_kernel \<Rightarrow> JobCgroup \<Rightarrow> ResourceUsage cgst" where
  "resource_usage k cg =
     st_bind (cg_read_u64 k cg ''memory.current'') (\<lambda>memory_current.
     st_bind (cg_read_u64 k cg ''memory.peak'') (\<lambda>memory_peak.
     st_bind (cg_read_u64 k cg ''pids.current'') (\<lambda>pids_current s.
       let cpu_usage_usec = (case cg_read_file s (cg_path cg) ''cpu.stat'' of
             Some content \<Rightarrow> if utf8_valid content then keyed_line ''usage_usec'' (lines content) else None
           | None \<Rightarrow> None)
       in (Inr \<lparr>ru_memory_current = memory_current, ru_memory_peak = memory_peak,
             ru_cpu_usage_usec = cpu_usage_usec, ru_pids_current = pids_current\<rparr>, s))))"

definition oom_kill_count :: "cg_kernel \<Rightarrow> JobCgroup \<Rightarrow> u64 option cgst" where
  "oom_kill_count k cg s =
     (case cg_read_file s (cg_path cg) ''memory.events'' of
        None \<Rightarrow> (Inr None, s)
      | Some content \<Rightarrow>
          if \<not> utf8_valid content then
            (Inl (ReadFailed (''failed to read '' @ k_debug k (path_join (cg_path cg) ''memory.events'')
               @ '': stream did not contain valid UTF-8'')), s)
          else (Inr (parse_oom_kill_count content), s))"

definition cg_processes :: "JobCgroup \<Rightarrow> u32 list cgst" where
  "cg_processes cg s =
     (case cg_read_file s (cg_path cg) ''cgroup.procs'' of
        None \<Rightarrow> (Inl (CgIo (OsError 2)), s)
      | Some content \<Rightarrow>
          if utf8_valid content then (Inr (parse_pids content), s)
          else (Inl (CgIo (IoOther ''stream did not contain valid UTF-8'')), s))"

definition cgroup_destroy :: "cg_kernel \<Rightarrow> JobCgroup \<Rightarrow> unit cgst" where
  "cgroup_destroy k cg s =
     (if cg_dirs s (cg_path cg) = None then (Inr (), s)
      else
        (let s = (case fst (cg_processes cg s) of Inr pids \<Rightarrow> kill_all pids s | Inl _ \<Rightarrow> s)
         in case cg_rmdir k (cg_path cg) s of
              (Inl e, s) \<Rightarrow> (Inl (CgIo e), s)
            | (Inr _, s) \<Rightarrow> (Inr (), s)))"

section \<open>Detection\<close>

text \<open>The group of this process, from the line of \<open>/proc/self/cgroup\<close> for hierarchy 0.\<close>

fun cgroup_line :: "string list \<Rightarrow> string option" where
  "cgroup_line [] = None"
| "cgroup_line (l # ls) =
     (case split_once (CHR '':'') l of
        Some (a, r) \<Rightarrow>
          (case split_once (CHR '':'') r of
             Some (b, c) \<Rightarrow> if a = ''0'' then Some c else cgroup_line ls
           | None \<Rightarrow> cgroup_line ls)
      | None \<Rightarrow> cgroup_line ls)"

definition read_self_cgroup_path :: "string option \<Rightarrow> string \<Rightarrow> string option" where
  "read_self_cgroup_path content cgroup_root =
     (case content of
        None \<Rightarrow> None
      | Some c \<Rightarrow>
          (case cgroup_line (lines c) of
             Some p \<Rightarrow>
               (let relative_path = dropWhile (\<lambda>x. x = CHR ''/'') p
                in if relative_path = [] then Some cgroup_root
                   else Some (path_join cgroup_root relative_path))
           | None \<Rightarrow> Some cgroup_root))"

definition detect_controllers :: "string option \<Rightarrow> CgroupController list" where
  "detect_controllers content =
     (case content of
        None \<Rightarrow> []
      | Some c \<Rightarrow>
          (let available = split_whitespace c
           in (if ''memory'' \<in> set available then [Memory] else [])
              @ (if ''cpu'' \<in> set available then [Cpu] else [])
              @ (if ''pids'' \<in> set available then [Pids] else [])
              @ (if ''io'' \<in> set available then [Io] else [])))"

text \<open>
  \<open>root_exists\<close>, \<open>self\<close>, \<open>ctrl\<close> and \<open>probe\<close> are what the file system answers: whether
  \<open>/sys/fs/cgroup\<close> is there, the two files read, and whether the probe directory can be made.
\<close>

definition cgroup_detect ::
    "bool \<Rightarrow> string option \<Rightarrow> (string \<Rightarrow> string option) \<Rightarrow> (string \<Rightarrow> bool) \<Rightarrow> CgroupAvailability" where
  "cgroup_detect root_exists self ctrl probe =
     (if \<not> root_exists then
        \<lparr>cg_available = False, cg_cgroup_path = None, cg_controllers = [], can_create_subgroup = False,
         can_migrate_processes = False, cg_reason = Some ''/sys/fs/cgroup does not exist''\<rparr>
      else case read_self_cgroup_path self ''/sys/fs/cgroup'' of
        None \<Rightarrow>
          \<lparr>cg_available = False, cg_cgroup_path = None, cg_controllers = [], can_create_subgroup = False,
           can_migrate_processes = False, cg_reason = Some ''failed to read /proc/self/cgroup''\<rparr>
      | Some p \<Rightarrow>
          (let can_create = probe p
           in \<lparr>cg_available = True, cg_cgroup_path = Some p,
               cg_controllers = detect_controllers (ctrl p),
               can_create_subgroup = can_create, can_migrate_processes = can_create,
               cg_reason = (if can_create then None
                            else Some ''current user cannot create sub-cgroup'')\<rparr>))"

section \<open>What a created group enforces\<close>

text \<open>The value that a configuration puts into each control file.\<close>

definition limit_value :: "CgroupResources \<Rightarrow> string \<Rightarrow> string option" where
  "limit_value r file =
     (if file = ''memory.max'' then map_option show_u64 (memory_max r)
      else if file = ''cpu.max'' then
        (if cpu_max_quota r = None \<and> cpu_max_period r = None then None else Some (cpu_max_value r))
      else if file = ''pids.max'' then map_option show_u64 (pids_max r)
      else if file = ''io.max'' then map_option io_max_value (io_max r)
      else None)"

definition upd_file :: "string \<Rightarrow> string option \<Rightarrow> (string \<rightharpoonup> string) \<Rightarrow> (string \<rightharpoonup> string)" where
  "upd_file file v fs = (case v of None \<Rightarrow> fs | Some x \<Rightarrow> if fs file = None then fs else fs(file \<mapsto> x))"

lemma dirs_triv: "cg_dirs s p = Some fs \<Longrightarrow> s\<lparr>cg_dirs := (cg_dirs s)(p \<mapsto> fs)\<rparr> = s"
  by (cases s) (simp add: fun_upd_idem)

lemma cg_write_ok:
  "cg_dirs s p = Some fs \<Longrightarrow> cg_write k p file v s = (Inr u, s') \<Longrightarrow>
     s' = s\<lparr>cg_dirs := (cg_dirs s)(p := Some (upd_file file (Some v) fs))\<rparr>"
  by (auto simp: cg_write_def cg_read_file_def upd_file_def dirs_triv split: option.splits)

lemma cg_write_opt_ok:
  "cg_dirs s p = Some fs \<Longrightarrow>
     (case v of None \<Rightarrow> st_ret () | Some x \<Rightarrow> cg_write k p file (f x)) s = (Inr u, s') \<Longrightarrow>
     s' = s\<lparr>cg_dirs := (cg_dirs s)(p := Some (upd_file file (map_option f v) fs))\<rparr>"
proof (cases v)
  case (Some a)
  assume "cg_dirs s p = Some fs"
    "(case v of None \<Rightarrow> st_ret () | Some x \<Rightarrow> cg_write k p file (f x)) s = (Inr u, s')"
  then show ?thesis using cg_write_ok [of s p fs k "file" "f a" u s'] Some by simp
qed (simp add: upd_file_def dirs_triv)

lemma upd_file_apply:
  "upd_file g v fs fl =
     (if fl = g \<and> fs g \<noteq> None then (case v of Some x \<Rightarrow> Some x | None \<Rightarrow> fs g) else fs fl)"
  by (auto simp: upd_file_def split: option.splits)

lemma st_bind_InrE:
  assumes "st_bind m f s = (Inr b, s')"
  obtains a s1 where "m s = (Inr a, s1)" "f a s1 = (Inr b, s')"
  using assms by (auto simp: st_bind_def split: prod.splits sum.splits)

lemma apply_resources_ok:
  assumes d: "cg_dirs s (cg_path cg) = Some fs" and a: "apply_resources k cg r s = (Inr u, s')"
  shows "s' = s\<lparr>cg_dirs := (cg_dirs s)(cg_path cg :=
     Some (\<lambda>fl. if fs fl = None then None
                  else case limit_value r fl of Some v \<Rightarrow> Some v | None \<Rightarrow> fs fl))\<rparr>"
proof -
  let ?p = "cg_path cg"
  let ?cpu = "if cpu_max_quota r = None \<and> cpu_max_period r = None then None else Some (cpu_max_value r)"
  from a obtain s1 s2 s3 u1 u2 u3 where
    1: "(case memory_max r of None \<Rightarrow> st_ret () | Some m \<Rightarrow> cg_write k ?p ''memory.max'' (show_u64 m)) s = (Inr u1, s1)"
    and 2: "(if cpu_max_quota r \<noteq> None \<or> cpu_max_period r \<noteq> None
              then cg_write k ?p ''cpu.max'' (cpu_max_value r) else st_ret ()) s1 = (Inr u2, s2)"
    and 3: "(case pids_max r of None \<Rightarrow> st_ret () | Some m \<Rightarrow> cg_write k ?p ''pids.max'' (show_u64 m)) s2 = (Inr u3, s3)"
    and 4: "(case io_max r of None \<Rightarrow> st_ret () | Some io \<Rightarrow> cg_write k ?p ''io.max'' (io_max_value io)) s3 = (Inr u, s')"
    unfolding apply_resources_def by (auto elim!: st_bind_InrE)
  let ?f1 = "upd_file ''memory.max'' (map_option show_u64 (memory_max r)) fs"
  let ?f2 = "upd_file ''cpu.max'' ?cpu ?f1"
  let ?f3 = "upd_file ''pids.max'' (map_option show_u64 (pids_max r)) ?f2"
  let ?f4 = "upd_file ''io.max'' (map_option io_max_value (io_max r)) ?f3"
  have s1: "s1 = s\<lparr>cg_dirs := (cg_dirs s)(?p := Some ?f1)\<rparr>" by (rule cg_write_opt_ok [OF d 1])
  have s2: "s2 = s\<lparr>cg_dirs := (cg_dirs s)(?p := Some ?f2)\<rparr>"
  proof (cases "cpu_max_quota r = None \<and> cpu_max_period r = None")
    case True
    then show ?thesis using 2 s1 by (simp add: upd_file_def)
  next
    case False
    then show ?thesis using cg_write_ok [of s1 ?p ?f1 k "''cpu.max''" "cpu_max_value r" u2 s2] 2 s1
      by (auto split: if_splits)
  qed
  have s3: "s3 = s\<lparr>cg_dirs := (cg_dirs s)(?p := Some ?f3)\<rparr>"
    using cg_write_opt_ok [OF _ 3, of ?f2] s2 by simp
  have s4: "s' = s\<lparr>cg_dirs := (cg_dirs s)(?p := Some ?f4)\<rparr>"
    using cg_write_opt_ok [OF _ 4, of ?f3] s3 by simp
  have "?f4 fl = (if fs fl = None then None
                  else case limit_value r fl of Some v \<Rightarrow> Some v | None \<Rightarrow> fs fl)" for fl
    by (cases "fl = ''memory.max''"; cases "fl = ''cpu.max''"; cases "fl = ''pids.max''";
        cases "fl = ''io.max''")
      (simp_all add: upd_file_apply limit_value_def split: option.split)
  then have "?f4 = (\<lambda>fl. if fs fl = None then None
                  else case limit_value r fl of Some v \<Rightarrow> Some v | None \<Rightarrow> fs fl)" by blast
  then show ?thesis using s4 by simp
qed

lemma cgroup_create_at:
  assumes p: "path_join parent (''sandbox-'' @ job_id) = p"
  shows "case cgroup_create k job_id parent r avail s of
        (Inr cg, s') \<Rightarrow>
          cg_path cg = p \<and> cg_dirs s' = (cg_dirs s)(p := Some (\<lambda>fl.
            case k_new_files k p fl of None \<Rightarrow> None
            | Some v \<Rightarrow> Some (case limit_value r fl of Some x \<Rightarrow> x | None \<Rightarrow> v)))
      | (Inl e, s') \<Rightarrow> (\<exists>io. e = CgIo io) \<or> (\<exists>m. e = ResourceWrite m \<and> p \<in> dom (cg_dirs s'))"
proof -
  let ?cg = "\<lparr>cg_path = p, cg_job_id = job_id\<rparr>"
  let ?s0 = "if cg_dirs s p \<noteq> None then snd (cg_rmdir k p (kill_residual p s)) else s"
  have kr: "cg_dirs (kill_residual p s) = cg_dirs s"
    by (auto simp: kill_residual_def kill_all_def split: option.splits)
  have s0: "(cg_dirs ?s0)(p := x) = (cg_dirs s)(p := x)" for x
    using kr by (auto simp: cg_rmdir_def split: option.splits)
  show ?thesis
  proof (cases "k_mkdir_err k ?s0 p")
    case (Some e)
    then show ?thesis by (simp only: cgroup_create_def p Let_def) simp
  next
    case None
    let ?s1 = "?s0\<lparr>cg_dirs := (cg_dirs ?s0)(p := Some (k_new_files k p))\<rparr>"
    have c: "cgroup_create k job_id parent r avail s = st_bind (apply_resources k ?cg r) (\<lambda>_. st_ret ?cg) ?s1"
      using None by (simp only: cgroup_create_def p Let_def) simp
    obtain x s' where a: "apply_resources k ?cg r ?s1 = (x, s')" by fastforce
    show ?thesis
    proof (cases x)
      case (Inr u)
      from apply_resources_ok [of ?s1 ?cg "k_new_files k p" k r u s'] a Inr
      have "cg_dirs s' = (cg_dirs s)(p := Some (\<lambda>fl. if k_new_files k p fl = None then None
                  else case limit_value r fl of Some v \<Rightarrow> Some v | None \<Rightarrow> k_new_files k p fl))"
        using s0 by simp
      also have "(\<lambda>fl. if k_new_files k p fl = None then None
                  else case limit_value r fl of Some v \<Rightarrow> Some v | None \<Rightarrow> k_new_files k p fl) =
          (\<lambda>fl. case k_new_files k p fl of None \<Rightarrow> None
            | Some v \<Rightarrow> Some (case limit_value r fl of Some x \<Rightarrow> x | None \<Rightarrow> v))"
        by (rule ext) (simp split: option.split)
      finally show ?thesis using c a Inr by (simp add: st_bind_def del: fun_upd_apply)
    next
      case (Inl e)
      have w: "st_keeps (\<lambda>s. p \<in> dom (cg_dirs s)) (cg_write k p fl v)" for fl v
        by (auto simp: st_keeps_def cg_write_def split: option.splits)
      have "st_keeps (\<lambda>s. p \<in> dom (cg_dirs s)) (apply_resources k ?cg r)"
        unfolding apply_resources_def by (auto intro!: st_keeps_bind w split: option.split)
      from st_keepsD [OF this, of ?s1] have "p \<in> dom (cg_dirs s')" using a by simp
      moreover have "\<exists>m. e = ResourceWrite m"
        using a Inl by (auto simp: apply_resources_def st_bind_def cg_write_def
            split: option.splits if_splits sum.splits prod.splits)
      ultimately show ?thesis using c a Inl by (simp add: st_bind_def)
    qed
  qed
qed

text \<open>
  A created group enforces its limits. When \<open>create\<close> succeeds, the group is new, every
  control file it has holds exactly the configured value (and the kernel's own value where
  nothing is configured), and no other group is touched. When a limit is refused, the error is
  returned but the new group stays behind.
\<close>

theorem cgroup_create_enforces:
  "let path = path_join parent (''sandbox-'' @ job_id)
   in case cgroup_create k job_id parent r avail s of
        (Inr cg, s') \<Rightarrow>
          cg_path cg = path \<and> cg_dirs s' = (cg_dirs s)(path := Some (\<lambda>fl.
            case k_new_files k path fl of None \<Rightarrow> None
            | Some v \<Rightarrow> Some (case limit_value r fl of Some x \<Rightarrow> x | None \<Rightarrow> v)))
      | (Inl e, s') \<Rightarrow> (\<exists>io. e = CgIo io) \<or> (\<exists>m. e = ResourceWrite m \<and> path \<in> dom (cg_dirs s'))"
  unfolding Let_def by (rule cgroup_create_at) (rule refl)

section \<open>Reading the counters\<close>

definition word_ok :: "string \<Rightarrow> bool" where
  "word_ok w = (w \<noteq> [] \<and> list_all (\<lambda>c. 32 < code c \<and> code c < 128) w)"

lemma word_ok_ascii: "word_ok w \<Longrightarrow> ascii w"
  by (auto simp: word_ok_def ascii_def list_all_iff)

lemma ws_words_word:
  "list_all (\<lambda>c. 32 < code c \<and> code c < 128) w \<Longrightarrow>
     ws_words (map (\<lambda>c. [c]) w @ qs) acc = ws_words qs (acc @ w)"
  by (induction w arbitrary: acc) (auto simp: is_whitespace_def)

lemma split_two_words:
  "word_ok a \<Longrightarrow> word_ok b \<Longrightarrow> split_whitespace (a @ '' '' @ b) = [a, b]"
proof -
  assume a: "word_ok a" and b: "word_ok b"
  have "chars (a @ '' '' @ b) = map (\<lambda>c. [c]) a @ ['' ''] @ map (\<lambda>c. [c]) b"
    using chars_ascii [OF word_ok_ascii [OF a], of "'' '' @ b"] chars_ascii [OF word_ok_ascii [OF b], of "[]"]
    by simp
  then show ?thesis
    using a b ws_words_word [of b "[]" "[]"]
    by (simp add: split_whitespace_def ws_words_word word_ok_def is_whitespace_def)
qed

lemma word_ok_show [simp]: "word_ok (show_u64 n)"
  using show_nat_digits [of _ "unat n"] by (fastforce simp: word_ok_def show_u64_def list_all_iff)

lemma parse_show_u64: "map_option of_nat (parse_uint 64 10 (show_u64 n)) = Some n"
proof -
  have "unat n < 2 ^ 64" using unsigned_less [of n, where 'a = nat] by simp
  then show ?thesis by (simp add: show_u64_def parse_show_nat)
qed

text \<open>A keyed file as the kernel prints it: one line of a key, a space and a number per entry.\<close>

definition keyed_file :: "(string \<times> u64) list \<Rightarrow> string" where
  "keyed_file kvs = concat (map (\<lambda>(k, v). k @ '' '' @ show_u64 v @ [CHR 0x0A]) kvs)"

lemma word_no_newline: "word_ok w \<Longrightarrow> CHR 0x0A \<notin> set w \<and> CHR 0x0D \<notin> set w \<and> CHR '' '' \<notin> set w"
  by (auto simp: word_ok_def list_all_iff)

lemma split_keyed_file:
  "\<forall>kv\<in>set kvs. word_ok (fst kv) \<Longrightarrow>
     split_char (CHR 0x0A) (keyed_file kvs) = map (\<lambda>(k, v). k @ '' '' @ show_u64 v) kvs @ [[]]"
proof (induction kvs)
  case Nil
  then show ?case by (simp add: keyed_file_def)
next
  case (Cons kv kvs)
  obtain k v where kv: "kv = (k, v)" by (cases kv)
  have "CHR 0x0A \<notin> set (k @ '' '' @ show_u64 v)"
    using word_no_newline [of k] word_no_newline [OF word_ok_show [of v]] Cons.prems kv by auto
  from split_char_append [OF this, of "keyed_file kvs"] Cons show ?case
    by (simp add: keyed_file_def kv)
qed

lemma lines_keyed_file:
  assumes "\<forall>kv\<in>set kvs. word_ok (fst kv)"
  shows "lines (keyed_file kvs) = map (\<lambda>(k, v). k @ '' '' @ show_u64 v) kvs"
proof -
  have "(case strip_suffix [CHR 0x0D] (k @ CHR '' '' # show_u64 v) of Some w \<Rightarrow> w
      | None \<Rightarrow> k @ CHR '' '' # show_u64 v) = k @ CHR '' '' # show_u64 v" for k v
  proof -
    have ne: "show_u64 v \<noteq> []" by (simp add: show_u64_def)
    then have "last (show_u64 v) \<noteq> CHR 0x0D"
      using word_no_newline [OF word_ok_show [of v]] last_in_set by metis
    note this ne
    then have "strip_suffix [CHR 0x0D] (k @ '' '' @ show_u64 v) = None"
      by (cases "strip_suffix [CHR 0x0D] (k @ '' '' @ show_u64 v)")
        (auto simp: strip_suffix_Some dest: arg_cong [where f = last])
    then show ?thesis by simp
  qed
  then show ?thesis
    by (auto simp: lines_def Let_def split_keyed_file [OF assms] split_beta)
qed

lemma keyed_line_map_of:
  assumes "word_ok key"
  shows "\<forall>kv\<in>set kvs. word_ok (fst kv) \<Longrightarrow>
     keyed_line key (map (\<lambda>(k, v). k @ '' '' @ show_u64 v) kvs) = map_of kvs key"
proof (induction kvs)
  case (Cons kv kvs)
  obtain k v where kv: "kv = (k, v)" by (cases kv)
  have k: "word_ok k" using Cons.prems kv by simp
  have sw: "starts_with (key @ '' '') (k @ '' '' @ show_u64 v) \<longleftrightarrow> key = k"
  proof
    assume "starts_with (key @ '' '') (k @ '' '' @ show_u64 v)"
    then obtain t where "k @ CHR '' '' # show_u64 v = key @ CHR '' '' # t"
      by (auto simp: starts_with_iff)
    then have "split_once (CHR '' '') (k @ CHR '' '' # show_u64 v) = Some (key, t)"
      using word_no_newline [OF assms] by (simp add: split_once_Some)
    moreover have "split_once (CHR '' '') (k @ CHR '' '' # show_u64 v) = Some (k, show_u64 v)"
      using word_no_newline [OF k] by (simp add: split_once_Some)
    ultimately show "key = k" by simp
  qed (auto simp: starts_with_iff)
  then show ?case
    using Cons.IH Cons.prems kv split_two_words [OF k word_ok_show [of v]] parse_show_u64 [of v] sw
    by (cases "key = k") simp_all
qed simp

text \<open>
  The OOM counter is read back from \<open>memory.events\<close> as the kernel prints it: whatever
  counters precede or follow, the parsed value is the one printed for \<open>oom_kill\<close>, up to
  2^64 - 1, and \<open>oom_group_kill\<close> or \<open>oom\<close> are not mistaken for it.
\<close>

theorem oom_kill_count_roundtrip:
  assumes "\<forall>kv\<in>set kvs. word_ok (fst kv)"
  shows "parse_oom_kill_count (keyed_file kvs) = map_of kvs ''oom_kill''"
  using keyed_line_map_of [OF _ assms, of "''oom_kill''"] lines_keyed_file [OF assms]
  by (simp add: parse_oom_kill_count_def word_ok_def)

theorem oom_kill_count_roundtrip_witness:
  "parse_oom_kill_count (keyed_file [(''oom'', 7), (''oom_kill'', 18446744073709551615), (''oom_group_kill'', 1)])
     = Some 18446744073709551615"
  using oom_kill_count_roundtrip [of "[(''oom'', 7), (''oom_kill'', 18446744073709551615), (''oom_group_kill'', 1)]"]
  by (simp add: word_ok_def)

end
