(* ===== verification/Egress.thy ===== *)
theory Egress
  imports Errors
begin

text \<open>
  The egress allowlist, \<open>sandbox-core/src/egress.rs\<close>. Rust's \<open>str::to_lowercase\<close> maps by the
  Unicode tables, which are not part of the repository: it is the parameter \<open>lower\<close>. A rule set
  is a list of rules; the matcher keeps them with their host lower-cased.
\<close>

record EgressRule =
  er_host :: string
  er_port :: "u16 option"

record NormalizedRule =
  nr_host :: string
  nr_port :: "u16 option"

type_synonym AllowlistMatcher = "NormalizedRule list"

definition matcher_new :: "(string \<Rightarrow> string) \<Rightarrow> EgressRule list \<Rightarrow> AllowlistMatcher" where
  "matcher_new lower rules = map (\<lambda>r. \<lparr>nr_host = lower (er_host r), nr_port = er_port r\<rparr>) rules"

definition host_matches :: "string \<Rightarrow> string \<Rightarrow> bool" where
  "host_matches host rule_host =
     (case strip_prefix ''*'' rule_host of
        Some suf \<Rightarrow>
          (case strip_suffix suf host of
             Some pre \<Rightarrow> pre \<noteq> [] \<and> CHR ''.'' \<notin> set pre
           | None \<Rightarrow> False)
      | None \<Rightarrow> host = rule_host)"

definition port_matches :: "u16 \<Rightarrow> u16 option \<Rightarrow> bool" where
  "port_matches port rule_port = (case rule_port of None \<Rightarrow> True | Some p \<Rightarrow> p = port)"

definition is_allowed :: "(string \<Rightarrow> string) \<Rightarrow> AllowlistMatcher \<Rightarrow> string \<Rightarrow> u16 \<Rightarrow> bool" where
  "is_allowed lower m host port =
     (let host = lower host
      in list_ex (\<lambda>r. host_matches host (nr_host r) \<and> port_matches port (nr_port r)) m)"

section \<open>What a rule means\<close>

text \<open>
  The meaning of a rule on the labels of a host name: \<open>*.base\<close> stands for exactly one further
  label, every other rule for itself.
\<close>

definition labels :: "string \<Rightarrow> string list" where
  "labels h = split_char (CHR ''.'') h"

lemma labels_inj: "labels a = labels b \<longleftrightarrow> a = b"
  by (metis join_split_char labels_def)

lemma host_matches_exact: "hd (p @ ''x'') \<noteq> CHR ''*'' \<Longrightarrow> host_matches h p \<longleftrightarrow> h = p"
  by (cases p) (auto simp: host_matches_def split: option.splits)

lemma host_matches_star:
  "host_matches h (CHR ''*'' # suf) \<longleftrightarrow>
     (\<exists>l. h = l @ suf \<and> l \<noteq> [] \<and> CHR ''.'' \<notin> set l)"
  by (auto simp: host_matches_def strip_suffix_Some split: option.splits)
     (metis option.distinct(1) strip_suffix_Some)

lemma labels_Cons_label: "CHR ''.'' \<notin> set l \<Longrightarrow> labels (l @ CHR ''.'' # b) = l # labels b"
  by (simp add: labels_def split_char_append)

lemma host_matches_wildcard:
  "host_matches h (''*.'' @ base) \<longleftrightarrow> (\<exists>l. l \<noteq> [] \<and> labels h = l # labels base)"
proof
  assume "host_matches h (''*.'' @ base)"
  then show "\<exists>l. l \<noteq> [] \<and> labels h = l # labels base"
    by (auto simp: host_matches_star labels_Cons_label)
next
  assume "\<exists>l. l \<noteq> [] \<and> labels h = l # labels base"
  then obtain l where l: "l \<noteq> []" "labels h = l # labels base" by blast
  then have d: "CHR ''.'' \<notin> set l"
    using split_char_pieces [of "CHR ''.''" h] by (simp add: labels_def)
  then have "labels h = labels (l @ CHR ''.'' # base)"
    using l by (simp add: labels_Cons_label)
  then have "h = l @ CHR ''.'' # base" by (simp add: labels_inj)
  then show "host_matches h (''*.'' @ base)"
    using l d by (auto simp: host_matches_star)
qed

lemma port_matches_iff: "port_matches p rp \<longleftrightarrow> rp = None \<or> rp = Some p"
  by (cases rp) (auto simp: port_matches_def)

lemma is_allowed_iff:
  "is_allowed lower (matcher_new lower rules) host port \<longleftrightarrow>
     (\<exists>r\<in>set rules. host_matches (lower host) (lower (er_host r)) \<and>
        (er_port r = None \<or> er_port r = Some port))"
  by (auto simp: is_allowed_def matcher_new_def list_ex_iff port_matches_iff)

text \<open>A rule set with more rules allows more; the empty one allows nothing.\<close>

lemma is_allowed_Nil [simp]: "\<not> is_allowed lower (matcher_new lower []) host port"
  by (simp add: is_allowed_iff)

lemma is_allowed_mono:
  "set rs \<subseteq> set rs' \<Longrightarrow> is_allowed lower (matcher_new lower rs) host port \<Longrightarrow>
     is_allowed lower (matcher_new lower rs') host port"
  by (auto simp: is_allowed_iff)

lemma is_allowed_lower:
  assumes "\<And>s. lower (lower s) = lower s"
  shows "is_allowed lower m (lower host) port = is_allowed lower m host port"
  by (simp add: is_allowed_def assms)

text \<open>
  C5. The allowlist decides by labels and port. A request is allowed exactly when some rule
  names its port (or no port) and either the rule's host, lower-cased, is the lower-cased host,
  or the rule is \<open>*.base\<close> and the host consists of one non-empty label followed by the labels
  of \<open>base\<close>; so neither \<open>base\<close> itself nor a host two labels deeper is let out.
\<close>

theorem egress_allowlist_by_labels:
  assumes rules: "\<forall>r\<in>set rules.
      hd (lower (er_host r) @ ''x'') \<noteq> CHR ''*'' \<or> (\<exists>base. lower (er_host r) = ''*.'' @ base)"
  shows "is_allowed lower (matcher_new lower rules) host port \<longleftrightarrow>
    (\<exists>r\<in>set rules. (er_port r = None \<or> er_port r = Some port) \<and>
       (case strip_prefix ''*.'' (lower (er_host r)) of
          Some base \<Rightarrow> (\<exists>l. l \<noteq> [] \<and> labels (lower host) = l # labels base)
        | None \<Rightarrow> lower host = lower (er_host r)))"
proof -
  have "host_matches (lower host) (lower (er_host r)) \<longleftrightarrow>
     (case strip_prefix ''*.'' (lower (er_host r)) of
          Some base \<Rightarrow> (\<exists>l. l \<noteq> [] \<and> labels (lower host) = l # labels base)
        | None \<Rightarrow> lower host = lower (er_host r))" if r: "r \<in> set rules" for r
  proof (cases "strip_prefix ''*.'' (lower (er_host r))")
    case None
    then have "hd (lower (er_host r) @ ''x'') \<noteq> CHR ''*''"
      using bspec [OF rules r] by auto
    then show ?thesis using None by (simp add: host_matches_exact)
  next
    case (Some base)
    then have "lower (er_host r) = ''*.'' @ base" by simp
    then show ?thesis using host_matches_wildcard [of "lower host" base] Some by simp
  qed
  then show ?thesis
    by (auto simp: is_allowed_iff)
qed

theorem egress_allowlist_by_labels_witness:
  "is_allowed to_ascii_lowercase
      (matcher_new to_ascii_lowercase [\<lparr>er_host = ''*.PyPI.org'', er_port = Some 443\<rparr>])
      ''Files.pypi.org'' 443
   \<and> \<not> is_allowed to_ascii_lowercase
      (matcher_new to_ascii_lowercase [\<lparr>er_host = ''*.PyPI.org'', er_port = Some 443\<rparr>])
      ''a.b.pypi.org'' 443"
proof -
  let ?r = "\<lparr>er_host = ''*.PyPI.org'', er_port = Some 443\<rparr>"
  have low: "to_ascii_lowercase ''*.PyPI.org'' = ''*.'' @ ''pypi.org''"
    "to_ascii_lowercase ''Files.pypi.org'' = ''files.pypi.org''"
    "to_ascii_lowercase ''a.b.pypi.org'' = ''a.b.pypi.org''"
    by (simp_all add: to_ascii_lowercase_def ascii_lower_eval)
  have lab: "labels ''files.pypi.org'' = [''files'', ''pypi'', ''org'']"
    "labels ''a.b.pypi.org'' = [''a'', ''b'', ''pypi'', ''org'']"
    "labels ''pypi.org'' = [''pypi'', ''org'']"
    by (simp_all add: labels_def)
  have "\<forall>r\<in>set [?r]. hd (to_ascii_lowercase (er_host r) @ ''x'') \<noteq> CHR ''*''
      \<or> (\<exists>base. to_ascii_lowercase (er_host r) = ''*.'' @ base)"
    by (simp add: low)
  note eq = egress_allowlist_by_labels [of "[?r]" to_ascii_lowercase, OF this]
  show ?thesis
    by (simp add: eq low lab)
qed

text \<open>A rule whose star is not followed by a dot is not bound to whole labels.\<close>

lemma star_without_dot:
  "host_matches ''evilfoo.com'' ''*foo.com''"
  by (auto simp: host_matches_star)

end
