(* ===== verification/Profile.thy ===== *)
theory Profile
  imports Rlimit Seccomp Cgroup Landlock Egress
begin

text \<open>
  Sandbox profiles and their registry, \<open>sandbox-core/src/profile.rs\<close>. The environment that
  \<open>git\<close> reads is the parameter \<open>envv\<close>, the file that holds the certificates \<open>read_pem\<close>.
  Durations are in nanoseconds; the registry is a map from names to profiles.
\<close>

datatype LandlockTemplate = ShellLl | PythonLl | NodeLl | CustomLl "string list" | DisabledLl

record SandboxProfile =
  sp_name :: string
  sp_rlimit :: RlimitConfig
  sp_landlock_template :: LandlockTemplate
  sp_seccomp_profile :: "SeccompProfile option"
  sp_cgroup_resources :: "CgroupResources option"
  sp_max_stdout_bytes :: u64
  sp_max_stderr_bytes :: u64
  sp_default_timeout :: nat
  sp_fail_closed :: bool
  sp_extra_readonly_paths :: "string list"
  sp_egress_allowlist :: "EgressRule list"
  sp_disk_quota_mb :: "u64 option"
  sp_env :: "(string \<times> string) list"
  sp_extra_writable_paths :: "string list"

definition from_secs :: "nat \<Rightarrow> nat" where
  "from_secs s = s * 1000000000"

definition from_millis :: "nat \<Rightarrow> nat" where
  "from_millis s = s * 1000000"

definition default_io_max :: IoMax where
  "default_io_max = \<lparr>io_major = 0, io_minor = 0, read_bps = Some (200 * 1024 * 1024),
     write_bps = Some (100 * 1024 * 1024), read_iops = None, write_iops = None\<rparr>"

definition default_cgroup_resources :: CgroupResources where
  "default_cgroup_resources = \<lparr>memory_max = Some (128 * 1024 * 1024), cpu_max_quota = Some 200000,
     cpu_max_period = Some 1000000, pids_max = Some 32, io_max = Some default_io_max\<rparr>"

definition shell_rlimit :: RlimitConfig where
  "shell_rlimit =
     memlock_disabled (with_stack_mb 8 (core_disabled (with_fsize_mb 10 (with_nproc 32
       (with_nofile 64 (with_cpu_seconds 2 rlimit_new))))))"

definition profile_shell :: SandboxProfile where
  "profile_shell =
     \<lparr>sp_name = ''shell'', sp_rlimit = shell_rlimit, sp_landlock_template = ShellLl,
      sp_seccomp_profile = Some default_denylist,
      sp_cgroup_resources = Some default_cgroup_resources,
      sp_max_stdout_bytes = 5 * 1024 * 1024, sp_max_stderr_bytes = 5 * 1024 * 1024,
      sp_default_timeout = from_secs 5, sp_fail_closed = False,
      sp_extra_readonly_paths = [], sp_egress_allowlist = [], sp_disk_quota_mb = None,
      sp_env = [], sp_extra_writable_paths = []\<rparr>"

definition profile_python :: SandboxProfile where
  "profile_python =
     \<lparr>sp_name = ''python'', sp_rlimit = shell_rlimit, sp_landlock_template = PythonLl,
      sp_seccomp_profile = Some default_denylist,
      sp_cgroup_resources = Some \<lparr>memory_max = Some (256 * 1024 * 1024), cpu_max_quota = Some 200000,
        cpu_max_period = Some 1000000, pids_max = Some 32, io_max = Some default_io_max\<rparr>,
      sp_max_stdout_bytes = 5 * 1024 * 1024, sp_max_stderr_bytes = 5 * 1024 * 1024,
      sp_default_timeout = from_secs 5, sp_fail_closed = False,
      sp_extra_readonly_paths = [], sp_egress_allowlist = [], sp_disk_quota_mb = None,
      sp_env = [], sp_extra_writable_paths = []\<rparr>"

definition profile_node :: SandboxProfile where
  "profile_node =
     \<lparr>sp_name = ''node'', sp_rlimit = shell_rlimit, sp_landlock_template = NodeLl,
      sp_seccomp_profile = Some default_denylist,
      sp_cgroup_resources = Some \<lparr>memory_max = Some (256 * 1024 * 1024), cpu_max_quota = Some 200000,
        cpu_max_period = Some 1000000, pids_max = Some 32, io_max = Some default_io_max\<rparr>,
      sp_max_stdout_bytes = 5 * 1024 * 1024, sp_max_stderr_bytes = 5 * 1024 * 1024,
      sp_default_timeout = from_secs 5, sp_fail_closed = False,
      sp_extra_readonly_paths = [], sp_egress_allowlist = [], sp_disk_quota_mb = None,
      sp_env = [], sp_extra_writable_paths = []\<rparr>"

text \<open>\<open>HashMap::insert\<close> on the list of entries: an entry of the same key is replaced.\<close>

definition env_insert :: "string \<Rightarrow> string \<Rightarrow> (string \<times> string) list \<Rightarrow> (string \<times> string) list" where
  "env_insert k v e = filter (\<lambda>(k', _). k' \<noteq> k) e @ [(k, v)]"

definition git_inner :: "string \<Rightarrow> u16 \<Rightarrow> string option \<Rightarrow> string option \<Rightarrow> SandboxProfile" where
  "git_inner host port ca_pem sentinel =
     (let p = profile_shell\<lparr>sp_name := ''git'',
            sp_rlimit := memlock_disabled (with_stack_mb 16 (core_disabled (with_fsize_mb 1024
               (with_nproc 256 (with_nofile 256 (with_cpu_seconds 120 rlimit_new)))))),
            sp_default_timeout := from_secs 300,
            sp_egress_allowlist := [\<lparr>er_host = host, er_port = Some port\<rparr>]\<rparr>;
          p = (case ca_pem of Some pem \<Rightarrow> p\<lparr>sp_env := env_insert ''SANDBOX_CA_PEM'' pem (sp_env p)\<rparr>
                | None \<Rightarrow> p);
          p = (case sentinel of Some s \<Rightarrow> p\<lparr>sp_env := env_insert ''FIXUS_GIT_SENTINEL'' s (sp_env p)\<rparr>
                | None \<Rightarrow> p)
      in p\<lparr>sp_extra_writable_paths := sp_extra_writable_paths p @ [''/dev/null'']\<rparr>)"

definition read_ca_pem_from_path :: "(string \<Rightarrow> io_error + string) \<Rightarrow> string \<Rightarrow> string option" where
  "read_ca_pem_from_path read_pem path =
     (case read_pem path of
        Inr pem \<Rightarrow> if trim pem \<noteq> [] then Some pem else None
      | Inl _ \<Rightarrow> None)"

definition read_git_ca_pem :: "(string \<rightharpoonup> string) \<Rightarrow> (string \<Rightarrow> io_error + string) \<Rightarrow> string option" where
  "read_git_ca_pem envv read_pem =
     (case envv ''FIXUS_GIT_CA_FILE'' of
        None \<Rightarrow> None
      | Some path \<Rightarrow> if path = [] then None else read_ca_pem_from_path read_pem path)"

definition profile_git :: "(string \<rightharpoonup> string) \<Rightarrow> (string \<Rightarrow> io_error + string) \<Rightarrow> SandboxProfile" where
  "profile_git envv read_pem =
     (let host = (case envv ''FIXUS_GIT_EGRESS_HOST'' of Some h \<Rightarrow> h | None \<Rightarrow> ''github.com'');
          port = (case Option.bind (envv ''FIXUS_GIT_EGRESS_PORT'') (parse_uint 16 10) of
                    Some p \<Rightarrow> of_nat p | None \<Rightarrow> 443);
          ca_pem = read_git_ca_pem envv read_pem;
          sentinel = (case envv ''FIXUS_GIT_SENTINEL'' of
                        Some s \<Rightarrow> if trim s \<noteq> [] then Some s else None | None \<Rightarrow> None)
      in git_inner host port ca_pem sentinel)"

section \<open>The registry\<close>

type_synonym ProfileRegistry = "string \<rightharpoonup> SandboxProfile"

definition registry_new :: ProfileRegistry where
  "registry_new = Map.empty"

definition register :: "SandboxProfile \<Rightarrow> ProfileRegistry \<Rightarrow> ProfileRegistry" where
  "register p r = r(sp_name p \<mapsto> p)"

definition registry_get :: "ProfileRegistry \<Rightarrow> string \<Rightarrow> SandboxProfile option" where
  "registry_get r name = r name"

definition with_defaults :: "(string \<rightharpoonup> string) \<Rightarrow> (string \<Rightarrow> io_error + string) \<Rightarrow> ProfileRegistry" where
  "with_defaults envv read_pem =
     register (profile_git envv read_pem)
       (register profile_node (register profile_python (register profile_shell registry_new)))"

definition names :: "ProfileRegistry \<Rightarrow> string set" where
  "names r = dom r"

interpretation profiles: registry registry_get register sp_name "\<lambda>p. p"
  by unfold_locales (simp add: registry_get_def register_def)

lemma git_inner_name [simp]: "sp_name (git_inner h p c s) = ''git''"
  by (simp add: git_inner_def Let_def split: option.split)

lemma git_name [simp]: "sp_name (profile_git envv read_pem) = ''git''"
  by (simp add: profile_git_def Let_def)

lemma builtin_names [simp]:
  "sp_name profile_shell = ''shell''" "sp_name profile_python = ''python''" "sp_name profile_node = ''node''"
  by (simp_all add: profile_shell_def profile_python_def profile_node_def)

lemma with_defaults_eq:
  "with_defaults envv read_pem = [''shell'' \<mapsto> profile_shell, ''python'' \<mapsto> profile_python,
     ''node'' \<mapsto> profile_node, ''git'' \<mapsto> profile_git envv read_pem]"
  by (simp add: with_defaults_def register_def registry_new_def)

end
