(* ===== verification/Process.thy ===== *)
theory Process
  imports Profile SeccompFilter EnvFd Workspace
begin

text \<open>
  The preparation of a sandbox before the fork and its application in the child,
  \<open>sandbox-core/src/process.rs\<close>. The parent side threads the cgroup file system; the child side
  threads the security state of the child process, and reports the first step that fails by one
  byte on the error pipe before it exits.
\<close>

datatype PreExecError = SetSid | CloseFds | SetRlimit | NoNewPrivs | LandlockApply | SeccompApply | Chdir

definition as_byte :: "PreExecError \<Rightarrow> u8" where
  "as_byte e = (case e of SetSid \<Rightarrow> 1 | CloseFds \<Rightarrow> 2 | SetRlimit \<Rightarrow> 3 | NoNewPrivs \<Rightarrow> 4
     | LandlockApply \<Rightarrow> 5 | SeccompApply \<Rightarrow> 6 | Chdir \<Rightarrow> 7)"

definition from_byte :: "u8 \<Rightarrow> PreExecError option" where
  "from_byte b =
     (if b = 1 then Some SetSid else if b = 2 then Some CloseFds else if b = 3 then Some SetRlimit
      else if b = 4 then Some NoNewPrivs else if b = 5 then Some LandlockApply
      else if b = 6 then Some SeccompApply else if b = 7 then Some Chdir else None)"

section \<open>Preparation\<close>

record CapabilityReport =
  cap_landlock :: LandlockCapabilities
  cap_cgroup :: CgroupAvailability
  cap_seccomp :: bool

text \<open>\<open>CapabilityReport::detect\<close>, from the three detections.\<close>

definition capability_detect :: "64 word \<Rightarrow> CgroupAvailability \<Rightarrow> scmp_lib \<Rightarrow> CapabilityReport" where
  "capability_detect ll_ret cg lib =
     \<lparr>cap_landlock = detect_landlock ll_ret, cap_cgroup = cg,
      cap_seccomp = (new_filter_err lib ScmpAllow = None)\<rparr>"

record 'acc host =
  h_landlock :: "'acc landlock_lib"
  h_scmp :: scmp_lib
  h_cgroup :: cg_kernel
  h_dev :: "string \<Rightarrow> u64 option"

record 'acc PreparedSandboxContext =
  psc_landlock :: "'acc PreparedRuleset option"
  psc_seccomp :: "sock_filter list option"
  psc_rlimit :: RlimitConfig
  psc_cgroup :: "JobCgroup option"
  psc_tty_slave_fd :: "32 word option"

definition runtime_kind :: "LandlockTemplate \<Rightarrow> RuntimeKind option" where
  "runtime_kind t =
     (case t of ShellLl \<Rightarrow> Some ShellRt | PythonLl \<Rightarrow> Some PythonRt | NodeLl \<Rightarrow> Some NodeRt
      | CustomLl _ \<Rightarrow> Some CustomRt | DisabledLl \<Rightarrow> None)"

definition job_policy :: "SandboxProfile \<Rightarrow> string \<Rightarrow> RuntimeKind \<Rightarrow> FsPolicy" where
  "job_policy profile workspace kind =
     fold (\<lambda>path. add_rule path ReadWrite) (sp_extra_writable_paths profile)
       (fold (\<lambda>path. add_rule path ReadOnly) (sp_extra_readonly_paths profile)
         (for_job workspace kind))"

definition prepare_landlock ::
    "'acc host \<Rightarrow> SandboxProfile \<Rightarrow> string \<Rightarrow> CapabilityReport \<Rightarrow> CoreError + 'acc PreparedRuleset option" where
  "prepare_landlock h profile workspace cap =
     (if ll_supported (cap_landlock cap) then
        (case runtime_kind (sp_landlock_template profile) of
           Some kind \<Rightarrow>
             (case ruleset_prepare (h_landlock h) (job_policy profile workspace kind) (cap_landlock cap) of
                Inl e \<Rightarrow> Inl (LandlockErr e)
              | Inr prepared \<Rightarrow> Inr (Some prepared))
         | None \<Rightarrow> Inr None)
      else if sp_fail_closed profile then
        Inl (SandboxInit ''Landlock unavailable and profile is fail-closed'')
      else Inr None)"

text \<open>The block device of the workspace, where the profile leaves it open (major and minor 0).\<close>

definition fill_io_device :: "u64 option \<Rightarrow> CgroupResources \<Rightarrow> CgroupResources" where
  "fill_io_device dev r =
     (case io_max r of
        None \<Rightarrow> r
      | Some io \<Rightarrow>
          if io_major io = 0 \<and> io_minor io = 0 then
            (case dev of
               Some d \<Rightarrow> r\<lparr>io_max := Some (io\<lparr>io_major := drop_bit 8 d, io_minor := and d 255\<rparr>)\<rparr>
             | None \<Rightarrow> r)
          else r)"

definition prepare_cgroup ::
    "'acc host \<Rightarrow> SandboxProfile \<Rightarrow> string \<Rightarrow> string \<Rightarrow> CapabilityReport \<Rightarrow> (cgfs, CoreError, JobCgroup option) st" where
  "prepare_cgroup h profile workspace job_id cap s =
     (case map_option (fill_io_device (h_dev h workspace)) (sp_cgroup_resources profile) of
        None \<Rightarrow> (Inr None, s)
      | Some resources \<Rightarrow>
          if cg_available (cap_cgroup cap) then
            (case cgroup_create (h_cgroup h) job_id
                    (case cg_cgroup_path (cap_cgroup cap) of Some p \<Rightarrow> p | None \<Rightarrow> ''/sys/fs/cgroup'')
                    resources (cap_cgroup cap) s of
               (Inr cg, s) \<Rightarrow> (Inr (Some cg), s)
             | (Inl e, s) \<Rightarrow> if sp_fail_closed profile then (Inl (CgroupErr e), s) else (Inr None, s))
          else if sp_fail_closed profile then
            (Inl (SandboxInit ''cgroup v2 unavailable and profile is fail-closed''), s)
          else (Inr None, s))"

definition psc_prepare ::
    "'acc host \<Rightarrow> SandboxProfile \<Rightarrow> string \<Rightarrow> string \<Rightarrow> CapabilityReport
      \<Rightarrow> (cgfs, CoreError, 'acc PreparedSandboxContext) st" where
  "psc_prepare h profile workspace job_id cap s =
     (case prepare_landlock h profile workspace cap of
        Inl e \<Rightarrow> (Inl e, s)
      | Inr landlock \<Rightarrow>
          (case (case sp_seccomp_profile profile of
                   None \<Rightarrow> Inr None
                 | Some sp \<Rightarrow> (case filter_prepare (h_scmp h) sp of
                                Inl e \<Rightarrow> Inl (SeccompErr e) | Inr p \<Rightarrow> Inr (Some p))) of
             Inl e \<Rightarrow> (Inl e, s)
           | Inr seccomp \<Rightarrow>
               st_bind (prepare_cgroup h profile workspace job_id cap) (\<lambda>cgroup.
               st_ret \<lparr>psc_landlock = landlock, psc_seccomp = seccomp, psc_rlimit = sp_rlimit profile,
                 psc_cgroup = cgroup, psc_tty_slave_fd = None\<rparr>) s))"

definition take_cgroup ::
    "'acc PreparedSandboxContext \<Rightarrow> JobCgroup option \<times> 'acc PreparedSandboxContext" where
  "take_cgroup c = (psc_cgroup c, c\<lparr>psc_cgroup := None\<rparr>)"

definition psc_destroy :: "cg_kernel \<Rightarrow> 'acc PreparedSandboxContext \<Rightarrow> (cgfs, CoreError, unit) st" where
  "psc_destroy k c s =
     (case psc_cgroup c of
        None \<Rightarrow> (Inr (), s)
      | Some cg \<Rightarrow> (case cgroup_destroy k cg s of
                      (Inl e, s) \<Rightarrow> (Inl (CgroupErr e), s) | (Inr _, s) \<Rightarrow> (Inr (), s)))"

section \<open>The child\<close>

record 'acc child =
  ch_session_leader :: bool
  ch_tty :: "32 word option"
  ch_seccomp :: seccomp_state
  ch_landlock :: "'acc created_ruleset option"
  ch_limits :: limits
  ch_cwd :: string
  ch_fds :: "nat set"

text \<open>What the kernel answers the child's calls.\<close>

record 'acc child_kernel =
  ck_setsid :: bool
  ck_prctl :: bool
  ck_landlock :: "'acc landlock_lib"
  ck_pid :: nat
  ck_load :: "sock_filter list \<Rightarrow> string option"
  ck_rlimit :: kernel_rlimit
  ck_getrlimit :: bool
  ck_chdir :: "string \<Rightarrow> bool"

type_synonym 'acc chst = "('acc child, PreExecError, unit) st"

text \<open>A step that either succeeds with an effect or makes the child report and exit.\<close>

definition step_or :: "PreExecError \<Rightarrow> ('acc child \<Rightarrow> 'acc child option) \<Rightarrow> 'acc chst" where
  "step_or ec f s = (case f s of Some s' \<Rightarrow> (Inr (), s') | None \<Rightarrow> (Inl ec, s))"

definition do_landlock ::
    "'acc child_kernel \<Rightarrow> 'acc PreparedSandboxContext \<Rightarrow> 'acc child \<Rightarrow> 'acc child option" where
  "do_landlock k ctx s =
     (case psc_landlock ctx of
        None \<Rightarrow> Some s
      | Some pr \<Rightarrow>
          (case ruleset_apply (ck_landlock k) (ck_pid k) (pr, ch_landlock s) of
             (Inr _, (_, active)) \<Rightarrow> Some (s\<lparr>ch_landlock := active\<rparr>)
           | (Inl _, _) \<Rightarrow> None))"

definition do_seccomp ::
    "'acc child_kernel \<Rightarrow> 'acc PreparedSandboxContext \<Rightarrow> 'acc child \<Rightarrow> 'acc child option" where
  "do_seccomp k ctx s =
     (case psc_seccomp ctx of
        None \<Rightarrow> Some s
      | Some prog \<Rightarrow>
          (case filter_apply (ck_prctl k) (ck_load k) prog (ch_seccomp s) of
             (Inr _, sc) \<Rightarrow> Some (s\<lparr>ch_seccomp := sc\<rparr>)
           | (Inl _, _) \<Rightarrow> None))"

definition do_rlimit ::
    "'acc child_kernel \<Rightarrow> 'acc PreparedSandboxContext \<Rightarrow> 'acc child \<Rightarrow> 'acc child option" where
  "do_rlimit k ctx s =
     (case rlimit_apply (ck_rlimit k) (psc_rlimit ctx) (ch_limits s) of
        (Inr _, ls) \<Rightarrow> Some (s\<lparr>ch_limits := ls\<rparr>)
      | (Inl _, _) \<Rightarrow> None)"

definition do_close :: "'acc child_kernel \<Rightarrow> 32 word \<Rightarrow> 'acc child \<Rightarrow> 'acc child option" where
  "do_close k error_pipe_fd s =
     Some (s\<lparr>ch_fds := close_unneeded_fds
             (if ck_getrlimit k then Some (fst (ch_limits s RLIMIT_NOFILE)) else None)
             [error_pipe_fd] (ch_fds s)\<rparr>)"

definition apply_in_child ::
    "'acc child_kernel \<Rightarrow> 'acc PreparedSandboxContext \<Rightarrow> string \<Rightarrow> 32 word \<Rightarrow> 'acc chst" where
  "apply_in_child k ctx workspace error_pipe_fd =
     st_bind (step_or SetSid (\<lambda>s. if ck_setsid k then Some (s\<lparr>ch_session_leader := True\<rparr>) else None)) (\<lambda>_.
     st_bind (\<lambda>s. (Inr (), case psc_tty_slave_fd ctx of Some fd \<Rightarrow> s\<lparr>ch_tty := Some fd\<rparr> | None \<Rightarrow> s)) (\<lambda>_.
     st_bind (step_or NoNewPrivs (\<lambda>s. if ck_prctl k
        then Some (s\<lparr>ch_seccomp := (ch_seccomp s)\<lparr>no_new_privs := True\<rparr>\<rparr>) else None)) (\<lambda>_.
     st_bind (step_or LandlockApply (do_landlock k ctx)) (\<lambda>_.
     st_bind (step_or SeccompApply (do_seccomp k ctx)) (\<lambda>_.
     st_bind (step_or SetRlimit (do_rlimit k ctx)) (\<lambda>_.
     st_bind (step_or Chdir (\<lambda>s. if ck_chdir k workspace then Some (s\<lparr>ch_cwd := workspace\<rparr>) else None)) (\<lambda>_.
     step_or CloseFds (do_close k error_pipe_fd))))))))"

text \<open>The byte that the parent reads from the error pipe: none when the program was started.\<close>

definition error_byte :: "(PreExecError + unit) \<Rightarrow> u8 option" where
  "error_byte r = (case r of Inl e \<Rightarrow> Some (as_byte e) | Inr _ \<Rightarrow> None)"

section \<open>Properties\<close>

lemma from_byte_as_byte: "from_byte (as_byte e) = Some e"
  by (cases e) (simp_all add: from_byte_def as_byte_def)

lemma as_byte_from_byte: "from_byte b = Some e \<Longrightarrow> as_byte e = b"
  by (auto simp: from_byte_def as_byte_def split: if_splits)

lemma step_or_Inr: "step_or ec f s = (Inr u, s') \<longleftrightarrow> f s = Some s'"
  by (auto simp: step_or_def split: option.splits)

lemma step_or_Inl: "step_or ec f s = (Inl e, s') \<longleftrightarrow> f s = None \<and> e = ec \<and> s' = s"
  by (auto simp: step_or_def split: option.splits)

lemma st_bind_Inr_iff:
  "st_bind m f s = (Inr b, s') \<longleftrightarrow> (\<exists>a s1. m s = (Inr a, s1) \<and> f a s1 = (Inr b, s'))"
  by (auto simp: st_bind_def split: prod.splits sum.splits)

lemma do_landlock_cong: "ch_landlock s = ch_landlock s' \<Longrightarrow> do_landlock k ctx s = None \<longleftrightarrow> do_landlock k ctx s' = None"
  by (simp add: do_landlock_def split: option.split prod.split sum.split)

lemma do_landlock_Some:
  "do_landlock k ctx s = Some s' \<Longrightarrow> \<exists>l. s' = s\<lparr>ch_landlock := l\<rparr>"
  by (fastforce simp: do_landlock_def split: option.splits prod.splits sum.splits
      intro: exI [of _ "ch_landlock s"])

lemma do_seccomp_None:
  "do_seccomp k ctx s = None \<longleftrightarrow> (case psc_seccomp ctx of None \<Rightarrow> False
     | Some prog \<Rightarrow> \<not> ck_prctl k \<or> ck_load k (take (unat (of_nat (length prog) :: u16)) prog) \<noteq> None)"
  by (auto simp: do_seccomp_def filter_apply_def Let_def split: option.split prod.split sum.split)

lemma do_seccomp_Some:
  "do_seccomp k ctx s = Some s' \<Longrightarrow>
     s' = s\<lparr>ch_seccomp := (case psc_seccomp ctx of None \<Rightarrow> ch_seccomp s
       | Some prog \<Rightarrow> \<lparr>no_new_privs = True,
           loaded = take (unat (of_nat (length prog) :: u16)) prog # loaded (ch_seccomp s)\<rparr>)\<rparr>"
  by (auto simp: do_seccomp_def filter_apply_def Let_def split: option.splits prod.splits sum.splits if_splits)

lemma do_rlimit_Some:
  "do_rlimit k ctx s = Some s' \<Longrightarrow>
     \<exists>ls. s' = s\<lparr>ch_limits := ls\<rparr> \<and> rlimit_apply (ck_rlimit k) (psc_rlimit ctx) (ch_limits s) = (Inr (), ls)"
  by (auto simp: do_rlimit_def split: prod.splits sum.splits)

lemma do_rlimit_None:
  "do_rlimit k ctx s = None \<longleftrightarrow> \<not> is_ok (fst (rlimit_apply (ck_rlimit k) (psc_rlimit ctx) (ch_limits s)))"
  by (auto simp: do_rlimit_def is_ok_def split: prod.splits sum.splits)

text \<open>The child after the session, the terminal and the no_new_privs steps.\<close>

definition started :: "'acc PreparedSandboxContext \<Rightarrow> 'acc child \<Rightarrow> 'acc child" where
  "started ctx s =
     (let s = s\<lparr>ch_session_leader := True\<rparr>;
          s = (case psc_tty_slave_fd ctx of Some fd \<Rightarrow> s\<lparr>ch_tty := Some fd\<rparr> | None \<Rightarrow> s)
      in s\<lparr>ch_seccomp := (ch_seccomp s)\<lparr>no_new_privs := True\<rparr>\<rparr>)"

lemma started_simps [simp]:
  "ch_session_leader (started ctx s)" "ch_landlock (started ctx s) = ch_landlock s"
  "ch_limits (started ctx s) = ch_limits s" "ch_fds (started ctx s) = ch_fds s"
  "ch_seccomp (started ctx s) = (ch_seccomp s)\<lparr>no_new_privs := True\<rparr>"
  by (simp_all add: started_def Let_def split: option.split)

lemma step_or_bind:
  "st_bind (step_or ec f) g s = (case f s of None \<Rightarrow> (Inl ec, s) | Some s' \<Rightarrow> g () s')"
  by (simp add: st_bind_def step_or_def split: option.split)

definition confine :: "'acc child_kernel \<Rightarrow> 'acc PreparedSandboxContext \<Rightarrow> string \<Rightarrow> 32 word \<Rightarrow> 'acc chst" where
  "confine k ctx workspace error_pipe_fd s3 =
     (case do_landlock k ctx s3 of None \<Rightarrow> (Inl LandlockApply, s3) | Some s4 \<Rightarrow>
     (case do_seccomp k ctx s4 of None \<Rightarrow> (Inl SeccompApply, s4) | Some s5 \<Rightarrow>
     (case do_rlimit k ctx s5 of None \<Rightarrow> (Inl SetRlimit, s5) | Some s6 \<Rightarrow>
       if ck_chdir k workspace
       then (Inr (), the (do_close k error_pipe_fd (s6\<lparr>ch_cwd := workspace\<rparr>)))
       else (Inl Chdir, s6))))"

lemma apply_in_child_eq:
  "apply_in_child k ctx workspace error_pipe_fd s =
     (if \<not> ck_setsid k then (Inl SetSid, s)
      else if \<not> ck_prctl k then
        (Inl NoNewPrivs, case psc_tty_slave_fd ctx of
            Some fd \<Rightarrow> s\<lparr>ch_session_leader := True, ch_tty := Some fd\<rparr>
          | None \<Rightarrow> s\<lparr>ch_session_leader := True\<rparr>)
      else confine k ctx workspace error_pipe_fd (started ctx s))"
proof -
  have tty: "st_bind (\<lambda>s. (Inr (), h s)) g s = g () (h s)" for h g and s :: "'a child"
    by (simp add: st_bind_def)
  have close: "step_or CloseFds (do_close k error_pipe_fd) t = (Inr (), the (do_close k error_pipe_fd t))" for t
    by (simp add: step_or_def do_close_def)
  show ?thesis
    unfolding apply_in_child_def step_or_bind tty close
    by (cases "psc_tty_slave_fd ctx")
      (simp_all add: confine_def started_def if_distrib [where f = "\<lambda>x. case_option _ _ x"] cong: option.case_cong if_cong)
qed

lemma confine_error:
  "error_byte (fst (confine k ctx workspace error_pipe_fd s)) =
    (if do_landlock k ctx s = None then Some 5 else if do_seccomp k ctx s = None then Some 6
     else if do_rlimit k ctx s = None then Some 3 else if \<not> ck_chdir k workspace then Some 7 else None)"
proof -
  have rl: "do_rlimit k ctx t = None \<longleftrightarrow> do_rlimit k ctx s = None"
    if "do_landlock k ctx s = Some t1" "do_seccomp k ctx t1 = Some t" for t1 t
    using do_landlock_Some [OF that(1)] do_seccomp_Some [OF that(2)] by (auto simp: do_rlimit_None)
  have sc: "do_seccomp k ctx t = None \<longleftrightarrow> do_seccomp k ctx s = None" for t
    by (simp add: do_seccomp_None)
  show ?thesis
  proof (cases "do_landlock k ctx s")
    case (Some t1)
    show ?thesis
    proof (cases "do_seccomp k ctx t1")
      case None
      then show ?thesis using Some sc [of t1] by (simp add: confine_def error_byte_def as_byte_def)
    next
      case (Some t)
      note t = this
      show ?thesis
      proof (cases "do_rlimit k ctx t")
        case None
        then show ?thesis using \<open>do_landlock k ctx s = Some t1\<close> t sc [of t1] rl
          by (simp add: confine_def error_byte_def as_byte_def)
      next
        case (Some t')
        then have "do_rlimit k ctx s \<noteq> None" "do_seccomp k ctx s \<noteq> None"
          using \<open>do_landlock k ctx s = Some t1\<close> t sc [of t1] rl by (metis option.distinct(1))+
        then show ?thesis using \<open>do_landlock k ctx s = Some t1\<close> t Some
          by (simp add: confine_def error_byte_def as_byte_def)
      qed
    qed
  qed (simp add: confine_def error_byte_def as_byte_def)
qed

text \<open>
  What the parent learns when the child cannot be confined. The byte on the error pipe
  names the first step that failed, in the order session, no_new_privs, Landlock, seccomp,
  limits, working directory, and decodes to that step; no byte is written exactly when every
  step succeeded. Closing descriptors never fails, so its code (2) is never sent.
\<close>

theorem child_reports_first_failure:
  "error_byte (fst (apply_in_child k ctx workspace error_pipe_fd s)) =
    (if \<not> ck_setsid k then Some 1
     else if \<not> ck_prctl k then Some 4
     else if do_landlock k ctx s = None then Some 5
     else if do_seccomp k ctx s = None then Some 6
     else if do_rlimit k ctx s = None then Some 3
     else if \<not> ck_chdir k workspace then Some 7
     else None)
   \<and> (\<forall>e. from_byte (as_byte e) = Some e)"
proof -
  have "do_landlock k ctx (started ctx s) = None \<longleftrightarrow> do_landlock k ctx s = None"
    by (rule do_landlock_cong) simp
  moreover have "do_seccomp k ctx (started ctx s) = None \<longleftrightarrow> do_seccomp k ctx s = None"
    by (simp add: do_seccomp_None)
  moreover have "do_rlimit k ctx (started ctx s) = None \<longleftrightarrow> do_rlimit k ctx s = None"
    by (simp add: do_rlimit_None)
  ultimately show ?thesis
    unfolding apply_in_child_eq
    by (simp add: confine_error from_byte_as_byte) (simp add: error_byte_def as_byte_def)
qed

lemma child_state:
  assumes "apply_in_child k ctx workspace error_pipe_fd s = (Inr u, s')"
  shows "ch_session_leader s' \<and> no_new_privs (ch_seccomp s') \<and> ch_cwd s' = workspace
    \<and> loaded (ch_seccomp s') =
        (case psc_seccomp ctx of None \<Rightarrow> loaded (ch_seccomp s)
         | Some prog \<Rightarrow> take (unat (of_nat (length prog) :: u16)) prog # loaded (ch_seccomp s))
    \<and> (case psc_landlock ctx of None \<Rightarrow> ch_landlock s' = ch_landlock s
       | Some pr \<Rightarrow> \<exists>created active. pr_inner pr = Some created \<and> ch_landlock s' = Some active
           \<and> set (cr_rules created) \<subseteq> set (cr_rules active)
           \<and> set (cr_rules active) \<subseteq> insert (''/proc/'' @ show_nat (ck_pid k),
                 ll_from_read (ck_landlock k) (pr_abi pr)) (set (cr_rules created)))
    \<and> (\<forall>r. ch_limits s' r =
         (case configured (psc_rlimit ctx) r of Some v \<Rightarrow> (v, v) | None \<Rightarrow> ch_limits s r))
    \<and> ch_fds s' = {fd. fd \<in> ch_fds s \<and> (fd < 3 \<or> fd = fd_as_usize error_pipe_fd
         \<or> get_max_fd (if ck_getrlimit k then Some (fst (ch_limits s' RLIMIT_NOFILE)) else None) \<le> fd)}"
proof -
  let ?s3 = "started ctx s"
  obtain s4 s5 s6 where s4: "do_landlock k ctx ?s3 = Some s4" and s5: "do_seccomp k ctx s4 = Some s5"
    and s6: "do_rlimit k ctx s5 = Some s6" and s': "s' = the (do_close k error_pipe_fd (s6\<lparr>ch_cwd := workspace\<rparr>))"
    using assms by (auto simp: apply_in_child_eq confine_def split: if_splits option.splits)
  obtain l where l: "s4 = ?s3\<lparr>ch_landlock := l\<rparr>" using do_landlock_Some [OF s4] by blast
  obtain ls where ls: "s6 = s5\<lparr>ch_limits := ls\<rparr>"
    "rlimit_apply (ck_rlimit k) (psc_rlimit ctx) (ch_limits s5) = (Inr (), ls)"
    using do_rlimit_Some [OF s6] by blast
  note sc = do_seccomp_Some [OF s5]
  have s5lim: "ch_limits s5 = ch_limits s" by (simp add: sc l)
  have lim: "ls r = (case configured (psc_rlimit ctx) r of Some v \<Rightarrow> (v, v) | None \<Rightarrow> ch_limits s r)" for r
    using rlimit_apply_limits [OF ls(2), of r] unfolding s5lim .
  have ll: "case psc_landlock ctx of None \<Rightarrow> l = ch_landlock s
     | Some pr \<Rightarrow> \<exists>created active. pr_inner pr = Some created \<and> l = Some active
           \<and> set (cr_rules created) \<subseteq> set (cr_rules active)
           \<and> set (cr_rules active) \<subseteq> insert (''/proc/'' @ show_nat (ck_pid k),
                 ll_from_read (ck_landlock k) (pr_abi pr)) (set (cr_rules created))"
  proof (cases "psc_landlock ctx")
    case None
    then show ?thesis using s4 l by (simp add: do_landlock_def) (metis child.select_convs(4) child.surjective child.update_convs(4) started_simps(2))
  next
    case (Some pr)
    then obtain u st where a: "ruleset_apply (ck_landlock k) (ck_pid k) (pr, ch_landlock s) = (Inr u, st)"
      "snd st = l" using s4 l by (auto simp: do_landlock_def split: prod.splits sum.splits)
        (metis child.select_convs(4) child.surjective child.update_convs(4))
    show ?thesis using ruleset_apply_ok [OF a(1)] a(2) Some by auto
  qed
  have fin: "s' = s6\<lparr>ch_cwd := workspace, ch_fds := close_unneeded_fds
      (if ck_getrlimit k then Some (fst (ls RLIMIT_NOFILE)) else None) [error_pipe_fd] (ch_fds s)\<rparr>"
    using s' by (simp add: do_close_def ls(1) sc l)
  show ?thesis
    unfolding fin using ll lim
    by (auto simp: ls(1) sc l close_unneeded_fds_def set_closed_fds split: option.splits)
qed

end
