(* ===== verification/Confinement.thy ===== *)
theory Confinement
  imports Process SeccompVerdict
begin

text \<open>
  The mechanisms together: what a job of a built-in profile can do once it runs, and what
  preparation promises when a mechanism is missing
  (\<open>PreparedSandboxContext::prepare\<close> and \<open>apply_in_child\<close> of \<open>sandbox-core/src/process.rs\<close>).
\<close>

lemma prepare_parts:
  assumes "psc_prepare h profile workspace job_id cap s = (Inr ctx, s')"
  shows "prepare_landlock h profile workspace cap = Inr (psc_landlock ctx)
    \<and> (case sp_seccomp_profile profile of None \<Rightarrow> psc_seccomp ctx = None
        | Some sp \<Rightarrow> \<exists>prog. filter_prepare (h_scmp h) sp = Inr prog \<and> psc_seccomp ctx = Some prog)
    \<and> psc_rlimit ctx = sp_rlimit profile \<and> psc_tty_slave_fd ctx = None
    \<and> prepare_cgroup h profile workspace job_id cap s = (Inr (psc_cgroup ctx), s')"
  using assms by (auto simp: psc_prepare_def st_bind_Inr_iff split: sum.splits option.splits)

text \<open>A group that preparation returns exists.\<close>

lemma keeps_cg_write: "st_keeps (\<lambda>s. (cg_dirs s q = None) = b) (cg_write k p file v)"
  by (auto simp: st_keeps_def cg_write_def cg_read_file_def split: option.split)

lemma keeps_apply_resources: "st_keeps (\<lambda>s. (cg_dirs s q = None) = b) (apply_resources k cg r)"
proof -
  have opt: "st_keeps (\<lambda>s. (cg_dirs s q = None) = b)
      (case v of None \<Rightarrow> st_ret () | Some x \<Rightarrow> cg_write k p file (g x))" for v :: "'b option" and p "file" g
    by (cases v) (auto intro: keeps_cg_write)
  show ?thesis
    unfolding apply_resources_def by (intro st_keeps_bind st_keeps_if opt keeps_cg_write st_keeps_ret)
qed

lemma prepare_cgroup_exists:
  assumes "prepare_cgroup h profile workspace job_id cap s = (Inr (Some cg), s')"
  shows "cg_dirs s' (cg_path cg) \<noteq> None"
proof -
  obtain k job parent res avail where "cgroup_create k job parent res avail s = (Inr cg, s')"
    using assms by (auto simp: prepare_cgroup_def split: option.splits if_splits prod.splits sum.splits)
  then obtain t where t: "apply_resources k cg res t = (Inr (), s')" "cg_dirs t (cg_path cg) \<noteq> None"
    by (fastforce simp: cgroup_create_def Let_def st_bind_Inr_iff split: option.splits)
  show ?thesis
    using st_keepsD [OF keeps_apply_resources [of "cg_path cg" False k cg res], of t] t by simp
qed

section \<open>A concrete host\<close>

definition demo_host :: "demo_acc host" where
  "demo_host = \<lparr>h_landlock = demo_lib, h_scmp = lib_for demo_names default_denylist,
     h_cgroup = \<lparr>k_new_files = (\<lambda>_. [''memory.max'' \<mapsto> ''max'', ''cgroup.procs'' \<mapsto> []]), k_mkdir_err = (\<lambda>_ _. None),
       k_rmdir_err = (\<lambda>_ _. None), k_write_err = (\<lambda>_ _ _. None), k_debug = id\<rparr>,
     h_dev = (\<lambda>_. Some 2049)\<rparr>"

definition demo_cap :: CapabilityReport where
  "demo_cap = capability_detect 1
     (cgroup_detect True (Some ''0::/'') (\<lambda>_. None) (\<lambda>_. True)) (lib_for demo_names default_denylist)"

definition demo_ctx :: "demo_acc PreparedSandboxContext" where
  "demo_ctx = \<lparr>psc_landlock = Some demo_prepared, psc_seccomp = Some [], psc_rlimit = shell_rlimit,
     psc_cgroup = Some \<lparr>cg_path = ''/sys/fs/cgroup/sandbox-j'', cg_job_id = ''j''\<rparr>,
     psc_tty_slave_fd = None\<rparr>"

definition demo_kernel :: "demo_acc child_kernel" where
  "demo_kernel = \<lparr>ck_setsid = True, ck_prctl = True, ck_landlock = demo_lib, ck_pid = 7,
     ck_load = (\<lambda>_. None), ck_rlimit = (\<lambda>_ _ _. None), ck_getrlimit = True, ck_chdir = (\<lambda>_. True)\<rparr>"

definition demo_child :: "demo_acc child" where
  "demo_child = \<lparr>ch_session_leader = False, ch_tty = None,
     ch_seccomp = \<lparr>no_new_privs = False, loaded = []\<rparr>, ch_landlock = None,
     ch_limits = (\<lambda>_. (1000000000, 1000000000)), ch_cwd = ''/'', ch_fds = {0, 1, 2, 5, 9, 100}\<rparr>"

lemma demo_cap_parts:
  "cap_landlock demo_cap = detect_landlock 1" "cg_available (cap_cgroup demo_cap)"
  "cg_cgroup_path (cap_cgroup demo_cap) = Some ''/sys/fs/cgroup''"
  by (simp_all add: demo_cap_def capability_detect_def cgroup_detect_def read_self_cgroup_path_def
      lines_def strip_suffix_def Let_def)

lemma ll_supported_demo: "ll_supported (detect_landlock 1)"
  by (simp add: detect_landlock_def)

lemma demo_cgroup:
  "\<exists>s1. prepare_cgroup demo_host (profile_shell\<lparr>sp_fail_closed := b\<rparr>) ''/w/j'' ''j'' demo_cap
      \<lparr>cg_dirs = (\<lambda>_. None), cg_killed = []\<rparr> = (Inr (psc_cgroup demo_ctx), s1)"
  by (simp add: prepare_cgroup_def demo_cap_parts profile_shell_def default_cgroup_resources_def
      fill_io_device_def default_io_max_def demo_host_def cgroup_create_def path_join_def Let_def
      apply_resources_def st_bind_def cg_write_def cg_read_file_def demo_ctx_def
      starts_with_def)

lemma demo_psc_prepare:
  "\<exists>s1. psc_prepare demo_host (profile_shell\<lparr>sp_fail_closed := b\<rparr>) ''/w/j'' ''j'' demo_cap
      \<lparr>cg_dirs = (\<lambda>_. None), cg_killed = []\<rparr> = (Inr demo_ctx, s1)"
proof -
  let ?p = "profile_shell\<lparr>sp_fail_closed := b\<rparr>"
  have p: "sp_landlock_template ?p = ShellLl" "sp_extra_readonly_paths ?p = []"
    "sp_extra_writable_paths ?p = []" "sp_seccomp_profile ?p = Some default_denylist"
    "sp_rlimit ?p = shell_rlimit"
    by (simp_all add: profile_shell_def)
  have "prepare_landlock demo_host ?p ''/w/j'' demo_cap = Inr (Some demo_prepared)"
    by (simp only: prepare_landlock_def demo_cap_parts ll_supported_demo p)
      (simp add: runtime_kind_def job_policy_def p demo_host_def demo_prepare)
  moreover have "filter_prepare (h_scmp demo_host) default_denylist = Inr []"
    by (simp add: demo_host_def prepare_for)
  moreover obtain s1 where "prepare_cgroup demo_host ?p ''/w/j'' ''j'' demo_cap
      \<lparr>cg_dirs = (\<lambda>_. None), cg_killed = []\<rparr> = (Inr (psc_cgroup demo_ctx), s1)"
    using demo_cgroup by blast
  ultimately show ?thesis
    unfolding psc_prepare_def p by (simp add: st_bind_def demo_ctx_def)
qed

lemma set_all_ok: "\<exists>ls'. set_all (\<lambda>_ _ _. None) c rs ls = (Inr (), ls')"
  by (induction rs arbitrary: ls) (auto simp: st_bind_def try_setrlimit_def split: option.split)

lemma demo_child_ok: "\<exists>c'. apply_in_child demo_kernel demo_ctx ''/w/j'' 9 demo_child = (Inr (), c')"
proof -
  have "do_landlock demo_kernel demo_ctx (started demo_ctx demo_child) =
      Some ((started demo_ctx demo_child)\<lparr>ch_landlock := Some demo_active\<rparr>)"
    by (simp add: do_landlock_def demo_ctx_def demo_kernel_def demo_apply)
      (simp add: demo_child_def demo_apply)
  moreover obtain t where t: "do_seccomp demo_kernel demo_ctx
      ((started demo_ctx demo_child)\<lparr>ch_landlock := Some demo_active\<rparr>) = Some t"
    by (simp add: do_seccomp_def demo_ctx_def demo_kernel_def filter_apply_def Let_def)
  moreover obtain t' where "do_rlimit demo_kernel demo_ctx t = Some t'"
    using set_all_ok [of "psc_rlimit demo_ctx" call_order "ch_limits t"]
    by (auto simp: do_rlimit_def demo_kernel_def rlimit_apply_set_all)
  ultimately show ?thesis
    by (simp add: apply_in_child_eq confine_def) (simp add: demo_kernel_def)
qed

section \<open>Properties\<close>

text \<open>
  C7. A child that starts its program is confined by everything that was prepared: it leads a
  session of its own, cannot gain privileges, runs in the workspace, has the prepared filter
  loaded, the prepared Landlock rules in force (with at most its own \<open>/proc\<close> directory added),
  exactly the configured limits, and no descriptors but the standard streams, the error pipe and
  those at or above its limit on open files.
\<close>

theorem child_confined:
  assumes "apply_in_child k ctx workspace error_pipe_fd s = (Inr u, s')"
  shows "ch_session_leader s' \<and> no_new_privs (ch_seccomp s') \<and> ch_cwd s' = workspace
    \<and> loaded (ch_seccomp s') =
        (case psc_seccomp ctx of None \<Rightarrow> loaded (ch_seccomp s)
         | Some prog \<Rightarrow> take (unat (of_nat (length prog) :: u16)) prog # loaded (ch_seccomp s))
    \<and> (case psc_landlock ctx of None \<Rightarrow> ch_landlock s' = ch_landlock s
       | Some pr \<Rightarrow> \<exists>created active. pr_inner pr = Some created \<and> ch_landlock s' = Some active
           \<and> set (cr_rules created) \<subseteq> set (cr_rules active)
           \<and> set (cr_rules active) \<subseteq> insert (''/proc/'' @ show_nat (ck_pid k),
                 ll_from_read (ck_landlock k) (pr_abi pr)) (set (cr_rules created)))
    \<and> (\<forall>r. ch_limits s' r =
         (case configured (psc_rlimit ctx) r of Some v \<Rightarrow> (v, v) | None \<Rightarrow> ch_limits s r))
    \<and> ch_fds s' = {fd. fd \<in> ch_fds s \<and> (fd < 3 \<or> fd = fd_as_usize error_pipe_fd
         \<or> get_max_fd (if ck_getrlimit k then Some (fst (ch_limits s' RLIMIT_NOFILE)) else None) \<le> fd)}"
  by (rule child_state [OF assms])

theorem child_confined_witness:
  "\<exists>c'. apply_in_child demo_kernel demo_ctx ''/w/j'' 9 demo_child = (Inr (), c')
     \<and> ch_fds c' = {0, 1, 2, 9, 100}"
proof -
  obtain c' where c: "apply_in_child demo_kernel demo_ctx ''/w/j'' 9 demo_child = (Inr (), c')"
    using demo_child_ok by blast
  have lim: "configured (psc_rlimit demo_ctx) RLIMIT_NOFILE = Some 64"
    by (simp add: demo_ctx_def shell_rlimit_def memlock_disabled_def with_stack_mb_def core_disabled_def
        with_fsize_mb_def with_nproc_def with_nofile_def with_cpu_seconds_def)
  have fd: "fd_as_usize 9 = 9" by (simp add: fd_as_usize_def)
  have lims: "\<forall>r. ch_limits c' r = (case configured (psc_rlimit demo_ctx) r of Some v \<Rightarrow> (v, v)
      | None \<Rightarrow> ch_limits demo_child r)"
    and fds: "ch_fds c' = {fd. fd \<in> ch_fds demo_child \<and> (fd < 3 \<or> fd = fd_as_usize 9
         \<or> get_max_fd (if ck_getrlimit demo_kernel then Some (fst (ch_limits c' RLIMIT_NOFILE)) else None) \<le> fd)}"
    using child_confined [OF c] by blast+
  have "ch_limits c' RLIMIT_NOFILE = (64, 64)" using lims lim by simp
  then have "ch_fds c' = {fd. fd \<in> ch_fds demo_child \<and> (fd < 3 \<or> fd = 9 \<or> 64 \<le> fd)}"
    unfolding fds fd by (simp add: demo_kernel_def get_max_fd_def)
  moreover have "{fd. fd \<in> ch_fds demo_child \<and> (fd < 3 \<or> fd = 9 \<or> 64 \<le> fd)} = {0, 1, 2, 9, 100}"
    by (intro set_eqI) (simp add: demo_child_def, arith)
  ultimately show ?thesis using c by metis
qed

text \<open>
  What a fail-closed profile buys. When preparation succeeds for a profile that must not
  degrade, Landlock is prepared unless the template disables it, the filter is prepared when the
  profile has one, and the group exists when the profile limits resources; a profile that may
  degrade can lose Landlock and the group silently, but never the filter.
\<close>

theorem prepare_fail_closed:
  assumes "psc_prepare h profile workspace job_id cap s = (Inr ctx, s')"
  shows "(sp_fail_closed profile \<longrightarrow>
      (sp_landlock_template profile = DisabledLl \<longleftrightarrow> psc_landlock ctx = None)
      \<and> (sp_cgroup_resources profile = None \<longleftrightarrow> psc_cgroup ctx = None))
    \<and> (sp_seccomp_profile profile = None \<longleftrightarrow> psc_seccomp ctx = None)"
proof -
  note p = prepare_parts [OF assms]
  have k: "runtime_kind (sp_landlock_template profile) = None \<longleftrightarrow> sp_landlock_template profile = DisabledLl"
    by (simp add: runtime_kind_def split: LandlockTemplate.split)
  have "sp_fail_closed profile \<Longrightarrow> sp_landlock_template profile = DisabledLl \<longleftrightarrow> psc_landlock ctx = None"
    using p k by (cases "psc_landlock ctx")
      (auto simp: prepare_landlock_def split: if_splits option.splits sum.splits)
  moreover have "sp_fail_closed profile \<Longrightarrow> sp_cgroup_resources profile = None \<longleftrightarrow> psc_cgroup ctx = None"
    using p by (cases "psc_cgroup ctx") (auto simp: prepare_cgroup_def split: if_splits option.splits sum.splits prod.splits)
  moreover have "sp_seccomp_profile profile = None \<longleftrightarrow> psc_seccomp ctx = None"
    using p by (auto split: option.splits)
  ultimately show ?thesis by blast
qed

theorem prepare_fail_closed_witness:
  "psc_landlock demo_ctx \<noteq> None \<and> psc_cgroup demo_ctx \<noteq> None \<and> psc_seccomp demo_ctx \<noteq> None"
proof -
  obtain s1 where "psc_prepare demo_host (profile_shell\<lparr>sp_fail_closed := True\<rparr>) ''/w/j'' ''j'' demo_cap
      \<lparr>cg_dirs = (\<lambda>_. None), cg_killed = []\<rparr> = (Inr demo_ctx, s1)"
    using demo_psc_prepare by blast
  from prepare_fail_closed [OF this] show ?thesis by (simp add: profile_shell_def)
qed

text \<open>
  C8. What a job of the shell, Python or Node profile can do. On a host with Landlock, when the
  sandbox was prepared and the child reached its program: every dangerous system call and every
  socket outside AF\_UNIX kills it, it can write only beneath its workspace, and it may use at
  most 64 descriptors, 32 processes, two seconds of CPU time and files of 10 MB.
\<close>

theorem builtin_job_confined:
  assumes prep: "psc_prepare h profile workspace job_id cap s = (Inr ctx, s')"
    and prof: "profile \<in> {profile_shell, profile_python, profile_node}"
    and host: "ll_supported (cap_landlock cap)" "faithful (h_scmp h) run" "ck_landlock k = h_landlock h"
    and len: "list_all (\<lambda>prog. length prog < 65536) (case psc_seccomp ctx of None \<Rightarrow> [] | Some prog \<Rightarrow> [prog])"
    and child: "apply_in_child k ctx workspace error_pipe_fd c = (Inr u, c')"
  shows "(\<exists>prog. loaded (ch_seccomp c') = prog # loaded (ch_seccomp c)
      \<and> (\<forall>nr args. run prog nr args =
          (if (\<exists>n\<in>set denied_names. from_name (h_scmp h) n = Inr nr)
              \<or> (from_name (h_scmp h) ''socket'' = Inr nr \<and> args 0 \<noteq> AF_UNIX)
           then ScmpKillProcess else ScmpAllow)))
    \<and> (\<exists>rs pr. ch_landlock c' = Some rs \<and> psc_landlock ctx = Some pr
      \<and> (\<forall>a p. a \<in> granted rs p - ll_from_read (h_landlock h) (pr_abi pr) - {ll_execute (h_landlock h)}
            \<longrightarrow> beneath workspace p))
    \<and> ch_limits c' RLIMIT_NOFILE = (64, 64) \<and> ch_limits c' RLIMIT_NPROC = (32, 32)
    \<and> ch_limits c' RLIMIT_CPU = (2, 2) \<and> ch_limits c' RLIMIT_FSIZE = (10485760, 10485760)"
proof -
  note p = prepare_parts [OF prep]
  have sec: "sp_seccomp_profile profile = Some default_denylist" and lim: "sp_rlimit profile = shell_rlimit"
    and nil: "sp_extra_readonly_paths profile = []" "sp_extra_writable_paths profile = []"
    using prof by (auto simp: profile_shell_def profile_python_def profile_node_def)
  obtain kind where kind: "runtime_kind (sp_landlock_template profile) = Some kind"
    using prof by (auto simp: profile_shell_def profile_python_def profile_node_def runtime_kind_def)
  from p sec obtain prog where prog: "filter_prepare (h_scmp h) default_denylist = Inr prog"
    "psc_seccomp ctx = Some prog" by auto
  obtain pr where pr: "psc_landlock ctx = Some pr"
    "ruleset_prepare (h_landlock h) (for_job workspace kind) (cap_landlock cap) = Inr pr"
    using p kind host(1) nil
    by (cases "psc_landlock ctx") (auto simp: prepare_landlock_def job_policy_def split: sum.splits)
  note c = child_state [OF child]
  have "length prog < 65536" using len prog(2) by simp
  then have load: "loaded (ch_seccomp c') = prog # loaded (ch_seccomp c)"
    using c prog(2) by (simp add: unat_of_nat)
  from c pr(1) host(3) obtain created active where ll: "pr_inner pr = Some created"
    "ch_landlock c' = Some active" "set (cr_rules active) \<subseteq> insert (''/proc/'' @ show_nat (ck_pid k),
        ll_from_read (h_landlock h) (pr_abi pr)) (set (cr_rules created))"
    by auto
  have wr: "beneath workspace q"
    if "a \<in> granted active q - ll_from_read (h_landlock h) (pr_abi pr) - {ll_execute (h_landlock h)}" for a q
    using granted_job_policy [OF pr(2) ll(1) ll(3), of a q] that by simp
  have "ch_limits c' r = (case configured shell_rlimit r of Some v \<Rightarrow> (v, v) | None \<Rightarrow> ch_limits c r)" for r
    using c p lim by simp
  then have "ch_limits c' RLIMIT_NOFILE = (64, 64) \<and> ch_limits c' RLIMIT_NPROC = (32, 32)
    \<and> ch_limits c' RLIMIT_CPU = (2, 2) \<and> ch_limits c' RLIMIT_FSIZE = (10485760, 10485760)"
    by (simp add: shell_rlimit_def memlock_disabled_def with_stack_mb_def core_disabled_def
        with_fsize_mb_def with_nproc_def with_nofile_def with_cpu_seconds_def)
  moreover have "\<exists>prog. loaded (ch_seccomp c') = prog # loaded (ch_seccomp c)
      \<and> (\<forall>nr args. run prog nr args =
          (if (\<exists>n\<in>set denied_names. from_name (h_scmp h) n = Inr nr)
              \<or> (from_name (h_scmp h) ''socket'' = Inr nr \<and> args 0 \<noteq> AF_UNIX)
           then ScmpKillProcess else ScmpAllow))"
    using load denylist_run [OF host(2) prog(1)] by blast
  moreover have "\<exists>rs pr. ch_landlock c' = Some rs \<and> psc_landlock ctx = Some pr
      \<and> (\<forall>a p. a \<in> granted rs p - ll_from_read (h_landlock h) (pr_abi pr) - {ll_execute (h_landlock h)}
            \<longrightarrow> beneath workspace p)"
    using pr(1) ll(2) wr by blast
  ultimately show ?thesis by blast
qed

theorem builtin_job_confined_witness:
  "\<exists>c'. apply_in_child demo_kernel demo_ctx ''/w/j'' 9 demo_child = (Inr (), c')
     \<and> ch_limits c' RLIMIT_NPROC = (32, 32)"
proof -
  have p: "profile_shell\<lparr>sp_fail_closed := False\<rparr> = profile_shell" by (simp add: profile_shell_def)
  obtain s1 where prep: "psc_prepare demo_host profile_shell ''/w/j'' ''j'' demo_cap
      \<lparr>cg_dirs = (\<lambda>_. None), cg_killed = []\<rparr> = (Inr demo_ctx, s1)"
    using demo_psc_prepare [of False] p by auto
  have mem: "profile_shell \<in> {profile_shell, profile_python, profile_node}" by simp
  have ll: "ll_supported (cap_landlock demo_cap)" by (simp only: demo_cap_parts ll_supported_demo)
  have f: "faithful (h_scmp demo_host) (run_for demo_names default_denylist)"
    by (simp add: demo_host_def faithful_for)
  have k: "ck_landlock demo_kernel = h_landlock demo_host" by (simp add: demo_kernel_def demo_host_def)
  have len: "list_all (\<lambda>prog. length prog < 65536)
      (case psc_seccomp demo_ctx of None \<Rightarrow> [] | Some prog \<Rightarrow> [prog])" by (simp add: demo_ctx_def)
  obtain c' where c: "apply_in_child demo_kernel demo_ctx ''/w/j'' 9 demo_child = (Inr (), c')"
    using demo_child_ok by blast
  from builtin_job_confined [OF prep mem ll f k len c] c show ?thesis by blast
qed

end
