(* ===== verification/Socks.thy ===== *)
theory Socks
  imports Egress
begin

text \<open>
  The controlled egress proxy, \<open>sandbox-core/src/proxy.rs\<close>: one SOCKS5h connection of a job.
  The client's bytes up to its end of file are \<open>cn_in\<close>; a write fails when the client no
  longer reads, which the parameter \<open>wr\<close> decides from what was written so far. The name
  service and the outgoing connections are the parameters \<open>lookup_host\<close> and \<open>connect\<close>; what
  the proxy asks them is recorded in the state.
\<close>

record 'addr conn =
  cn_in :: string
  cn_out :: string
  cn_lookups :: "string list"
  cn_attempts :: "'addr list"
  cn_relay :: "'addr option"

type_synonym ('addr, 'a) cst = "('addr conn, io_error, 'a) st"

definition read_exact :: "nat \<Rightarrow> ('addr, string) cst" where
  "read_exact n c =
     (if n \<le> length (cn_in c) then (Inr (take n (cn_in c)), c\<lparr>cn_in := drop n (cn_in c)\<rparr>)
      else (Inl UnexpectedEof, c\<lparr>cn_in := []\<rparr>))"

definition write_all :: "(string \<Rightarrow> bool) \<Rightarrow> string \<Rightarrow> ('addr, unit) cst" where
  "write_all wr bs c =
     (if wr (cn_out c) then (Inr (), c\<lparr>cn_out := cn_out c @ bs\<rparr>) else (Inl (OsError 32), c))"

definition byte :: "nat \<Rightarrow> char" where
  "byte n = char_of n"

definition reply_bytes :: "nat \<Rightarrow> string" where
  "reply_bytes rep = map byte [5, rep, 0, 1, 0, 0, 0, 0, 0, 0]"

definition reply :: "(string \<Rightarrow> bool) \<Rightarrow> nat \<Rightarrow> ('addr, unit) cst" where
  "reply wr rep = write_all wr (reply_bytes rep)"

definition u16_from_be_bytes :: "string \<Rightarrow> u16" where
  "u16_from_be_bytes b = of_nat (code (b ! 0) * 256 + code (b ! 1))"

text \<open>The addresses are tried in order; the first that accepts is the upstream.\<close>

fun try_connect :: "('addr \<Rightarrow> bool) \<Rightarrow> 'addr list \<Rightarrow> 'addr conn \<Rightarrow> 'addr option \<times> 'addr conn" where
  "try_connect connect [] c = (None, c)"
| "try_connect connect (a # as) c =
     (let c' = c\<lparr>cn_attempts := cn_attempts c @ [a]\<rparr>
      in if connect a then (Some a, c') else try_connect connect as c')"

definition host_port :: "string \<Rightarrow> u16 \<Rightarrow> string" where
  "host_port host port = host @ '':'' @ show_nat (unat port)"

text \<open>Steps 3 to 5 of \<open>handle_conn\<close>: the allowlist, the name service, the upstream.\<close>

definition serve_request ::
    "(string \<Rightarrow> bool) \<Rightarrow> (string \<Rightarrow> string) \<Rightarrow> AllowlistMatcher \<Rightarrow>
     (string \<Rightarrow> io_error + 'addr list) \<Rightarrow> ('addr \<Rightarrow> bool) \<Rightarrow> string \<Rightarrow> u16 \<Rightarrow> ('addr, unit) cst" where
  "serve_request wr lower m lookup_host connect host port c =
     (if \<not> is_allowed lower m host port then reply wr 2 c
      else
        (let c = c\<lparr>cn_lookups := cn_lookups c @ [host_port host port]\<rparr>
         in case lookup_host (host_port host port) of
              Inl _ \<Rightarrow> reply wr 4 c
            | Inr addrs \<Rightarrow>
                if addrs = [] then reply wr 4 c
                else (case try_connect connect addrs c of
                        (None, c) \<Rightarrow> reply wr 5 c
                      | (Some a, c) \<Rightarrow>
                          st_bind (reply wr 0) (\<lambda>_ c. (Inr (), c\<lparr>cn_relay := Some a\<rparr>)) c)))"

definition handle_conn ::
    "(string \<Rightarrow> bool) \<Rightarrow> (string \<Rightarrow> string) \<Rightarrow> AllowlistMatcher \<Rightarrow>
     (string \<Rightarrow> io_error + 'addr list) \<Rightarrow> ('addr \<Rightarrow> bool) \<Rightarrow> ('addr, unit) cst" where
  "handle_conn wr lower m lookup_host connect =
     st_bind (read_exact 2) (\<lambda>hdr.
       if code (hdr ! 0) \<noteq> 5 then st_ret ()
       else
     st_bind (read_exact (code (hdr ! 1))) (\<lambda>_.
     st_bind (write_all wr (map byte [5, 0])) (\<lambda>_.
     st_bind (read_exact 4) (\<lambda>req.
       if code (req ! 0) \<noteq> 5 then st_ret ()
       else if code (req ! 1) \<noteq> 1 then reply wr 7
       else if code (req ! 3) = 3 then
         st_bind (read_exact 1) (\<lambda>len.
         st_bind (read_exact (code (len ! 0))) (\<lambda>host_buf.
         st_bind (read_exact 2) (\<lambda>port_buf.
           serve_request wr lower m lookup_host connect
             (utf8_lossy host_buf) (u16_from_be_bytes port_buf))))
       else if code (req ! 3) = 1 \<or> code (req ! 3) = 4 then reply wr 2
       else reply wr 1))))"

definition new_conn :: "string \<Rightarrow> 'addr conn" where
  "new_conn inp = \<lparr>cn_in = inp, cn_out = [], cn_lookups = [], cn_attempts = [], cn_relay = None\<rparr>"

section \<open>The accept loop\<close>

text \<open>
  \<open>run_job_proxy\<close>: in each round the cancellation is looked at first (\<open>biased\<close>), then the
  listener. A round is given by whether the job has been cancelled and what \<open>accept\<close> returns;
  the result is the connections handed to a handler task of their own.
\<close>

fun run_job_proxy :: "(bool \<times> (io_error + 'conn)) list \<Rightarrow> 'conn list" where
  "run_job_proxy [] = []"
| "run_job_proxy ((cancelled, acc) # rounds) =
     (if cancelled then []
      else case acc of Inr c \<Rightarrow> c # run_job_proxy rounds | Inl _ \<Rightarrow> [])"

section \<open>Effects outside the sandbox\<close>

text \<open>Everything the connection asked of the outside was allowed.\<close>

definition contacts_ok ::
    "(string \<Rightarrow> string) \<Rightarrow> AllowlistMatcher \<Rightarrow> (string \<Rightarrow> io_error + 'addr list) \<Rightarrow> 'addr conn \<Rightarrow> bool" where
  "contacts_ok lower m lookup_host c =
     ((\<forall>n\<in>set (cn_lookups c). \<exists>host port. is_allowed lower m host port \<and> n = host_port host port)
      \<and> (\<forall>a\<in>set (cn_attempts c). \<exists>host port as. is_allowed lower m host port
            \<and> lookup_host (host_port host port) = Inr as \<and> a \<in> set as)
      \<and> (\<forall>a. cn_relay c = Some a \<longrightarrow> a \<in> set (cn_attempts c)))"

lemma keeps_read_exact [intro]: "st_keeps (contacts_ok lower m lookup_host) (read_exact n)"
  by (simp add: st_keeps_def read_exact_def contacts_ok_def)

lemma keeps_write_all [intro]: "st_keeps (contacts_ok lower m lookup_host) (write_all wr bs)"
  by (simp add: st_keeps_def write_all_def contacts_ok_def)

lemma keeps_reply [intro]: "st_keeps (contacts_ok lower m lookup_host) (reply wr rep)"
  by (auto simp: reply_def)

lemma try_connect_effect:
  "try_connect connect as c = (r, c') \<Longrightarrow>
     \<exists>k. c' = c\<lparr>cn_attempts := cn_attempts c @ take k as\<rparr>
       \<and> (\<forall>a. r = Some a \<longrightarrow> connect a \<and> a \<in> set (take k as))
       \<and> (r = None \<longrightarrow> (\<forall>a\<in>set as. \<not> connect a))"
proof (induction as arbitrary: c)
  case (Cons a as)
  show ?case
  proof (cases "connect a")
    case True
    then show ?thesis using Cons.prems by (intro exI [of _ 1]) auto
  next
    case False
    then have "try_connect connect as (c\<lparr>cn_attempts := cn_attempts c @ [a]\<rparr>) = (r, c')"
      using Cons.prems by simp
    from Cons.IH [OF this] obtain k where
      "c' = c\<lparr>cn_attempts := cn_attempts c @ [a] @ take k as\<rparr>"
      "\<forall>b. r = Some b \<longrightarrow> connect b \<and> b \<in> set (take k as)"
      "r = None \<longrightarrow> (\<forall>a\<in>set as. \<not> connect a)" by auto
    then show ?thesis using False by (intro exI [of _ "Suc k"]) auto
  qed
qed (intro exI [of _ 0], simp)

lemma keeps_serve_request [intro]:
  "st_keeps (contacts_ok lower m lookup_host)
     (serve_request wr lower m lookup_host connect host port)"
proof -
  let ?P = "contacts_ok lower m lookup_host"
  let ?n = "host_port host port"
  have "?P (snd (serve_request wr lower m lookup_host connect host port c))" if c: "?P c" for c
  proof (cases "is_allowed lower m host port")
    case False
    then show ?thesis using st_keepsD [OF keeps_reply c] by (simp add: serve_request_def)
  next
    case al: True
    let ?c = "c\<lparr>cn_lookups := cn_lookups c @ [?n]\<rparr>"
    have c1: "?P ?c" using c al by (auto simp: contacts_ok_def)
    show ?thesis
    proof (cases "lookup_host ?n")
      case (Inl e)
      then show ?thesis using st_keepsD [OF keeps_reply c1] al Inl by (simp add: serve_request_def Let_def)
    next
      case (Inr as)
      obtain r c2 where tc: "try_connect connect as ?c = (r, c2)" by fastforce
      from try_connect_effect [OF tc] obtain k where
        k: "c2 = ?c\<lparr>cn_attempts := cn_attempts c @ take k as\<rparr>"
          "\<forall>a. r = Some a \<longrightarrow> a \<in> set (take k as)" by auto
      have "\<forall>a\<in>set (take k as). \<exists>host port as. is_allowed lower m host port
            \<and> lookup_host (host_port host port) = Inr as \<and> a \<in> set as"
        using al Inr by (metis in_set_takeD)
      then have c2: "?P c2"
        using c1 by (simp add: k(1) contacts_ok_def ball_Un)
      show ?thesis
      proof (cases r)
        case None
        then show ?thesis
          using st_keepsD [OF keeps_reply c1] st_keepsD [OF keeps_reply c2] al Inr tc
          by (simp add: serve_request_def Let_def)
      next
        case (Some a)
        then have "as \<noteq> []" using k by auto
        moreover have "a \<in> set (cn_attempts c2)" using k Some by auto
        ultimately show ?thesis
          using c2 al Inr tc Some
          by (auto simp: serve_request_def Let_def st_bind_def reply_def write_all_def contacts_ok_def)
      qed
    qed
  qed
  then show ?thesis by (simp add: st_keeps_def)
qed

lemma keeps_handle_conn:
  "st_keeps (contacts_ok lower m lookup_host) (handle_conn wr lower m lookup_host connect)"
  unfolding handle_conn_def
  by (intro st_keeps_bind st_keeps_if st_keeps_ret keeps_read_exact keeps_write_all keeps_reply
      keeps_serve_request)

text \<open>
  C3. A job reaches nothing that the allowlist does not name. Whatever bytes a client sends,
  and however the name service, the network and the client's reading behave, every name the
  proxy resolves is an allowed host with its port, every address it connects to was returned
  by the name service for such a name, and the relay is set up with an address it connected to.
\<close>

theorem proxy_contacts_only_allowed:
  "contacts_ok lower m lookup_host
     (snd (handle_conn wr lower m lookup_host connect (new_conn inp)))"
  by (rule st_keepsD [OF keeps_handle_conn]) (simp add: contacts_ok_def new_conn_def)

section \<open>The protocol\<close>

text \<open>What a SOCKS5h client sends to ask for a host and port.\<close>

definition socks_request :: "string \<Rightarrow> u16 \<Rightarrow> string" where
  "socks_request host port =
     map byte [5, 1, 0, 5, 1, 0, 3, length host] @ host
       @ map byte [unat port div 256, unat port mod 256]"

lemma code_byte [simp]: "n < 256 \<Longrightarrow> code (byte n) = n"
  by (simp add: byte_def)

lemma read_exact_append [simp]:
  "n = length a \<Longrightarrow> cn_in c = a @ b \<Longrightarrow> read_exact n c = (Inr a, c\<lparr>cn_in := b\<rparr>)"
  by (simp add: read_exact_def)

lemma port_roundtrip:
  "u16_from_be_bytes [byte (unat port div 256), byte (unat port mod 256)] = port"
proof -
  have "unat port < 65536" using unsigned_less [of port] by simp
  then have "unat port div 256 < 256" by (simp add: less_mult_imp_div_less)
  then show ?thesis by (simp add: u16_from_be_bytes_def)
qed

lemma try_connect_result:
  "fst (try_connect connect as c) = find connect as
   \<and> cn_out (snd (try_connect connect as c)) = cn_out c
   \<and> cn_in (snd (try_connect connect as c)) = cn_in c
   \<and> cn_relay (snd (try_connect connect as c)) = cn_relay c"
  by (induction as arbitrary: c) (simp_all add: Let_def)

lemma reply_open: "reply (\<lambda>_. True) n c = (Inr (), c\<lparr>cn_out := cn_out c @ reply_bytes n\<rparr>)"
  by (simp add: reply_def write_all_def)

lemma serve_request_answers:
  "let c' = snd (serve_request (\<lambda>_. True) lower m lookup_host connect host port c)
   in cn_in c' = cn_in c \<and>
      (if \<not> is_allowed lower m host port
       then cn_out c' = cn_out c @ reply_bytes 2 \<and> cn_lookups c' = cn_lookups c \<and> cn_relay c' = cn_relay c
       else case lookup_host (host_port host port) of
           Inl _ \<Rightarrow> cn_out c' = cn_out c @ reply_bytes 4 \<and> cn_relay c' = cn_relay c
         | Inr as \<Rightarrow>
             if as = [] then cn_out c' = cn_out c @ reply_bytes 4 \<and> cn_relay c' = cn_relay c
             else if \<not> list_ex connect as
             then cn_out c' = cn_out c @ reply_bytes 5 \<and> cn_relay c' = cn_relay c
             else cn_out c' = cn_out c @ reply_bytes 0 \<and> cn_relay c' = find connect as)"
proof (cases "is_allowed lower m host port")
  case al: True
  let ?c1 = "c\<lparr>cn_lookups := cn_lookups c @ [host_port host port]\<rparr>"
  show ?thesis
  proof (cases "lookup_host (host_port host port)")
    case (Inr as)
    obtain r c2 where tc: "try_connect connect as ?c1 = (r, c2)" by fastforce
    have r: "r = find connect as" "cn_out c2 = cn_out c" "cn_in c2 = cn_in c" "cn_relay c2 = cn_relay c"
      using try_connect_result [of connect as ?c1] by (simp_all add: tc)
    show ?thesis
    proof (cases r)
      case None
      then have "\<not> list_ex connect as" using r(1) by (simp add: find_None_iff list_ex_iff)
      then show ?thesis using al Inr tc None r
        by (simp add: serve_request_def Let_def reply_open)
    next
      case (Some a)
      then have "list_ex connect as" "as \<noteq> []"
        using r(1) by (auto simp: find_Some_iff list_ex_iff)
      then show ?thesis using al Inr tc Some r
        by (simp add: serve_request_def Let_def reply_open st_bind_def)
    qed
  qed (use al in \<open>simp add: serve_request_def Let_def reply_open\<close>)
qed (simp add: serve_request_def Let_def reply_open)

text \<open>
  What the proxy answers a well-formed request, on every branch: refused by the allowlist
  (code 2), unresolvable or resolved to nothing (4), no address accepts (5), and otherwise
  success (0) with the relay to the first address that accepts; the greeting is always
  answered first, and nothing else is written.
\<close>

theorem proxy_answers:
  assumes "length host < 256" and "utf8_valid host"
  shows "let c = snd (handle_conn (\<lambda>_. True) lower m lookup_host connect
                        (new_conn (socks_request host port @ rest)));
             greeting = map byte [5, 0]
         in cn_in c = rest \<and>
            (if \<not> is_allowed lower m host port
             then cn_out c = greeting @ reply_bytes 2 \<and> cn_lookups c = [] \<and> cn_relay c = None
             else case lookup_host (host_port host port) of
                 Inl _ \<Rightarrow> cn_out c = greeting @ reply_bytes 4 \<and> cn_relay c = None
               | Inr as \<Rightarrow>
                   if as = [] then cn_out c = greeting @ reply_bytes 4 \<and> cn_relay c = None
                   else if \<not> list_ex connect as
                   then cn_out c = greeting @ reply_bytes 5 \<and> cn_relay c = None
                   else cn_out c = greeting @ reply_bytes 0 \<and> cn_relay c = find connect as)"
proof -
  let ?port = "map byte [unat port div 256, unat port mod 256]"
  let ?c0 = "(new_conn rest)\<lparr>cn_out := map byte [5, 0]\<rparr>"
  have "handle_conn (\<lambda>_. True) lower m lookup_host connect (new_conn (socks_request host port @ rest))
      = serve_request (\<lambda>_. True) lower m lookup_host connect (utf8_lossy host)
          (u16_from_be_bytes ?port) ?c0"
    using assms(1)
    by (simp add: handle_conn_def socks_request_def st_bind_def new_conn_def read_exact_def
        write_all_def)
  also have "\<dots> = serve_request (\<lambda>_. True) lower m lookup_host connect host port ?c0"
    using assms(2) port_roundtrip [of port] by (simp add: utf8_lossy_valid)
  finally show ?thesis
    using serve_request_answers [where lower = lower and m = m and host = host and port = port
        and lookup_host = lookup_host and c = ?c0 and connect = connect]
    by (cases "lookup_host (host_port host port)") (auto simp add: Let_def new_conn_def)
qed

theorem proxy_answers_witness:
  "cn_relay (snd (handle_conn (\<lambda>_. True) to_ascii_lowercase
      (matcher_new to_ascii_lowercase [\<lparr>er_host = ''a.io'', er_port = None\<rparr>])
      (\<lambda>_. Inr [(1::nat), 2, 3]) (\<lambda>a. 1 < a) (new_conn (socks_request ''a.io'' 443 @ ''GET'')))) = Some 2"
proof -
  have "is_allowed to_ascii_lowercase
      (matcher_new to_ascii_lowercase [\<lparr>er_host = ''a.io'', er_port = None\<rparr>]) ''a.io'' 443"
    by (simp add: is_allowed_def matcher_new_def host_matches_def port_matches_def
        to_ascii_lowercase_def ascii_lower_eval)
  then show ?thesis
    using proxy_answers [where host = "''a.io''" and lower = to_ascii_lowercase
        and m = "matcher_new to_ascii_lowercase [\<lparr>er_host = ''a.io'', er_port = None\<rparr>]"
        and lookup_host = "\<lambda>_. Inr [(1::nat), 2, 3]" and connect = "\<lambda>a. 1 < a"
        and port = 443 and rest = "''GET''"]
    by (simp add: Let_def)
qed

end
