(* ===== verification/Runner.thy ===== *)
theory Runner
  imports Confinement Recovery Socks
begin

text \<open>
  The life of a job, \<open>sandbox-core/src/sandbox_context.rs\<close>, with the proxy handle of
  \<open>sandbox-core/src/proxy.rs\<close>. The runner's own state is threaded; what the kernel and the job
  do is the parameter \<open>world\<close>. A call returns, panics, or waits for ever.
\<close>

section \<open>State and world\<close>

datatype exit_status = ExitedWith int | SignaledBy int

definition exit_code :: "exit_status \<Rightarrow> int option" where
  "exit_code s = (case s of ExitedWith c \<Rightarrow> Some c | SignaledBy _ \<Rightarrow> None)"

definition exit_signal :: "exit_status \<Rightarrow> int option" where
  "exit_signal s = (case s of SignaledBy n \<Rightarrow> Some n | ExitedWith _ \<Rightarrow> None)"

text \<open>A signal the runner sends: SIGTERM to a process group, or SIGKILL to the child alone.\<close>

datatype sent_signal = KillPgTerm int | KillChild

record rstate =
  rn_fs :: node
  rn_socks :: "string set"
  rn_cg :: cgfs
  rn_pipe_ends :: nat
  rn_signals :: "sent_signal list"
  rn_events :: "StreamEvent list"
  rn_env :: "env option"

text \<open>
  What happens while the child runs, with the time since the wait began in nanoseconds: the
  child exits, the wait fails, the job is cancelled, or the disk watchdog has measured the
  workspace (no measure when its task failed).
\<close>

datatype wait_event = ChildExit exit_status | WaitFails string | CancelRequest | DiskMeasured "node option"

text \<open>
  A process of the job other than the child: whether it is in the child's process group, ignores
  SIGTERM, holds the child's output pipes open, and ends by itself.
\<close>

record proc =
  p_in_group :: bool
  p_ignores_term :: bool
  p_holds_output :: bool
  p_ends :: bool

record 'acc world =
  w_host :: "'acc host"
  w_cap :: CapabilityReport
  w_bind_err :: "string \<Rightarrow> io_error option"
  w_pipe_ok :: bool
  w_error_fd :: "32 word"
  w_fork_err :: "string option"
  w_kernel :: "'acc child_kernel"
  w_child :: "'acc child"
  w_exec_err :: "string option"
  w_exec_pipe :: nat
  w_pid :: "u32 option"
  w_pipe_capacity :: nat
  w_takes_stdin :: bool
  w_events :: "(nat \<times> wait_event) list"
  w_status_after_kill :: "exit_status option"
  w_procs :: "proc list"
  w_chunks :: "string list"
  w_stderr :: string
  w_job_fs :: "node \<Rightarrow> node"
  w_job_cg :: "cgfs \<Rightarrow> cgfs"
  w_duration :: nat
  w_statvfs :: "string \<Rightarrow> int + u64 \<times> u64"

datatype outcome = Returned "CoreError + JobResult" | Panicked | Waiting

section \<open>The proxy handle\<close>

definition proxy_start ::
    "'acc world \<Rightarrow> string \<Rightarrow> rstate \<Rightarrow> string option \<times> rstate" where
  "proxy_start w workspace s =
     (let sock_path = path_join workspace ''.proxy.sock'';
          s = s\<lparr>rn_socks := rn_socks s - {sock_path}\<rparr>
      in case w_bind_err w sock_path of
           Some e \<Rightarrow> (None, s)
         | None \<Rightarrow> (Some sock_path, s\<lparr>rn_socks := insert sock_path (rn_socks s)\<rparr>))"

text \<open>\<open>stop\<close> and the drop of the handle both remove the socket.\<close>

definition proxy_stop :: "string option \<Rightarrow> rstate \<Rightarrow> rstate" where
  "proxy_stop proxy s =
     (case proxy of None \<Rightarrow> s | Some sock_path \<Rightarrow> s\<lparr>rn_socks := rn_socks s - {sock_path}\<rparr>)"

section \<open>Reading the output\<close>

text \<open>
  The two readers of standard output: chunk by chunk when the caller streams, else to the end.
  \<open>usize\<close> is 64 bits wide.
\<close>

definition push_chunk :: "nat \<Rightarrow> string \<Rightarrow> string \<Rightarrow> string" where
  "push_chunk max_stdout data buf =
     (let room = max_stdout - length buf
      in if room > 0 then buf @ take (min room (length data)) data else buf)"

definition read_stdout :: "bool \<Rightarrow> nat \<Rightarrow> string list \<Rightarrow> string \<times> StreamEvent list" where
  "read_stdout stream max_stdout chunks =
     (if stream then
        (fold (push_chunk max_stdout) chunks [], map (\<lambda>data. Stdout (utf8_lossy data)) chunks)
      else
        (let buf = concat chunks
         in (if length buf > max_stdout then take max_stdout buf else buf, [])))"

definition read_stderr :: "nat \<Rightarrow> string \<Rightarrow> string" where
  "read_stderr max_stderr data = (if length data > max_stderr then take max_stderr data else data)"

section \<open>Waiting for the child\<close>

datatype waited = WaitError string | Waited bool bool bool "exit_status option"

text \<open>\<open>timeout\<close> polls the child first, so an exit at the deadline counts as an exit.\<close>

fun select_wait ::
    "nat \<Rightarrow> u64 option \<Rightarrow> string \<Rightarrow> exit_status option \<Rightarrow> (nat \<times> wait_event) list \<Rightarrow> waited" where
  "select_wait limit quota root after_kill [] = Waited True False False after_kill"
| "select_wait limit quota root after_kill ((t, e) # es) =
     (if limit < t then Waited True False False after_kill
      else case e of
        ChildExit status \<Rightarrow> Waited False False False (Some status)
      | WaitFails msg \<Rightarrow> WaitError msg
      | CancelRequest \<Rightarrow> Waited False True False after_kill
      | DiskMeasured tree \<Rightarrow>
          (case quota of
             None \<Rightarrow> select_wait limit quota root after_kill es
           | Some q \<Rightarrow>
               if (case tree of Some n \<Rightarrow> dir_size root n | None \<Rightarrow> 0) > q
               then Waited False False True after_kill
               else select_wait limit quota root after_kill es))"

text \<open>The reader tasks end when every process that holds the pipes has ended.\<close>

definition survives :: "bool \<Rightarrow> proc \<Rightarrow> bool" where
  "survives killed p = (\<not> (killed \<and> p_in_group p \<and> \<not> p_ignores_term p))"

definition outputs_close :: "bool \<Rightarrow> proc list \<Rightarrow> bool" where
  "outputs_close killed ps =
     list_all (\<lambda>p. survives killed p \<longrightarrow> p_holds_output p \<longrightarrow> p_ends p) ps"

definition job_status :: "bool \<Rightarrow> bool \<Rightarrow> bool \<Rightarrow> exit_status option \<Rightarrow> JobStatus" where
  "job_status timed_out cancelled disk_quota_exceeded status =
     (if cancelled then Cancelled
      else if timed_out then TimedOut
      else if disk_quota_exceeded then DiskQuotaExceeded
      else if Option.bind status exit_signal \<noteq> None then Killed
      else Completed)"

definition violations_of :: "bool \<Rightarrow> exit_status option \<Rightarrow> u64 \<Rightarrow> u64 \<Rightarrow> SandboxViolation list" where
  "violations_of disk_quota_exceeded status oom_before oom_after =
     (if disk_quota_exceeded then [FileSizeExceeded] else [])
     @ (if Option.bind status exit_signal = Some 31 then [SeccompDenied ''unknown''] else [])
     @ (if oom_after > oom_before then [OomKill] else [])"

definition oom_count :: "cg_kernel \<Rightarrow> JobCgroup option \<Rightarrow> cgfs \<Rightarrow> u64" where
  "oom_count k cgroup s =
     (case cgroup of
        None \<Rightarrow> 0
      | Some cg \<Rightarrow> (case fst (oom_kill_count k cg s) of Inr (Some n) \<Rightarrow> n | _ \<Rightarrow> 0))"

definition usage_summary :: "cg_kernel \<Rightarrow> JobCgroup option \<Rightarrow> cgfs \<Rightarrow> ResourceSummary option" where
  "usage_summary k cgroup s =
     (case cgroup of
        None \<Rightarrow> None
      | Some cg \<Rightarrow>
          (case fst (resource_usage k cg s) of
             Inl _ \<Rightarrow> None
           | Inr u \<Rightarrow> Some \<lparr>memory_peak_bytes = ru_memory_peak u,
               cpu_usage_usec = ru_cpu_usage_usec u, pids_peak = ru_pids_current u\<rparr>))"

definition destroy_opt :: "cg_kernel \<Rightarrow> JobCgroup option \<Rightarrow> cgfs \<Rightarrow> cgfs" where
  "destroy_opt k cgroup s = (case cgroup of None \<Rightarrow> s | Some cg \<Rightarrow> snd (cgroup_destroy k cg s))"

definition migrate_opt :: "cg_kernel \<Rightarrow> JobCgroup option \<Rightarrow> u32 \<Rightarrow> cgfs \<Rightarrow> cgfs" where
  "migrate_opt k cgroup pid s = (case cgroup of None \<Rightarrow> s | Some cg \<Rightarrow> snd (migrate_process k cg pid s))"

section \<open>Running a command in a workspace\<close>

text \<open>Steps 12 to 16: from the wait to the result.\<close>

definition collect_job ::
    "'acc world \<Rightarrow> SandboxProfile \<Rightarrow> JobRequest \<Rightarrow> bool \<Rightarrow> JobCgroup option \<Rightarrow> u64 \<Rightarrow> string option
      \<Rightarrow> bool \<Rightarrow> bool \<Rightarrow> bool \<Rightarrow> exit_status option \<Rightarrow> rstate \<Rightarrow> outcome \<times> rstate" where
  "collect_job w profile request stream cgroup oom_before proxy timed_out cancelled quota_hit status s =
     (let killed = timed_out \<or> cancelled \<or> quota_hit;
          s = (if killed then s\<lparr>rn_signals := rn_signals s
                 @ [KillPgTerm (sint (case w_pid w of Some p \<Rightarrow> p | None \<Rightarrow> 0)), KillChild]\<rparr> else s);
          (stdout, evs) = read_stdout stream (unat (sp_max_stdout_bytes profile)) (w_chunks w);
          s = s\<lparr>rn_events := rn_events s @ evs\<rparr>
      in if \<not> outputs_close killed (w_procs w) then (Waiting, s)
         else
           (let stderr = read_stderr (unat (sp_max_stderr_bytes profile)) (w_stderr w);
                k = h_cgroup (w_host w);
                oom_after = oom_count k cgroup (rn_cg s);
                usage = usage_summary k cgroup (rn_cg s);
                s = proxy_stop proxy (s\<lparr>rn_cg := destroy_opt k cgroup (rn_cg s)\<rparr>);
                result = \<lparr>res_job_id = jr_job_id request,
                  res_status = job_status timed_out cancelled quota_hit status,
                  res_exit_code = Option.bind status exit_code, res_signal = Option.bind status exit_signal,
                  res_stdout = stdout, res_stderr = stderr, res_duration = w_duration w,
                  res_timed_out = timed_out,
                  res_violations = violations_of quota_hit status oom_before oom_after,
                  res_usage = usage\<rparr>;
                s = (if stream then s\<lparr>rn_events := rn_events s @ [ResultEv result]\<rparr> else s)
            in (Returned (Inr result), s)))"

text \<open>Steps 9 to 12: the program has started.\<close>

definition supervise ::
    "'acc world \<Rightarrow> JobWorkspace \<Rightarrow> SandboxProfile \<Rightarrow> JobRequest \<Rightarrow> bool \<Rightarrow> JobCgroup option
      \<Rightarrow> string option \<Rightarrow> rstate \<Rightarrow> outcome \<times> rstate" where
  "supervise w jw profile request stream cgroup proxy s =
     (let k = h_cgroup (w_host w);
          limit = (case jr_timeout request of Some t \<Rightarrow> t | None \<Rightarrow> sp_default_timeout profile);
          s = s\<lparr>rn_cg := migrate_opt k cgroup (case w_pid w of Some p \<Rightarrow> p | None \<Rightarrow> 0) (rn_cg s)\<rparr>;
          oom_before = oom_count k cgroup (rn_cg s);
          s = s\<lparr>rn_fs := w_job_fs w (rn_fs s), rn_cg := w_job_cg w (rn_cg s)\<rparr>
      in if (case jr_stdin_data request of
               Some d \<Rightarrow> w_pipe_capacity w < length d \<and> \<not> w_takes_stdin w | None \<Rightarrow> False)
         then (Waiting, s)
         else
           (let s = (if stream then s\<lparr>rn_events := rn_events s @ [Started (jr_job_id request)]\<rparr> else s);
                quota = map_option (\<lambda>mb. mb * 1024 * 1024) (sp_disk_quota_mb profile)
            in case select_wait limit quota (jw_root jw) (w_status_after_kill w) (w_events w) of
                 WaitError e \<Rightarrow> (Returned (Inl (ProcessErr e)), s)
               | Waited timed_out cancelled quota_hit status \<Rightarrow>
                   collect_job w profile request stream cgroup oom_before proxy
                     timed_out cancelled quota_hit status s))"

definition debug_pre_exec_error :: "PreExecError option \<Rightarrow> string" where
  "debug_pre_exec_error e =
     (case e of
        None \<Rightarrow> ''None''
      | Some x \<Rightarrow> ''Some('' @ (case x of SetSid \<Rightarrow> ''SetSid'' | CloseFds \<Rightarrow> ''CloseFds''
          | SetRlimit \<Rightarrow> ''SetRlimit'' | NoNewPrivs \<Rightarrow> ''NoNewPrivs'' | LandlockApply \<Rightarrow> ''LandlockApply''
          | SeccompApply \<Rightarrow> ''SeccompApply'' | Chdir \<Rightarrow> ''Chdir'') @ '')'')"

text \<open>
  A program that cannot be executed. The standard library reports it through a pipe of its own, whose
  number in the child is \<open>w_exec_pipe\<close>; when the confinement has closed that descriptor, the child
  aborts instead, and for the parent the program has started.
\<close>

definition exec_reported :: "'acc world \<Rightarrow> 'acc PreparedSandboxContext \<Rightarrow> string \<Rightarrow> string option" where
  "exec_reported w ctx workspace_path =
     (case w_exec_err w of
        None \<Rightarrow> None
      | Some e \<Rightarrow>
          if w_exec_pipe w \<in> ch_fds (snd (apply_in_child (w_kernel w) ctx workspace_path (w_error_fd w) (w_child w)))
          then Some e else None)"

text \<open>
  Steps 4 to 8: the error pipe, the fork, the child's confinement, and the program's start. The
  child that cannot be confined exits, so \<open>spawn\<close> succeeds and the byte tells; a program that
  cannot be executed makes \<open>spawn\<close> fail when that can be reported.
\<close>

definition spawn_job ::
    "'acc world \<Rightarrow> JobWorkspace \<Rightarrow> SandboxProfile \<Rightarrow> JobRequest \<Rightarrow> bool \<Rightarrow> 'acc PreparedSandboxContext
      \<Rightarrow> JobCgroup option \<Rightarrow> string \<Rightarrow> env \<Rightarrow> string option \<Rightarrow> rstate \<Rightarrow> outcome \<times> rstate" where
  "spawn_job w jw profile request stream ctx cgroup workspace_path env proxy s =
     (if \<not> w_pipe_ok w then (Returned (Inl (ProcessErr ''pipe2 creation failed'')), s)
      else
        (let s = s\<lparr>rn_pipe_ends := rn_pipe_ends s + 2\<rparr>
         in case jr_argv request of
              [] \<Rightarrow> (Panicked, s)
            | _ # _ \<Rightarrow>
          (case w_fork_err w of
             Some e \<Rightarrow> (Returned (Inl (ProcessErr e)), s)
           | None \<Rightarrow>
               (case error_byte (fst (apply_in_child (w_kernel w) ctx workspace_path (w_error_fd w) (w_child w))) of
                  Some b \<Rightarrow>
                    (Returned (Inl (ProcessErr (''pre_exec failed: '' @ debug_pre_exec_error (from_byte b)))),
                     s\<lparr>rn_pipe_ends := rn_pipe_ends s - 2,
                       rn_cg := destroy_opt (h_cgroup (w_host w)) cgroup (rn_cg s)\<rparr>)
                | None \<Rightarrow>
                    (case exec_reported w ctx workspace_path of
                       Some e \<Rightarrow> (Returned (Inl (ProcessErr e)), s)
                     | None \<Rightarrow>
                         supervise w jw profile request stream cgroup proxy
                           (s\<lparr>rn_pipe_ends := rn_pipe_ends s - 2, rn_env := Some env\<rparr>))))))"

text \<open>The directory of the program: below the workspace, or the workspace itself.\<close>

definition cwd_path :: "JobWorkspace \<Rightarrow> JobRequest \<Rightarrow> CoreError + string" where
  "cwd_path jw request =
     (case jr_cwd request of
        Some rel \<Rightarrow> if rel \<noteq> [] then sanitize_relpath (jw_workspace jw) rel else Inr (jw_workspace jw)
      | None \<Rightarrow> Inr (jw_workspace jw))"

definition run_in_workspace ::
    "'acc world \<Rightarrow> JobWorkspace \<Rightarrow> SandboxProfile \<Rightarrow> JobRequest \<Rightarrow> bool \<Rightarrow> rstate \<Rightarrow> outcome \<times> rstate" where
  "run_in_workspace w jw profile request stream s =
     (let env = build_sanitized_env (jr_job_id request) (jw_workspace jw) (sp_env profile)
                  (jr_custom_env request);
          (proxy, s) = (if sp_egress_allowlist profile \<noteq> [] then proxy_start w (jw_workspace jw) s
                        else (None, s));
          env = (case proxy of Some p \<Rightarrow> env(''SANDBOX_PROXY_SOCK'' \<mapsto> utf8_lossy p) | None \<Rightarrow> env);
          (prepared, cg) = psc_prepare (w_host w) profile (jw_workspace jw) (jr_job_id request)
                             (w_cap w) (rn_cg s);
          s = s\<lparr>rn_cg := cg\<rparr>;
          (r, s) =
            (case prepared of
               Inl e \<Rightarrow> (Returned (Inl e), s)
             | Inr ctx \<Rightarrow>
                 (let (cgroup, ctx) = take_cgroup ctx
                  in case cwd_path jw request of
                       Inl e \<Rightarrow> (Returned (Inl e), s)
                     | Inr workspace_path \<Rightarrow>
                         spawn_job w jw profile request stream ctx cgroup workspace_path env proxy s))
      in if r = Waiting then (r, s) else (r, proxy_stop proxy s))"

text \<open>A one-shot job: admission, profile, workspace, run, and clean-up whatever the run gave.\<close>

definition run_job_with_cancel ::
    "'acc world \<Rightarrow> WorkspaceManager \<Rightarrow> ProfileRegistry \<Rightarrow> JobRequest \<Rightarrow> bool \<Rightarrow> rstate \<Rightarrow> outcome \<times> rstate" where
  "run_job_with_cancel w m reg request stream s =
     (case check_disk_watermark (w_statvfs w) m of
        Inl e \<Rightarrow> (Returned (Inl e), s)
      | Inr False \<Rightarrow> (Returned (Inl (WorkspaceErr ''disk free below watermark, rejecting new job'')), s)
      | Inr True \<Rightarrow>
          (case registry_get reg (jr_profile_name request) of
             None \<Rightarrow> (Returned (Inl (ProfileNotFound (jr_profile_name request))), s)
           | Some profile \<Rightarrow>
               (case create_job_workspace m (jr_job_id request) (rn_fs s) of
                  (Inl e, t) \<Rightarrow> (Returned (Inl e), s\<lparr>rn_fs := t\<rparr>)
                | (Inr jw, t) \<Rightarrow>
                    (case run_in_workspace w jw profile request stream (s\<lparr>rn_fs := t\<rparr>) of
                       (Returned r, s) \<Rightarrow>
                         (Returned r, s\<lparr>rn_fs := snd (cleanup_job m (jr_job_id request) (rn_fs s))\<rparr>)
                     | (r, s) \<Rightarrow> (r, s)))))"

text \<open>\<open>SandboxRunner::new\<close> makes the base directory and loads the built-in profiles.\<close>

definition runner_new ::
    "string \<Rightarrow> u64 \<Rightarrow> (string \<rightharpoonup> string) \<Rightarrow> (string \<Rightarrow> io_error + string)
      \<Rightarrow> (WorkspaceManager \<times> ProfileRegistry) cfs" where
  "runner_new sandbox_base_dir watermark envv read_pem =
     st_bind (lift_io (create_dir_all sandbox_base_dir)) (\<lambda>_.
     st_ret (\<lparr>base_dir = sandbox_base_dir, disk_watermark_bytes = watermark\<rparr>,
             with_defaults envv read_pem))"

end
