(* ===== verification/RunnerProofs.thy ===== *)
theory RunnerProofs
  imports Runner
begin

text \<open>
  What the runner of \<open>sandbox-core/src/sandbox_context.rs\<close> guarantees: its output, the outcome of
  a job, when a call returns, and what it leaves behind.
\<close>

section \<open>Output\<close>

lemma take_take_append: "take m (take m xs @ ys) = take m (xs @ ys)"
  by (cases "length xs \<le> m") simp_all

lemma fold_push_chunk:
  "length buf \<le> m \<Longrightarrow> fold (push_chunk m) chunks buf = take m (buf @ concat chunks)"
proof (induction chunks arbitrary: buf)
  case (Cons c cs)
  have "push_chunk m c buf = take m (buf @ c)" using Cons.prems by (auto simp: push_chunk_def Let_def min_def)
  moreover have "take m (take m (buf @ c) @ concat cs) = take m ((buf @ c) @ concat cs)"
    by (rule take_take_append)
  ultimately show ?case using Cons.IH [of "take m (buf @ c)"] by (simp del: take_append)
qed simp

text \<open>
  C9. The kept output does not depend on streaming. Reading chunk by chunk and reading to the
  end give the same bytes, the first \<open>max_stdout\<close> bytes of what the job wrote, however the
  stream was cut into chunks.
\<close>

theorem stdout_kept:
  "fst (read_stdout stream m chunks) = take m (concat chunks)
   \<and> length (fst (read_stdout stream m chunks)) \<le> m"
  by (auto simp: read_stdout_def Let_def fold_push_chunk)

section \<open>The wait\<close>

text \<open>The first event that ends the wait: the deadline passed, or anything but a small measure.\<close>

definition over_quota :: "u64 option \<Rightarrow> string \<Rightarrow> node option \<Rightarrow> bool" where
  "over_quota quota root tree =
     (case quota of None \<Rightarrow> False | Some q \<Rightarrow> (case tree of Some n \<Rightarrow> dir_size root n | None \<Rightarrow> 0) > q)"

definition decides :: "nat \<Rightarrow> u64 option \<Rightarrow> string \<Rightarrow> nat \<times> wait_event \<Rightarrow> bool" where
  "decides limit quota root te =
     (limit < fst te \<or> (case snd te of DiskMeasured tree \<Rightarrow> over_quota quota root tree | _ \<Rightarrow> True))"

lemma select_wait_find:
  "select_wait limit quota root after es =
     (case find (decides limit quota root) es of
        None \<Rightarrow> Waited True False False after
      | Some (t, e) \<Rightarrow>
          if limit < t then Waited True False False after
          else (case e of
             ChildExit status \<Rightarrow> Waited False False False (Some status)
           | WaitFails msg \<Rightarrow> WaitError msg
           | CancelRequest \<Rightarrow> Waited False True False after
           | DiskMeasured _ \<Rightarrow> Waited False False True after))"
proof (induction es)
  case (Cons te es)
  obtain t e where te: "te = (t, e)" by (cases te)
  show ?case
    using Cons.IH by (cases e) (auto simp: te decides_def over_quota_def split: option.splits)
qed simp

lemma select_wait_flags:
  "select_wait limit quota root after es = Waited timed_out cancelled quota_hit status \<Longrightarrow>
     (timed_out, cancelled, quota_hit) \<in>
       {(True, False, False), (False, True, False), (False, False, True), (False, False, False)}
   \<and> ((timed_out \<or> cancelled \<or> quota_hit) \<longrightarrow> status = after)
   \<and> (\<not> timed_out \<and> \<not> cancelled \<and> \<not> quota_hit \<longrightarrow> status \<noteq> None)"
  unfolding select_wait_find by (auto split: option.splits prod.splits if_splits wait_event.splits)

section \<open>How far a run gets\<close>

definition spawn_ok ::
    "'acc world \<Rightarrow> JobRequest \<Rightarrow> 'acc PreparedSandboxContext \<Rightarrow> string \<Rightarrow> bool" where
  "spawn_ok w request ctx workspace_path =
     (w_pipe_ok w \<and> jr_argv request \<noteq> [] \<and> w_fork_err w = None
      \<and> error_byte (fst (apply_in_child (w_kernel w) ctx workspace_path (w_error_fd w) (w_child w))) = None
      \<and> exec_reported w ctx workspace_path = None)"

text \<open>The pipe ends that a start that failed leaves open.\<close>

definition leaked_ends ::
    "'acc world \<Rightarrow> JobRequest \<Rightarrow> 'acc PreparedSandboxContext \<Rightarrow> string \<Rightarrow> nat" where
  "leaked_ends w request ctx workspace_path =
     (if w_pipe_ok w \<and>
        (jr_argv request = [] \<or> w_fork_err w \<noteq> None \<or>
         (error_byte (fst (apply_in_child (w_kernel w) ctx workspace_path (w_error_fd w) (w_child w))) = None
          \<and> exec_reported w ctx workspace_path \<noteq> None))
      then 2 else 0)"

lemma spawn_job_ok:
  "spawn_ok w request ctx p \<Longrightarrow>
     spawn_job w jw profile request stream ctx cgroup p env proxy s =
       supervise w jw profile request stream cgroup proxy (s\<lparr>rn_pipe_ends := rn_pipe_ends s, rn_env := Some env\<rparr>)"
  by (auto simp: spawn_job_def spawn_ok_def Let_def split: list.split)

lemma spawn_job_fails:
  "\<not> spawn_ok w request ctx p \<Longrightarrow> spawn_job w jw profile request stream ctx cgroup p env proxy s = (r, s') \<Longrightarrow>
     (r = Panicked \<or> (\<exists>e. r = Returned (Inl e)))
     \<and> rn_pipe_ends s' = rn_pipe_ends s + leaked_ends w request ctx p
     \<and> rn_socks s' = rn_socks s \<and> rn_fs s' = rn_fs s \<and> rn_events s' = rn_events s
     \<and> rn_signals s' = rn_signals s
     \<and> (rn_cg s' = rn_cg s
        \<or> w_pipe_ok w \<and> jr_argv request \<noteq> [] \<and> w_fork_err w = None
          \<and> leaked_ends w request ctx p = 0 \<and> rn_cg s' = destroy_opt (h_cgroup (w_host w)) cgroup (rn_cg s))"
  by (auto simp: spawn_job_def spawn_ok_def leaked_ends_def Let_def split: list.splits option.splits if_splits)

text \<open>The prepared context of a run, and whether its program starts.\<close>

definition prepared ::
    "'acc world \<Rightarrow> JobWorkspace \<Rightarrow> SandboxProfile \<Rightarrow> JobRequest \<Rightarrow> rstate
      \<Rightarrow> (CoreError + 'acc PreparedSandboxContext) \<times> cgfs" where
  "prepared w jw profile request s =
     psc_prepare (w_host w) profile (jw_workspace jw) (jr_job_id request) (w_cap w) (rn_cg s)"

definition program_starts ::
    "'acc world \<Rightarrow> JobWorkspace \<Rightarrow> SandboxProfile \<Rightarrow> JobRequest \<Rightarrow> rstate \<Rightarrow> bool" where
  "program_starts w jw profile request s =
     (case (fst (prepared w jw profile request s), cwd_path jw request) of
        (Inr ctx, Inr p) \<Rightarrow> spawn_ok w request (ctx\<lparr>psc_cgroup := None\<rparr>) p
      | _ \<Rightarrow> False)"

definition job_env ::
    "'acc world \<Rightarrow> JobWorkspace \<Rightarrow> SandboxProfile \<Rightarrow> JobRequest \<Rightarrow> string option \<Rightarrow> env" where
  "job_env w jw profile request proxy =
     (let env = build_sanitized_env (jr_job_id request) (jw_workspace jw) (sp_env profile) (jr_custom_env request)
      in case proxy of Some p \<Rightarrow> env(''SANDBOX_PROXY_SOCK'' \<mapsto> utf8_lossy p) | None \<Rightarrow> env)"

definition proxy_phase ::
    "'acc world \<Rightarrow> JobWorkspace \<Rightarrow> SandboxProfile \<Rightarrow> rstate \<Rightarrow> string option \<times> rstate" where
  "proxy_phase w jw profile s =
     (if sp_egress_allowlist profile \<noteq> [] then proxy_start w (jw_workspace jw) s else (None, s))"

definition finish_run :: "string option \<Rightarrow> outcome \<times> rstate \<Rightarrow> outcome \<times> rstate" where
  "finish_run proxy rs = (case rs of (r, s) \<Rightarrow> if r = Waiting then (r, s) else (r, proxy_stop proxy s))"

lemma proxy_phase_frame:
  "proxy_phase w jw profile s = (proxy, s') \<Longrightarrow>
     rn_cg s' = rn_cg s \<and> rn_fs s' = rn_fs s \<and> rn_pipe_ends s' = rn_pipe_ends s \<and> rn_events s' = rn_events s
     \<and> rn_signals s' = rn_signals s
     \<and> rn_socks s' - set_option proxy = rn_socks s -
         (if sp_egress_allowlist profile \<noteq> [] then {path_join (jw_workspace jw) ''.proxy.sock''} else {})"
  by (auto simp: proxy_phase_def proxy_start_def Let_def split: if_splits option.splits)

lemma proxy_stop_frame [simp]:
  "rn_cg (proxy_stop proxy s) = rn_cg s" "rn_fs (proxy_stop proxy s) = rn_fs s"
  "rn_pipe_ends (proxy_stop proxy s) = rn_pipe_ends s" "rn_events (proxy_stop proxy s) = rn_events s"
  "rn_signals (proxy_stop proxy s) = rn_signals s"
  "rn_socks (proxy_stop proxy s) = rn_socks s - set_option proxy"
  by (auto simp: proxy_stop_def split: option.splits)

lemma run_phases:
  assumes p: "proxy_phase w jw profile s = (proxy, s1)"
    and c: "prepared w jw profile request s1 = (pr, cg)"
  shows "run_in_workspace w jw profile request stream s = finish_run proxy
    (case (pr, cwd_path jw request) of
       (Inl e, _) \<Rightarrow> (Returned (Inl e), s1\<lparr>rn_cg := cg\<rparr>)
     | (Inr ctx, Inl e) \<Rightarrow> (Returned (Inl e), s1\<lparr>rn_cg := cg\<rparr>)
     | (Inr ctx, Inr path) \<Rightarrow>
         spawn_job w jw profile request stream (ctx\<lparr>psc_cgroup := None\<rparr>) (psc_cgroup ctx) path
           (job_env w jw profile request proxy) proxy (s1\<lparr>rn_cg := cg\<rparr>))"
  using p c
  by (auto simp: run_in_workspace_def finish_run_def proxy_phase_def prepared_def job_env_def take_cgroup_def
      Let_def split: sum.splits prod.splits)

lemma prepared_proxy:
  "proxy_phase w jw profile s = (proxy, s1) \<Longrightarrow> prepared w jw profile request s1 = prepared w jw profile request s"
  using proxy_phase_frame by (fastforce simp: prepared_def)

definition stdin_blocks :: "'acc world \<Rightarrow> JobRequest \<Rightarrow> bool" where
  "stdin_blocks w request =
     (case jr_stdin_data request of
        Some d \<Rightarrow> w_pipe_capacity w < length d \<and> \<not> w_takes_stdin w | None \<Rightarrow> False)"

definition job_wait :: "'acc world \<Rightarrow> JobWorkspace \<Rightarrow> SandboxProfile \<Rightarrow> JobRequest \<Rightarrow> waited" where
  "job_wait w jw profile request =
     select_wait (case jr_timeout request of Some t \<Rightarrow> t | None \<Rightarrow> sp_default_timeout profile)
       (map_option (\<lambda>mb. mb * 1024 * 1024) (sp_disk_quota_mb profile)) (jw_root jw)
       (w_status_after_kill w) (w_events w)"

text \<open>The result that a job gives when its wait ended in this way.\<close>

definition supervised ::
    "'acc world \<Rightarrow> SandboxProfile \<Rightarrow> JobRequest \<Rightarrow> JobCgroup option \<Rightarrow> cgfs \<Rightarrow> cgfs
      \<Rightarrow> bool \<Rightarrow> bool \<Rightarrow> bool \<Rightarrow> exit_status option \<Rightarrow> JobResult" where
  "supervised w profile request cgroup cg0 cg1 timed_out cancelled quota_hit status =
     \<lparr>res_job_id = jr_job_id request,
      res_status = job_status timed_out cancelled quota_hit status,
      res_exit_code = Option.bind status exit_code, res_signal = Option.bind status exit_signal,
      res_stdout = take (unat (sp_max_stdout_bytes profile)) (concat (w_chunks w)),
      res_stderr = take (unat (sp_max_stderr_bytes profile)) (w_stderr w), res_duration = w_duration w,
      res_timed_out = timed_out,
      res_violations = violations_of quota_hit status
        (oom_count (h_cgroup (w_host w)) cgroup cg0) (oom_count (h_cgroup (w_host w)) cgroup cg1),
      res_usage = usage_summary (h_cgroup (w_host w)) cgroup cg1\<rparr>"

lemma fst_read_stdout: "fst (read_stdout stream m chunks) = take m (concat chunks)"
  by (auto simp: read_stdout_def Let_def fold_push_chunk)

lemma snd_read_stdout:
  "snd (read_stdout stream m chunks) = (if stream then map (\<lambda>d. Stdout (utf8_lossy d)) chunks else [])"
  by (simp add: read_stdout_def Let_def)

lemma read_stderr_take: "read_stderr m d = take m d"
  by (simp add: read_stderr_def)

lemma supervise_cases:
  fixes s :: rstate
  assumes "supervise w jw profile request stream cgroup proxy s = (r, s')"
  shows "case job_wait w jw profile request of
     WaitError e \<Rightarrow> if stdin_blocks w request then r = Waiting else r = Returned (Inl (ProcessErr e))
   | Waited timed_out cancelled quota_hit status \<Rightarrow>
       if stdin_blocks w request \<or> \<not> outputs_close (timed_out \<or> cancelled \<or> quota_hit) (w_procs w)
       then r = Waiting
       else \<exists>cg0 cg1 res. cg0 = migrate_opt (h_cgroup (w_host w)) cgroup (case w_pid w of Some p \<Rightarrow> p | None \<Rightarrow> 0) (rn_cg s)
          \<and> cg1 = w_job_cg w cg0
          \<and> res = supervised w profile request cgroup cg0 cg1 timed_out cancelled quota_hit status
          \<and> r = Returned (Inr res) \<and> rn_cg s' = destroy_opt (h_cgroup (w_host w)) cgroup cg1
          \<and> rn_events s' = rn_events s @ (if stream then Started (jr_job_id request)
              # map (\<lambda>d. Stdout (utf8_lossy d)) (w_chunks w) @ [ResultEv res] else [])
          \<and> rn_signals s' = rn_signals s @ (if timed_out \<or> cancelled \<or> quota_hit
              then [KillPgTerm (sint (case w_pid w of Some p \<Rightarrow> p | None \<Rightarrow> 0)), KillChild] else [])"
proof (cases "job_wait w jw profile request")
  case (WaitError e)
  then show ?thesis using assms
    by (auto simp: supervise_def Let_def stdin_blocks_def job_wait_def split: if_splits)
next
  case (Waited a b c st)
  have sb: "(case jr_stdin_data request of
               Some d \<Rightarrow> w_pipe_capacity w < length d \<and> \<not> w_takes_stdin w | None \<Rightarrow> False) = stdin_blocks w request"
    by (simp add: stdin_blocks_def)
  show ?thesis
  proof (cases "stdin_blocks w request")
    case True
    then show ?thesis using assms Waited by (simp add: supervise_def Let_def sb)
  next
    case False
    note col = assms [unfolded supervise_def Let_def sb, simplified False if_False,
        folded job_wait_def, unfolded Waited waited.case]
    then show ?thesis
      using False Waited snd_read_stdout [of stream "unat (sp_max_stdout_bytes profile)" "w_chunks w"]
        fst_read_stdout [of stream "unat (sp_max_stdout_bytes profile)" "w_chunks w"]
      by (auto simp: collect_job_def Let_def supervised_def read_stderr_take split: prod.splits if_splits)
  qed
qed

lemma supervise_frame:
  "supervise w jw profile request stream cgroup proxy s = (r, s') \<Longrightarrow>
     rn_pipe_ends s' = rn_pipe_ends s \<and> rn_fs s' = w_job_fs w (rn_fs s)
     \<and> r \<noteq> Panicked \<and> rn_env s' = rn_env s
     \<and> rn_socks s' - set_option proxy = rn_socks s - set_option proxy"
  by (auto simp: supervise_def collect_job_def Let_def split: if_splits prod.splits waited.splits)
    (auto simp: proxy_stop_def split: option.splits)

lemma run_cases:
  obtains (refused) e s2 where "\<not> program_starts w jw profile request s"
      "run_in_workspace w jw profile request stream s = finish_run (fst (proxy_phase w jw profile s)) (Returned (Inl e), s2)"
      "s2 = (snd (proxy_phase w jw profile s))\<lparr>rn_cg := snd (prepared w jw profile request s)\<rparr>"
  | (spawned) ctx p where "prepared w jw profile request s = (Inr ctx, snd (prepared w jw profile request s))"
      "cwd_path jw request = Inr p"
      "program_starts w jw profile request s \<longleftrightarrow> spawn_ok w request (ctx\<lparr>psc_cgroup := None\<rparr>) p"
      "run_in_workspace w jw profile request stream s = finish_run (fst (proxy_phase w jw profile s))
         (spawn_job w jw profile request stream (ctx\<lparr>psc_cgroup := None\<rparr>) (psc_cgroup ctx) p
           (job_env w jw profile request (fst (proxy_phase w jw profile s))) (fst (proxy_phase w jw profile s))
           ((snd (proxy_phase w jw profile s))\<lparr>rn_cg := snd (prepared w jw profile request s)\<rparr>))"
proof -
  obtain proxy s1 where p: "proxy_phase w jw profile s = (proxy, s1)" by fastforce
  obtain pr cg where c: "prepared w jw profile request s1 = (pr, cg)" by fastforce
  note run = run_phases [OF p c, of stream]
  have c': "prepared w jw profile request s = (pr, cg)" using c prepared_proxy [OF p] by simp
  show thesis
  proof (cases pr)
    case (Inl e)
    then show ?thesis using refused run p c' by (simp add: program_starts_def)
  next
    case (Inr ctx)
    show ?thesis
    proof (cases "cwd_path jw request")
      case (Inl e)
      then show ?thesis using refused run p c' \<open>pr = Inr ctx\<close> by (simp add: program_starts_def)
    next
      case (Inr path)
      then show ?thesis using spawned run p c' \<open>pr = Inr ctx\<close> by (simp add: program_starts_def)
    qed
  qed
qed

lemma finish_run_fst [simp]: "fst (finish_run proxy rs) = fst rs"
  by (simp add: finish_run_def split: prod.split)

section \<open>Concrete runs\<close>

definition demo_jw :: JobWorkspace where
  "demo_jw = \<lparr>jw_root = ''/w'', jw_workspace = ''/w/j'', jw_tmp = ''/w/j/tmp'', jw_input = ''/w/input'',
     jw_output = ''/w/output''\<rparr>"

definition demo_req :: JobRequest where
  "demo_req = \<lparr>jr_job_id = ''j'', jr_argv = [''true''], jr_profile_name = ''shell'', jr_timeout = Some 9,
     jr_custom_env = [], jr_stdin_data = None, jr_cwd = None\<rparr>"

text \<open>A world in which the program cannot be executed (\<open>err\<close>), or runs with these events.\<close>

definition demo_world :: "string option \<Rightarrow> (nat \<times> wait_event) list \<Rightarrow> proc list \<Rightarrow> demo_acc world" where
  "demo_world err es ps =
     \<lparr>w_host = demo_host, w_cap = demo_cap, w_bind_err = (\<lambda>_. None), w_pipe_ok = True, w_error_fd = 9,
      w_fork_err = None, w_kernel = demo_kernel, w_child = demo_child, w_exec_err = err, w_exec_pipe = 100, w_pid = Some 7,
      w_pipe_capacity = 65536, w_takes_stdin = True, w_events = es,
      w_status_after_kill = Some (SignaledBy 15), w_procs = ps, w_chunks = [''ab'', ''c''],
      w_stderr = [], w_job_fs = id, w_job_cg = id, w_duration = 1, w_statvfs = (\<lambda>_. Inr (1, 1))\<rparr>"

definition demo_rs :: rstate where
  "demo_rs = \<lparr>rn_fs = FDir [], rn_socks = {}, rn_cg = \<lparr>cg_dirs = (\<lambda>_. None), cg_killed = []\<rparr>,
     rn_pipe_ends = 0, rn_signals = [], rn_events = [], rn_env = None\<rparr>"

lemma demo_world_simps [simp]:
  "w_host (demo_world err es ps) = demo_host" "w_cap (demo_world err es ps) = demo_cap"
  "w_pipe_ok (demo_world err es ps)" "w_error_fd (demo_world err es ps) = 9"
  "w_fork_err (demo_world err es ps) = None" "w_kernel (demo_world err es ps) = demo_kernel"
  "w_child (demo_world err es ps) = demo_child" "w_exec_err (demo_world err es ps) = err"
  "w_events (demo_world err es ps) = es" "w_procs (demo_world err es ps) = ps"
  "w_chunks (demo_world err es ps) = [''ab'', ''c'']"
  "w_status_after_kill (demo_world err es ps) = Some (SignaledBy 15)"
  by (simp_all add: demo_world_def)

lemma demo_rmdir: "\<forall>t q. k_rmdir_err (h_cgroup (w_host (demo_world err es ps))) t q = None"
  by (simp add: demo_host_def)

lemma demo_prepared_run:
  "\<exists>cg. prepared (demo_world err es ps) demo_jw profile_shell demo_req demo_rs = (Inr demo_ctx, cg)"
proof -
  have p: "profile_shell\<lparr>sp_fail_closed := False\<rparr> = profile_shell" by (simp add: profile_shell_def)
  show ?thesis using demo_psc_prepare [of False] unfolding p
    by (simp add: prepared_def demo_jw_def demo_req_def demo_rs_def)
qed

lemma demo_cwd: "cwd_path demo_jw demo_req = Inr ''/w/j''"
  by (simp add: cwd_path_def demo_req_def demo_jw_def)

lemma demo_child_same:
  "apply_in_child demo_kernel (demo_ctx\<lparr>psc_cgroup := None\<rparr>) p fd demo_child = apply_in_child demo_kernel demo_ctx p fd demo_child"
proof -
  have same: "do_landlock k (c\<lparr>psc_cgroup := g\<rparr>) = do_landlock k c"
    "do_seccomp k (c\<lparr>psc_cgroup := g\<rparr>) = do_seccomp k c"
    "do_rlimit k (c\<lparr>psc_cgroup := g\<rparr>) = do_rlimit k c" for k g and c :: "'b PreparedSandboxContext"
    by (simp_all add: fun_eq_iff do_landlock_def do_seccomp_def do_rlimit_def)
  show ?thesis by (simp add: apply_in_child_def same)
qed

lemma demo_child_run:
  "error_byte (fst (apply_in_child demo_kernel (demo_ctx\<lparr>psc_cgroup := None\<rparr>) ''/w/j'' 9 demo_child)) = None"
  using demo_child_ok by (auto simp: error_byte_def demo_child_same)

lemma demo_child_fds:
  "ch_fds (snd (apply_in_child demo_kernel demo_ctx ''/w/j'' 9 demo_child)) = {fd. fd \<in> ch_fds demo_child \<and> (fd < 3 \<or> fd = 9 \<or> 64 \<le> fd)}"
proof -
  obtain c' where c: "apply_in_child demo_kernel demo_ctx ''/w/j'' 9 demo_child = (Inr (), c')"
    using demo_child_ok by blast
  have lim: "configured (psc_rlimit demo_ctx) RLIMIT_NOFILE = Some 64"
    by (simp add: demo_ctx_def shell_rlimit_def memlock_disabled_def with_stack_mb_def core_disabled_def
        with_fsize_mb_def with_nproc_def with_nofile_def with_cpu_seconds_def)
  have fd: "fd_as_usize 9 = 9" by (simp add: fd_as_usize_def)
  have lims: "\<forall>r. ch_limits c' r = (case configured (psc_rlimit demo_ctx) r of Some v \<Rightarrow> (v, v)
      | None \<Rightarrow> ch_limits demo_child r)"
    and fds: "ch_fds c' = {fd. fd \<in> ch_fds demo_child \<and> (fd < 3 \<or> fd = fd_as_usize 9
         \<or> get_max_fd (if ck_getrlimit demo_kernel then Some (fst (ch_limits c' RLIMIT_NOFILE)) else None) \<le> fd)}"
    using child_state [OF c] by blast+
  have "ch_limits c' RLIMIT_NOFILE = (64, 64)" using lims lim by simp
  then have "ch_fds c' = {fd. fd \<in> ch_fds demo_child \<and> (fd < 3 \<or> fd = 9 \<or> 64 \<le> fd)}"
    unfolding fds fd by (simp add: demo_kernel_def get_max_fd_def)
  then show ?thesis by (simp add: c)
qed

lemma demo_exec_reported:
  "exec_reported (demo_world err es ps) (demo_ctx\<lparr>psc_cgroup := None\<rparr>) ''/w/j'' = err"
proof -
  have "\<forall>err. w_exec_pipe (demo_world err es ps) = 100" by (simp add: demo_world_def)
  moreover have "100 \<in> ch_fds demo_child" by (simp add: demo_child_def)
  ultimately show ?thesis by (simp add: exec_reported_def demo_child_same demo_child_fds split: option.split)
qed

lemma demo_spawn: "spawn_ok (demo_world err es ps) demo_req (demo_ctx\<lparr>psc_cgroup := None\<rparr>) ''/w/j'' \<longleftrightarrow> err = None"
  by (simp add: spawn_ok_def demo_child_run demo_exec_reported) (simp add: demo_req_def)

lemma demo_argv: "jr_argv demo_req = [''true'']"
  by (simp add: demo_req_def)

lemma demo_starts: "program_starts (demo_world err es ps) demo_jw profile_shell demo_req demo_rs \<longleftrightarrow> err = None"
  using demo_prepared_run [of err es ps] by (auto simp: program_starts_def demo_cwd demo_spawn)

lemma demo_wait:
  "job_wait (demo_world err es ps) demo_jw profile_shell demo_req =
     select_wait 9 None ''/w'' (Some (SignaledBy 15)) es"
  by (simp add: job_wait_def demo_req_def demo_jw_def profile_shell_def)

lemma demo_stdin: "\<not> stdin_blocks (demo_world err es ps) demo_req"
  by (simp add: stdin_blocks_def demo_req_def)

section \<open>Termination and outcome\<close>



text \<open>A program that starts and is not held up gives a result.\<close>

lemma run_gives_result:
  assumes "program_starts w jw profile request s" "\<not> stdin_blocks w request"
    and wait: "job_wait w jw profile request = Waited timed_out cancelled quota_hit status"
    and "outputs_close (timed_out \<or> cancelled \<or> quota_hit) (w_procs w)"
  shows "\<exists>res s'. run_in_workspace w jw profile request stream s = (Returned (Inr res), s')"
proof (cases rule: run_cases [of w jw profile request s stream])
  case (refused e s2)
  then show ?thesis using assms(1) by simp
next
  case (spawned ctx p)
  let ?proxy = "fst (proxy_phase w jw profile s)"
  let ?s = "(snd (proxy_phase w jw profile s))\<lparr>rn_cg := snd (prepared w jw profile request s)\<rparr>"
  let ?env = "job_env w jw profile request ?proxy"
  have ok: "spawn_ok w request (ctx\<lparr>psc_cgroup := None\<rparr>) p" using spawned(3) assms(1) by simp
  obtain r t where sup: "supervise w jw profile request stream (psc_cgroup ctx) ?proxy
      (?s\<lparr>rn_pipe_ends := rn_pipe_ends ?s, rn_env := Some ?env\<rparr>) = (r, t)" by fastforce
  then have "\<exists>res. r = Returned (Inr res)"
    using supervise_cases [OF sup] assms(2,4) wait by simp
  then show ?thesis using spawned(4) sup by (auto simp: spawn_job_ok [OF ok] finish_run_def)
qed

lemma run_result_cases:
  assumes "run_in_workspace w jw profile request stream s = (Returned (Inr res), s')"
  shows "\<exists>ctx timed_out cancelled quota_hit status cg0.
    fst (prepared w jw profile request s) = Inr ctx
    \<and> program_starts w jw profile request s \<and> job_wait w jw profile request = Waited timed_out cancelled quota_hit status
    \<and> res = supervised w profile request (psc_cgroup ctx) cg0 (w_job_cg w cg0) timed_out cancelled quota_hit status
    \<and> rn_cg s' = destroy_opt (h_cgroup (w_host w)) (psc_cgroup ctx) (w_job_cg w cg0)
    \<and> rn_events s' = rn_events s @ (if stream then Started (jr_job_id request)
        # map (\<lambda>d. Stdout (utf8_lossy d)) (w_chunks w) @ [ResultEv res] else [])
    \<and> rn_signals s' = rn_signals s @ (if timed_out \<or> cancelled \<or> quota_hit
        then [KillPgTerm (sint (case w_pid w of Some p \<Rightarrow> p | None \<Rightarrow> 0)), KillChild] else [])"
proof (cases rule: run_cases [of w jw profile request s stream])
  case (refused e s2)
  then show ?thesis using assms by (simp add: finish_run_def)
next
  case (spawned ctx p)
  let ?proxy = "fst (proxy_phase w jw profile s)"
  let ?s = "(snd (proxy_phase w jw profile s))\<lparr>rn_cg := snd (prepared w jw profile request s)\<rparr>"
  let ?env = "job_env w jw profile request ?proxy"
  let ?run = "spawn_job w jw profile request stream (ctx\<lparr>psc_cgroup := None\<rparr>) (psc_cgroup ctx) p ?env ?proxy ?s"
  obtain r t where rs: "?run = (r, t)" by fastforce
  have r: "r = Returned (Inr res)" "s' = proxy_stop ?proxy t"
    using assms spawned(4) rs by (auto simp: finish_run_def split: if_splits)
  have ok: "spawn_ok w request (ctx\<lparr>psc_cgroup := None\<rparr>) p"
    using spawn_job_fails [OF _ rs] r by auto
  from rs have sup: "supervise w jw profile request stream (psc_cgroup ctx) ?proxy
      (?s\<lparr>rn_pipe_ends := rn_pipe_ends ?s, rn_env := Some ?env\<rparr>) = (r, t)"
    by (simp only: spawn_job_ok [OF ok])
  have fr: "rn_events (snd (proxy_phase w jw profile s)) = rn_events s"
    "rn_signals (snd (proxy_phase w jw profile s)) = rn_signals s"
    using proxy_phase_frame [of w jw profile s] by (metis prod.collapse)+
  obtain a b c st where wait: "job_wait w jw profile request = Waited a b c st"
    using supervise_cases [OF sup] r(1) by (auto split: waited.splits if_splits)
  from supervise_cases [OF sup] show ?thesis
    using r ok spawned(1,3) fr wait
    by (auto split: if_splits intro!: exI [of _ ctx]) (metis fst_conv)+
qed



section \<open>What a run leaves behind\<close>

lemma destroy_opt_gone:
  assumes "\<forall>s p. k_rmdir_err k s p = None"
  shows "cg_dirs (destroy_opt k (Some cg) s) (cg_path cg) = None"
  using assms by (auto simp: destroy_opt_def cgroup_destroy_def cg_rmdir_def Let_def split: option.splits sum.splits prod.splits)

text \<open>The child reported that it could not be confined.\<close>

definition child_refused ::
    "'acc world \<Rightarrow> JobRequest \<Rightarrow> 'acc PreparedSandboxContext \<Rightarrow> string \<Rightarrow> bool" where
  "child_refused w request ctx workspace_path =
     (w_pipe_ok w \<and> jr_argv request \<noteq> [] \<and> w_fork_err w = None
      \<and> error_byte (fst (apply_in_child (w_kernel w) ctx workspace_path (w_error_fd w) (w_child w))) \<noteq> None)"

lemma spawn_job_group:
  "\<not> spawn_ok w request ctx p \<Longrightarrow> spawn_job w jw profile request stream ctx cgroup p env proxy s = (r, s') \<Longrightarrow>
     rn_cg s' = (if child_refused w request ctx p then destroy_opt (h_cgroup (w_host w)) cgroup (rn_cg s) else rn_cg s)"
  by (auto simp: spawn_job_def spawn_ok_def child_refused_def Let_def split: list.splits option.splits if_splits)



section \<open>A one-shot job\<close>

lemma run_fs:
  assumes "run_in_workspace w jw profile request stream s = (r, s')"
  shows "rn_fs s' = rn_fs s \<or> rn_fs s' = w_job_fs w (rn_fs s)"
proof -
  have ph: "rn_fs (snd (proxy_phase w jw profile s)) = rn_fs s"
    using proxy_phase_frame [of w jw profile s "fst (proxy_phase w jw profile s)"
        "snd (proxy_phase w jw profile s)"] by simp
  show ?thesis
  proof (cases rule: run_cases [of w jw profile request s stream])
  case (refused e s2)
  then show ?thesis
    using assms ph by (simp add: finish_run_def)
next
  case (spawned ctx p)
  let ?proxy = "fst (proxy_phase w jw profile s)"
  let ?s = "(snd (proxy_phase w jw profile s))\<lparr>rn_cg := snd (prepared w jw profile request s)\<rparr>"
  let ?env = "job_env w jw profile request ?proxy"
  let ?run = "spawn_job w jw profile request stream (ctx\<lparr>psc_cgroup := None\<rparr>) (psc_cgroup ctx) p ?env ?proxy ?s"
  obtain r' t where rs: "?run = (r', t)" by fastforce
  have t: "rn_fs s' = rn_fs t" using assms spawned(4) rs by (auto simp: finish_run_def split: if_splits)
  have fs: "rn_fs ?s = rn_fs s" using ph by simp
  show ?thesis
  proof (cases "spawn_ok w request (ctx\<lparr>psc_cgroup := None\<rparr>) p")
    case True
    from rs have "supervise w jw profile request stream (psc_cgroup ctx) ?proxy
        (?s\<lparr>rn_pipe_ends := rn_pipe_ends ?s, rn_env := Some ?env\<rparr>) = (r', t)"
      by (simp only: spawn_job_ok [OF True])
    from supervise_frame [OF this] show ?thesis using t fs by simp
  next
    case False
    then show ?thesis using spawn_job_fails [OF False rs] t fs by simp
  qed
qed
qed

text \<open>
  C13. A one-shot job leaves the disk as it was. When the job changes the file system beneath its
  workspace directory only (as Landlock enforces), then however the run ends, with a result, a
  refusal or an error, the file system afterwards is exactly the one before the call.
\<close>

theorem run_job_restores_disk:
  assumes m: "base_ready m (rn_fs s)" and j: "name_ok (jr_job_id request)"
      "view (rn_fs s) (comps (base_dir m) @ [jr_job_id request]) = None"
    and confined: "\<forall>t. tree_ok t \<longrightarrow> tree_ok (w_job_fs w t) \<and>
      (\<forall>q. \<not> prefix (comps (base_dir m) @ [jr_job_id request, ''workspace'']) q \<longrightarrow>
         view (w_job_fs w t) q = view t q)"
    and run: "run_job_with_cancel w m reg request stream s = (Returned r, s')"
  shows "view (rn_fs s') q = view (rn_fs s) q"
proof -
  let ?b = "comps (base_dir m)" and ?j = "jr_job_id request"
  obtain jw t1 where cr: "create_job_workspace m ?j (rn_fs s) = (Inr jw, t1)" "tree_ok t1"
    "\<And>q. view t1 q = (if prefix q (?b @ [?j, ''workspace'', ''tmp'']) \<or> prefix q (?b @ [?j, ''input''])
        \<or> prefix q (?b @ [?j, ''output'']) then Some VDir else view (rn_fs s) q)"
    using create_job_view [OF m j] by blast
  consider "rn_fs s' = rn_fs s" | profile s2 where
    "run_in_workspace w jw profile request stream (s\<lparr>rn_fs := t1\<rparr>) = (Returned r, s2)"
    "rn_fs s' = snd (cleanup_job m ?j (rn_fs s2))"
    using run cr(1) by (auto simp: run_job_with_cancel_def split: sum.splits bool.splits option.splits prod.splits outcome.splits)
  then show ?thesis
  proof cases
    case 2
    have "rn_fs s2 = t1 \<or> rn_fs s2 = w_job_fs w t1" using run_fs [OF 2(1)] by simp
    then have t2: "tree_ok (rn_fs s2)" "\<And>q. \<not> prefix (?b @ [?j, ''workspace'']) q \<Longrightarrow> view (rn_fs s2) q = view t1 q"
      using confined cr(2) by auto
    have up: "view (rn_fs s2) q = Some VDir" if "prefix q (?b @ [?j])" for q
    proof -
      have "\<not> prefix (?b @ [?j, ''workspace'']) q" using that by (auto simp: prefix_def)
      moreover have "prefix q (?b @ [?j, ''input''])" using that by (auto simp: prefix_append prefix_Cons)
      ultimately show ?thesis using t2(2) cr(3) by simp
    qed
    obtain t3 where t3: "cleanup_job m ?j (rn_fs s2) = (Inr (), t3)" "pruned (?b @ [?j]) (rn_fs s2) t3"
      using cleanup_job_view [OF m j(1) t2(1)] up by blast
    have "view t3 q = view (rn_fs s) q"
    proof (rule job_view_restored [OF m j(2) _ _ t3(2)])
      show "\<forall>q. \<not> prefix (?b @ [?j]) q \<longrightarrow> \<not> prefix q ?b \<longrightarrow> view (rn_fs s2) q = view (rn_fs s) q"
      proof (intro allI impI)
        fix q assume q: "\<not> prefix (?b @ [?j]) q" "\<not> prefix q ?b"
        then have "\<not> prefix (?b @ [?j, ''workspace'']) q"
          by (auto simp: prefix_def)
        moreover have "\<not> prefix q (?b @ ?j # d)" for d
          using q by (auto simp: prefix_append prefix_Cons)
        ultimately show "view (rn_fs s2) q = view (rn_fs s) q" using t2(2) cr(3) by simp
      qed
      show "\<forall>q. prefix q ?b \<longrightarrow> view (rn_fs s2) q = Some VDir" using up by simp
    qed
    then show ?thesis using 2(2) t3(1) by simp
  qed simp
qed

lemma run_fork_fails:
  assumes "w_fork_err w = Some e" "jr_argv request \<noteq> []"
  shows "\<exists>e s'. run_in_workspace w jw profile request stream s = (Returned (Inl e), s')"
proof (cases rule: run_cases [of w jw profile request s stream])
  case (refused e s2)
  then show ?thesis by (simp add: finish_run_def)
next
  case (spawned ctx p)
  have no: "\<not> spawn_ok w request (ctx\<lparr>psc_cgroup := None\<rparr>) p" using assms by (simp add: spawn_ok_def)
  let ?proxy = "fst (proxy_phase w jw profile s)"
  let ?s = "(snd (proxy_phase w jw profile s))\<lparr>rn_cg := snd (prepared w jw profile request s)\<rparr>"
  obtain r t where rs: "spawn_job w jw profile request stream (ctx\<lparr>psc_cgroup := None\<rparr>) (psc_cgroup ctx) p
      (job_env w jw profile request ?proxy) ?proxy ?s = (r, t)" by fastforce
  have "r \<noteq> Panicked" using rs assms by (auto simp: spawn_job_def Let_def split: list.splits if_splits)
  then show ?thesis using spawn_job_fails [OF no rs] spawned(4) rs by (auto simp: finish_run_def)
qed

theorem run_job_restores_disk_witness:
  "\<exists>r s'. run_job_with_cancel ((demo_world None [] [])\<lparr>w_fork_err := Some ''EAGAIN''\<rparr>) demo_mgr
       [''shell'' \<mapsto> profile_shell] (demo_req\<lparr>jr_job_id := ''j2''\<rparr>) False (demo_rs\<lparr>rn_fs := demo_disk\<rparr>) = (Returned r, s')
     \<and> view (rn_fs s') [''b'', ''j2''] = None"
proof -
  let ?w = "(demo_world None [] [])\<lparr>w_fork_err := Some ''EAGAIN''\<rparr>"
  let ?r = "demo_req\<lparr>jr_job_id := ''j2''\<rparr>" and ?s = "demo_rs\<lparr>rn_fs := demo_disk\<rparr>"
  have b: "comps (base_dir demo_mgr) = [''b'']" by (simp add: demo_mgr_def comps_def)
  have m: "base_ready demo_mgr (rn_fs ?s)" using demo_ready by simp
  have j: "name_ok (jr_job_id ?r)" "view (rn_fs ?s) (comps (base_dir demo_mgr) @ [jr_job_id ?r]) = None"
    unfolding b by (simp_all add: name_ok_def demo_disk_def view_def)
  have same: "w_job_fs ?w t = t" for t by (simp add: demo_world_def)
  then have conf: "\<forall>t. tree_ok t \<longrightarrow> tree_ok (w_job_fs ?w t) \<and>
      (\<forall>q. \<not> prefix (comps (base_dir demo_mgr) @ [jr_job_id ?r, ''workspace'']) q \<longrightarrow>
         view (w_job_fs ?w t) q = view t q)" by simp
  have wm: "check_disk_watermark (w_statvfs ?w) demo_mgr = Inr True"
    by (simp add: check_disk_watermark_def demo_world_def demo_mgr_def)
  obtain jw t1 where cr: "create_job_workspace demo_mgr (jr_job_id ?r) (rn_fs ?s) = (Inr jw, t1)"
    using create_job_view [OF m j] by blast
  obtain e s2 where "run_in_workspace ?w jw profile_shell ?r False (?s\<lparr>rn_fs := t1\<rparr>) = (Returned (Inl e), s2)"
    using run_fork_fails [of ?w "''EAGAIN''" ?r jw profile_shell False "?s\<lparr>rn_fs := t1\<rparr>"] by (auto simp: demo_argv)
  then obtain s' where run: "run_job_with_cancel ?w demo_mgr [''shell'' \<mapsto> profile_shell] ?r False ?s = (Returned (Inl e), s')"
    using wm cr by (simp add: run_job_with_cancel_def registry_get_def) (simp add: demo_req_def)
  have "view (rn_fs s') [''b'', ''j2''] = view demo_disk [''b'', ''j2'']"
    using run_job_restores_disk [OF m j conf run, of "[''b'', ''j2'']"] by simp
  then show ?thesis using run by (auto simp: demo_disk_def view_def)
qed

end
