(* ===== verification/ExecReport.thy ===== *)
theory ExecReport
  imports RunnerProofs
begin

text \<open>
  What becomes of a program that cannot be executed, \<open>sandbox-core/src/sandbox_context.rs\<close> with the
  closing of descriptors in \<open>sandbox-core/src/fd.rs\<close>.
\<close>

section \<open>Programs that cannot be executed\<close>

lemma exec_err_collect:
  "collect_job (w\<lparr>w_exec_err := e\<rparr>) p rq st g ob px a b c d s = collect_job w p rq st g ob px a b c d s"
  by (cases w) (simp add: collect_job_def Let_def cong: if_cong split: prod.split)

lemma exec_err_supervise:
  "supervise (w\<lparr>w_exec_err := e\<rparr>) jw p rq st g px s = supervise w jw p rq st g px s"
  by (simp add: supervise_def exec_err_collect Let_def cong: if_cong waited.case_cong option.case_cong)

lemma exec_err_phases:
  "proxy_phase (w\<lparr>w_exec_err := e\<rparr>) jw p s = proxy_phase w jw p s"
  "prepared (w\<lparr>w_exec_err := e\<rparr>) jw p rq s = prepared w jw p rq s"
  "job_env (w\<lparr>w_exec_err := e\<rparr>) jw p rq px = job_env w jw p rq px"
  by (simp_all add: proxy_phase_def proxy_start_def prepared_def job_env_def)

lemma exec_unreported:
  assumes limit: "configured (psc_rlimit ctx) RLIMIT_NOFILE = Some n" "ck_getrlimit (w_kernel w)"
    and fd: "3 \<le> w_exec_pipe w" "w_exec_pipe w \<noteq> fd_as_usize (w_error_fd w)" "w_exec_pipe w < get_max_fd (Some n)"
    and ok: "error_byte (fst (apply_in_child (w_kernel w) ctx p (w_error_fd w) (w_child w))) = None"
  shows "exec_reported w ctx p = None"
proof -
  obtain u c where c: "apply_in_child (w_kernel w) ctx p (w_error_fd w) (w_child w) = (Inr u, c)"
    using ok by (cases "apply_in_child (w_kernel w) ctx p (w_error_fd w) (w_child w)")
      (auto simp: error_byte_def split: sum.splits)
  note st = child_state [OF c]
  have "ch_limits c RLIMIT_NOFILE = (n, n)" using st limit(1) by simp
  moreover have "ch_fds c = {fd. fd \<in> ch_fds (w_child w) \<and> (fd < 3 \<or> fd = fd_as_usize (w_error_fd w)
         \<or> get_max_fd (if ck_getrlimit (w_kernel w) then Some (fst (ch_limits c RLIMIT_NOFILE)) else None) \<le> fd)}"
    using st by blast
  ultimately have "w_exec_pipe w \<notin> ch_fds c" using limit(2) fd by simp
  then show ?thesis by (simp add: exec_reported_def c split: option.split)
qed

text \<open>
  C14. A program that cannot be executed is not reported. Confining the child closes every descriptor
  below its limit on open files except the error pipe, and with them the one through which the
  standard library reports that the execution failed. Then a call of the runner gives exactly what
  it gives when the program starts: the death of the child that aborts is taken for the death of
  the program, and the text of the error is lost.
\<close>

theorem exec_failure_unnoticed:
  assumes limit: "configured (sp_rlimit profile) RLIMIT_NOFILE = Some n" "ck_getrlimit (w_kernel w)"
    and fd: "3 \<le> w_exec_pipe w" "w_exec_pipe w \<noteq> fd_as_usize (w_error_fd w)" "w_exec_pipe w < get_max_fd (Some n)"
  shows "run_in_workspace w jw profile request stream s =
    run_in_workspace (w\<lparr>w_exec_err := None\<rparr>) jw profile request stream s"
proof -
  let ?w = "w\<lparr>w_exec_err := None\<rparr>"
  have spawn: "spawn_job w jw profile request stream ctx cgroup p env proxy t =
      spawn_job (w\<lparr>w_exec_err := None\<rparr>) jw profile request stream ctx cgroup p env proxy t"
    if "psc_rlimit ctx = sp_rlimit profile" for ctx cgroup p env proxy t
  proof (cases "error_byte (fst (apply_in_child (w_kernel w) ctx p (w_error_fd w) (w_child w)))")
    case None
    have "exec_reported w ctx p = None" using exec_unreported [OF _ limit(2) fd None] limit(1) that by simp
    moreover have "exec_reported (w\<lparr>w_exec_err := None\<rparr>) ctx p = None" by (simp add: exec_reported_def)
    ultimately show ?thesis by (simp add: spawn_job_def exec_err_supervise Let_def split: list.split option.split)
  qed (simp add: spawn_job_def Let_def split: list.split option.split)
  obtain proxy s1 where p: "proxy_phase w jw profile s = (proxy, s1)" by fastforce
  obtain r cg where c: "prepared w jw profile request s1 = (r, cg)" by fastforce
  have p': "proxy_phase ?w jw profile s = (proxy, s1)" and c': "prepared ?w jw profile request s1 = (r, cg)"
    using p c by (simp_all add: exec_err_phases)
  have "psc_rlimit (ctx\<lparr>psc_cgroup := None\<rparr>) = sp_rlimit profile" if "r = Inr ctx" for ctx
    using c that prepare_parts by (fastforce simp: prepared_def)
  note same = spawn [OF this]
  show ?thesis
    unfolding run_phases [OF p c] run_phases [OF p' c'] exec_err_phases
    by (cases r; cases "cwd_path jw request") (simp_all add: same)
qed

theorem exec_failure_unnoticed_witness:
  "\<forall>es. run_in_workspace ((demo_world (Some ''No such file'') es [])\<lparr>w_exec_pipe := 5\<rparr>) demo_jw profile_shell demo_req False demo_rs
    = run_in_workspace ((demo_world None es [])\<lparr>w_exec_pipe := 5\<rparr>) demo_jw profile_shell demo_req False demo_rs"
proof
  fix es
  let ?w = "(demo_world (Some ''No such file'') es [])\<lparr>w_exec_pipe := 5\<rparr>"
  have lim: "configured (sp_rlimit profile_shell) RLIMIT_NOFILE = Some 64"
    by (simp add: profile_shell_def shell_rlimit_def memlock_disabled_def with_stack_mb_def core_disabled_def
        with_fsize_mb_def with_nproc_def with_nofile_def with_cpu_seconds_def)
  have "ck_getrlimit (w_kernel ?w)" "3 \<le> w_exec_pipe ?w" "w_exec_pipe ?w \<noteq> fd_as_usize (w_error_fd ?w)"
    "w_exec_pipe ?w < get_max_fd (Some 64)"
    by (simp_all add: demo_kernel_def fd_as_usize_def get_max_fd_def)
  from exec_failure_unnoticed [OF lim this] show "run_in_workspace ?w demo_jw profile_shell demo_req False demo_rs
    = run_in_workspace ((demo_world None es [])\<lparr>w_exec_pipe := 5\<rparr>) demo_jw profile_shell demo_req False demo_rs"
    by (simp add: demo_world_def)
qed

end
