(* ===== verification/RateLimit.thy ===== *)
theory RateLimit
  imports RustStr
begin

text \<open>
  The rate limiter, \<open>sandbox-server/src/ratelimit.rs\<close>: a fixed window per client address. An
  \<open>Instant\<close> and a \<open>Duration\<close> are numbers of nanoseconds; the table is a map from addresses,
  whose parser is a parameter.
\<close>

record RateLimitConfig =
  requests_per_window :: u64
  window_secs :: u64

record WindowState =
  wcount :: u64
  window_start :: nat

type_synonym 'ip windows = "'ip \<rightharpoonup> WindowState"

definition window_duration :: "RateLimitConfig \<Rightarrow> nat" where
  "window_duration cfg = unat (window_secs cfg) * 1000000000"

definition rate_check ::
    "RateLimitConfig \<Rightarrow> 'ip \<Rightarrow> nat \<Rightarrow> 'ip windows \<Rightarrow> (unit + unit) \<times> 'ip windows" where
  "rate_check cfg ip now w =
     (let entry = (case w ip of Some e \<Rightarrow> e | None \<Rightarrow> \<lparr>wcount = 0, window_start = now\<rparr>)
      in if now - window_start entry > window_duration cfg
         then (Inr (), w(ip \<mapsto> \<lparr>wcount = 1, window_start = now\<rparr>))
         else
           (let entry = entry\<lparr>wcount := wcount entry + 1\<rparr>
            in if wcount entry > requests_per_window cfg
               then (Inl (), w(ip \<mapsto> entry\<lparr>wcount := wcount entry - 1\<rparr>))
               else (Inr (), w(ip \<mapsto> entry))))"

text \<open>A header value is text when all its bytes are visible ASCII characters or tabs.\<close>

definition header_to_str :: "string \<Rightarrow> string option" where
  "header_to_str v =
     (if list_all (\<lambda>c. 32 \<le> code c \<and> code c < 127 \<or> code c = 9) v then Some v else None)"

definition extract_client_ip :: "(string \<Rightarrow> 'ip option) \<Rightarrow> string option \<Rightarrow> 'ip option" where
  "extract_client_ip parse_ip x_forwarded_for =
     (case Option.bind x_forwarded_for header_to_str of
        None \<Rightarrow> None
      | Some v \<Rightarrow> parse_ip (trim (last (split_char (CHR '','') v))))"

datatype 'resp limited = TooManyRequests | NextResponse 'resp

definition rate_limit_middleware ::
    "RateLimitConfig \<Rightarrow> (string \<Rightarrow> 'ip option) \<Rightarrow> nat \<Rightarrow> string \<Rightarrow> string option \<Rightarrow> 'resp
      \<Rightarrow> 'ip windows \<Rightarrow> 'resp limited \<times> 'ip windows" where
  "rate_limit_middleware cfg parse_ip now path x_forwarded_for next w =
     (if path = ''/health'' then (NextResponse next, w)
      else case extract_client_ip parse_ip x_forwarded_for of
        Some ip \<Rightarrow>
          (case rate_check cfg ip now w of
             (Inl _, w') \<Rightarrow> (TooManyRequests, w')
           | (Inr _, w') \<Rightarrow> (NextResponse next, w'))
      | None \<Rightarrow> (NextResponse next, w))"

section \<open>The counters\<close>

text \<open>The largest number of requests a window admits: a reset admits one in any case.\<close>

definition window_cap :: "RateLimitConfig \<Rightarrow> u64" where
  "window_cap cfg = max 1 (requests_per_window cfg)"

definition counts_ok :: "RateLimitConfig \<Rightarrow> 'ip windows \<Rightarrow> bool" where
  "counts_ok cfg w = (\<forall>ip e. w ip = Some e \<longrightarrow> wcount e \<le> window_cap cfg)"

lemma counts_ok_check: "counts_ok cfg w \<Longrightarrow> counts_ok cfg (snd (rate_check cfg ip now w))"
  by (fastforce simp: counts_ok_def rate_check_def window_cap_def Let_def max_def not_less
      split: option.splits if_splits intro: order_trans)

text \<open>The limiter as a system of requests, each an address and a time.\<close>

definition rate_step :: "RateLimitConfig \<Rightarrow> 'ip \<times> nat \<Rightarrow> 'ip windows \<Rightarrow> 'ip windows" where
  "rate_step cfg r w = snd (rate_check cfg (fst r) (snd r) w)"

interpretation limiter: guarded_system "rate_step cfg" "counts_ok cfg" for cfg
  by unfold_locales (simp add: rate_step_def counts_ok_check)

text \<open>Other addresses do not matter to an address.\<close>

lemma check_other: "ip' \<noteq> ip \<Longrightarrow> snd (rate_check cfg ip' now w) ip = w ip"
  by (simp add: rate_check_def Let_def)

text \<open>The times at which an address was admitted in a sequence of requests.\<close>

fun admitted :: "RateLimitConfig \<Rightarrow> 'ip \<Rightarrow> ('ip \<times> nat) list \<Rightarrow> 'ip windows \<Rightarrow> nat list" where
  "admitted cfg ip [] w = []"
| "admitted cfg ip ((ip', now) # rs) w =
     (case rate_check cfg ip' now w of
        (r, w') \<Rightarrow> (if ip' = ip \<and> is_ok r then [now] else []) @ admitted cfg ip rs w')"

lemma admitted_append:
  "admitted cfg ip (rs @ rs') w = admitted cfg ip rs w @ admitted cfg ip rs' (fold (rate_step cfg) rs w)"
  by (induction rs arbitrary: w) (auto simp: rate_step_def split: prod.split)

lemma admitted_subset: "set (admitted cfg ip rs w) \<subseteq> snd ` set rs"
proof (induction rs arbitrary: w)
  case (Cons r rs)
  obtain ip' now where r: "r = (ip', now)" by fastforce
  obtain x w' where "rate_check cfg ip' now w = (x, w')" by fastforce
  then show ?case using Cons.IH [of w'] by (auto simp: r)
qed simp

definition slots_left :: "RateLimitConfig \<Rightarrow> WindowState option \<Rightarrow> nat" where
  "slots_left cfg e = unat (window_cap cfg) - (case e of None \<Rightarrow> 0 | Some s \<Rightarrow> unat (wcount s))"

lemma upd_wcount:
  fixes e :: WindowState
  shows "e\<lparr>wcount := c\<rparr> = \<lparr>wcount = c, window_start = window_start e\<rparr>"
  by (cases e) simp

lemma check_cases:
  assumes "requests_per_window cfg < - 1" and ok: "counts_ok cfg w"
  obtains (reset) e where "w ip = Some e" "now - window_start e > window_duration cfg"
      "rate_check cfg ip now w = (Inr (), w(ip \<mapsto> \<lparr>wcount = 1, window_start = now\<rparr>))"
  | (admit) s c where "rate_check cfg ip now w = (Inr (), w(ip \<mapsto> \<lparr>wcount = c, window_start = s\<rparr>))"
      "case w ip of None \<Rightarrow> s = now | Some e \<Rightarrow> s = window_start e \<and> now - s \<le> window_duration cfg"
      "slots_left cfg (Some \<lparr>wcount = c, window_start = s\<rparr>) + 1 = slots_left cfg (w ip)"
  | (refuse) e where "rate_check cfg ip now w = (Inl (), w(ip \<mapsto> e))"
      "e = (case w ip of Some e \<Rightarrow> e | None \<Rightarrow> \<lparr>wcount = 0, window_start = now\<rparr>)"
proof -
  let ?e = "case w ip of Some e \<Rightarrow> e | None \<Rightarrow> \<lparr>wcount = 0, window_start = now\<rparr>"
  show thesis
  proof (cases "now - window_start ?e > window_duration cfg")
    case True
    then show ?thesis using reset by (cases "w ip") (simp_all add: rate_check_def Let_def)
  next
    case False
    note F = this
    show ?thesis
    proof (cases "wcount ?e + 1 > requests_per_window cfg")
      case True
      then show ?thesis
        using refuse [of ?e] F
        by (cases "w ip") (simp_all add: rate_check_def Let_def)
    next
      case nle: False
      have c: "wcount ?e \<le> window_cap cfg" using ok by (auto simp: counts_ok_def split: option.split)
      have cap: "window_cap cfg < - 1" using assms(1)
        by (simp add: window_cap_def max_def word_less_nat_alt unsigned_minus_1_eq_mask mask_eq_exp_minus_1)
      then have lt: "unat (wcount ?e) < unat (- 1 :: u64)"
        using c by (simp add: word_le_nat_alt word_less_nat_alt)
      then have u: "unat (wcount ?e + 1) = unat (wcount ?e) + 1"
        by (simp add: unat_word_ariths unsigned_minus_1_eq_mask mask_eq_exp_minus_1)
      have le: "unat (wcount ?e + 1) \<le> unat (window_cap cfg)"
        using nle unfolding window_cap_def word_le_nat_alt [symmetric] by (simp add: not_less le_max_iff_disj)
      have "slots_left cfg (Some \<lparr>wcount = wcount ?e + 1, window_start = window_start ?e\<rparr>) + 1 = slots_left cfg (w ip)"
        using u le by (cases "w ip") (simp_all add: slots_left_def)
      then show ?thesis
        using admit [of "wcount ?e + 1" "window_start ?e"] F nle
        by (cases "w ip") (simp_all add: rate_check_def Let_def upd_wcount)
    qed
  qed
qed

lemma wcount_le_cap: "counts_ok cfg w \<Longrightarrow> slots_left cfg (w ip) \<le> unat (window_cap cfg)"
  by (simp add: slots_left_def)

lemma one_le_cap: "1 \<le> unat (window_cap cfg)"
proof -
  have "(1 :: u64) \<le> window_cap cfg" by (simp add: window_cap_def)
  then show ?thesis by (simp add: word_le_nat_alt)
qed

lemma check_other_ip: "rate_check cfg ip' now w = (r, w') \<Longrightarrow> ip' \<noteq> ip \<Longrightarrow> w' ip = w ip"
  using check_other [of ip' ip cfg now w] by simp

text \<open>
  While all requests come before the current window ends, only the slots left in it are given out.
\<close>

lemma admitted_one_window:
  assumes "requests_per_window cfg < - 1" "counts_ok cfg w" "w ip = Some e"
    and "\<forall>r\<in>set rs. snd r \<le> window_start e + window_duration cfg"
  shows "length (admitted cfg ip rs w) \<le> slots_left cfg (Some e)"
  using assms(2-)
proof (induction rs arbitrary: w e)
  case (Cons r rs)
  obtain ip' now where r: "r = (ip', now)" by fastforce
  obtain x w' where ck: "rate_check cfg ip' now w = (x, w')" by fastforce
  have ok: "counts_ok cfg w'" using counts_ok_check [OF Cons.prems(1), of ip' now] ck by simp
  show ?case
  proof (cases "ip' = ip")
    case False
    then show ?thesis using Cons.IH [OF ok, of e] Cons.prems(2,3) check_other_ip [OF ck] ck by (simp add: r)
  next
    case True
    note ip = this
    from assms(1) Cons.prems(1) show ?thesis
    proof (cases rule: check_cases [where ip = ip and now = now])
      case (reset e')
      then have "e = e'" "window_start e + window_duration cfg < now" using Cons.prems(2) by auto
      then show ?thesis using Cons.prems(3) by (simp add: r)
    next
      case (admit s c)
      then have w': "x = Inr ()" "w' ip = Some \<lparr>wcount = c, window_start = s\<rparr>" and s: "s = window_start e"
        using ck ip Cons.prems(2) by auto
      have "length (admitted cfg ip rs w') \<le> slots_left cfg (Some \<lparr>wcount = c, window_start = s\<rparr>)"
        using Cons.IH [OF ok w'(2)] Cons.prems(3) s by simp
      then show ?thesis using admit(3) w' Cons.prems(2) ck ip by (simp add: r)
    next
      case (refuse e')
      then have w': "x = Inl ()" "w' ip = Some e" using ck ip Cons.prems(2) by auto
      then show ?thesis using Cons.IH [OF ok w'(2)] Cons.prems(3) ck ip by (simp add: r)
    qed
  qed
qed simp

text \<open>Requests from a time on, within one window length: at most two windows are touched.\<close>

lemma admitted_two_windows:
  assumes "requests_per_window cfg < - 1" "counts_ok cfg w"
    and "\<forall>r\<in>set rs. a \<le> snd r \<and> snd r \<le> a + window_duration cfg"
  shows "length (admitted cfg ip rs w) \<le> slots_left cfg (w ip) + unat (window_cap cfg)"
  using assms(2-)
proof (induction rs arbitrary: w)
  case (Cons r rs)
  obtain ip' now where r: "r = (ip', now)" by fastforce
  obtain x w' where ck: "rate_check cfg ip' now w = (x, w')" by fastforce
  have ok: "counts_ok cfg w'" using counts_ok_check [OF Cons.prems(1), of ip' now] ck by simp
  have IH: "length (admitted cfg ip rs w') \<le> slots_left cfg (w' ip) + unat (window_cap cfg)"
    using Cons.IH [OF ok] Cons.prems(2) by simp
  show ?case
  proof (cases "ip' = ip")
    case False
    then show ?thesis using IH check_other_ip [OF ck] ck by (simp add: r)
  next
    case True
    note ip = this
    from assms(1) Cons.prems(1) show ?thesis
    proof (cases rule: check_cases [where ip = ip and now = now])
      case (reset e)
      then have w': "w' ip = Some \<lparr>wcount = 1, window_start = now\<rparr>" "x = Inr ()" using ck ip by auto
      have "length (admitted cfg ip rs w') \<le> slots_left cfg (Some \<lparr>wcount = 1, window_start = now\<rparr>)"
        using admitted_one_window [OF assms(1) ok w'(1), of rs] Cons.prems(2) by (force simp: r)
      also have "\<dots> = unat (window_cap cfg) - 1" by (simp add: slots_left_def)
      finally show ?thesis using w' ck ip one_le_cap [of cfg] by (simp add: r)
    next
      case (admit s c)
      then have "x = Inr ()" "w' ip = Some \<lparr>wcount = c, window_start = s\<rparr>" using ck ip by auto
      then show ?thesis using admit(3) IH ck ip by (simp add: r)
    next
      case (refuse e)
      then have w': "x = Inl ()" "w' ip = Some (case w ip of Some e \<Rightarrow> e | None \<Rightarrow> \<lparr>wcount = 0, window_start = now\<rparr>)"
        using ck ip by auto
      then have "slots_left cfg (w' ip) = slots_left cfg (w ip)"
        by (cases "w ip") (simp_all add: slots_left_def)
      then show ?thesis using w' IH ck ip by (simp add: r)
    qed
  qed
qed simp

lemma sorted_split:
  "sorted (map snd rs) \<Longrightarrow> \<forall>r\<in>set (dropWhile (\<lambda>r. snd r < a) rs). (a :: nat) \<le> snd r"
proof (induction rs)
  case (Cons r rs)
  show ?case
  proof (cases "snd r < a")
    case True
    then show ?thesis using Cons by simp
  next
    case False
    then show ?thesis using Cons.prems by auto
  qed
qed simp

text \<open>
  C15. How many requests of one address are admitted. In any stretch of time that is no longer
  than the window, at most twice the configured number is admitted (twice one when the number is
  zero), whatever the other addresses send: the windows are fixed, so a burst can straddle two of
  them. (\<open>2^64 - 1\<close> requests per window are excluded, as the counter would wrap.)
\<close>

theorem admitted_bound:
  assumes "requests_per_window cfg < - 1" and "sorted (map snd rs)"
  shows "length (filter (\<lambda>t. a \<le> t \<and> t \<le> a + window_duration cfg) (admitted cfg ip rs Map.empty))
    \<le> 2 * unat (max 1 (requests_per_window cfg))"
proof -
  let ?early = "takeWhile (\<lambda>r. snd r < a) rs" and ?rest = "dropWhile (\<lambda>r. snd r < a) rs"
  let ?mid = "takeWhile (\<lambda>r. snd r \<le> a + window_duration cfg) ?rest"
  let ?late = "dropWhile (\<lambda>r. snd r \<le> a + window_duration cfg) ?rest"
  let ?w = "fold (rate_step cfg) ?early Map.empty"
  let ?w2 = "fold (rate_step cfg) ?mid ?w"
  let ?P = "\<lambda>t. a \<le> t \<and> t \<le> a + window_duration cfg"
  have rs: "rs = ?early @ ?mid @ ?late" by simp
  have ok: "counts_ok cfg ?w"
    by (rule limiter.fold_inv) (simp add: counts_ok_def)
  have "sorted (map snd ?rest)" by (metis assms(2) dropWhile_eq_drop drop_map sorted_wrt_drop)
  have rest: "\<forall>r\<in>set ?rest. a \<le> snd r" using sorted_split [OF assms(2)] .
  have late: "\<forall>r\<in>set ?late. a + window_duration cfg < snd r"
    using sorted_split [OF \<open>sorted (map snd ?rest)\<close>, of "Suc (a + window_duration cfg)"]
    by (simp add: less_Suc_eq_le Suc_le_eq)
  have mid: "\<forall>r\<in>set ?mid. ?P (snd r)" using rest by (auto dest: set_takeWhileD)
  have "filter ?P (admitted cfg ip ?early Map.empty) = []"
    using admitted_subset [of cfg ip ?early Map.empty] by (force simp: filter_empty_conv dest: set_takeWhileD)
  moreover have "filter ?P (admitted cfg ip ?late ?w2) = []"
    using admitted_subset [of cfg ip ?late ?w2] late by (fastforce simp: filter_empty_conv)
  ultimately have "filter ?P (admitted cfg ip rs Map.empty) = filter ?P (admitted cfg ip ?mid ?w)"
    by (subst rs, simp only: admitted_append filter_append) simp
  then have "length (filter ?P (admitted cfg ip rs Map.empty)) \<le> length (admitted cfg ip ?mid ?w)"
    by (simp only:) (rule length_filter_le)
  also have "\<dots> \<le> slots_left cfg (?w ip) + unat (window_cap cfg)"
    by (rule admitted_two_windows [OF assms(1) ok mid])
  also have "\<dots> \<le> 2 * unat (window_cap cfg)" using wcount_le_cap [OF ok, of ip] by simp
  finally show ?thesis by (simp only: window_cap_def)
qed

theorem admitted_bound_witness:
  "length (filter (\<lambda>t. 5 \<le> t \<and> t \<le> 1000000005)
      (admitted \<lparr>requests_per_window = 1, window_secs = 1\<rparr> (7::nat)
        [(7, 0), (7, 5), (8, 6), (7, 1000000001), (7, 1000000002)] Map.empty)) \<le> 2"
  using admitted_bound [of "\<lparr>requests_per_window = 1, window_secs = 1\<rparr>"
      "[(7, 0), (7, 5), (8, 6), (7, 1000000001), (7, 1000000002)]" 5 "7::nat"]
  by (simp only: window_duration_def RateLimitConfig.select_convs)
    (simp del: admitted.simps add: word_less_nat_alt unsigned_minus_1_eq_mask mask_eq_exp_minus_1)

end
