(* ===== verification/AuditLog.thy ===== *)
theory AuditLog
  imports Errors
begin

text \<open>
  What the server records and reports about jobs: audit events and their log
  (\<open>sandbox-server/src/audit.rs\<close>), webhooks (\<open>webhook.rs\<close>), counters (\<open>metrics.rs\<close>) and the
  redaction of output (\<open>redact.rs\<close>). JSON (\<open>serde_json\<close>), the HTTP client and the regular
  expressions are parameters; time stamps are given.
\<close>

section \<open>Audit events\<close>

datatype AuditEventType = JobStarted | JobCompleted | JobTimedOut | JobKilled | JobCancelled | JobFailed

record AuditEvent =
  ae_timestamp :: string
  ae_event_type :: AuditEventType
  ae_job_id :: string
  ae_profile :: string
  ae_argv :: "string list"
  ae_exit_code :: "int option"
  ae_signal :: "int option"
  ae_duration_ms :: "u64 option"
  ae_detail :: "string option"

definition audit_event_new ::
    "string \<Rightarrow> AuditEventType \<Rightarrow> string \<Rightarrow> string \<Rightarrow> string list \<Rightarrow> int option \<Rightarrow> int option
      \<Rightarrow> u64 option \<Rightarrow> string option \<Rightarrow> AuditEvent" where
  "audit_event_new now event_type job_id profile argv exit_code signal duration_ms detail =
     \<lparr>ae_timestamp = now, ae_event_type = event_type, ae_job_id = job_id, ae_profile = profile,
      ae_argv = argv, ae_exit_code = exit_code, ae_signal = signal, ae_duration_ms = duration_ms,
      ae_detail = detail\<rparr>"

definition status_to_event_type :: "JobStatus \<Rightarrow> AuditEventType" where
  "status_to_event_type status =
     (case status of
        Completed \<Rightarrow> JobCompleted
      | TimedOut \<Rightarrow> JobTimedOut
      | Killed \<Rightarrow> JobKilled
      | Cancelled \<Rightarrow> JobCancelled
      | DiskQuotaExceeded \<Rightarrow> JobKilled
      | ErrorStatus _ \<Rightarrow> JobFailed
      | SandboxInitFailed _ \<Rightarrow> JobFailed)"

definition status_detail :: "JobStatus \<Rightarrow> string option" where
  "status_detail status =
     (case status of
        ErrorStatus m \<Rightarrow> Some m
      | SandboxInitFailed m \<Rightarrow> Some m
      | DiskQuotaExceeded \<Rightarrow> Some ''disk quota exceeded''
      | _ \<Rightarrow> None)"

text \<open>The lines of the log file, or nothing.\<close>

datatype AuditLogger = FileLog "string list" | NoopLog

definition audit_file :: "string list \<Rightarrow> AuditLogger" where
  "audit_file existing = FileLog existing"

definition audit_log :: "(AuditEvent \<Rightarrow> string option) \<Rightarrow> AuditEvent \<Rightarrow> AuditLogger \<Rightarrow> AuditLogger" where
  "audit_log to_json event logger =
     (case logger of
        FileLog ls \<Rightarrow> FileLog (case to_json event of Some json \<Rightarrow> ls @ [json] | None \<Rightarrow> ls)
      | NoopLog \<Rightarrow> NoopLog)"

section \<open>Webhooks\<close>

text \<open>What one POST gave: a success status, another status, or an error.\<close>

datatype post_outcome = PostSuccess | PostStatus nat | PostError string

text \<open>
  One delivery: the attempts from the first on, and the milliseconds slept after each failure.
\<close>

function deliver_from :: "(nat \<Rightarrow> post_outcome) \<Rightarrow> nat \<Rightarrow> nat list \<Rightarrow> bool \<times> nat list" where
  "deliver_from post attempt slept =
     (if 3 < attempt then (False, slept)
      else case post attempt of
        PostSuccess \<Rightarrow> (True, slept)
      | _ \<Rightarrow> deliver_from post (attempt + 1) (slept @ [200 * attempt]))"
  by pat_completeness auto
termination by (relation "measure (\<lambda>(_, attempt, _). 4 - attempt)") auto

declare deliver_from.simps [simp del]

definition deliver :: "(nat \<Rightarrow> post_outcome) \<Rightarrow> bool \<times> nat list" where
  "deliver post = deliver_from post 1 []"

text \<open>The tasks that a terminal event starts: one delivery of the body to each URL.\<close>

definition dispatch :: "(AuditEvent \<Rightarrow> string option) \<Rightarrow> string list \<Rightarrow> AuditEvent \<Rightarrow> (string \<times> string) list" where
  "dispatch to_json urls event =
     (if urls = [] then []
      else case to_json event of
        None \<Rightarrow> []
      | Some body \<Rightarrow> map (\<lambda>url. (url, body)) urls)"

section \<open>Metrics\<close>

record metrics =
  job_started_total :: nat
  job_finished_total :: nat
  job_timeout_total :: nat
  running_jobs :: int
  job_seccomp_denied_total :: nat
  job_oom_killed_total :: nat
  job_queue_depth :: int

text \<open>The counters are global: each part of the server is given its own share of them.\<close>

definition metrics_add :: "metrics \<Rightarrow> metrics \<Rightarrow> metrics" where
  "metrics_add a b =
     \<lparr>job_started_total = job_started_total a + job_started_total b,
      job_finished_total = job_finished_total a + job_finished_total b,
      job_timeout_total = job_timeout_total a + job_timeout_total b,
      running_jobs = running_jobs a + running_jobs b,
      job_seccomp_denied_total = job_seccomp_denied_total a + job_seccomp_denied_total b,
      job_oom_killed_total = job_oom_killed_total a + job_oom_killed_total b,
      job_queue_depth = job_queue_depth a + job_queue_depth b\<rparr>"

definition count_violation :: "SandboxViolation \<Rightarrow> metrics \<Rightarrow> metrics" where
  "count_violation v m =
     (case v of
        SeccompDenied _ \<Rightarrow> m\<lparr>job_seccomp_denied_total := job_seccomp_denied_total m + 1\<rparr>
      | OomKill \<Rightarrow> m\<lparr>job_oom_killed_total := job_oom_killed_total m + 1\<rparr>
      | _ \<Rightarrow> m)"

definition count_result :: "(CoreError + JobResult) \<Rightarrow> metrics \<Rightarrow> metrics" where
  "count_result result m =
     (case result of
        Inl _ \<Rightarrow> m
      | Inr res \<Rightarrow>
          fold count_violation (res_violations res)
            (if res_timed_out res then m\<lparr>job_timeout_total := job_timeout_total m + 1\<rparr> else m))"

section \<open>Redaction\<close>

text \<open>The rules in order, as patterns of the \<open>regex\<close> crate with their replacements.\<close>

abbreviation bs :: string where
  "bs \<equiv> [CHR 0x5C]"

definition RULES :: "(string \<times> string) list" where
  "RULES =
     [(''-----BEGIN [A-Z ]*PRIVATE KEY-----['' @ bs @ ''s'' @ bs @ ''S]*?-----END [A-Z ]*PRIVATE KEY-----'',
       ''[REDACTED PRIVATE KEY]''),
      (''(?i)bearer'' @ bs @ ''s+[A-Za-z0-9._'' @ bs @ ''-]+'', ''bearer [REDACTED]''),
      (''AKIA[0-9A-Z]{16}'', ''AKIA[REDACTED]''),
      (''gh[psoru]_[A-Za-z0-9]{36}'', ''[REDACTED]'')]"

definition redact :: "(string \<Rightarrow> string \<Rightarrow> string \<Rightarrow> string) \<Rightarrow> string \<Rightarrow> string" where
  "redact replace_all input = fold (\<lambda>(re, rep) s. replace_all re s rep) RULES input"

section \<open>Facts\<close>

lemma deliver_spec:
  "deliver post =
     (if post 1 = PostSuccess then (True, [])
      else if post 2 = PostSuccess then (True, [200])
      else if post 3 = PostSuccess then (True, [200, 400])
      else (False, [200, 400, 600]))"
proof -
  have s: "deliver_from post 1 [] = (case post 1 of PostSuccess \<Rightarrow> (True, []) | _ \<Rightarrow> deliver_from post 2 [200])"
    by (subst deliver_from.simps) (simp del: One_nat_def split: post_outcome.split)
  have t: "deliver_from post 2 [200] = (case post 2 of PostSuccess \<Rightarrow> (True, [200]) | _ \<Rightarrow> deliver_from post 3 [200, 400])"
    by (subst deliver_from.simps) (simp del: One_nat_def split: post_outcome.split)
  have u: "deliver_from post 3 [200, 400] =
      (case post 3 of PostSuccess \<Rightarrow> (True, [200, 400]) | _ \<Rightarrow> (False, [200, 400, 600]))"
    by (subst deliver_from.simps) (simp add: deliver_from.simps [of post 4] del: One_nat_def split: post_outcome.split)
  show ?thesis unfolding deliver_def s t u by (simp split: post_outcome.split)
qed

lemma count_result_frame [simp]:
  "job_queue_depth (count_result r m) = job_queue_depth m"
  "running_jobs (count_result r m) = running_jobs m"
  "job_started_total (count_result r m) = job_started_total m"
  "job_finished_total (count_result r m) = job_finished_total m"
proof -
  have f: "job_queue_depth (fold count_violation vs m) = job_queue_depth m
      \<and> running_jobs (fold count_violation vs m) = running_jobs m
      \<and> job_started_total (fold count_violation vs m) = job_started_total m
      \<and> job_finished_total (fold count_violation vs m) = job_finished_total m" for vs m
    by (induction vs arbitrary: m) (auto simp: count_violation_def split: SandboxViolation.split)
  show "job_queue_depth (count_result r m) = job_queue_depth m"
    "running_jobs (count_result r m) = running_jobs m"
    "job_started_total (count_result r m) = job_started_total m"
    "job_finished_total (count_result r m) = job_finished_total m"
    using f by (simp_all add: count_result_def split: sum.split)
qed

end
