(* ===== verification/Scheduler.thy ===== *)
theory Scheduler
  imports AuditLog Process Prelude
begin

text \<open>
  The job scheduler, \<open>sandbox-server/src/scheduler.rs\<close>, as a machine whose events are the calls
  of its clients and the moves of its background tasks, in any order the runtime takes them. A
  task is known by its position in the list of all tasks; a cancellation token by the task it was
  made for. A runner is any value; a move that is not possible changes nothing.
\<close>

datatype JobRunState = RunningState | DoneState JobResult

record JobEntry =
  je_token :: nat
  je_state :: JobRunState

datatype CancelError = NotFound | AlreadyDone

text \<open>
  The life of a submission: spawned, waiting for a permit, running with a permit, finished.
\<close>

datatype task_phase = TaskSpawned | TaskWaiting | TaskRunning | TaskFinished

record 'r sched_task =
  tk_request :: JobRequest
  tk_runner :: "'r option"
  tk_async :: bool
  tk_stream :: bool
  tk_phase :: task_phase

record 'r scheduler =
  sc_runner :: 'r
  sc_max :: nat
  sc_permits :: nat
  sc_jobs :: "string \<rightharpoonup> JobEntry"
  sc_tasks :: "'r sched_task list"
  sc_cancelled :: "nat set"
  sc_metrics :: metrics
  sc_audit :: AuditLogger
  sc_hooks :: "string list"
  sc_posts :: "(string \<times> string) list"

text \<open>What the server is built on: JSON, the text of an error, the clock.\<close>

record sched_env =
  se_json :: "AuditEvent \<Rightarrow> string option"
  se_error :: "CoreError \<Rightarrow> string"
  se_now :: "nat \<Rightarrow> string"

definition metrics_zero :: metrics where
  "metrics_zero = \<lparr>job_started_total = 0, job_finished_total = 0, job_timeout_total = 0, running_jobs = 0,
     job_seccomp_denied_total = 0, job_oom_killed_total = 0, job_queue_depth = 0\<rparr>"

definition scheduler_new :: "'r \<Rightarrow> nat \<Rightarrow> 'r scheduler" where
  "scheduler_new runner max_concurrent =
     \<lparr>sc_runner = runner, sc_max = max_concurrent, sc_permits = max_concurrent, sc_jobs = Map.empty,
      sc_tasks = [], sc_cancelled = {}, sc_metrics = metrics_zero, sc_audit = NoopLog, sc_hooks = [],
      sc_posts = []\<rparr>"

definition with_audit :: "AuditLogger \<Rightarrow> 'r scheduler \<Rightarrow> 'r scheduler" where
  "with_audit logger s = s\<lparr>sc_audit := logger\<rparr>"

definition with_webhooks :: "string list \<Rightarrow> 'r scheduler \<Rightarrow> 'r scheduler" where
  "with_webhooks w s = s\<lparr>sc_hooks := w\<rparr>"

section \<open>Metrics of a task\<close>

definition m_wait :: "metrics \<Rightarrow> metrics" where
  "m_wait m = m\<lparr>job_queue_depth := job_queue_depth m + 1\<rparr>"

definition m_acquired :: "metrics \<Rightarrow> metrics" where
  "m_acquired m = m\<lparr>job_queue_depth := job_queue_depth m - 1\<rparr>"

definition m_started :: "metrics \<Rightarrow> metrics" where
  "m_started m = m\<lparr>job_started_total := job_started_total m + 1, running_jobs := running_jobs m + 1\<rparr>"

definition m_finished :: "metrics \<Rightarrow> metrics" where
  "m_finished m = m\<lparr>job_finished_total := job_finished_total m + 1, running_jobs := running_jobs m - 1\<rparr>"

section \<open>Submitting\<close>

text \<open>\<open>submit\<close> waits for a permit in its caller: its task starts in the queue.\<close>

definition submit :: "JobRequest \<Rightarrow> 'r scheduler \<Rightarrow> 'r scheduler" where
  "submit request s =
     s\<lparr>sc_metrics := m_wait (sc_metrics s),
       sc_tasks := sc_tasks s @ [\<lparr>tk_request = request, tk_runner = None, tk_async = False,
         tk_stream = False, tk_phase = TaskWaiting\<rparr>]\<rparr>"

text \<open>
  \<open>submit_async\<close> and \<open>submit_streaming\<close> enter the job into the table, log it, take the current
  runner and spawn the task.
\<close>

definition started_event :: "string \<Rightarrow> JobRequest \<Rightarrow> AuditEvent" where
  "started_event now request =
     audit_event_new now JobStarted (jr_job_id request) (jr_profile_name request) (jr_argv request)
       None None None None"

definition submit_background :: "sched_env \<Rightarrow> bool \<Rightarrow> JobRequest \<Rightarrow> 'r scheduler \<Rightarrow> 'r scheduler" where
  "submit_background env stream request s =
     s\<lparr>sc_jobs := (sc_jobs s)(jr_job_id request \<mapsto>
         \<lparr>je_token = length (sc_tasks s), je_state = RunningState\<rparr>),
       sc_audit := audit_log (se_json env) (started_event (se_now env (length (sc_tasks s))) request) (sc_audit s),
       sc_tasks := sc_tasks s @ [\<lparr>tk_request = request, tk_runner = Some (sc_runner s), tk_async = True,
         tk_stream = stream, tk_phase = TaskSpawned\<rparr>]\<rparr>"

definition submit_async :: "sched_env \<Rightarrow> JobRequest \<Rightarrow> 'r scheduler \<Rightarrow> string \<times> 'r scheduler" where
  "submit_async env request s = (jr_job_id request, submit_background env False request s)"

definition submit_streaming :: "sched_env \<Rightarrow> JobRequest \<Rightarrow> 'r scheduler \<Rightarrow> 'r scheduler" where
  "submit_streaming env request s = submit_background env True request s"

section \<open>The tasks\<close>

definition set_phase :: "nat \<Rightarrow> task_phase \<Rightarrow> 'r scheduler \<Rightarrow> 'r scheduler" where
  "set_phase i ph s = s\<lparr>sc_tasks := (sc_tasks s)[i := (sc_tasks s ! i)\<lparr>tk_phase := ph\<rparr>]\<rparr>"

text \<open>A spawned task counts itself and queues for a permit.\<close>

definition task_begin :: "nat \<Rightarrow> 'r scheduler \<Rightarrow> 'r scheduler" where
  "task_begin i s =
     (if i < length (sc_tasks s) \<and> tk_phase (sc_tasks s ! i) = TaskSpawned
      then set_phase i TaskWaiting (s\<lparr>sc_metrics := m_wait (m_started (sc_metrics s))\<rparr>)
      else s)"

text \<open>A waiting task gets a permit; a synchronous submission then counts and takes the runner.\<close>

definition task_acquire :: "nat \<Rightarrow> 'r scheduler \<Rightarrow> 'r scheduler" where
  "task_acquire i s =
     (if i < length (sc_tasks s) \<and> tk_phase (sc_tasks s ! i) = TaskWaiting \<and> 0 < sc_permits s
      then
        (let s = s\<lparr>sc_permits := sc_permits s - 1, sc_metrics := m_acquired (sc_metrics s)\<rparr>
         in if tk_async (sc_tasks s ! i) then set_phase i TaskRunning s
            else set_phase i TaskRunning
              (s\<lparr>sc_metrics := m_started (sc_metrics s),
                 sc_tasks := (sc_tasks s)[i := (sc_tasks s ! i)\<lparr>tk_runner := Some (sc_runner s)\<rparr>]\<rparr>))
      else s)"

text \<open>What a background task stores and reports when the runner gave an error.\<close>

definition final_result :: "sched_env \<Rightarrow> string \<Rightarrow> (CoreError + JobResult) \<Rightarrow> JobResult" where
  "final_result env jid result =
     (case result of
        Inr res \<Rightarrow> res
      | Inl e \<Rightarrow> \<lparr>res_job_id = jid, res_status = ErrorStatus (se_error env e), res_exit_code = None,
          res_signal = None, res_stdout = [], res_stderr = se_error env e, res_duration = 0,
          res_timed_out = False, res_violations = [], res_usage = None\<rparr>)"

definition final_event :: "string \<Rightarrow> JobRequest \<Rightarrow> JobResult \<Rightarrow> AuditEvent" where
  "final_event now request result =
     audit_event_new now (status_to_event_type (res_status result)) (jr_job_id request)
       (jr_profile_name request) (jr_argv request) (res_exit_code result) (res_signal result)
       (Some (of_nat (res_duration result div 1000000))) (status_detail (res_status result))"

definition set_done :: "string \<Rightarrow> JobResult \<Rightarrow> (string \<rightharpoonup> JobEntry) \<Rightarrow> (string \<rightharpoonup> JobEntry)" where
  "set_done jid result jobs =
     (case jobs jid of None \<Rightarrow> jobs | Some e \<Rightarrow> jobs(jid \<mapsto> e\<lparr>je_state := DoneState result\<rparr>))"

definition task_finish ::
    "sched_env \<Rightarrow> nat \<Rightarrow> (CoreError + JobResult) \<Rightarrow> 'r scheduler \<Rightarrow> 'r scheduler" where
  "task_finish env i result s =
     (if i < length (sc_tasks s) \<and> tk_phase (sc_tasks s ! i) = TaskRunning
      then
        (let t = sc_tasks s ! i;
             s = s\<lparr>sc_metrics := count_result result (m_finished (sc_metrics s))\<rparr>;
             s = (if tk_async t then
                    (let r = final_result env (jr_job_id (tk_request t)) result;
                         ev = final_event (se_now env i) (tk_request t) r
                     in s\<lparr>sc_posts := sc_posts s @ dispatch (se_json env) (sc_hooks s) ev,
                          sc_audit := audit_log (se_json env) ev (sc_audit s),
                          sc_jobs := set_done (jr_job_id (tk_request t)) r (sc_jobs s)\<rparr>)
                  else s)
         in set_phase i TaskFinished (s\<lparr>sc_permits := sc_permits s + 1\<rparr>))
      else s)"

section \<open>Queries and control\<close>

definition get_job :: "string \<Rightarrow> 'r scheduler \<Rightarrow> JobRunState option" where
  "get_job job_id s = map_option je_state (sc_jobs s job_id)"

definition cancel_job :: "string \<Rightarrow> 'r scheduler \<Rightarrow> (CancelError + unit) \<times> 'r scheduler" where
  "cancel_job job_id s =
     (case sc_jobs s job_id of
        None \<Rightarrow> (Inl NotFound, s)
      | Some e \<Rightarrow>
          (case je_state e of
             RunningState \<Rightarrow> (Inr (), s\<lparr>sc_cancelled := insert (je_token e) (sc_cancelled s)\<rparr>)
           | DoneState _ \<Rightarrow> (Inl AlreadyDone, s)))"

definition reload :: "'r \<Rightarrow> 'r scheduler \<Rightarrow> 'r scheduler" where
  "reload new_runner s = s\<lparr>sc_runner := new_runner\<rparr>"

definition running_count :: "'r scheduler \<Rightarrow> nat" where
  "running_count s = sc_max s - sc_permits s"

record WorkerStatus =
  ws_running_jobs :: nat
  ws_max_concurrent :: nat
  ws_disk_watermark_ok :: bool
  ws_capability_report :: CapabilityReport
  ws_uptime :: nat

definition worker_status ::
    "('r \<Rightarrow> CoreError + bool) \<Rightarrow> ('r \<Rightarrow> CapabilityReport) \<Rightarrow> nat \<Rightarrow> 'r scheduler \<Rightarrow> WorkerStatus" where
  "worker_status watermark capability uptime s =
     \<lparr>ws_running_jobs = running_count s, ws_max_concurrent = sc_max s,
      ws_disk_watermark_ok = (case watermark (sc_runner s) of Inr b \<Rightarrow> b | Inl _ \<Rightarrow> False),
      ws_capability_report = capability (sc_runner s), ws_uptime = uptime\<rparr>"

section \<open>The machine\<close>

datatype 'r sched_event =
    Submit JobRequest
  | SubmitBackground bool JobRequest
  | TaskBegin nat
  | TaskAcquire nat
  | TaskFinish nat "CoreError + JobResult"
  | CancelJob string
  | Reload 'r

fun sched_step :: "sched_env \<Rightarrow> 'r sched_event \<Rightarrow> 'r scheduler \<Rightarrow> 'r scheduler" where
  "sched_step env (Submit request) s = submit request s"
| "sched_step env (SubmitBackground stream request) s = submit_background env stream request s"
| "sched_step env (TaskBegin i) s = task_begin i s"
| "sched_step env (TaskAcquire i) s = task_acquire i s"
| "sched_step env (TaskFinish i result) s = task_finish env i result s"
| "sched_step env (CancelJob job_id) s = snd (cancel_job job_id s)"
| "sched_step env (Reload r) s = reload r s"

end
