(* ===== verification/SchedulerProofs.thy ===== *)
theory SchedulerProofs
  imports Scheduler
begin

text \<open>
  What holds of the scheduler of \<open>sandbox-server/src/scheduler.rs\<close> after any sequence of events:
  the permits and gauges, and the table of jobs.
\<close>

section \<open>Counting tasks\<close>

definition count_tasks :: "('r sched_task \<Rightarrow> bool) \<Rightarrow> 'r scheduler \<Rightarrow> nat" where
  "count_tasks P s = length (filter P (sc_tasks s))"

definition waiting :: "'r sched_task \<Rightarrow> bool" where
  "waiting t = (tk_phase t = TaskWaiting)"

definition running :: "'r sched_task \<Rightarrow> bool" where
  "running t = (tk_phase t = TaskRunning)"

text \<open>What the gauge of running jobs counts.\<close>

definition gauged :: "'r sched_task \<Rightarrow> bool" where
  "gauged t = (tk_phase t = TaskRunning \<or> tk_async t \<and> tk_phase t = TaskWaiting)"

definition finished :: "'r sched_task \<Rightarrow> bool" where
  "finished t = (tk_phase t = TaskFinished)"

definition sched_inv :: "'r scheduler \<Rightarrow> bool" where
  "sched_inv s \<longleftrightarrow>
     sc_permits s + count_tasks running s = sc_max s
     \<and> job_queue_depth (sc_metrics s) = int (count_tasks waiting s)
     \<and> running_jobs (sc_metrics s) = int (count_tasks gauged s)
     \<and> job_finished_total (sc_metrics s) = count_tasks finished s
     \<and> (\<forall>t\<in>set (sc_tasks s). tk_phase t = TaskSpawned \<longrightarrow> tk_async t)"

lemmas phase_defs = waiting_def running_def gauged_def finished_def

lemma count_set_phase:
  assumes "i < length (sc_tasks s)"
  shows "count_tasks P (set_phase i ph s) + (if P (sc_tasks s ! i) then 1 else 0) =
    count_tasks P s + (if P ((sc_tasks s ! i)\<lparr>tk_phase := ph\<rparr>) then 1 else 0)"
  using length_filter_update [OF assms, of P] by (simp add: count_tasks_def set_phase_def)

lemma set_phase_frame [simp]:
  "sc_permits (set_phase i ph s) = sc_permits s" "sc_max (set_phase i ph s) = sc_max s"
  "sc_metrics (set_phase i ph s) = sc_metrics s" "sc_jobs (set_phase i ph s) = sc_jobs s"
  "sc_runner (set_phase i ph s) = sc_runner s" "sc_cancelled (set_phase i ph s) = sc_cancelled s"
  by (simp_all add: set_phase_def)

lemma count_append:
  "count_tasks P (s\<lparr>sc_tasks := sc_tasks s @ [t]\<rparr>) = count_tasks P s + (if P t then 1 else 0)"
  by (simp add: count_tasks_def)

lemma count_frame [simp]:
  "count_tasks P (s\<lparr>sc_permits := p\<rparr>) = count_tasks P s"
  "count_tasks P (s\<lparr>sc_metrics := m\<rparr>) = count_tasks P s"
  "count_tasks P (s\<lparr>sc_jobs := j\<rparr>) = count_tasks P s"
  "count_tasks P (s\<lparr>sc_audit := a\<rparr>) = count_tasks P s"
  "count_tasks P (s\<lparr>sc_posts := ps\<rparr>) = count_tasks P s"
  "count_tasks P (s\<lparr>sc_runner := r\<rparr>) = count_tasks P s"
  "count_tasks P (s\<lparr>sc_cancelled := c\<rparr>) = count_tasks P s"
  by (simp_all add: count_tasks_def)

lemma inv_submit: "sched_inv s \<Longrightarrow> sched_inv (submit request s)"
  by (simp add: sched_inv_def submit_def count_tasks_def phase_defs m_wait_def)

lemma inv_submit_background: "sched_inv s \<Longrightarrow> sched_inv (submit_background env stream request s)"
  by (simp add: sched_inv_def submit_background_def count_tasks_def phase_defs)

text \<open>Moving a task on never makes one that is spawned.\<close>

lemma spawned_set_phase:
  assumes "\<forall>t\<in>set (sc_tasks s). tk_phase t = TaskSpawned \<longrightarrow> tk_async t" "ph \<noteq> TaskSpawned"
  shows "\<forall>t\<in>set (sc_tasks (set_phase i ph s)). tk_phase t = TaskSpawned \<longrightarrow> tk_async t"
  using assms set_update_subset_insert [of "sc_tasks s" i "(sc_tasks s ! i)\<lparr>tk_phase := ph\<rparr>"]
  by (auto simp: set_phase_def)

lemma inv_task_begin:
  assumes "sched_inv s"
  shows "sched_inv (task_begin i s)"
proof (cases "i < length (sc_tasks s) \<and> tk_phase (sc_tasks s ! i) = TaskSpawned")
  case True
  let ?s = "s\<lparr>sc_metrics := m_wait (m_started (sc_metrics s))\<rparr>"
  have i: "i < length (sc_tasks ?s)" using True by simp
  note c = count_set_phase [OF i, of _ TaskWaiting]
  have async: "tk_async (sc_tasks s ! i)" using True assms by (simp add: sched_inv_def)
  have sp: "\<forall>t\<in>set (sc_tasks ?s). tk_phase t = TaskSpawned \<longrightarrow> tk_async t"
    using assms by (simp add: sched_inv_def)
  have "task_begin i s = set_phase i TaskWaiting ?s" using True by (simp add: task_begin_def)
  then show ?thesis
    using c [of running] c [of waiting] c [of gauged] c [of finished] True async assms
      spawned_set_phase [OF sp, of TaskWaiting i]
    by (simp add: sched_inv_def phase_defs m_wait_def m_started_def)
qed (auto simp: task_begin_def assms)

lemma inv_task_acquire:
  assumes "sched_inv s"
  shows "sched_inv (task_acquire i s)"
proof (cases "i < length (sc_tasks s) \<and> tk_phase (sc_tasks s ! i) = TaskWaiting \<and> 0 < sc_permits s")
  case True
  let ?t = "sc_tasks s ! i"
  let ?m = "m_acquired (sc_metrics s)"
  let ?s = "if tk_async ?t then s\<lparr>sc_permits := sc_permits s - 1, sc_metrics := ?m\<rparr>
    else s\<lparr>sc_permits := sc_permits s - 1, sc_metrics := m_started ?m,
           sc_tasks := (sc_tasks s)[i := ?t\<lparr>tk_runner := Some (sc_runner s)\<rparr>]\<rparr>"
  have acq: "task_acquire i s = set_phase i TaskRunning ?s"
    using True by (simp add: task_acquire_def Let_def)
  have i: "i < length (sc_tasks ?s)" using True by simp
  have ti: "tk_phase (sc_tasks ?s ! i) = TaskWaiting" "tk_async (sc_tasks ?s ! i) = tk_async ?t"
    using True by simp_all
  have same: "count_tasks P ?s = count_tasks P s"
    if "P (?t\<lparr>tk_runner := Some (sc_runner s)\<rparr>) = P ?t" for P
    using that True length_filter_update [of i "sc_tasks s" P "?t\<lparr>tk_runner := Some (sc_runner s)\<rparr>"]
    by (simp add: count_tasks_def split: if_splits)
  have sp: "\<forall>t\<in>set (sc_tasks ?s). tk_phase t = TaskSpawned \<longrightarrow> tk_async t"
    using assms True set_update_subset_insert [of "sc_tasks s" i "?t\<lparr>tk_runner := Some (sc_runner s)\<rparr>"]
    by (auto simp: sched_inv_def)
  note c = count_set_phase [OF i, of _ TaskRunning]
  have "count_tasks running ?s = count_tasks running s" "count_tasks waiting ?s = count_tasks waiting s"
    "count_tasks gauged ?s = count_tasks gauged s" "count_tasks finished ?s = count_tasks finished s"
    by (rule same, simp add: phase_defs)+
  then show ?thesis
    unfolding acq
    using c [of running] c [of waiting] c [of gauged] c [of finished] True ti assms
      spawned_set_phase [OF sp, of TaskRunning i]
    by (cases "tk_async ?t") (simp_all add: sched_inv_def phase_defs m_acquired_def m_started_def)
qed (auto simp: task_acquire_def assms)

lemma inv_task_finish:
  assumes "sched_inv s"
  shows "sched_inv (task_finish env i result s)"
proof (cases "i < length (sc_tasks s) \<and> tk_phase (sc_tasks s ! i) = TaskRunning")
  case True
  obtain s1 where fin: "task_finish env i result s = set_phase i TaskFinished s1"
    and s1: "sc_tasks s1 = sc_tasks s" "sc_permits s1 = sc_permits s + 1" "sc_max s1 = sc_max s"
      "sc_metrics s1 = count_result result (m_finished (sc_metrics s))"
    using True by (auto simp: task_finish_def Let_def)
  have i: "i < length (sc_tasks s1)" using True s1 by simp
  have same: "count_tasks P s1 = count_tasks P s" for P by (simp add: count_tasks_def s1)
  have sp: "\<forall>t\<in>set (sc_tasks s1). tk_phase t = TaskSpawned \<longrightarrow> tk_async t"
    using assms by (simp add: sched_inv_def s1)
  note c = count_set_phase [OF i, of _ TaskFinished]
  show ?thesis
    unfolding fin
    using c [of running] c [of waiting] c [of gauged] c [of finished] True assms s1
      spawned_set_phase [OF sp, of TaskFinished i]
    by (simp add: sched_inv_def phase_defs m_finished_def same)
qed (auto simp: task_finish_def assms)

lemma inv_step: "sched_inv s \<Longrightarrow> sched_inv (sched_step env e s)"
proof (cases e)
  case (CancelJob j)
  assume "sched_inv s"
  then show ?thesis using CancelJob
    by (simp add: cancel_job_def sched_inv_def count_tasks_def split: option.split JobRunState.split)
next
  case (Reload r)
  assume "sched_inv s"
  then show ?thesis using Reload by (simp add: reload_def sched_inv_def)
qed (simp_all add: inv_submit inv_submit_background inv_task_begin inv_task_acquire inv_task_finish)

interpretation sched: guarded_system "sched_step env" sched_inv for env
  by unfold_locales (rule inv_step)

lemma inv_new: "sched_inv (scheduler_new r n)"
  by (simp add: sched_inv_def scheduler_new_def count_tasks_def metrics_zero_def)

lemma sched_max: "sc_max (sched_step env e s) = sc_max s"
  by (cases e) (simp_all add: submit_def submit_background_def task_begin_def task_acquire_def task_finish_def
      cancel_job_def reload_def Let_def split: option.split JobRunState.split)

lemma fold_sched_max: "sc_max (fold (sched_step env) es s) = sc_max s"
  by (induction es arbitrary: s) (simp_all add: sched_max)


section \<open>The table of jobs\<close>

definition task_id :: "'r sched_task \<Rightarrow> string" where
  "task_id t = jr_job_id (tk_request t)"

definition async_ids :: "'r scheduler \<Rightarrow> string list" where
  "async_ids s = map task_id (filter tk_async (sc_tasks s))"

text \<open>Every background task has its entry, which is done exactly when the task is.\<close>

definition table_ok :: "'r scheduler \<Rightarrow> bool" where
  "table_ok s \<longleftrightarrow>
     (\<forall>i < length (sc_tasks s). tk_async (sc_tasks s ! i) \<longrightarrow>
        (\<exists>e. sc_jobs s (task_id (sc_tasks s ! i)) = Some e \<and> je_token e = i
           \<and> (je_state e = RunningState \<longleftrightarrow> tk_phase (sc_tasks s ! i) \<noteq> TaskFinished)))
     \<and> dom (sc_jobs s) = set (async_ids s)"

lemma task_id_phase [simp]: "task_id (t\<lparr>tk_phase := ph\<rparr>) = task_id t"
  by (simp add: task_id_def)

lemma async_ids_set_phase [simp]: "async_ids (set_phase i ph s) = async_ids s"
proof -
  have "map task_id (filter tk_async (xs[i := (xs ! i)\<lparr>tk_phase := ph\<rparr>])) = map task_id (filter tk_async xs)"
    for xs :: "'a sched_task list"
  proof (induction xs arbitrary: i)
    case (Cons x xs)
    then show ?case by (cases i) (auto simp: task_id_def)
  qed simp
  then show ?thesis by (simp add: async_ids_def set_phase_def)
qed

lemma nth_set_phase:
  "i < length (sc_tasks s) \<Longrightarrow> sc_tasks (set_phase i ph s) ! j =
     (if j = i then (sc_tasks s ! i)\<lparr>tk_phase := ph\<rparr> else sc_tasks s ! j)"
  by (simp add: set_phase_def nth_list_update)

lemma length_set_phase [simp]: "length (sc_tasks (set_phase i ph s)) = length (sc_tasks s)"
  by (simp add: set_phase_def)

text \<open>A move that keeps the table and does not finish a task keeps the agreement.\<close>

lemma table_ok_set_phase:
  assumes "table_ok s" "i < length (sc_tasks s)"
    and "tk_phase (sc_tasks s ! i) \<noteq> TaskFinished" "ph \<noteq> TaskFinished"
  shows "table_ok (set_phase i ph s)"
  using assms by (auto simp: table_ok_def nth_set_phase task_id_def)

lemma async_id_unique:
  assumes "distinct (async_ids s)" "i < length (sc_tasks s)" "j < length (sc_tasks s)"
    "tk_async (sc_tasks s ! i)" "tk_async (sc_tasks s ! j)" "task_id (sc_tasks s ! i) = task_id (sc_tasks s ! j)"
  shows "i = j"
proof -
  have "distinct (map task_id (filter tk_async xs)) \<Longrightarrow> i < length xs \<Longrightarrow> j < length xs \<Longrightarrow>
      tk_async (xs ! i) \<Longrightarrow> tk_async (xs ! j) \<Longrightarrow> task_id (xs ! i) = task_id (xs ! j) \<Longrightarrow> i = j"
    for xs :: "'a sched_task list" and i j
  proof (induction xs arbitrary: i j)
    case (Cons x xs)
    have nin: "task_id y \<noteq> task_id x" if "y \<in> set xs" "tk_async y" "tk_async x" for y
    proof -
      have "task_id x \<notin> task_id ` {z. z \<in> set xs \<and> tk_async z}" using Cons.prems(1) that(3) by simp
      then show ?thesis using that(1,2) by (metis (mono_tags, lifting) imageI mem_Collect_eq)
    qed
    show ?case
    proof (cases i)
      case 0
      note i0 = this
      show ?thesis
      proof (cases j)
        case (Suc j')
        then show ?thesis using Cons.prems i0 nin [of "xs ! j'"] by simp
      qed (simp add: i0)
    next
      case (Suc i')
      note iS = this
      show ?thesis
      proof (cases j)
        case 0
        then show ?thesis using Cons.prems iS nin [of "xs ! i'"] by simp
      next
        case (Suc j')
        have "distinct (map task_id (filter tk_async xs))" using Cons.prems(1) by (simp split: if_splits)
        then show ?thesis using Cons.IH [of i' j'] Cons.prems iS Suc by simp
      qed
    qed
  qed simp
  then show ?thesis using assms by (simp add: async_ids_def)
qed

lemma table_ok_cong:
  "sc_tasks s' = sc_tasks s \<Longrightarrow> sc_jobs s' = sc_jobs s \<Longrightarrow> table_ok s' \<longleftrightarrow> table_ok s"
  by (simp add: table_ok_def async_ids_def)

lemma filter_upd_runner:
  "map task_id (filter tk_async (xs[i := (xs ! i)\<lparr>tk_runner := r\<rparr>])) = map task_id (filter tk_async xs)"
proof (induction xs arbitrary: i)
  case (Cons x xs)
  then show ?case by (cases i) (auto simp: task_id_def)
qed simp

lemma async_ids_step:
  "async_ids (sched_step env e s) =
     async_ids s @ (case e of SubmitBackground stream request \<Rightarrow> [jr_job_id request] | _ \<Rightarrow> [])"
proof (cases e)
  case (TaskAcquire i)
  then show ?thesis
    by (simp add: task_acquire_def Let_def) (simp add: async_ids_def filter_upd_runner)
qed (simp_all add: async_ids_def submit_def submit_background_def task_begin_def task_finish_def task_id_def
    cancel_job_def reload_def Let_def async_ids_set_phase [unfolded async_ids_def]
    split: option.split JobRunState.split)

lemma table_submit_background:
  assumes ok: "table_ok s" and "distinct (async_ids s @ [jr_job_id request])"
  shows "table_ok (submit_background env stream request s)"
proof -
  let ?s = "submit_background env stream request s"
  have new: "jr_job_id request \<notin> dom (sc_jobs s)" using assms by (auto simp: table_ok_def)
  have ids: "async_ids ?s = async_ids s @ [jr_job_id request]"
    by (simp add: async_ids_def submit_background_def task_id_def)
  have "task_id (sc_tasks s ! i) \<noteq> jr_job_id request" if "i < length (sc_tasks s)" "tk_async (sc_tasks s ! i)" for i
  proof -
    have "task_id (sc_tasks s ! i) \<in> dom (sc_jobs s)" using that ok unfolding table_ok_def by blast
    then show ?thesis using new by auto
  qed
  then show ?thesis
    using ok unfolding table_ok_def ids
    by (auto simp: submit_background_def nth_append task_id_def less_Suc_eq)
qed

lemma table_finish:
  assumes ok: "table_ok s" and "distinct (async_ids s)"
  shows "table_ok (task_finish env i result s)"
proof (cases "i < length (sc_tasks s) \<and> tk_phase (sc_tasks s ! i) = TaskRunning")
  case True
  let ?t = "sc_tasks s ! i" and ?id = "task_id (sc_tasks s ! i)"
  obtain s1 where fin: "task_finish env i result s = set_phase i TaskFinished s1"
    and s1: "sc_tasks s1 = sc_tasks s"
      "sc_jobs s1 = (if tk_async ?t then set_done ?id (final_result env ?id result) (sc_jobs s) else sc_jobs s)"
    using True by (auto simp: task_finish_def Let_def task_id_def)
  have other: "task_id (sc_tasks s ! j) \<noteq> ?id"
    if "tk_async ?t" "j < length (sc_tasks s)" "tk_async (sc_tasks s ! j)" "j \<noteq> i" for j
    using async_id_unique [OF assms(2) _ that(2), of i] that True by auto
  have dom: "dom (sc_jobs s1) = dom (sc_jobs s)"
    by (auto simp: s1 set_done_def split: if_splits option.splits)
  have ids: "async_ids s1 = async_ids s" by (simp add: async_ids_def s1)
  have entries: "\<exists>e. sc_jobs s1 (task_id (sc_tasks s ! j)) = Some e \<and> je_token e = j \<and>
      (je_state e = RunningState \<longleftrightarrow> (if j = i then False else tk_phase (sc_tasks s ! j) \<noteq> TaskFinished))"
    if j: "j < length (sc_tasks s)" "tk_async (sc_tasks s ! j)" for j
  proof (cases "j = i")
    case True
    then show ?thesis using ok j by (auto simp: table_ok_def s1 set_done_def)
  next
    case False
    then show ?thesis using ok j other by (auto simp: table_ok_def s1 set_done_def split: option.splits)
  qed
  have "\<exists>e. sc_jobs s1 (task_id (sc_tasks (set_phase i TaskFinished s1) ! j)) = Some e \<and> je_token e = j \<and>
      (je_state e = RunningState \<longleftrightarrow> tk_phase (sc_tasks (set_phase i TaskFinished s1) ! j) \<noteq> TaskFinished)"
    if "j < length (sc_tasks s)" "tk_async (sc_tasks (set_phase i TaskFinished s1) ! j)" for j
  proof -
    have "tk_async (sc_tasks s ! j)" using that(2) True by (simp add: nth_set_phase s1(1) split: if_splits)
    from entries [OF that(1) this] True show ?thesis
      by (cases "j = i") (simp_all add: nth_set_phase s1(1))
  qed
  then show ?thesis
    using ok unfolding fin by (simp add: table_ok_def ids dom s1(1))
qed (auto simp: task_finish_def ok)

lemma table_step:
  assumes ok: "table_ok s" and dist: "distinct (async_ids (sched_step env e s))"
  shows "table_ok (sched_step env e s)"
proof (cases e)
  case (Submit request)
  then show ?thesis using ok
    by (auto simp: table_ok_def submit_def async_ids_def nth_append)
next
  case (SubmitBackground stream request)
  then show ?thesis using table_submit_background [OF ok] dist async_ids_step [of env e s] by simp
next
  case (TaskBegin i)
  have "table_ok (s\<lparr>sc_metrics := m\<rparr>)" for m using ok table_ok_cong [of "s\<lparr>sc_metrics := m\<rparr>" s] by simp
  then show ?thesis using TaskBegin ok by (auto simp: task_begin_def intro: table_ok_set_phase)
next
  case (TaskAcquire i)
  let ?s = "s\<lparr>sc_permits := p, sc_metrics := m\<rparr>"
  have 1: "table_ok (s\<lparr>sc_permits := p, sc_metrics := m\<rparr>)" for p m
    using ok table_ok_cong [of "s\<lparr>sc_permits := p, sc_metrics := m\<rparr>" s] by simp
  have 2: "table_ok (s\<lparr>sc_permits := p, sc_metrics := m, sc_tasks := (sc_tasks s)[i := (sc_tasks s ! i)\<lparr>tk_runner := r\<rparr>]\<rparr>)"
    if "i < length (sc_tasks s)" for p m r
  proof -
    have ids: "async_ids (s\<lparr>sc_permits := p, sc_metrics := m, sc_tasks := (sc_tasks s)[i := (sc_tasks s ! i)\<lparr>tk_runner := r\<rparr>]\<rparr>)
        = async_ids s"
      using that by (simp add: async_ids_def filter_upd_runner)
    show ?thesis using ok that unfolding table_ok_def ids by (auto simp: nth_list_update task_id_def)
  qed
  show ?thesis using TaskAcquire ok
    by (auto simp: task_acquire_def Let_def intro!: table_ok_set_phase 1 2)
next
  case (TaskFinish i result)
  then show ?thesis using table_finish [OF ok] dist async_ids_step [of env e s] by simp
next
  case (CancelJob j)
  have "table_ok (snd (cancel_job j s)) \<longleftrightarrow> table_ok s"
    by (rule table_ok_cong) (simp_all add: cancel_job_def split: option.split JobRunState.split)
  then show ?thesis using CancelJob ok by simp
next
  case (Reload r)
  then show ?thesis using ok table_ok_cong [of "reload r s" s] by (simp add: reload_def)
qed

lemma table_run:
  "distinct (async_ids (fold (sched_step env) es (scheduler_new r n))) \<Longrightarrow>
     table_ok (fold (sched_step env) es (scheduler_new r n))"
proof (induction es rule: rev_induct)
  case Nil
  then show ?case by (simp add: table_ok_def scheduler_new_def async_ids_def)
next
  case (snoc e es)
  have "distinct (async_ids (fold (sched_step env) es (scheduler_new r n)))"
    using snoc.prems by (simp add: async_ids_step)
  then show ?case using snoc table_step by simp
qed

text \<open>A stored result is one that a task finished with.\<close>

lemma stored_results:
  "get_job j (fold (sched_step env) es (scheduler_new r n)) = Some (DoneState res) \<Longrightarrow>
     \<exists>i result. TaskFinish i result \<in> set es \<and> res = final_result env j result"
proof (induction es rule: rev_induct)
  case Nil
  then show ?case by (simp add: get_job_def scheduler_new_def)
next
  case (snoc e es)
  let ?s = "fold (sched_step env) es (scheduler_new r n)"
  have "get_job j ?s = Some (DoneState res) \<or> (\<exists>i result. e = TaskFinish i result \<and> res = final_result env j result)"
    using snoc.prems
    by (cases e) (auto simp: get_job_def submit_def submit_background_def task_begin_def task_acquire_def
        task_finish_def cancel_job_def reload_def set_done_def Let_def
        split: if_splits option.splits JobRunState.splits)
  then show ?case using snoc.IH by auto
qed


definition demo_request :: "string \<Rightarrow> JobRequest" where
  "demo_request j = \<lparr>jr_job_id = j, jr_argv = [''true''], jr_profile_name = ''shell'', jr_timeout = None,
     jr_custom_env = [], jr_stdin_data = None, jr_cwd = None\<rparr>"

definition demo_env :: sched_env where
  "demo_env = \<lparr>se_json = (\<lambda>_. None), se_error = (\<lambda>_. ''e''), se_now = (\<lambda>_. ''t'')\<rparr>"

definition demo_events :: "unit sched_event list" where
  "demo_events = [SubmitBackground False (demo_request ''a''), SubmitBackground False (demo_request ''b''),
     TaskBegin 0, TaskBegin 1, TaskAcquire 0, TaskAcquire 1, TaskFinish 0 (Inl NoCapacity)]"

lemmas sched_eval = submit_background_def task_begin_def task_acquire_def task_finish_def set_phase_def
  scheduler_new_def demo_request_def set_done_def async_ids_def task_id_def get_job_def cancel_job_def


text \<open>
  Two background jobs with one id: when the first has finished, the table shows its result for
  both, although the second still waits, and the second can no longer be cancelled.
\<close>

lemma duplicate_id_hides_job:
  "let s = fold (sched_step demo_env)
       [SubmitBackground False (demo_request ''a''), SubmitBackground False (demo_request ''a''),
        TaskBegin 0, TaskBegin 1, TaskAcquire 0, TaskFinish 0 (Inl NoCapacity)] (scheduler_new () 1)
   in cancel_job ''a'' s = (Inl AlreadyDone, s) \<and> tk_phase (sc_tasks s ! 1) = TaskWaiting"
  by (simp add: sched_eval Let_def)

end
