(* ===== verification/Session.thy ===== *)
theory Session
  imports Runner AuditLog
begin

text \<open>
  The session manager, \<open>sandbox-server/src/session.rs\<close>: the table of sessions, their creation,
  update, removal and expiry, and the reconstruction of the table from disk. A session is a
  workspace that outlives its commands, with the profile it was bound to. JSON (\<open>serde_json\<close>) and
  the clocks are parameters, a fresh uuid is an argument, the table is the list of its entries in
  iteration order, and a mutex is known by a number. The loop of \<open>spawn_reaper\<close> calls
  \<open>reap_expired\<close> at intervals.
\<close>

section \<open>Data\<close>

record SessionEntry =
  ent_id :: string
  ent_workspace :: JobWorkspace
  ent_profile :: SandboxProfile
  ent_created_at :: nat
  ent_last_activity :: nat
  ent_execs :: u64
  ent_exec_lock :: nat
  ent_started_at :: nat
  ent_alias :: "string option"
  ent_timeout_secs :: "u64 option"
  ent_metadata :: "(string \<times> string) list"

record SessionInfo =
  inf_session_id :: string
  inf_profile :: string
  inf_created_at_secs :: nat
  inf_last_activity_secs :: nat
  inf_execs :: u64
  inf_template_id :: "string option"
  inf_state :: string
  inf_started_at :: "nat option"
  inf_cpu_count :: u32
  inf_memory_size :: u64
  inf_alias :: "string option"
  inf_timeout_secs :: "u64 option"
  inf_metadata :: "(string \<times> string) list"

record VolumeMount =
  vm_name :: string
  vm_mount :: string

record SessionMeta =
  sm_profile_name :: string
  sm_env :: "(string \<times> string) list"
  sm_volumes :: "VolumeMount list"
  sm_alias :: "string option"
  sm_timeout_secs :: "u64 option"
  sm_metadata :: "(string \<times> string) list"
  sm_started_at_secs :: "u64 option"

text \<open>An execution of a session: it waits for the session's mutex, runs, and ends, panics or hangs.\<close>

datatype exec_phase = ExWaiting | ExRunning | ExStuck | ExDone "CoreError + JobResult" | ExPanicked

record exec_task =
  xt_session :: string
  xt_workspace :: JobWorkspace
  xt_profile :: SandboxProfile
  xt_lock :: nat
  xt_request :: JobRequest
  xt_phase :: exec_phase

record session_manager =
  ss_table :: "(string \<times> SessionEntry) list"
  ss_rn :: rstate
  ss_next_lock :: nat
  ss_held :: "nat set"
  ss_execs :: "exec_task list"
  ss_audit :: AuditLogger
  ss_metrics :: metrics
  ss_posts :: "(string \<times> string) list"

text \<open>
  What the manager is built on: the runner's workspace manager and registry, the webhook URLs,
  JSON, the text of an error, the number of processors; and the two clocks, in nanoseconds.
\<close>

record session_env =
  sv_mgr :: WorkspaceManager
  sv_registry :: ProfileRegistry
  sv_hooks :: "string list"
  sv_event_json :: "AuditEvent \<Rightarrow> string option"
  sv_meta_json :: "SessionMeta \<Rightarrow> string option"
  sv_meta_of_json :: "string \<Rightarrow> SessionMeta option"
  sv_error :: "CoreError \<Rightarrow> string"
  sv_parallelism :: "u32 option"

record clocks =
  ck_instant :: nat
  ck_system :: nat

section \<open>The table\<close>

definition table_get :: "(string \<times> SessionEntry) list \<Rightarrow> string \<Rightarrow> SessionEntry option" where
  "table_get t sid = map_of t sid"

definition table_remove :: "string \<Rightarrow> (string \<times> SessionEntry) list \<Rightarrow> (string \<times> SessionEntry) list" where
  "table_remove sid t = filter (\<lambda>(k, _). k \<noteq> sid) t"

definition table_insert :: "SessionEntry \<Rightarrow> (string \<times> SessionEntry) list \<Rightarrow> (string \<times> SessionEntry) list" where
  "table_insert e t = table_remove (ent_id e) t @ [(ent_id e, e)]"

text \<open>\<open>get_mut\<close>: the entry changes where it stands.\<close>

definition table_update ::
    "string \<Rightarrow> (SessionEntry \<Rightarrow> SessionEntry) \<Rightarrow> (string \<times> SessionEntry) list \<Rightarrow> (string \<times> SessionEntry) list" where
  "table_update sid f t = map (\<lambda>(k, e). if k = sid then (k, f e) else (k, e)) t"

lemma table_get_remove: "table_get (table_remove sid t) k = (if k = sid then None else table_get t k)"
  unfolding table_get_def table_remove_def by (induction t) auto

lemma table_get_insert:
  "table_get (table_insert e t) k = (if k = ent_id e then Some e else table_get t k)"
  using table_get_remove [of "ent_id e" t k]
  by (auto simp: table_insert_def table_get_def map_add_def split: option.split)

lemma table_get_update:
  "table_get (table_update sid f t) k = (if k = sid then map_option f (table_get t k) else table_get t k)"
  unfolding table_get_def table_update_def by (induction t) auto

interpretation session_table: removable_registry table_get table_insert ent_id "\<lambda>e. e" table_remove
  by unfold_locales (simp_all add: table_get_insert table_get_remove)

definition not_found :: "string \<Rightarrow> CoreError" where
  "not_found sid = WorkspaceErr (''session not found: '' @ sid)"

text \<open>A call of the workspace module: it works on the disk.\<close>

definition ss_disk :: "session_manager \<Rightarrow> node" where
  "ss_disk s = rn_fs (ss_rn s)"

definition set_disk :: "node \<Rightarrow> session_manager \<Rightarrow> session_manager" where
  "set_disk t s = s\<lparr>ss_rn := (ss_rn s)\<lparr>rn_fs := t\<rparr>\<rparr>"

definition on_disk :: "'a cfs \<Rightarrow> session_manager \<Rightarrow> (CoreError + 'a) \<times> session_manager" where
  "on_disk m s = (case m (ss_disk s) of (r, t) \<Rightarrow> (r, set_disk t s))"

lemma set_disk_simps [simp]:
  "ss_disk (set_disk t s) = t" "ss_table (set_disk t s) = ss_table s"
  "ss_next_lock (set_disk t s) = ss_next_lock s" "ss_held (set_disk t s) = ss_held s"
  "ss_execs (set_disk t s) = ss_execs s" "ss_metrics (set_disk t s) = ss_metrics s"
  "set_disk t (set_disk t' s) = set_disk t s"
  "ss_disk (s\<lparr>ss_table := tb\<rparr>) = ss_disk s" "ss_disk (s\<lparr>ss_next_lock := l\<rparr>) = ss_disk s"
  by (simp_all add: ss_disk_def set_disk_def)

text \<open>The empty manager: nothing in the table, no execution.\<close>

definition session_manager_new :: "rstate \<Rightarrow> AuditLogger \<Rightarrow> session_manager" where
  "session_manager_new rn audit =
     \<lparr>ss_table = [], ss_rn = rn, ss_next_lock = 0, ss_held = {}, ss_execs = [], ss_audit = audit,
      ss_metrics = \<lparr>job_started_total = 0, job_finished_total = 0, job_timeout_total = 0,
        running_jobs = 0, job_seccomp_denied_total = 0, job_oom_killed_total = 0, job_queue_depth = 0\<rparr>,
      ss_posts = []\<rparr>"

section \<open>Mounting volumes\<close>

definition mount_volume ::
    "WorkspaceManager \<Rightarrow> JobWorkspace \<Rightarrow> VolumeMount \<Rightarrow> string cfs" where
  "mount_volume m jw vm =
     (let vol_path = volume_path m (vm_name vm);
          link = path_join (jw_workspace jw) (vm_mount vm)
      in st_bind (lift_io (create_dir_all vol_path)) (\<lambda>_.
         st_bind (if comps link = [] then st_ret () else lift_io (create_dir_comps (butlast (comps link)))) (\<lambda>_.
         (\<lambda>t. st_bind (lift_io (fs_symlink vol_path link)) (\<lambda>_. st_ret vol_path)
                (snd (remove_file link t))))))"

fun mount_volumes ::
    "WorkspaceManager \<Rightarrow> JobWorkspace \<Rightarrow> VolumeMount list \<Rightarrow> SandboxProfile \<Rightarrow> SandboxProfile cfs" where
  "mount_volumes m jw [] profile = st_ret profile"
| "mount_volumes m jw (vm # vms) profile =
     st_bind (mount_volume m jw vm) (\<lambda>vol_path.
     mount_volumes m jw vms
       (profile\<lparr>sp_extra_writable_paths := sp_extra_writable_paths profile @ [vol_path]\<rparr>))"

section \<open>Creating a session\<close>

definition meta_path :: "string \<Rightarrow> string" where
  "meta_path root = path_join root ''.session-meta.json''"

definition merge_env :: "(string \<times> string) list \<Rightarrow> SandboxProfile \<Rightarrow> SandboxProfile" where
  "merge_env env profile = profile\<lparr>sp_env := fold (\<lambda>(k, v). env_insert k v) env (sp_env profile)\<rparr>"

definition as_secs :: "nat \<Rightarrow> nat" where
  "as_secs d = d div 1000000000"

text \<open>
  The directory, its metadata (a failed write is ignored), the snapshot, the volumes, the entry.
  \<open>None\<close> is the copy's fuel running out.
\<close>

definition create_session_with_opts ::
    "session_env \<Rightarrow> nat \<Rightarrow> clocks \<Rightarrow> string \<Rightarrow> string \<Rightarrow> (string \<times> string) list \<Rightarrow> string option
      \<Rightarrow> VolumeMount list \<Rightarrow> string option \<Rightarrow> (string \<times> string) list \<Rightarrow> u64 option
      \<Rightarrow> session_manager \<Rightarrow> ((CoreError + string) \<times> session_manager) option" where
  "create_session_with_opts v fuel ck sid profile_name env from_snapshot volumes alias metadata timeout_secs s =
     (case registry_get (sv_registry v) profile_name of
        None \<Rightarrow> Some (Inl (ProfileNotFound profile_name), s)
      | Some base \<Rightarrow>
          (case on_disk (create_session_workspace (sv_mgr v) sid) s of
             (Inl e, s) \<Rightarrow> Some (Inl e, s)
           | (Inr jw, s) \<Rightarrow>
               (let meta = \<lparr>sm_profile_name = profile_name, sm_env = env, sm_volumes = volumes,
                      sm_alias = alias, sm_timeout_secs = timeout_secs, sm_metadata = metadata,
                      sm_started_at_secs = Some (of_nat (as_secs (ck_system ck)))\<rparr>;
                    json = (case sv_meta_json v meta of Some j \<Rightarrow> j | None \<Rightarrow> []);
                    s = set_disk (snd (fs_write (meta_path (jw_root jw)) json (ss_disk s))) s
                in case (case from_snapshot of
                           None \<Rightarrow> Some (Inr (), ss_disk s)
                         | Some snap \<Rightarrow> restore_snapshot fuel (sv_mgr v) snap (jw_workspace jw) (ss_disk s)) of
                     None \<Rightarrow> None
                   | Some (Inl e, t) \<Rightarrow> Some (Inl e, set_disk t s)
                   | Some (Inr _, t) \<Rightarrow>
                       (case on_disk (mount_volumes (sv_mgr v) jw volumes (merge_env env base)) (set_disk t s) of
                          (Inl e, s) \<Rightarrow> Some (Inl e, s)
                        | (Inr profile, s) \<Rightarrow>
                            Some (Inr sid, s\<lparr>ss_next_lock := ss_next_lock s + 1,
                              ss_table := table_insert
                                \<lparr>ent_id = sid, ent_workspace = jw, ent_profile = profile,
                                 ent_created_at = ck_instant ck, ent_last_activity = ck_instant ck,
                                 ent_execs = 0, ent_exec_lock = ss_next_lock s,
                                 ent_started_at = ck_system ck, ent_alias = alias,
                                 ent_timeout_secs = timeout_secs, ent_metadata = metadata\<rparr>
                                (ss_table s)\<rparr>)))))"

definition create_session ::
    "session_env \<Rightarrow> nat \<Rightarrow> clocks \<Rightarrow> string \<Rightarrow> string \<Rightarrow> (string \<times> string) list \<Rightarrow> string option
      \<Rightarrow> VolumeMount list \<Rightarrow> session_manager \<Rightarrow> ((CoreError + string) \<times> session_manager) option" where
  "create_session v fuel ck sid profile_name env from_snapshot volumes s =
     create_session_with_opts v fuel ck sid profile_name env from_snapshot volumes None [] None s"

section \<open>Showing sessions\<close>

text \<open>
  The processor count is computed in \<open>f64\<close>: an integer is rounded to 53 bits, a quotient of two
  such numbers to 53 bits, ties to even, before it is rounded up.
\<close>

definition round_div :: "nat \<Rightarrow> nat \<Rightarrow> nat" where
  "round_div a b =
     (let q = a div b; r = a mod b
      in if b < 2 * r \<or> (2 * r = b \<and> odd q) then q + 1 else q)"

fun bit_len :: "nat \<Rightarrow> nat" where
  "bit_len n = (if n = 0 then 0 else Suc (bit_len (n div 2)))"

declare bit_len.simps [simp del]

definition f64_of_nat :: "nat \<Rightarrow> nat" where
  "f64_of_nat n = (if n < 2 ^ 53 then n else let k = 2 ^ (bit_len n - 53) in round_div n k * k)"

definition ceil_div :: "nat \<Rightarrow> nat \<Rightarrow> nat" where
  "ceil_div a b = (a + b - 1) div b"

text \<open>The quotient is \<open>m / 2 ^ e\<close> or \<open>m * 2 ^ e'\<close> with a significand \<open>m\<close> of 53 bits.\<close>

definition f64_div_ceil :: "nat \<Rightarrow> nat \<Rightarrow> nat" where
  "f64_div_ceil a b =
     (if a = 0 then 0
      else
        (let e0 = 53 + int (bit_len b) - int (bit_len a);
             scaled = (\<lambda>e. (a * 2 ^ nat e) div (b * 2 ^ nat (- e)));
             e = (if 2 ^ 53 \<le> scaled e0 then e0 - 1 else e0);
             m = round_div (a * 2 ^ nat e) (b * 2 ^ nat (- e))
         in if 0 \<le> e then ceil_div m (2 ^ nat e) else m * 2 ^ nat (- e)))"

definition info_of :: "session_env \<Rightarrow> clocks \<Rightarrow> SessionEntry \<Rightarrow> SessionInfo" where
  "info_of v ck e =
     (let cg = sp_cgroup_resources (ent_profile e);
          memory_size = (case Option.bind cg memory_max of Some x \<Rightarrow> x | None \<Rightarrow> 0);
          cpu_count = (case Option.bind cg cpu_max_quota of
            Some quota \<Rightarrow>
              (let period = (case Option.bind cg cpu_max_period of
                     Some p \<Rightarrow> if p > 0 then p else 1000000 | None \<Rightarrow> 1000000);
                   c = f64_div_ceil (f64_of_nat (unat quota)) (f64_of_nat (unat period))
               in of_nat (max 1 (min c (2 ^ 64 - 1))))
          | None \<Rightarrow> (case sv_parallelism v of Some n \<Rightarrow> n | None \<Rightarrow> 1))
      in \<lparr>inf_session_id = ent_id e, inf_profile = sp_name (ent_profile e),
          inf_created_at_secs = as_secs (ck_instant ck - ent_created_at e),
          inf_last_activity_secs = as_secs (ck_instant ck - ent_last_activity e),
          inf_execs = ent_execs e, inf_template_id = Some (sp_name (ent_profile e)),
          inf_state = ''RUNNING'', inf_started_at = Some (as_secs (ent_started_at e)),
          inf_cpu_count = cpu_count, inf_memory_size = memory_size, inf_alias = ent_alias e,
          inf_timeout_secs = ent_timeout_secs e, inf_metadata = ent_metadata e\<rparr>)"

definition list_session_infos :: "session_env \<Rightarrow> clocks \<Rightarrow> session_manager \<Rightarrow> SessionInfo list" where
  "list_session_infos v ck s = map (info_of v ck \<circ> snd) (ss_table s)"

definition get_session :: "session_env \<Rightarrow> clocks \<Rightarrow> string \<Rightarrow> session_manager \<Rightarrow> SessionInfo option" where
  "get_session v ck sid s = map_option (info_of v ck) (table_get (ss_table s) sid)"

text \<open>What a terminal is given: workspace, profile and mutex.\<close>

definition exec_context ::
    "string \<Rightarrow> session_manager \<Rightarrow> CoreError + (JobWorkspace \<times> SandboxProfile \<times> nat)" where
  "exec_context sid s =
     (case table_get (ss_table s) sid of
        None \<Rightarrow> Inl (not_found sid)
      | Some e \<Rightarrow> Inr (ent_workspace e, ent_profile e, ent_exec_lock e))"

section \<open>Updating and destroying\<close>

definition read_meta :: "session_env \<Rightarrow> string \<Rightarrow> node \<Rightarrow> CoreError + SessionMeta" where
  "read_meta v path t =
     (case fs_read path t of
        Inl _ \<Rightarrow> Inl (WorkspaceErr ''session-meta.json missing'')
      | Inr data \<Rightarrow>
          if \<not> utf8_valid data then Inl (WorkspaceErr ''session-meta.json missing'')
          else (case sv_meta_of_json v data of
                  None \<Rightarrow> Inl (WorkspaceErr ''session-meta.json corrupt'')
                | Some meta \<Rightarrow> Inr meta))"

text \<open>The entry changes first, then the file is read, changed and written.\<close>

definition update_session ::
    "session_env \<Rightarrow> clocks \<Rightarrow> string \<Rightarrow> string option \<Rightarrow> u64 option \<Rightarrow> (string \<times> string) list
      \<Rightarrow> session_manager \<Rightarrow> (CoreError + unit) \<times> session_manager" where
  "update_session v ck sid alias timeout_secs metadata s =
     (case table_get (ss_table s) sid of
        None \<Rightarrow> (Inl (not_found sid), s)
      | Some e \<Rightarrow>
          (let s = s\<lparr>ss_table := table_update sid
                 (\<lambda>e. e\<lparr>ent_alias := alias, ent_timeout_secs := timeout_secs,
                        ent_metadata := metadata, ent_last_activity := ck_instant ck\<rparr>) (ss_table s)\<rparr>;
               path = meta_path (jw_root (ent_workspace e))
           in case read_meta v path (ss_disk s) of
                Inl er \<Rightarrow> (Inl er, s)
              | Inr meta \<Rightarrow>
                  (let meta = meta\<lparr>sm_alias := alias, sm_timeout_secs := timeout_secs, sm_metadata := metadata\<rparr>;
                       json = (case sv_meta_json v meta of Some j \<Rightarrow> j | None \<Rightarrow> [])
                   in case fs_write path json (ss_disk s) of
                        (Inl _, t) \<Rightarrow> (Inl (WorkspaceErr ''session-meta.json write failed''), set_disk t s)
                      | (Inr _, t) \<Rightarrow> (Inr (), set_disk t s))))"

definition destroy_session ::
    "session_env \<Rightarrow> string \<Rightarrow> session_manager \<Rightarrow> (CoreError + unit) \<times> session_manager" where
  "destroy_session v sid s =
     (case table_get (ss_table s) sid of
        None \<Rightarrow> (Inl (not_found sid), s)
      | Some _ \<Rightarrow>
          on_disk (cleanup_session (sv_mgr v) sid) (s\<lparr>ss_table := table_remove sid (ss_table s)\<rparr>))"

text \<open>Expired sessions are collected first, then destroyed one by one.\<close>

definition expired_ids :: "nat \<Rightarrow> nat \<Rightarrow> session_manager \<Rightarrow> string list" where
  "expired_ids now ttl_secs s =
     map fst (filter (\<lambda>(_, e). now - ent_last_activity e > ttl_secs * 1000000000) (ss_table s))"

fun reap_each ::
    "session_env \<Rightarrow> string list \<Rightarrow> string list \<Rightarrow> session_manager \<Rightarrow> string list \<times> session_manager" where
  "reap_each v [] reaped s = (reaped, s)"
| "reap_each v (sid # ids) reaped s =
     (case destroy_session v sid s of
        (Inr _, s') \<Rightarrow> reap_each v ids (reaped @ [sid]) s'
      | (Inl _, s') \<Rightarrow> reap_each v ids reaped s')"

definition reap_expired ::
    "session_env \<Rightarrow> clocks \<Rightarrow> nat \<Rightarrow> session_manager \<Rightarrow> string list \<times> session_manager" where
  "reap_expired v ck ttl_secs s = reap_each v (expired_ids (ck_instant ck) ttl_secs s) [] s"

section \<open>Rebuilding the table from disk\<close>

text \<open>\<open>SystemTime\<close> holds seconds in an \<open>i64\<close>: a larger stored value does not count.\<close>

definition rebuilt_start :: "clocks \<Rightarrow> u64 option \<Rightarrow> nat" where
  "rebuilt_start ck secs =
     (case secs of
        Some n \<Rightarrow> if unat n < 2 ^ 63 then unat n * 1000000000 else ck_system ck
      | None \<Rightarrow> ck_system ck)"

definition rebuild_entry ::
    "session_env \<Rightarrow> clocks \<Rightarrow> string \<Rightarrow> SessionMeta \<Rightarrow> JobWorkspace \<Rightarrow> SandboxProfile \<Rightarrow> nat \<Rightarrow> SessionEntry" where
  "rebuild_entry v ck sid meta jw profile lock =
     \<lparr>ent_id = sid, ent_workspace = jw, ent_profile = profile, ent_created_at = ck_instant ck,
      ent_last_activity = ck_instant ck, ent_execs = 0, ent_exec_lock = lock,
      ent_started_at = rebuilt_start ck (sm_started_at_secs meta), ent_alias = sm_alias meta,
      ent_timeout_secs = sm_timeout_secs meta, ent_metadata = sm_metadata meta\<rparr>"

text \<open>One directory: \<open>False\<close> when it is skipped.\<close>

definition rebuild_one ::
    "session_env \<Rightarrow> clocks \<Rightarrow> string \<Rightarrow> session_manager \<Rightarrow> (CoreError + bool) \<times> session_manager" where
  "rebuild_one v ck sid s =
     (case read_meta v (meta_path (session_path (sv_mgr v) sid)) (ss_disk s) of
        Inl _ \<Rightarrow> (Inr False, s)
      | Inr meta \<Rightarrow>
          (case registry_get (sv_registry v) (sm_profile_name meta) of
             None \<Rightarrow> (Inr False, s)
           | Some base \<Rightarrow>
               (case on_disk (create_session_workspace (sv_mgr v) sid) s of
                  (Inl e, s) \<Rightarrow> (Inl e, s)
                | (Inr jw, s) \<Rightarrow>
                    (case on_disk (mount_volumes (sv_mgr v) jw (sm_volumes meta)
                             (merge_env (sm_env meta) base)) s of
                       (Inl e, s) \<Rightarrow> (Inl e, s)
                     | (Inr profile, s) \<Rightarrow>
                         (Inr True, s\<lparr>ss_next_lock := ss_next_lock s + 1,
                            ss_table := table_insert
                              (rebuild_entry v ck sid meta jw profile (ss_next_lock s)) (ss_table s)\<rparr>)))))"

fun rebuild_each ::
    "session_env \<Rightarrow> clocks \<Rightarrow> string list \<Rightarrow> nat \<Rightarrow> session_manager \<Rightarrow> (CoreError + nat) \<times> session_manager" where
  "rebuild_each v ck [] count s = (Inr count, s)"
| "rebuild_each v ck (sid # ids) count s =
     (case rebuild_one v ck sid s of
        (Inl e, s') \<Rightarrow> (Inl e, s')
      | (Inr ok, s') \<Rightarrow> rebuild_each v ck ids (if ok then count + 1 else count) s')"

definition rebuild_from_disk ::
    "session_env \<Rightarrow> clocks \<Rightarrow> session_manager \<Rightarrow> (CoreError + nat) \<times> session_manager" where
  "rebuild_from_disk v ck s =
     (case on_disk (list_sessions (sv_mgr v)) s of
        (Inl e, s) \<Rightarrow> (Inl e, s)
      | (Inr ids, s) \<Rightarrow> rebuild_each v ck ids 0 s)"

end
