(* ===== verification/SessionDisk.thy ===== *)
theory SessionDisk
  imports Session Recovery
begin

text \<open>
  What the session manager does to the disk: the directory of a session, its metadata file, the
  links to its volumes. The facts are stated on the view of the tree, so that they compose.
\<close>

abbreviation session_dir :: "WorkspaceManager \<Rightarrow> string \<Rightarrow> path" where
  "session_dir m sid \<equiv> comps (base_dir m) @ [''sessions'', sid]"

abbreviation volume_dir :: "WorkspaceManager \<Rightarrow> string \<Rightarrow> path" where
  "volume_dir m name \<equiv> comps (base_dir m) @ [''volumes'', name]"

section \<open>Paths\<close>

lemma join_ne: "b \<noteq> [] \<Longrightarrow> path_join a b \<noteq> []"
  by (auto simp: path_join_def starts_with_iff)

lemma two_below:
  assumes "base_dir m \<noteq> []" "name_ok a" "name_ok b"
  shows "comps (path_join (path_join (base_dir m) a) b) = comps (base_dir m) @ [a, b]"
    "kcomps (path_join (path_join (base_dir m) a) b) = comps (base_dir m) @ [a, b]"
proof -
  have "path_join (base_dir m) a \<noteq> []" using assms(2) by (intro join_ne) (auto simp: name_ok_def)
  then show "comps (path_join (path_join (base_dir m) a) b) = comps (base_dir m) @ [a, b]"
    "kcomps (path_join (path_join (base_dir m) a) b) = comps (base_dir m) @ [a, b]"
    using assms name_child [of a "base_dir m"] name_child [of b "path_join (base_dir m) a"] by simp_all
qed

lemma area_names [simp]:
  "name_ok ''sessions''" "name_ok ''volumes''" "name_ok ''snapshots''" "name_ok ''workspace''"
  "name_ok ''input''" "name_ok ''output''" "name_ok ''tmp''" "name_ok ''.session-meta.json''"
  by (simp_all add: name_ok_def)

lemma session_path_comps:
  "base_dir m \<noteq> [] \<Longrightarrow> name_ok sid \<Longrightarrow> comps (session_path m sid) = session_dir m sid"
  "base_dir m \<noteq> [] \<Longrightarrow> name_ok sid \<Longrightarrow> kcomps (session_path m sid) = session_dir m sid"
  by (simp_all add: session_path_def two_below)

lemma volume_path_comps:
  "base_dir m \<noteq> [] \<Longrightarrow> name_ok n \<Longrightarrow> comps (volume_path m n) = volume_dir m n"
  "base_dir m \<noteq> [] \<Longrightarrow> name_ok n \<Longrightarrow> kcomps (volume_path m n) = volume_dir m n"
  by (simp_all add: volume_path_def volumes_dir_def two_below)

lemma session_path_ne: "sid \<noteq> [] \<Longrightarrow> session_path m sid \<noteq> []"
  by (simp add: session_path_def join_ne)

lemma meta_path_comps:
  assumes "base_dir m \<noteq> []" "name_ok sid"
  shows "kcomps (meta_path (session_path m sid)) = session_dir m sid @ [''.session-meta.json'']"
  using kcomps_join_name [of "''.session-meta.json''" "session_path m sid"] assms session_path_ne [of sid m]
  by (simp add: meta_path_def session_path_comps name_ok_def)

lemma volume_not_below_session:
  "\<not> prefix (session_dir m sid @ q) (volume_dir m n)" "\<not> prefix (volume_dir m n @ q) (session_dir m sid @ r)"
  by (simp_all add: prefix_def)

section \<open>The directory of a session\<close>

definition session_dirs :: "WorkspaceManager \<Rightarrow> string \<Rightarrow> path list" where
  "session_dirs m sid =
     map ((@) (session_dir m sid)) [[''workspace'', ''tmp''], [''input''], [''output'']]"

lemma create_session_view:
  assumes m: "base_ready m t" "name_ok sid" and free: "\<forall>d\<in>set (session_dirs m sid). free_dir t d"
  shows "\<exists>w t'. create_session_workspace m sid t = (Inr w, t') \<and> tree_ok t' \<and> jw_root w = session_path m sid
    \<and> comps (jw_workspace w) = session_dir m sid @ [''workspace''] \<and> jw_workspace w \<noteq> []
    \<and> jw_workspace w = path_join (session_path m sid) ''workspace''
    \<and> (\<forall>q. view t' q = (if \<exists>d\<in>set (session_dirs m sid). prefix q d then Some VDir else view t q))"
proof -
  have b: "base_dir m \<noteq> []" "tree_ok t" "dir_at t []" using m by (simp_all add: base_ready_def)
  have c: "comps (session_path m sid) = session_dir m sid" using session_path_comps(1) [OF b(1) m(2)] .
  have names: "list_all name_ok (session_dir m sid)"
    using free free_dir_prefix [of t "session_dir m sid" "[''input'']"]
    by (auto simp: session_dirs_def free_dir_def)
  obtain w t' where w: "create_workspace_at (session_path m sid) t = (Inr w, t')" "tree_ok t'"
    "jw_root w = session_path m sid" "comps (jw_workspace w) = session_dir m sid @ [''workspace'']"
    "\<forall>q. view t' q = (if prefix q (session_dir m sid @ [''workspace'', ''tmp''])
       \<or> prefix q (session_dir m sid @ [''input'']) \<or> prefix q (session_dir m sid @ [''output''])
       then Some VDir else view t q)"
    using create_workspace_at_view [OF b(2,3), of "session_path m sid"] free names
    unfolding c by (auto simp: session_dirs_def)
  have "jw_workspace w = path_join (session_path m sid) ''workspace''"
    using w(1) by (auto simp: create_workspace_at_def Let_def st_bind_def lift_io_def split: prod.splits sum.splits)
  then show ?thesis
    using w join_ne [of "''workspace''"] by (simp add: create_session_workspace_def session_dirs_def)
qed

section \<open>Mounting a volume\<close>

lemma remove_link_view:
  assumes t: "tree_ok t" "dir_at t []" and p: "list_all name_ok (kcomps p)" "kcomps p \<noteq> []"
    "dir_at t (butlast (kcomps p))" and l: "view t (kcomps p) = None \<or> (\<exists>l. view t (kcomps p) = Some (VLink l))"
  shows "tree_ok (snd (remove_file p t)) \<and> dir_at (snd (remove_file p t)) []
    \<and> view (snd (remove_file p t)) = (view t)(kcomps p := None)"
proof (cases "view t (kcomps p) = None")
  case True
  have "view t = (view t)(kcomps p := None)" using True by auto
  then show ?thesis
    using t True resolve_plain_nofollow [OF t(2) p(1)] p(3)
    by (simp add: remove_file_def view_None)
next
  case False
  then obtain d where d: "view t (kcomps p) = Some (VLink d)" using l by auto
  have same: "view (del t (kcomps p)) = (view t)(kcomps p := None)"
  proof
    fix q
    have "view t q = None" if "prefix (kcomps p) q" "q \<noteq> kcomps p"
    proof -
      have nd: "\<not> dir_at t (kcomps p)" using d view_VDir [of t "kcomps p"] by simp
      from that obtain r where r: "q = kcomps p @ r" "r \<noteq> []" by (auto simp: prefix_def)
      show ?thesis unfolding r(1) by (rule view_below_not_dir [OF nd r(2)])
    qed
    then show "view (del t (kcomps p)) q = ((view t)(kcomps p := None)) q"
      unfolding view_del [OF p(2)] by (cases "prefix (kcomps p) q"; cases "q = kcomps p") simp_all
  qed
  have "snd (remove_file p t) = del t (kcomps p)"
    using d resolve_plain_nofollow [OF t(2) p(1)] p(3) by (simp add: remove_file_def view_VLink)
  moreover have "dir_at (del t (kcomps p)) []"
    using t(2) p(2) by (subst view_VDir [symmetric], subst same) (simp add: view_VDir)
  ultimately show ?thesis using same tree_ok_del [OF t(1)] by simp
qed

lemma symlink_view:
  assumes t: "tree_ok t" "dir_at t []" and p: "list_all name_ok (kcomps p)" "kcomps p \<noteq> []"
    "dir_at t (butlast (kcomps p))" and l: "view t (kcomps p) = None"
  shows "\<exists>t'. fs_symlink target p t = (Inr (), t') \<and> tree_ok t'
    \<and> view t' = (view t)(kcomps p := Some (VLink target))"
proof -
  have "\<not> dir_at t (kcomps p)" using l view_VDir [of t "kcomps p"] by simp
  then show ?thesis
    using l resolve_plain_nofollow [OF t(2) p(1)] p view_put_leaf [OF p(2,3), of "FLink target"]
      tree_ok_put [OF t(1) _ p(1), of "FLink target"]
    by (simp add: fs_symlink_def view_None)
qed


text \<open>What one mount does to the view, where no link is in the way.\<close>

definition mounted_view ::
    "WorkspaceManager \<Rightarrow> path \<Rightarrow> VolumeMount \<Rightarrow> (path \<Rightarrow> entry option) \<Rightarrow> path \<Rightarrow> entry option" where
  "mounted_view m ws vm vw q =
     (if q = ws @ [vm_mount vm] then Some (VLink (volume_path m (vm_name vm)))
      else if prefix q (volume_dir m (vm_name vm)) then Some VDir else vw q)"

definition mount_ok :: "WorkspaceManager \<Rightarrow> path \<Rightarrow> (path \<Rightarrow> entry option) \<Rightarrow> VolumeMount \<Rightarrow> bool" where
  "mount_ok m ws vw vm =
     (name_ok (vm_name vm) \<and> name_ok (vm_mount vm)
      \<and> (\<forall>q. prefix q (volume_dir m (vm_name vm)) \<longrightarrow> vw q = None \<or> vw q = Some VDir)
      \<and> (vw (ws @ [vm_mount vm]) = None \<or> (\<exists>l. vw (ws @ [vm_mount vm]) = Some (VLink l))))"

lemma base_ready_names: "base_ready m t \<Longrightarrow> list_all name_ok (comps (base_dir m))"
  using base_free [of m t] by (simp add: free_dir_def)

lemma base_ready_cong:
  "base_ready m t \<Longrightarrow> tree_ok t' \<Longrightarrow> view t' (comps (base_dir m)) = Some VDir \<Longrightarrow> base_ready m t'"
  using view_dir_prefix [of t' "comps (base_dir m)" "[]"] by (simp add: base_ready_def view_VDir)

lemma mount_volume_view:
  assumes m: "base_ready m t" and w: "jw_workspace jw \<noteq> []" "comps (jw_workspace jw) = ws"
    "ws = session_dir m sid @ [''workspace'']" "view t ws = Some VDir"
    and ok: "mount_ok m ws (view t) vm"
  shows "\<exists>t'. mount_volume m jw vm t = (Inr (volume_path m (vm_name vm)), t') \<and> base_ready m t'
    \<and> view t' = mounted_view m ws vm (view t)"
proof -
  let ?p = "volume_path m (vm_name vm)" and ?l = "path_join (jw_workspace jw) (vm_mount vm)"
  note r = m [unfolded base_ready_def] and k = ok [unfolded mount_ok_def]
  have vc: "comps ?p = volume_dir m (vm_name vm)" using volume_path_comps(1) r k by blast
  have lc: "comps ?l = ws @ [vm_mount vm]" "kcomps ?l = ws @ [vm_mount vm]"
    using name_child [of "vm_mount vm" "jw_workspace jw"] k w by simp_all
  have wn: "list_all name_ok ws"
    using dir_free [of t ws] r w(4) by (simp add: free_dir_def)
  have fd: "free_dir t (comps ?p)"
    using k base_ready_names [OF m] unfolding vc by (simp add: free_dir_view)
  have apart: "\<not> prefix ws (volume_dir m (vm_name vm))" "\<not> prefix (ws @ [vm_mount vm]) (volume_dir m (vm_name vm))"
    unfolding w(3) by (simp_all add: prefix_def)
  obtain t1 where t1: "create_dir_all ?p t = (Inr (), t1)" "dir_created t (comps ?p) t1"
    "\<forall>q. view t1 q = (if prefix q (volume_dir m (vm_name vm)) then Some VDir else view t q)"
    using create_dir_all_view [OF _ fd] r unfolding vc by blast
  have ok1: "tree_ok t1" using t1(2) r by (simp add: dir_created_def)
  have ws1: "view t1 ws = Some VDir" using t1(3) apart(1) w(4) by simp
  have d1: "dir_at t1 []" using view_dir_prefix [OF ws1, of "[]"] by (simp add: view_VDir)
  have par: "create_dir_comps ws t1 = (Inr (), t1)"
    using create_dir_comps_free [OF d1 dir_free [OF ok1 ws1]] ws1
    by (auto simp: dir_created_def view_VDir dir_at_iff)
  have l1: "view t1 (ws @ [vm_mount vm]) = None \<or> (\<exists>l. view t1 (ws @ [vm_mount vm]) = Some (VLink l))"
    using k t1(3) apart(2) by simp
  have nm: "list_all name_ok (kcomps ?l)" "kcomps ?l \<noteq> []" "dir_at t1 (butlast (kcomps ?l))"
    using wn k ws1 by (simp_all add: lc view_VDir)
  define t2 where "t2 = snd (remove_file ?l t1)"
  have t2: "tree_ok t2" "dir_at t2 []" "view t2 = (view t1)(ws @ [vm_mount vm] := None)"
    using remove_link_view [OF ok1 d1 nm] l1 unfolding t2_def lc by simp_all
  have "dir_at t2 (butlast (kcomps ?l))"
    unfolding view_VDir [symmetric] t2(3) using ws1 by (simp add: lc)
  then obtain t3 where t3: "fs_symlink ?p ?l t2 = (Inr (), t3)" "tree_ok t3"
    "view t3 = (view t2)(ws @ [vm_mount vm] := Some (VLink ?p))"
    using symlink_view [OF t2(1,2) nm(1,2), of ?p] t2(3) unfolding lc by auto
  have vw: "view t3 = mounted_view m ws vm (view t)"
    unfolding t3(3) t2(3) mounted_view_def using t1(3) by auto
  have "comps (base_dir m) \<noteq> ws @ [vm_mount vm]" unfolding w(3) by simp
  then have "view t3 (comps (base_dir m)) = Some VDir" using vw r by (simp add: mounted_view_def)
  moreover have "mount_volume m jw vm t = (Inr ?p, t3)"
    using t1(1) par t3(1)
    by (simp add: mount_volume_def Let_def st_bind_def lift_io_def lc t2_def)
  ultimately show ?thesis using vw base_ready_cong [OF m t3(2)] by blast
qed

lemma mount_volumes_view:
  assumes w: "jw_workspace jw \<noteq> []" "comps (jw_workspace jw) = ws"
    "ws = session_dir m sid @ [''workspace'']"
  shows "base_ready m t \<Longrightarrow> view t ws = Some VDir \<Longrightarrow> \<forall>vm\<in>set vms. mount_ok m ws (view t) vm \<Longrightarrow>
    \<exists>t'. mount_volumes m jw vms profile t =
        (Inr (profile\<lparr>sp_extra_writable_paths := sp_extra_writable_paths profile @ map (volume_path m \<circ> vm_name) vms\<rparr>), t')
      \<and> base_ready m t' \<and> view t' = fold (mounted_view m ws) vms (view t)"
proof (induction vms arbitrary: t profile)
  case (Cons vm vms)
  obtain t1 where t1: "mount_volume m jw vm t = (Inr (volume_path m (vm_name vm)), t1)" "base_ready m t1"
    "view t1 = mounted_view m ws vm (view t)"
    using mount_volume_view [OF Cons.prems(1) w Cons.prems(2)] Cons.prems(3) by auto
  have "\<not> prefix ws (volume_dir m n)" "\<not> prefix (ws @ [c]) (volume_dir m n)" for n c
    unfolding w(3) by (simp_all add: prefix_def)
  then have ok: "mount_ok m ws (view t1) v" if "mount_ok m ws (view t) v" for v
    using that unfolding t1(3) mount_ok_def mounted_view_def by auto
  have ws1: "view t1 ws = Some VDir" using Cons.prems(2) by (simp add: t1(3) mounted_view_def)
  have all: "\<forall>v\<in>set vms. mount_ok m ws (view t1) v" using ok Cons.prems(3) by simp
  show ?case
    using Cons.IH [OF t1(2) ws1 all, of "profile\<lparr>sp_extra_writable_paths := sp_extra_writable_paths profile @ [volume_path m (vm_name vm)]\<rparr>"]
    by (simp add: st_bind_def t1(1,3))
qed simp

text \<open>Mounting what is mounted already changes nothing.\<close>

definition mounted :: "WorkspaceManager \<Rightarrow> path \<Rightarrow> VolumeMount list \<Rightarrow> (path \<Rightarrow> entry option) \<Rightarrow> bool" where
  "mounted m ws vms vw =
     (\<forall>vm\<in>set vms. name_ok (vm_name vm) \<and> name_ok (vm_mount vm) \<and> vw (volume_dir m (vm_name vm)) = Some VDir
        \<and> vw (ws @ [vm_mount vm]) = Some (VLink (volume_path m (vm_name vm))))"

lemma mounted_fold:
  "mounted m ws vms (view t) \<Longrightarrow> fold (mounted_view m ws) vms (view t) = view t"
proof (induction vms)
  case (Cons vm vms)
  have "view t q = Some VDir" if "prefix q (volume_dir m (vm_name vm))" for q
    using Cons.prems view_dir_prefix [of t "volume_dir m (vm_name vm)" q] that by (simp add: mounted_def)
  then have "mounted_view m ws vm (view t) = view t"
    using Cons.prems by (auto simp: mounted_view_def mounted_def)
  then show ?case using Cons by (simp add: mounted_def)
qed simp

lemma mounted_ok:
  "mounted m ws vms (view t) \<Longrightarrow> vm \<in> set vms \<Longrightarrow> mount_ok m ws (view t) vm"
  unfolding mounted_def mount_ok_def using view_dir_prefix [of t "volume_dir m (vm_name vm)"] by auto

end
