(* ===== verification/SessionProofs.thy ===== *)
theory SessionProofs
  imports SessionDisk
begin

text \<open>
  What the table of sessions and the disk say of each other: a session on disk, the loop that
  rebuilds the table from such sessions, creation, update and removal.
\<close>

section \<open>Reading depends on the view alone\<close>

lemma resolve_view: "view t = view t' \<Longrightarrow> resolve t follow n cur p = resolve t' follow n cur p"
proof (induction t follow n cur p rule: resolve.induct)
  case (2 t follow n cur c cs)
  have d: "dir_at t q = dir_at t' q" for q by (simp add: view_VDir [symmetric] "2.prems")
  have v: "view t (cur @ [c]) = view t' (cur @ [c])" using "2.prems" by simp
  consider (none) "lookup t (cur @ [c]) = None" "lookup t' (cur @ [c]) = None"
    | (link) l where "lookup t (cur @ [c]) = Some (FLink l)" "lookup t' (cur @ [c]) = Some (FLink l)"
    | (other) k k' where "lookup t (cur @ [c]) = Some k" "lookup t' (cur @ [c]) = Some k'"
        "\<not> is_link_node k" "\<not> is_link_node k'"
    using v unfolding view_def
    by (cases "lookup t (cur @ [c])"; cases "lookup t' (cur @ [c])"; auto)
       (metis entry_of_eq(3) is_link_node_def node.exhaust node.simps(11) node.simps(10) node.simps(12))
  then show ?case
  proof cases
    case none
    then show ?thesis using 2 d by simp
  next
    case link
    have "resolve t follow k (if starts_with ''/'' l then [] else cur) (kcomps l @ cs) =
        resolve t' follow k (if starts_with ''/'' l then [] else cur) (kcomps l @ cs)"
      if "dir_at t cur" "c \<noteq> ''.''" "c \<noteq> ''..''" "\<not> (cs = [] \<and> \<not> follow)" "n = Suc k" for k
      using "2.IH" that link(1) "2.prems" by blast
    then show ?thesis using link d "2.IH"(1,2) "2.prems" by (cases n) simp_all
  next
    case other
    then show ?thesis using 2 d by (cases k; cases k') (auto simp: is_link_node_def)
  qed
qed simp

lemma fs_read_by_view:
  "fs_read p t = res_bind (resolve_path t True (kcomps p)) (\<lambda>q.
     case view t q of None \<Rightarrow> Inl ENOENT | Some (VFile d) \<Rightarrow> Inr d | Some _ \<Rightarrow> Inl EISDIR)"
  by (cases "resolve_path t True (kcomps p)")
     (auto simp: fs_read_def stat_def view_def entry_of_def split: option.splits node.splits)

lemma fs_read_view: "view t = view t' \<Longrightarrow> fs_read p t = fs_read p t'"
  by (simp add: fs_read_by_view resolve_path_def resolve_view [of t t'])

lemma read_meta_view: "view t = view t' \<Longrightarrow> read_meta v p t = read_meta v p t'"
  by (simp add: read_meta_def fs_read_view [of t t'])

section \<open>A session on disk\<close>

definition workspace_record :: "string \<Rightarrow> JobWorkspace" where
  "workspace_record base =
     \<lparr>jw_root = base, jw_workspace = path_join base ''workspace'',
      jw_tmp = path_join (path_join base ''workspace'') ''tmp'',
      jw_input = path_join base ''input'', jw_output = path_join base ''output''\<rparr>"

lemma create_workspace_record: "create_workspace_at base t = (Inr w, t') \<Longrightarrow> w = workspace_record base"
  by (auto simp: create_workspace_at_def workspace_record_def Let_def st_bind_def lift_io_def
      split: prod.splits sum.splits)

text \<open>The profile that a session with this metadata is bound to.\<close>

definition bound_profile :: "session_env \<Rightarrow> SessionMeta \<Rightarrow> SandboxProfile \<Rightarrow> SandboxProfile" where
  "bound_profile v meta base =
     (let p = merge_env (sm_env meta) base
      in p\<lparr>sp_extra_writable_paths := sp_extra_writable_paths p
             @ map (volume_path (sv_mgr v) \<circ> vm_name) (sm_volumes meta)\<rparr>)"

abbreviation meta_file :: "WorkspaceManager \<Rightarrow> string \<Rightarrow> path" where
  "meta_file m sid \<equiv> session_dir m sid @ [''.session-meta.json'']"

text \<open>
  The directory of a session holds its metadata, its four directories and the links to its
  volumes; \<open>unreadable\<close> is a directory that a restart passes over.
\<close>

definition settled :: "session_env \<Rightarrow> node \<Rightarrow> string \<Rightarrow> SessionMeta \<Rightarrow> bool" where
  "settled v t sid meta =
     (name_ok sid
      \<and> (\<exists>d. view t (meta_file (sv_mgr v) sid) = Some (VFile d) \<and> utf8_valid d \<and> sv_meta_of_json v d = Some meta)
      \<and> (\<forall>d\<in>set (session_dirs (sv_mgr v) sid). view t d = Some VDir)
      \<and> mounted (sv_mgr v) (session_dir (sv_mgr v) sid @ [''workspace'']) (sm_volumes meta) (view t))"

definition unreadable :: "session_env \<Rightarrow> node \<Rightarrow> string \<Rightarrow> bool" where
  "unreadable v t sid =
     (\<forall>meta. read_meta v (meta_path (session_path (sv_mgr v) sid)) t = Inr meta \<longrightarrow>
        registry_get (sv_registry v) (sm_profile_name meta) = None)"

lemma settled_view: "view t = view t' \<Longrightarrow> settled v t sid meta = settled v t' sid meta"
  by (simp add: settled_def)

lemma unreadable_view: "view t = view t' \<Longrightarrow> unreadable v t sid = unreadable v t' sid"
  by (simp add: unreadable_def read_meta_view [of t t'])

lemma settled_dirs:
  assumes "settled v t sid meta" "prefix q d" "d \<in> set (session_dirs (sv_mgr v) sid)"
  shows "view t q = Some VDir"
  using assms view_dir_prefix by (auto simp: settled_def)

lemma read_meta_settled:
  assumes m: "base_ready (sv_mgr v) t" and s: "settled v t sid meta"
  shows "read_meta v (meta_path (session_path (sv_mgr v) sid)) t = Inr meta"
proof -
  let ?f = "meta_file (sv_mgr v) sid"
  obtain d where d: "view t ?f = Some (VFile d)" "utf8_valid d" "sv_meta_of_json v d = Some meta"
    using s by (auto simp: settled_def)
  have k: "kcomps (meta_path (session_path (sv_mgr v) sid)) = ?f"
    using meta_path_comps [of "sv_mgr v" sid] m s by (simp add: base_ready_def settled_def)
  have dir: "view t (session_dir (sv_mgr v) sid) = Some VDir"
    by (rule settled_dirs [OF s, of _ "session_dir (sv_mgr v) sid @ [''input'']"]) (auto simp: session_dirs_def)
  have ok: "tree_ok t" "dir_at t []" using m by (simp_all add: base_ready_def)
  have "list_all name_ok ?f" using tree_ok_names [OF ok(1), of ?f] d(1) view_None [of t ?f] by auto
  moreover have "butlast ?f = session_dir (sv_mgr v) sid" by (simp only: butlast_snoc)
  ultimately have "plain t ?f" using d(1) dir by (simp add: plain_view)
  then show ?thesis
    using fs_read_file [OF ok(2), of "meta_path (session_path (sv_mgr v) sid)" d] d
    by (simp add: read_meta_def k view_VFile)
qed


section \<open>Rebuilding the table\<close>

text \<open>The entry that a restart makes of a session on disk.\<close>

definition restored_entry ::
    "session_env \<Rightarrow> clocks \<Rightarrow> string \<Rightarrow> SessionMeta \<Rightarrow> SandboxProfile \<Rightarrow> nat \<Rightarrow> SessionEntry" where
  "restored_entry v ck sid meta base lock =
     rebuild_entry v ck sid meta (workspace_record (session_path (sv_mgr v) sid))
       (bound_profile v meta base) lock"

lemma restored_entry_id [simp]: "ent_id (restored_entry v ck sid meta base lock) = sid"
  by (simp add: restored_entry_def rebuild_entry_def)

lemma workspace_settled:
  assumes m: "base_ready (sv_mgr v) (ss_disk s)" and set: "settled v (ss_disk s) sid meta"
  shows "\<exists>t. on_disk (create_session_workspace (sv_mgr v) sid) s =
      (Inr (workspace_record (session_path (sv_mgr v) sid)), set_disk t s)
    \<and> base_ready (sv_mgr v) t \<and> view t = view (ss_disk s)"
proof -
  note dirs = settled_dirs [OF set]
  have ok: "tree_ok (ss_disk s)" using m by (simp add: base_ready_def)
  have free: "\<forall>d\<in>set (session_dirs (sv_mgr v) sid). free_dir (ss_disk s) d"
    using dir_free [OF ok] set by (simp add: settled_def)
  have n: "name_ok sid" using set by (simp add: settled_def)
  obtain w t where t: "create_session_workspace (sv_mgr v) sid (ss_disk s) = (Inr w, t)" "tree_ok t"
    "\<forall>q. view t q = (if \<exists>d\<in>set (session_dirs (sv_mgr v) sid). prefix q d then Some VDir else view (ss_disk s) q)"
    using create_session_view [OF m n free] by blast
  have vw: "view t = view (ss_disk s)" using t(3) dirs by (intro ext) auto
  have "w = workspace_record (session_path (sv_mgr v) sid)"
    using t(1) create_workspace_record by (auto simp: create_session_workspace_def)
  moreover have "base_ready (sv_mgr v) t"
    using base_ready_cong [OF m t(2)] vw m by (simp add: base_ready_def)
  ultimately show ?thesis using t(1) vw by (auto simp: on_disk_def)
qed

lemma workspace_record_facts:
  assumes "base_dir m \<noteq> []" "name_ok sid"
  shows "jw_workspace (workspace_record (session_path m sid)) \<noteq> []"
    "comps (jw_workspace (workspace_record (session_path m sid))) = session_dir m sid @ [''workspace'']"
proof -
  have "session_path m sid \<noteq> []" using assms(2) by (intro session_path_ne) (auto simp: name_ok_def)
  then show "jw_workspace (workspace_record (session_path m sid)) \<noteq> []"
    "comps (jw_workspace (workspace_record (session_path m sid))) = session_dir m sid @ [''workspace'']"
    using name_child [of "''workspace''" "session_path m sid"] session_path_comps [OF assms]
    by (simp_all add: workspace_record_def join_ne)
qed

lemma rebuild_one_settled:
  assumes m: "base_ready (sv_mgr v) (ss_disk s)" and set: "settled v (ss_disk s) sid meta"
    and reg: "registry_get (sv_registry v) (sm_profile_name meta) = Some base"
  shows "\<exists>s'. rebuild_one v ck sid s = (Inr True, s') \<and> view (ss_disk s') = view (ss_disk s)
    \<and> base_ready (sv_mgr v) (ss_disk s') \<and> ss_next_lock s' = ss_next_lock s + 1
    \<and> ss_table s' = table_insert (restored_entry v ck sid meta base (ss_next_lock s)) (ss_table s)"
proof -
  let ?jw = "workspace_record (session_path (sv_mgr v) sid)"
  let ?ws = "session_dir (sv_mgr v) sid @ [''workspace'']"
  let ?p = "merge_env (sm_env meta) base"
  obtain t1 where t1: "on_disk (create_session_workspace (sv_mgr v) sid) s = (Inr ?jw, set_disk t1 s)"
    "base_ready (sv_mgr v) t1" "view t1 = view (ss_disk s)"
    using workspace_settled [OF m set] by blast
  have n: "name_ok sid" "base_dir (sv_mgr v) \<noteq> []" using set m by (simp_all add: settled_def base_ready_def)
  have mt: "mounted (sv_mgr v) ?ws (sm_volumes meta) (view t1)" using set t1(3) by (simp add: settled_def)
  have ws: "view t1 ?ws = Some VDir"
    using settled_dirs [OF set, of ?ws "session_dir (sv_mgr v) sid @ [''workspace'', ''tmp'']"] t1(3)
    by (simp add: session_dirs_def)
  have "\<forall>vm\<in>set (sm_volumes meta). mount_ok (sv_mgr v) ?ws (view t1) vm" using mounted_ok [OF mt] by blast
  then obtain t2 where t2: "mount_volumes (sv_mgr v) ?jw (sm_volumes meta) ?p t1 = (Inr (bound_profile v meta base), t2)"
    "base_ready (sv_mgr v) t2" "view t2 = view t1"
    using mount_volumes_view [OF workspace_record_facts [OF n(2,1)] refl t1(2) ws, of "sm_volumes meta" ?p]
      mounted_fold [OF mt] by (auto simp: bound_profile_def Let_def)
  have "on_disk (mount_volumes (sv_mgr v) ?jw (sm_volumes meta) ?p) (set_disk t1 s)
      = (Inr (bound_profile v meta base), set_disk t2 s)"
    using t2(1) by (simp add: on_disk_def)
  then show ?thesis
    using read_meta_settled [OF m set] reg t1 t2(2,3)
    by (simp add: rebuild_one_def restored_entry_def)
qed

lemma rebuild_one_unreadable:
  "unreadable v (ss_disk s) sid \<Longrightarrow> rebuild_one v ck sid s = (Inr False, s)"
  by (auto simp: unreadable_def rebuild_one_def split: sum.split)

text \<open>Every directory of a session is either passed over or restored, and the disk keeps its view.\<close>

definition restores :: "session_env \<Rightarrow> node \<Rightarrow> string \<Rightarrow> SessionMeta \<Rightarrow> SandboxProfile \<Rightarrow> bool" where
  "restores v t sid meta base =
     (settled v t sid meta \<and> registry_get (sv_registry v) (sm_profile_name meta) = Some base)"

lemma restores_not_unreadable:
  "base_ready (sv_mgr v) t \<Longrightarrow> restores v t sid meta base \<Longrightarrow> \<not> unreadable v t sid"
  using read_meta_settled by (auto simp: restores_def unreadable_def)

lemma restores_unique:
  "base_ready (sv_mgr v) t \<Longrightarrow> restores v t sid meta base \<Longrightarrow> restores v t sid meta' base' \<Longrightarrow>
     meta' = meta \<and> base' = base"
  using read_meta_settled [of v t sid meta] read_meta_settled [of v t sid meta'] by (auto simp: restores_def)

lemma rebuild_each_spec:
  "base_ready (sv_mgr v) (ss_disk s) \<Longrightarrow> distinct ids \<Longrightarrow>
   \<forall>i\<in>set ids. unreadable v (ss_disk s) i \<or> (\<exists>meta base. restores v (ss_disk s) i meta base) \<Longrightarrow>
   \<exists>s'. rebuild_each v ck ids n s =
       (Inr (n + length (filter (\<lambda>i. \<not> unreadable v (ss_disk s) i) ids)), s')
     \<and> view (ss_disk s') = view (ss_disk s) \<and> base_ready (sv_mgr v) (ss_disk s')
     \<and> (\<forall>i. (i \<notin> set ids \<or> unreadable v (ss_disk s) i) \<longrightarrow> table_get (ss_table s') i = table_get (ss_table s) i)
     \<and> (\<forall>i\<in>set ids. \<forall>meta base. restores v (ss_disk s) i meta base \<longrightarrow>
          (\<exists>lock. table_get (ss_table s') i = Some (restored_entry v ck i meta base lock)))"
proof (induction ids arbitrary: n s)
  case (Cons i ids)
  show ?case
  proof (cases "unreadable v (ss_disk s) i")
    case True
    then have "\<not> restores v (ss_disk s) i meta base" for meta base
      using restores_not_unreadable [OF Cons.prems(1)] by blast
    then show ?thesis
      using Cons.IH [of s n] Cons.prems rebuild_one_unreadable [OF True] True by auto
  next
    case False
    then obtain meta base where r: "restores v (ss_disk s) i meta base" using Cons.prems(3) by auto
    obtain s1 where s1: "rebuild_one v ck i s = (Inr True, s1)" "view (ss_disk s1) = view (ss_disk s)"
      "base_ready (sv_mgr v) (ss_disk s1)"
      "ss_table s1 = table_insert (restored_entry v ck i meta base (ss_next_lock s)) (ss_table s)"
      using rebuild_one_settled [OF Cons.prems(1) r [unfolded restores_def, THEN conjunct1]
          r [unfolded restores_def, THEN conjunct2], of ck] by blast
    have same: "unreadable v (ss_disk s1) j = unreadable v (ss_disk s) j"
      "restores v (ss_disk s1) j x y = restores v (ss_disk s) j x y" for j x y
      using unreadable_view [OF s1(2)] settled_view [OF s1(2)] by (simp_all add: restores_def)
    obtain s2 where s2: "rebuild_each v ck ids (n + 1) s1 =
          (Inr (n + 1 + length (filter (\<lambda>i. \<not> unreadable v (ss_disk s) i) ids)), s2)"
      "view (ss_disk s2) = view (ss_disk s)" "base_ready (sv_mgr v) (ss_disk s2)"
      "\<forall>j. (j \<notin> set ids \<or> unreadable v (ss_disk s) j) \<longrightarrow> table_get (ss_table s2) j = table_get (ss_table s1) j"
      "\<forall>j\<in>set ids. \<forall>x y. restores v (ss_disk s) j x y \<longrightarrow>
          (\<exists>lock. table_get (ss_table s2) j = Some (restored_entry v ck j x y lock))"
      using Cons.IH [of s1 "n + 1"] s1(2,3) Cons.prems(2,3) unfolding same by auto
    have mine: "table_get (ss_table s2) i = Some (restored_entry v ck i meta base (ss_next_lock s))"
      using s2(4) Cons.prems(2) by (simp add: s1(4) table_get_insert)
    then have "\<exists>lock. table_get (ss_table s2) i = Some (restored_entry v ck i x y lock)"
      if "restores v (ss_disk s) i x y" for x y
      using restores_unique [OF Cons.prems(1) r that] by blast
    moreover have "table_get (ss_table s2) j = table_get (ss_table s) j"
      if "j \<notin> set (i # ids) \<or> unreadable v (ss_disk s) j" for j
      using s2(4) that False by (auto simp: s1(4) table_get_insert)
    ultimately show ?thesis using s1(1) s2 False by simp
  qed
qed simp


section \<open>Consistent disks\<close>

text \<open>
  What the manager keeps of the disk: the base area is in place and every directory of a session
  is complete, with metadata of a known profile.
\<close>

definition consistent :: "session_env \<Rightarrow> node \<Rightarrow> bool" where
  "consistent v t =
     (base_ready (sv_mgr v) t
      \<and> view t (comps (base_dir (sv_mgr v)) @ [''sessions'']) \<in> {None, Some VDir}
      \<and> (\<forall>i. view t (session_dir (sv_mgr v) i) = Some VDir \<longrightarrow> utf8_valid i \<longrightarrow>
           (\<exists>meta base. restores v t i meta base)))"

lemma restores_listed: "restores v t i meta base \<Longrightarrow> view t (session_dir (sv_mgr v) i) = Some VDir"
  by (rule settled_dirs [of v t i meta _ "session_dir (sv_mgr v) i @ [''input'']"])
     (auto simp: restores_def session_dirs_def)

text \<open>On a consistent disk the rebuilt table is what the directories say.\<close>

lemma rebuild_consistent:
  assumes c: "consistent v (ss_disk s)"
  shows "\<exists>s' n. rebuild_from_disk v ck s = (Inr n, s') \<and> view (ss_disk s') = view (ss_disk s)
    \<and> (\<forall>i meta base. restores v (ss_disk s) i meta base \<longrightarrow> utf8_valid i \<longrightarrow>
         (\<exists>lock. table_get (ss_table s') i = Some (restored_entry v ck i meta base lock)))
    \<and> (\<forall>i. (utf8_valid i \<longrightarrow> (\<forall>meta base. \<not> restores v (ss_disk s) i meta base)) \<longrightarrow>
         table_get (ss_table s') i = table_get (ss_table s) i)"
proof -
  let ?m = "sv_mgr v" and ?t = "ss_disk s"
  let ?a = "path_join (base_dir ?m) ''sessions''"
  have m: "base_ready ?m ?t" and area: "view ?t (comps (base_dir ?m) @ [''sessions'']) \<in> {None, Some VDir}"
    and all: "\<And>i. view ?t (session_dir ?m i) = Some VDir \<Longrightarrow> utf8_valid i \<Longrightarrow> \<exists>meta base. restores v ?t i meta base"
    using c by (auto simp: consistent_def)
  have ok: "tree_ok ?t" "dir_at ?t []" using m by (simp_all add: base_ready_def)
  have k: "comps ?a = comps (base_dir ?m) @ [''sessions'']" "kcomps ?a = comps (base_dir ?m) @ [''sessions'']"
    using job_dir_facts [OF m] by simp_all
  have "free_dir ?t (comps ?a)" unfolding k by (rule base_child_free [OF m]) (use area in simp_all)
  then obtain ids where ids: "list_sessions ?m ?t = (Inr ids, ?t)" "distinct ids"
    "set ids = {i. view ?t (session_dir ?m i) = Some VDir \<and> utf8_valid i}"
    using list_subdirs_set [OF ok, of ?a] by (auto simp: list_sessions_def k)
  have "\<forall>i\<in>set ids. unreadable v ?t i \<or> (\<exists>meta base. restores v ?t i meta base)"
    using all by (simp add: ids(3))
  then obtain s' where s': "rebuild_each v ck ids 0 s = (Inr (0 + length (filter (\<lambda>i. \<not> unreadable v ?t i) ids)), s')"
    "view (ss_disk s') = view ?t"
    "\<forall>i. (i \<notin> set ids \<or> unreadable v ?t i) \<longrightarrow> table_get (ss_table s') i = table_get (ss_table s) i"
    "\<forall>i\<in>set ids. \<forall>meta base. restores v ?t i meta base \<longrightarrow>
       (\<exists>lock. table_get (ss_table s') i = Some (restored_entry v ck i meta base lock))"
    using rebuild_each_spec [OF m ids(2), where n = 0 and ck = ck] by blast
  have "set_disk ?t s = s" by (simp add: set_disk_def ss_disk_def)
  then have "rebuild_from_disk v ck s = (Inr (0 + length (filter (\<lambda>i. \<not> unreadable v ?t i) ids)), s')"
    using ids(1) s'(1) by (simp add: rebuild_from_disk_def on_disk_def)
  moreover have "i \<in> set ids" if "restores v ?t i meta base" "utf8_valid i" for i meta base
    using restores_listed [OF that(1)] that(2) by (simp add: ids(3))
  moreover have "i \<notin> set ids" if "utf8_valid i \<longrightarrow> (\<forall>meta base. \<not> restores v ?t i meta base)" for i
    using that all by (auto simp: ids(3))
  ultimately show ?thesis using s'(2,3,4) by blast
qed

section \<open>Creating a session\<close>

text \<open>The links of several mounts: each name shows its volume, and nothing else changes.\<close>

lemma fold_mounted:
  assumes ws: "ws = session_dir m sid @ [''workspace'']"
  shows "distinct (map vm_mount vms) \<Longrightarrow> vm \<in> set vms \<Longrightarrow>
      fold (mounted_view m ws) vms vw (ws @ [vm_mount vm]) = Some (VLink (volume_path m (vm_name vm)))
      \<and> fold (mounted_view m ws) vms vw (volume_dir m (vm_name vm)) = Some VDir"
    and "(\<forall>vm\<in>set vms. q \<noteq> ws @ [vm_mount vm]) \<Longrightarrow>
      fold (mounted_view m ws) vms vw q =
        (if \<exists>vm\<in>set vms. prefix q (volume_dir m (vm_name vm)) then Some VDir else vw q)"
proof -
  have apart: "\<not> prefix (ws @ [c]) (volume_dir m n)" "ws @ [c] \<noteq> volume_dir m n" for c n
    unfolding ws by (simp_all add: prefix_def)
  show other: "fold (mounted_view m ws) vms vw q =
      (if \<exists>vm\<in>set vms. prefix q (volume_dir m (vm_name vm)) then Some VDir else vw q)"
    if "\<forall>vm\<in>set vms. q \<noteq> ws @ [vm_mount vm]" for vms vw q
    using that by (induction vms arbitrary: vw) (auto simp: mounted_view_def)
  show "fold (mounted_view m ws) vms vw (ws @ [vm_mount vm]) = Some (VLink (volume_path m (vm_name vm)))
      \<and> fold (mounted_view m ws) vms vw (volume_dir m (vm_name vm)) = Some VDir"
    if "distinct (map vm_mount vms)" "vm \<in> set vms" for vms vw vm
    using that
  proof (induction vms arbitrary: vw)
    case (Cons a vms)
    show ?case
    proof (cases "vm \<in> set vms")
      case False
      then have a: "vm = a" using Cons.prems by simp
      have "fold (mounted_view m ws) vms (mounted_view m ws a vw) (ws @ [vm_mount a]) =
          Some (VLink (volume_path m (vm_name a)))"
        using other [of vms "ws @ [vm_mount a]"] Cons.prems apart by (auto simp: image_iff mounted_view_def)
      moreover have "fold (mounted_view m ws) (a # vms) vw (volume_dir m (vm_name a)) = Some VDir"
      proof -
        have "\<forall>v\<in>set (a # vms). volume_dir m (vm_name a) \<noteq> ws @ [vm_mount v]"
          using apart(2) [THEN not_sym] by blast
        then show ?thesis by (subst other) auto
      qed
      ultimately show ?thesis by (simp add: a)
    qed (use Cons in auto)
  qed simp
qed


text \<open>\<open>serde_json\<close> writes valid UTF-8 and reads back what it wrote.\<close>

definition json_roundtrip :: "session_env \<Rightarrow> bool" where
  "json_roundtrip v =
     (\<forall>meta. \<exists>j. sv_meta_json v meta = Some j \<and> utf8_valid j \<and> sv_meta_of_json v j = Some meta)"

definition new_meta ::
    "clocks \<Rightarrow> string \<Rightarrow> (string \<times> string) list \<Rightarrow> VolumeMount list \<Rightarrow> string option
      \<Rightarrow> (string \<times> string) list \<Rightarrow> u64 option \<Rightarrow> SessionMeta" where
  "new_meta ck profile_name env volumes alias metadata timeout_secs =
     \<lparr>sm_profile_name = profile_name, sm_env = env, sm_volumes = volumes, sm_alias = alias,
      sm_timeout_secs = timeout_secs, sm_metadata = metadata,
      sm_started_at_secs = Some (of_nat (as_secs (ck_system ck)))\<rparr>"

definition new_entry ::
    "session_env \<Rightarrow> clocks \<Rightarrow> string \<Rightarrow> SessionMeta \<Rightarrow> SandboxProfile \<Rightarrow> nat \<Rightarrow> SessionEntry" where
  "new_entry v ck sid meta base lock =
     (restored_entry v ck sid meta base lock)\<lparr>ent_started_at := ck_system ck\<rparr>"

lemma below_absent: "view t p = None \<Longrightarrow> view t (p @ q) = None"
  by (simp add: view_None lookup_None_append)

lemma new_session_free:
  assumes m: "base_ready m t" "name_ok sid" and area: "view t (comps (base_dir m) @ [''sessions'']) \<in> {None, Some VDir}"
    and new: "view t (session_dir m sid) = None"
  shows "\<forall>d\<in>set (session_dirs m sid). free_dir t d"
proof
  fix d assume "d \<in> set (session_dirs m sid)"
  then obtain x where d: "d = session_dir m sid @ x" "list_all name_ok x" by (auto simp: session_dirs_def)
  have area': "free_dir t (comps (base_dir m) @ [''sessions''])" by (rule base_child_free) (use m area in auto)
  have "view t q = None \<or> view t q = Some VDir" if q: "prefix q d" for q
  proof (cases "prefix q (comps (base_dir m) @ [''sessions''])")
    case True
    then show ?thesis using area' unfolding free_dir_view by blast
  next
    case False
    then have "\<exists>y. q = session_dir m sid @ y"
      using q unfolding d by (auto simp: prefix_append prefix_Cons)
    then show ?thesis using below_absent [OF new] by auto
  qed
  then show "free_dir t d" using area' d m(2) by (simp add: free_dir_view)
qed

lemma create_session_disk:
  assumes m: "base_ready (sv_mgr v) (ss_disk s)" "name_ok sid"
    and area: "view (ss_disk s) (comps (base_dir (sv_mgr v)) @ [''sessions'']) \<in> {None, Some VDir}"
    and new: "view (ss_disk s) (session_dir (sv_mgr v) sid) = None"
    and reg: "registry_get (sv_registry v) pn = Some base"
    and vols: "\<forall>vm\<in>set volumes. mount_ok (sv_mgr v) (session_dir (sv_mgr v) sid @ [''workspace'']) (view (ss_disk s)) vm
      \<and> vm_mount vm \<noteq> ''tmp''"
    and json: "sv_meta_json v (new_meta ck pn env volumes alias metadata timeout_secs) = Some j"
  shows "\<exists>s'. create_session_with_opts v fuel ck sid pn env None volumes alias metadata timeout_secs s = Some (Inr sid, s')
    \<and> base_ready (sv_mgr v) (ss_disk s')
    \<and> view (ss_disk s') = fold (mounted_view (sv_mgr v) (session_dir (sv_mgr v) sid @ [''workspace''])) volumes
        ((\<lambda>q. if \<exists>d\<in>set (session_dirs (sv_mgr v) sid). prefix q d then Some VDir else view (ss_disk s) q)
           (meta_file (sv_mgr v) sid := Some (VFile j)))
    \<and> ss_table s' = table_insert
        (new_entry v ck sid (new_meta ck pn env volumes alias metadata timeout_secs) base (ss_next_lock s)) (ss_table s)"
proof -
  let ?m = "sv_mgr v" and ?t = "ss_disk s" and ?jw = "workspace_record (session_path (sv_mgr v) sid)"
  let ?ws = "session_dir ?m sid @ [''workspace'']" and ?f = "meta_file ?m sid"
  let ?dirs = "\<lambda>q. \<exists>d\<in>set (session_dirs ?m sid). prefix q d"
  let ?meta = "new_meta ck pn env volumes alias metadata timeout_secs"
  have b: "base_dir ?m \<noteq> []" using m(1) by (simp add: base_ready_def)
  obtain w t1 where t1: "create_session_workspace ?m sid ?t = (Inr w, t1)" "tree_ok t1"
    "\<And>q. view t1 q = (if ?dirs q then Some VDir else view ?t q)"
    using create_session_view [OF m new_session_free [OF m area new]] by blast
  have w: "w = ?jw" using t1(1) create_workspace_record by (auto simp: create_session_workspace_def)
  have base1: "view t1 (comps (base_dir ?m)) = Some VDir"
    using t1(3) m(1) by (auto simp: session_dirs_def base_ready_def)
  have d1: "base_ready ?m t1" using base_ready_cong [OF m(1) t1(2) base1] .
  have nf: "\<not> ?dirs ?f" by (auto simp: session_dirs_def)
  have f1: "view t1 ?f = None" using t1(3) nf below_absent [OF new, of "[''.session-meta.json'']"] by simp
  have sd1: "view t1 (session_dir ?m sid) = Some VDir" using t1(3) by (auto simp: session_dirs_def)
  have names: "list_all name_ok (session_dir ?m sid)"
    using dir_free [OF t1(2) sd1] by (simp add: free_dir_def)
  have k: "kcomps (meta_path (session_path ?m sid)) = ?f" using meta_path_comps [OF b m(2)] .
  have bl: "butlast ?f = session_dir ?m sid" by (simp only: butlast_snoc)
  obtain t2 where t2: "fs_write (meta_path (session_path ?m sid)) j t1 = (Inr (), t2)"
    "view t2 = (view t1)(?f := Some (VFile j))" "t2 = put t1 ?f (FFile j)"
    using fs_write_view [of t1 "meta_path (session_path ?m sid)" j] d1 f1 sd1 names bl
    unfolding k by (auto simp: base_ready_def view_VDir [symmetric])
  have ok2: "tree_ok t2" unfolding t2(3) using tree_ok_put [OF t1(2), of "FFile j" ?f] names by simp
  have b2: "base_ready ?m t2"
    by (rule base_ready_cong [OF d1 ok2]) (use base1 in \<open>simp add: t2(2)\<close>)
  have ws2: "view t2 ?ws = Some VDir" using t1(3) by (auto simp: t2(2) session_dirs_def)
  have "mount_ok ?m ?ws (view t2) vm" if vm: "vm \<in> set volumes" for vm
  proof -
    have ok: "mount_ok ?m ?ws (view ?t) vm" "vm_mount vm \<noteq> ''tmp''" using vols vm by auto
    have "\<not> ?dirs (?ws @ [vm_mount vm])" using ok(2) by (auto simp: session_dirs_def)
    moreover have "\<not> prefix ?f (volume_dir ?m (vm_name vm))" by (simp add: prefix_def)
    moreover have "?ws @ [vm_mount vm] \<noteq> ?f" by simp
    ultimately show ?thesis
      using ok(1) unfolding mount_ok_def t2(2) by (auto simp: t1(3))
  qed
  then obtain t3 where t3: "mount_volumes ?m ?jw volumes (merge_env env base) t2 = (Inr (bound_profile v ?meta base), t3)"
    "base_ready ?m t3" "view t3 = fold (mounted_view ?m ?ws) volumes (view t2)"
    using mount_volumes_view [OF workspace_record_facts [OF b m(2)] refl b2 ws2, of volumes "merge_env env base"]
    by (auto simp: bound_profile_def new_meta_def Let_def)
  have root: "jw_root ?jw = session_path ?m sid" by (simp add: workspace_record_def)
  have vw: "view t2 = (\<lambda>q. if ?dirs q then Some VDir else view ?t q)(?f := Some (VFile j))"
    unfolding t2(2) by (rule ext) (simp add: t1(3))
  show ?thesis
    using reg t1(1) t2(1) t3 json
    by (simp add: create_session_with_opts_def on_disk_def w root new_meta_def [symmetric] Let_def vw
        new_entry_def restored_entry_def rebuild_entry_def)
       (simp add: new_meta_def)
qed


section \<open>Creation keeps the disk consistent\<close>

text \<open>
  What another session's directory needs is untouched when everything outside the directory of
  \<open>sid\<close> keeps its view, except for directories that are made.
\<close>

definition frame :: "WorkspaceManager \<Rightarrow> string \<Rightarrow> node \<Rightarrow> node \<Rightarrow> bool" where
  "frame m sid t t' =
     ((\<forall>i x. i \<noteq> sid \<longrightarrow> view t' (session_dir m i @ x) = view t (session_dir m i @ x))
      \<and> (\<forall>n. view t (volume_dir m n) = Some VDir \<longrightarrow> view t' (volume_dir m n) = Some VDir))"

lemma settled_frame:
  assumes f: "frame (sv_mgr v) sid t t'" and i: "i \<noteq> sid" and s: "settled v t i meta"
  shows "settled v t' i meta"
proof -
  have v: "view t' (session_dir (sv_mgr v) i @ x) = view t (session_dir (sv_mgr v) i @ x)" for x
    using f i by (simp add: frame_def)
  have "\<forall>d\<in>set (session_dirs (sv_mgr v) i). view t' d = view t d"
    using v by (auto simp: session_dirs_def)
  moreover have "mounted (sv_mgr v) (session_dir (sv_mgr v) i @ [''workspace'']) (sm_volumes meta) (view t')"
    unfolding mounted_def
  proof
    fix vm assume "vm \<in> set (sm_volumes meta)"
    then have m: "name_ok (vm_name vm)" "name_ok (vm_mount vm)"
      "view t (volume_dir (sv_mgr v) (vm_name vm)) = Some VDir"
      "view t ((session_dir (sv_mgr v) i @ [''workspace'']) @ [vm_mount vm]) = Some (VLink (volume_path (sv_mgr v) (vm_name vm)))"
      using s by (simp_all add: settled_def mounted_def)
    have "view t' (volume_dir (sv_mgr v) (vm_name vm)) = Some VDir" using f m(3) by (simp add: frame_def)
    then show "name_ok (vm_name vm) \<and> name_ok (vm_mount vm)
        \<and> view t' (volume_dir (sv_mgr v) (vm_name vm)) = Some VDir
        \<and> view t' ((session_dir (sv_mgr v) i @ [''workspace'']) @ [vm_mount vm]) = Some (VLink (volume_path (sv_mgr v) (vm_name vm)))"
      using m v [of "[''workspace'', vm_mount vm]"] by simp
  qed
  ultimately show ?thesis using s v [of "[''.session-meta.json'']"] by (simp add: settled_def)
qed

lemma consistent_frame:
  assumes c: "consistent v t" and f: "frame (sv_mgr v) sid t t'" and b: "base_ready (sv_mgr v) t'"
    and area: "view t' (comps (base_dir (sv_mgr v)) @ [''sessions'']) \<in> {None, Some VDir}"
    and mine: "view t' (session_dir (sv_mgr v) sid) = Some VDir \<Longrightarrow> utf8_valid sid \<Longrightarrow>
      \<exists>meta base. restores v t' sid meta base"
  shows "consistent v t'"
proof -
  have "\<exists>meta base. restores v t' i meta base"
    if i: "view t' (session_dir (sv_mgr v) i) = Some VDir" "utf8_valid i" for i
  proof (cases "i = sid")
    case False
    then have "view t (session_dir (sv_mgr v) i @ []) = Some VDir"
      using i f unfolding frame_def by (metis append_Nil2)
    then obtain meta base where "restores v t i meta base" using c i(2) by (auto simp: consistent_def)
    then show ?thesis using settled_frame [OF f False] by (auto simp: restores_def)
  qed (use mine i in simp)
  then show ?thesis using b area by (simp add: consistent_def)
qed

lemma create_settles:
  assumes c: "consistent v (ss_disk s)" and j: "json_roundtrip v" and sid: "name_ok sid"
    and new: "view (ss_disk s) (session_dir (sv_mgr v) sid) = None"
    and reg: "registry_get (sv_registry v) pn = Some base"
    and vols: "\<forall>vm\<in>set volumes. mount_ok (sv_mgr v) (session_dir (sv_mgr v) sid @ [''workspace'']) (view (ss_disk s)) vm
      \<and> vm_mount vm \<noteq> ''tmp''" "distinct (map vm_mount volumes)"
  shows "\<exists>s'. create_session_with_opts v fuel ck sid pn env None volumes alias metadata timeout_secs s = Some (Inr sid, s')
    \<and> ss_table s' = table_insert (new_entry v ck sid (new_meta ck pn env volumes alias metadata timeout_secs) base
        (ss_next_lock s)) (ss_table s)
    \<and> restores v (ss_disk s') sid (new_meta ck pn env volumes alias metadata timeout_secs) base
    \<and> consistent v (ss_disk s') \<and> frame (sv_mgr v) sid (ss_disk s) (ss_disk s')"
proof -
  let ?m = "sv_mgr v" and ?t = "ss_disk s" and ?meta = "new_meta ck pn env volumes alias metadata timeout_secs"
  let ?ws = "session_dir ?m sid @ [''workspace'']" and ?f = "meta_file ?m sid"
  let ?vw = "(\<lambda>q. if \<exists>d\<in>set (session_dirs ?m sid). prefix q d then Some VDir else view ?t q)(?f := Some (VFile (the (sv_meta_json v ?meta))))"
  have m: "base_ready ?m ?t" and area: "view ?t (comps (base_dir ?m) @ [''sessions'']) \<in> {None, Some VDir}"
    using c by (auto simp: consistent_def)
  obtain d where d: "sv_meta_json v ?meta = Some d" "utf8_valid d" "sv_meta_of_json v d = Some ?meta"
    using j by (auto simp: json_roundtrip_def)
  obtain s' where s': "create_session_with_opts v fuel ck sid pn env None volumes alias metadata timeout_secs s = Some (Inr sid, s')"
    "base_ready ?m (ss_disk s')" "view (ss_disk s') = fold (mounted_view ?m ?ws) volumes ?vw"
    "ss_table s' = table_insert (new_entry v ck sid ?meta base (ss_next_lock s)) (ss_table s)"
    using create_session_disk [OF m sid area new reg vols(1) d(1), of fuel] unfolding d(1) option.sel by blast
  have view: "view (ss_disk s') q = (if \<exists>vm\<in>set volumes. prefix q (volume_dir ?m (vm_name vm)) then Some VDir else ?vw q)"
    if "\<forall>vm\<in>set volumes. q \<noteq> ?ws @ [vm_mount vm]" for q
    unfolding s'(3) by (rule fold_mounted(2) [OF refl that])
  have mf: "view (ss_disk s') ?f = Some (VFile d)" by (subst view) (auto simp: d(1) prefix_def)
  have "view (ss_disk s') x = Some VDir" if "x \<in> set (session_dirs ?m sid)" for x
    using that vols(1) by (subst view) (auto simp: session_dirs_def)
  moreover have "mounted ?m ?ws volumes (view (ss_disk s'))"
    unfolding mounted_def s'(3) using fold_mounted(1) [OF refl vols(2), of _ ?m sid ?vw] vols(1)
    by (auto simp: mount_ok_def)
  ultimately have set: "restores v (ss_disk s') sid ?meta base"
    using mf d sid reg by (simp add: restores_def settled_def new_meta_def)
  have "view (ss_disk s') (session_dir ?m i @ x) = view ?t (session_dir ?m i @ x)" if "i \<noteq> sid" for i x
    by (subst view) (use that in \<open>auto simp: session_dirs_def prefix_def\<close>)
  moreover have "view (ss_disk s') (volume_dir ?m n) = Some VDir" if "view ?t (volume_dir ?m n) = Some VDir" for n
    using that by (subst view) auto
  ultimately have f: "frame ?m sid ?t (ss_disk s')" by (simp add: frame_def)
  have "view (ss_disk s') (comps (base_dir ?m) @ [''sessions'']) = Some VDir"
    by (subst view) (auto simp: session_dirs_def)
  then have "consistent v (ss_disk s')"
    using consistent_frame [OF c f s'(2)] set by blast
  then show ?thesis using s'(1,4) set f by blast
qed

end
