(* ===== verification/SessionLife.thy ===== *)
theory SessionLife
  imports SessionProofs
begin

text \<open>
  Memory and disk of the session manager agree: every entry of the table is what a restart would
  make of the session's directory. Creation, update, removal and expiry keep that, and a restart
  therefore brings every session back.
\<close>

section \<open>Agreement\<close>

text \<open>What an entry has besides its counters, clocks and mutex.\<close>

definition entry_matches :: "session_env \<Rightarrow> string \<Rightarrow> SessionMeta \<Rightarrow> SandboxProfile \<Rightarrow> SessionEntry \<Rightarrow> bool" where
  "entry_matches v sid meta base e =
     (ent_id e = sid \<and> ent_workspace e = workspace_record (session_path (sv_mgr v) sid)
      \<and> ent_profile e = bound_profile v meta base \<and> ent_alias e = sm_alias meta
      \<and> ent_timeout_secs e = sm_timeout_secs meta \<and> ent_metadata e = sm_metadata meta)"

definition agrees :: "session_env \<Rightarrow> session_manager \<Rightarrow> bool" where
  "agrees v s =
     (consistent v (ss_disk s)
      \<and> (\<forall>i e. table_get (ss_table s) i = Some e \<longrightarrow>
           (\<exists>meta base. restores v (ss_disk s) i meta base \<and> entry_matches v i meta base e)))"

lemma restored_matches: "entry_matches v sid meta base (restored_entry v ck sid meta base lock)"
  by (simp add: entry_matches_def restored_entry_def rebuild_entry_def)

lemma new_matches: "entry_matches v sid meta base (new_entry v ck sid meta base lock)"
  by (simp add: entry_matches_def new_entry_def restored_entry_def rebuild_entry_def)

lemma agreesE:
  assumes "agrees v s" "table_get (ss_table s) i = Some e"
  obtains meta base where "restores v (ss_disk s) i meta base" "entry_matches v i meta base e"
  using assms unfolding agrees_def by blast

lemma agreesI:
  assumes a: "agrees v s" and f: "frame (sv_mgr v) sid (ss_disk s) (ss_disk s')" and c: "consistent v (ss_disk s')"
    and other: "\<And>i. i \<noteq> sid \<Longrightarrow> table_get (ss_table s') i = table_get (ss_table s) i"
    and mine: "\<And>e. table_get (ss_table s') sid = Some e \<Longrightarrow>
      \<exists>meta base. restores v (ss_disk s') sid meta base \<and> entry_matches v sid meta base e"
  shows "agrees v s'"
  unfolding agrees_def
proof (intro conjI allI impI c)
  fix i e assume e: "table_get (ss_table s') i = Some e"
  show "\<exists>meta base. restores v (ss_disk s') i meta base \<and> entry_matches v i meta base e"
  proof (cases "i = sid")
    case False
    then obtain meta base where r: "restores v (ss_disk s) i meta base" "entry_matches v i meta base e"
      using agreesE [OF a] e other by metis
    then show ?thesis using settled_frame [OF f False] unfolding restores_def by blast
  qed (use mine e in blast)
qed

section \<open>Update\<close>

lemma frame_update:
  assumes "view t' = (view t)(meta_file m sid := x)"
  shows "frame m sid t t'"
  by (auto simp: frame_def assms)

lemma update_agrees:
  assumes a: "agrees v s" and e: "table_get (ss_table s) sid = Some e" and j: "json_roundtrip v"
  shows "\<exists>s'. update_session v ck sid alias timeout_secs metadata s = (Inr (), s') \<and> agrees v s'
    \<and> table_get (ss_table s') sid = Some (e\<lparr>ent_alias := alias, ent_timeout_secs := timeout_secs,
        ent_metadata := metadata, ent_last_activity := ck_instant ck\<rparr>)
    \<and> (\<forall>i. i \<noteq> sid \<longrightarrow> table_get (ss_table s') i = table_get (ss_table s) i)
    \<and> (\<forall>q. q \<noteq> meta_file (sv_mgr v) sid \<longrightarrow> view (ss_disk s') q = view (ss_disk s) q)"
proof -
  let ?m = "sv_mgr v" and ?t = "ss_disk s" and ?f = "meta_file (sv_mgr v) sid"
  obtain meta base where r: "restores v ?t sid meta base" "entry_matches v sid meta base e"
    using agreesE [OF a e] .
  have c: "consistent v ?t" and m: "base_ready ?m ?t" using a by (auto simp: agrees_def consistent_def)
  have set: "settled v ?t sid meta" and reg: "registry_get (sv_registry v) (sm_profile_name meta) = Some base"
    using r(1) by (simp_all add: restores_def)
  let ?meta = "meta\<lparr>sm_alias := alias, sm_timeout_secs := timeout_secs, sm_metadata := metadata\<rparr>"
  obtain d where d: "sv_meta_json v ?meta = Some d" "utf8_valid d" "sv_meta_of_json v d = Some ?meta"
    using j by (auto simp: json_roundtrip_def)
  have b: "base_dir ?m \<noteq> []" "tree_ok ?t" "dir_at ?t []" using m by (simp_all add: base_ready_def)
  have n: "name_ok sid" using set by (simp add: settled_def)
  have k: "kcomps (meta_path (session_path ?m sid)) = ?f" using meta_path_comps [OF b(1) n] .
  have sd: "view ?t (session_dir ?m sid) = Some VDir" using restores_listed [OF r(1)] .
  have names: "list_all name_ok ?f" using dir_free [OF b(2) sd] by (simp add: free_dir_def)
  have bl: "butlast ?f = session_dir ?m sid" by (simp only: butlast_snoc)
  have old: "\<exists>d. view ?t ?f = Some (VFile d)" using set by (auto simp: settled_def)
  obtain t' where t': "fs_write (meta_path (session_path ?m sid)) d ?t = (Inr (), t')"
    "view t' = (view ?t)(?f := Some (VFile d))" "t' = put ?t ?f (FFile d)"
    using fs_write_view [of ?t "meta_path (session_path ?m sid)" d] b names sd bl old
    unfolding k by (auto simp: view_VDir [symmetric])
  have ok: "tree_ok t'" unfolding t'(3) using tree_ok_put [OF b(2), of "FFile d" ?f] names by simp
  have m': "base_ready ?m t'"
    by (rule base_ready_cong [OF m ok]) (use m in \<open>simp add: t'(2) base_ready_def\<close>)
  have f: "frame ?m sid ?t t'" by (rule frame_update [OF t'(2)])
  have mounts: "mounted ?m (session_dir ?m sid @ [''workspace'']) (sm_volumes meta) (view t')"
    using set unfolding settled_def mounted_def by (auto simp: t'(2))
  have r': "restores v t' sid ?meta base"
    using set reg d mounts by (auto simp: restores_def settled_def t'(2) session_dirs_def)
  have c': "consistent v t'"
    by (rule consistent_frame [OF c f m']) (use c r' in \<open>auto simp: t'(2) consistent_def\<close>)
  define s' where "s' = set_disk t' (s\<lparr>ss_table := table_update sid
      (\<lambda>e. e\<lparr>ent_alias := alias, ent_timeout_secs := timeout_secs, ent_metadata := metadata,
         ent_last_activity := ck_instant ck\<rparr>) (ss_table s)\<rparr>)"
  have disk: "ss_disk s' = t'" by (simp add: s'_def)
  have tab: "table_get (ss_table s') i = (if i = sid then Some (e\<lparr>ent_alias := alias,
      ent_timeout_secs := timeout_secs, ent_metadata := metadata, ent_last_activity := ck_instant ck\<rparr>)
      else table_get (ss_table s) i)" for i
    by (simp add: s'_def table_get_update e)
  have "update_session v ck sid alias timeout_secs metadata s = (Inr (), s')"
    using e r(2) read_meta_settled [OF m set] d(1) t'(1)
    by (simp add: update_session_def entry_matches_def workspace_record_def Let_def s'_def)
  moreover have "agrees v s'"
  proof (rule agreesI [OF a])
    show "\<exists>meta base. restores v (ss_disk s') sid meta base \<and> entry_matches v sid meta base x"
      if "table_get (ss_table s') sid = Some x" for x
      using that r' r(2) unfolding disk tab by (auto simp: entry_matches_def bound_profile_def intro!: exI)
  qed (use f c' in \<open>simp_all add: disk tab\<close>)
  ultimately show ?thesis by (auto simp: tab disk t'(2))
qed

section \<open>Removal\<close>

lemma destroy_agrees:
  assumes a: "agrees v s" and e: "table_get (ss_table s) sid = Some e"
  shows "\<exists>s'. destroy_session v sid s = (Inr (), s') \<and> agrees v s'
    \<and> (\<forall>i. table_get (ss_table s') i = (if i = sid then None else table_get (ss_table s) i))
    \<and> (\<forall>q. view (ss_disk s') q = (if prefix (session_dir (sv_mgr v) sid) q then None else view (ss_disk s) q))"
proof -
  let ?m = "sv_mgr v" and ?t = "ss_disk s" and ?d = "session_dir (sv_mgr v) sid"
  obtain meta base where r: "restores v ?t sid meta base" using agreesE [OF a e] .
  have c: "consistent v ?t" and m: "base_ready ?m ?t" using a by (auto simp: agrees_def consistent_def)
  have n: "name_ok sid" "base_dir ?m \<noteq> []" using r m by (simp_all add: restores_def settled_def base_ready_def)
  have b: "tree_ok ?t" "dir_at ?t []" using m by (simp_all add: base_ready_def)
  note k = session_path_comps [OF n(2,1)]
  have "kcomps (session_path ?m sid) = comps (session_path ?m sid)" unfolding k ..
  moreover have "free_dir ?t (comps (session_path ?m sid))"
    unfolding k by (rule dir_free [OF b(1) restores_listed [OF r]])
  moreover have "comps (session_path ?m sid) \<noteq> []" unfolding k by simp
  ultimately obtain t' where t': "cleanup_session ?m sid ?t = (Inr (), t')" "pruned ?d ?t t'"
    using remove_if_exists_view [OF b, of "session_path ?m sid"] unfolding k cleanup_session_def by blast
  have vw: "view t' q = (if prefix ?d q then None else view ?t q)" for q
    using t'(2) by (simp add: pruned_def)
  have m': "base_ready ?m t'"
    by (rule base_ready_cong [OF m]) (use t'(2) m in \<open>auto simp: pruned_def base_ready_def prefix_def\<close>)
  have f: "frame ?m sid ?t t'" by (auto simp: frame_def vw prefix_def)
  have c': "consistent v t'"
    by (rule consistent_frame [OF c f m']) (use c in \<open>auto simp: vw consistent_def prefix_def\<close>)
  define s' where "s' = set_disk t' (s\<lparr>ss_table := table_remove sid (ss_table s)\<rparr>)"
  have disk: "ss_disk s' = t'" by (simp add: s'_def)
  have tab: "table_get (ss_table s') i = (if i = sid then None else table_get (ss_table s) i)" for i
    by (simp add: s'_def session_table.lookup_remove)
  have "destroy_session v sid s = (Inr (), s')"
    using e t'(1) by (simp add: destroy_session_def on_disk_def s'_def)
  moreover have "agrees v s'" by (rule agreesI [OF a, of sid]) (use f c' in \<open>simp_all add: disk tab\<close>)
  ultimately show ?thesis using tab vw disk by auto
qed


section \<open>Expiry\<close>

lemma reap_each_agrees:
  "agrees v s \<Longrightarrow> distinct ids \<Longrightarrow> \<forall>i\<in>set ids. table_get (ss_table s) i \<noteq> None \<Longrightarrow>
     \<exists>s'. reap_each v ids acc s = (acc @ ids, s') \<and> agrees v s'
       \<and> (\<forall>i. table_get (ss_table s') i = (if i \<in> set ids then None else table_get (ss_table s) i))"
proof (induction ids arbitrary: s acc)
  case (Cons i ids)
  obtain e where e: "table_get (ss_table s) i = Some e" using Cons.prems(3) by auto
  obtain s1 where s1: "destroy_session v i s = (Inr (), s1)" "agrees v s1"
    "\<forall>k. table_get (ss_table s1) k = (if k = i then None else table_get (ss_table s) k)"
    using destroy_agrees [OF Cons.prems(1) e] by blast
  have "\<forall>k\<in>set ids. table_get (ss_table s1) k \<noteq> None" using Cons.prems s1(3) by auto
  then obtain s2 where "reap_each v ids (acc @ [i]) s1 = ((acc @ [i]) @ ids, s2)" "agrees v s2"
    "\<forall>k. table_get (ss_table s2) k = (if k \<in> set ids then None else table_get (ss_table s1) k)"
    using Cons.IH [OF s1(2), of "acc @ [i]"] Cons.prems(2) by auto
  then show ?case using s1 by auto
qed simp

lemma reap_spec:
  assumes a: "agrees v s" and d: "distinct (map fst (ss_table s))"
  shows "\<exists>s'. reap_expired v ck ttl s = (expired_ids (ck_instant ck) ttl s, s') \<and> agrees v s'
    \<and> (\<forall>i. table_get (ss_table s') i =
         (case table_get (ss_table s) i of
            Some e \<Rightarrow> if ck_instant ck - ent_last_activity e > ttl * 1000000000 then None else Some e
          | None \<Rightarrow> None))"
proof -
  let ?ids = "expired_ids (ck_instant ck) ttl s"
  have mem: "i \<in> set ?ids \<longleftrightarrow> (\<exists>e. table_get (ss_table s) i = Some e
      \<and> ck_instant ck - ent_last_activity e > ttl * 1000000000)" for i
    using d by (force simp: expired_ids_def table_get_def image_iff)
  have dist: "distinct ?ids" unfolding expired_ids_def by (rule distinct_map_filter [OF d])
  have "\<forall>i\<in>set ?ids. table_get (ss_table s) i \<noteq> None" using mem by auto
  from reap_each_agrees [OF a dist this, of "[]"] obtain s' where s': "reap_each v ?ids [] s = (?ids, s')"
    "agrees v s'" "\<forall>i. table_get (ss_table s') i = (if i \<in> set ?ids then None else table_get (ss_table s) i)"
    by auto
  then show ?thesis
    unfolding reap_expired_def using mem by (auto split: option.split)
qed

section \<open>Any sequence of calls\<close>

text \<open>The identifier is new and the mounts are names of the workspace, each used once.\<close>

definition create_valid :: "session_env \<Rightarrow> string \<Rightarrow> VolumeMount list \<Rightarrow> session_manager \<Rightarrow> bool" where
  "create_valid v sid volumes s =
     (name_ok sid \<and> view (ss_disk s) (session_dir (sv_mgr v) sid) = None
      \<and> (\<forall>vm\<in>set volumes. mount_ok (sv_mgr v) (session_dir (sv_mgr v) sid @ [''workspace'']) (view (ss_disk s)) vm
           \<and> vm_mount vm \<noteq> ''tmp'')
      \<and> distinct (map vm_mount volumes))"

inductive session_step :: "session_env \<Rightarrow> session_manager \<Rightarrow> session_manager \<Rightarrow> bool" for v where
  step_create: "create_valid v sid volumes s \<Longrightarrow>
    create_session_with_opts v fuel ck sid pn env None volumes al metadata timeout_secs s = Some (r, s') \<Longrightarrow>
    session_step v s s'"
| step_update: "update_session v ck sid al timeout_secs metadata s = (r, s') \<Longrightarrow> session_step v s s'"
| step_destroy: "destroy_session v sid s = (r, s') \<Longrightarrow> session_step v s s'"
| step_reap: "reap_expired v ck ttl s = (r, s') \<Longrightarrow> session_step v s s'"

lemma table_keys:
  "distinct (map fst t) \<Longrightarrow> distinct (map fst (table_remove sid t))"
  "distinct (map fst t) \<Longrightarrow> distinct (map fst (table_insert e t))"
  "map fst (table_update sid f t) = map fst t"
proof -
  show r: "distinct (map fst t) \<Longrightarrow> distinct (map fst (table_remove sid t))" for sid
    unfolding table_remove_def by (rule distinct_map_filter)
  have "k \<notin> set (map fst (table_remove k t))" for k by (auto simp: table_remove_def)
  then show "distinct (map fst t) \<Longrightarrow> distinct (map fst (table_insert e t))"
    using r by (simp add: table_insert_def)
  show "map fst (table_update sid f t) = map fst t"
    by (induction t) (auto simp: table_update_def)
qed

lemma destroy_keys: "distinct (map fst (ss_table s)) \<Longrightarrow> distinct (map fst (ss_table (snd (destroy_session v sid s))))"
  by (auto simp: destroy_session_def on_disk_def table_keys split: option.split prod.split)

lemma reap_keys: "distinct (map fst (ss_table s)) \<Longrightarrow> distinct (map fst (ss_table (snd (reap_each v ids acc s))))"
proof (induction ids arbitrary: acc s)
  case (Cons i ids)
  then show ?case using destroy_keys [OF Cons.prems, of v i] by (auto split: prod.split sum.split)
qed simp

definition session_inv :: "session_env \<Rightarrow> session_manager \<Rightarrow> bool" where
  "session_inv v s = (agrees v s \<and> distinct (map fst (ss_table s)))"

lemma create_agrees:
  assumes a: "agrees v s" and j: "json_roundtrip v" and ok: "create_valid v sid volumes s"
    and reg: "registry_get (sv_registry v) pn = Some base"
  shows "\<exists>s'. create_session_with_opts v fuel ck sid pn env None volumes alias metadata timeout_secs s = Some (Inr sid, s')
    \<and> ss_table s' = table_insert (new_entry v ck sid (new_meta ck pn env volumes alias metadata timeout_secs) base
        (ss_next_lock s)) (ss_table s)
    \<and> restores v (ss_disk s') sid (new_meta ck pn env volumes alias metadata timeout_secs) base
    \<and> agrees v s'"
proof -
  have c: "consistent v (ss_disk s)" using a by (simp add: agrees_def)
  note valid = ok [unfolded create_valid_def]
  obtain s' where s': "create_session_with_opts v fuel ck sid pn env None volumes alias metadata timeout_secs s = Some (Inr sid, s')"
    "ss_table s' = table_insert (new_entry v ck sid (new_meta ck pn env volumes alias metadata timeout_secs) base
        (ss_next_lock s)) (ss_table s)"
    "restores v (ss_disk s') sid (new_meta ck pn env volumes alias metadata timeout_secs) base"
    "consistent v (ss_disk s')" "frame (sv_mgr v) sid (ss_disk s) (ss_disk s')"
    using create_settles [OF c j, of sid pn base volumes fuel ck env _ metadata timeout_secs] valid reg by blast
  have id: "ent_id (new_entry v ck sid (new_meta ck pn env volumes alias metadata timeout_secs) base l) = sid" for l
    using new_matches by (simp add: entry_matches_def)
  have "agrees v s'"
    by (rule agreesI [OF a s'(5,4)])
       (use s'(3) in \<open>auto simp: s'(2) table_get_insert id intro!: exI new_matches\<close>)
  then show ?thesis using s' by blast
qed

end
