(* ===== verification/SessionRestart.thy ===== *)
theory SessionRestart
  imports SessionLife
begin

text \<open>
  Restarts: the properties of the session manager that span its whole life, with a JSON codec
  and an environment on which they are seen to hold.
\<close>

section \<open>A concrete codec\<close>

text \<open>
  Metadata as a list of numbers, each part with its length before it, and the numbers in decimal
  with a comma after each.
\<close>

definition enc_str :: "string \<Rightarrow> nat list" where
  "enc_str s = length s # map of_char s"

definition dec_str :: "nat list \<Rightarrow> (string \<times> nat list) option" where
  "dec_str ns = (case ns of
     [] \<Rightarrow> None
   | n # xs \<Rightarrow> if length xs < n then None else Some (map char_of (take n xs), drop n xs))"

interpretation str_codec: codec enc_str dec_str "\<lambda>_. True"
  by unfold_locales (simp add: enc_str_def dec_str_def comp_def)

definition enc_pair :: "string \<times> string \<Rightarrow> nat list" where
  "enc_pair p = enc_str (fst p) @ enc_str (snd p)"

definition dec_pair :: "nat list \<Rightarrow> ((string \<times> string) \<times> nat list) option" where
  "dec_pair ns = (case dec_str ns of None \<Rightarrow> None
     | Some (a, xs) \<Rightarrow> (case dec_str xs of None \<Rightarrow> None | Some (b, ys) \<Rightarrow> Some ((a, b), ys)))"

interpretation pair_codec: codec enc_pair dec_pair "\<lambda>_. True"
  by unfold_locales (simp add: enc_pair_def dec_pair_def str_codec.dec_enc)

definition enc_pairs :: "(string \<times> string) list \<Rightarrow> nat list" where
  "enc_pairs ps = length ps # concat (map enc_pair ps)"

definition dec_pairs :: "nat list \<Rightarrow> ((string \<times> string) list \<times> nat list) option" where
  "dec_pairs ns = (case ns of [] \<Rightarrow> None | n # xs \<Rightarrow> pair_codec.dec_n n xs)"

interpretation pairs_codec: codec enc_pairs dec_pairs "\<lambda>_. True"
  by unfold_locales (simp add: enc_pairs_def dec_pairs_def pair_codec.dec_n_concat list_all_iff)

definition enc_ostr :: "string option \<Rightarrow> nat list" where
  "enc_ostr x = (case x of None \<Rightarrow> [0] | Some s \<Rightarrow> 1 # enc_str s)"

definition dec_ostr :: "nat list \<Rightarrow> (string option \<times> nat list) option" where
  "dec_ostr ns = (case ns of [] \<Rightarrow> None
     | n # xs \<Rightarrow> if n = 0 then Some (None, xs) else map_option (\<lambda>(s, ys). (Some s, ys)) (dec_str xs))"

interpretation ostr_codec: codec enc_ostr dec_ostr "\<lambda>_. True"
  by unfold_locales (simp add: enc_ostr_def dec_ostr_def str_codec.dec_enc split: option.split)

definition enc_ou64 :: "u64 option \<Rightarrow> nat list" where
  "enc_ou64 x = (case x of None \<Rightarrow> [0] | Some w \<Rightarrow> [1, unat w])"

definition dec_ou64 :: "nat list \<Rightarrow> (u64 option \<times> nat list) option" where
  "dec_ou64 ns = (case ns of [] \<Rightarrow> None
     | n # xs \<Rightarrow> if n = 0 then Some (None, xs)
                else (case xs of [] \<Rightarrow> None | w # ys \<Rightarrow> Some (Some (of_nat w), ys)))"

interpretation ou64_codec: codec enc_ou64 dec_ou64 "\<lambda>_. True"
  by unfold_locales (simp add: enc_ou64_def dec_ou64_def split: option.split)

definition enc_meta :: "SessionMeta \<Rightarrow> nat list" where
  "enc_meta m = enc_str (sm_profile_name m) @ enc_pairs (sm_env m)
     @ enc_pairs (map (\<lambda>v. (vm_name v, vm_mount v)) (sm_volumes m)) @ enc_ostr (sm_alias m)
     @ enc_ou64 (sm_timeout_secs m) @ enc_pairs (sm_metadata m) @ enc_ou64 (sm_started_at_secs m)"

definition dec_meta :: "nat list \<Rightarrow> SessionMeta option" where
  "dec_meta ns =
     Option.bind (dec_str ns) (\<lambda>(pn, ns). Option.bind (dec_pairs ns) (\<lambda>(env, ns).
     Option.bind (dec_pairs ns) (\<lambda>(vols, ns). Option.bind (dec_ostr ns) (\<lambda>(al, ns).
     Option.bind (dec_ou64 ns) (\<lambda>(to, ns). Option.bind (dec_pairs ns) (\<lambda>(md, ns).
     map_option (\<lambda>(st, _). \<lparr>sm_profile_name = pn, sm_env = env,
         sm_volumes = map (\<lambda>(n, m). \<lparr>vm_name = n, vm_mount = m\<rparr>) vols, sm_alias = al,
         sm_timeout_secs = to, sm_metadata = md, sm_started_at_secs = st\<rparr>) (dec_ou64 ns)))))))"

lemma dec_enc_meta: "dec_meta (enc_meta m) = Some m"
proof -
  have last: "dec_ou64 (enc_ou64 x) = Some (x, [])" for x
    using ou64_codec.dec_enc [of x "[]"] by simp
  have "map (\<lambda>(n, m). \<lparr>vm_name = n, vm_mount = m\<rparr>) (map (\<lambda>v. (vm_name v, vm_mount v)) vs) = vs" for vs
    by (induction vs) auto
  then show ?thesis
    by (cases m)
       (simp add: enc_meta_def dec_meta_def str_codec.dec_enc pairs_codec.dec_enc ostr_codec.dec_enc
          ou64_codec.dec_enc last del: map_map)
qed

definition nats_to_str :: "nat list \<Rightarrow> string" where
  "nats_to_str ns = concat (map (\<lambda>n. show_nat n @ '','') ns)"

definition nats_of_str :: "string \<Rightarrow> nat list" where
  "nats_of_str s = map (\<lambda>d. case digits_val 10 0 d of Some n \<Rightarrow> n | None \<Rightarrow> 0) (butlast (split_char (CHR '','') s))"


lemma comma_not_digit: "CHR '','' \<notin> set (show_nat n)"
  using show_nat_digits [of "CHR '',''" n] by auto

lemma nats_split: "split_char (CHR '','') (nats_to_str ns) = map show_nat ns @ [[]]"
  by (induction ns) (simp_all add: nats_to_str_def split_char_append comma_not_digit)

lemma nats_of_nats: "nats_of_str (nats_to_str ns) = ns"
  by (simp add: nats_of_str_def nats_split butlast_append digits_val_show comp_def)

lemma nats_ascii: "ascii (nats_to_str ns)"
  using show_nat_digits by (force simp: nats_to_str_def ascii_def list_all_iff)

section \<open>The manager at its start\<close>

definition demo_env :: session_env where
  "demo_env =
     \<lparr>sv_mgr = \<lparr>base_dir = ''b'', disk_watermark_bytes = 0\<rparr>, sv_registry = [''shell'' \<mapsto> profile_shell],
      sv_hooks = [], sv_event_json = (\<lambda>_. None), sv_meta_json = (\<lambda>m. Some (nats_to_str (enc_meta m))),
      sv_meta_of_json = (\<lambda>s. dec_meta (nats_of_str s)), sv_error = (\<lambda>_. []), sv_parallelism = None\<rparr>"

lemma demo_json: "json_roundtrip demo_env"
  by (simp add: json_roundtrip_def demo_env_def nats_ascii nats_of_nats dec_enc_meta)

definition demo_start :: session_manager where
  "demo_start = session_manager_new
     \<lparr>rn_fs = FDir [(''b'', FDir [])], rn_socks = {}, rn_cg = \<lparr>cg_dirs = (\<lambda>_. None), cg_killed = []\<rparr>,
      rn_pipe_ends = 0, rn_signals = [], rn_events = [], rn_env = None\<rparr> NoopLog"

definition demo_clock :: clocks where
  "demo_clock = \<lparr>ck_instant = 5, ck_system = 1700000000000000000\<rparr>"

definition demo_volumes :: "VolumeMount list" where
  "demo_volumes = [\<lparr>vm_name = ''v'', vm_mount = ''data''\<rparr>]"

lemma demo_start_simps [simp]:
  "ss_disk demo_start = FDir [(''b'', FDir [])]" "ss_table demo_start = []"
  "sv_mgr demo_env = \<lparr>base_dir = ''b'', disk_watermark_bytes = 0\<rparr>"
  "sv_registry demo_env = [''shell'' \<mapsto> profile_shell]"
  by (simp_all add: demo_start_def session_manager_new_def ss_disk_def demo_env_def)

lemma demo_agrees: "agrees demo_env demo_start"
  by (simp add: agrees_def consistent_def base_ready_def view_def comps_def kcomps_def name_ok_def
      table_get_def)

lemma demo_valid: "create_valid demo_env ''s1'' demo_volumes demo_start"
  by (auto simp: create_valid_def demo_volumes_def mount_ok_def view_def comps_def name_ok_def prefix_Cons)

lemma demo_created:
  "\<exists>s. create_session_with_opts demo_env 0 demo_clock ''s1'' ''shell'' [] None demo_volumes (Some ''a'') [] None
         demo_start = Some (Inr ''s1'', s)
     \<and> agrees demo_env s \<and> (\<exists>e. table_get (ss_table s) ''s1'' = Some e \<and> ent_alias e = Some ''a''
         \<and> sp_extra_writable_paths (ent_profile e) = [''b/volumes/v''])
     \<and> view (ss_disk s) [''b'', ''snapshots''] = None \<and> view (ss_disk s) [''b'', ''volumes''] = Some VDir"
proof -
  let ?meta = "new_meta demo_clock ''shell'' [] demo_volumes (Some ''a'') [] None"
  have reg: "registry_get (sv_registry demo_env) ''shell'' = Some profile_shell"
    by (simp add: registry_get_def)
  obtain s where s: "create_session_with_opts demo_env 0 demo_clock ''s1'' ''shell'' [] None demo_volumes (Some ''a'') [] None
         demo_start = Some (Inr ''s1'', s)"
    "ss_table s = table_insert (new_entry demo_env demo_clock ''s1'' ?meta profile_shell (ss_next_lock demo_start)) []"
    "agrees demo_env s"
    using create_agrees [OF demo_agrees demo_json demo_valid reg] by (metis demo_start_simps(2))
  obtain j where "sv_meta_json demo_env ?meta = Some j" using demo_json by (auto simp: json_roundtrip_def)
  then obtain s' where s': "create_session_with_opts demo_env 0 demo_clock ''s1'' ''shell'' [] None demo_volumes (Some ''a'') [] None
         demo_start = Some (Inr ''s1'', s')"
    "view (ss_disk s') = fold (mounted_view (sv_mgr demo_env) (session_dir (sv_mgr demo_env) ''s1'' @ [''workspace''])) demo_volumes
        ((\<lambda>q. if \<exists>d\<in>set (session_dirs (sv_mgr demo_env) ''s1''). prefix q d then Some VDir else view (ss_disk demo_start) q)
           (meta_file (sv_mgr demo_env) ''s1'' := Some (VFile j)))"
    using create_session_disk [of demo_env demo_start "''s1''" "''shell''" profile_shell demo_volumes] reg
      demo_agrees [unfolded agrees_def consistent_def] demo_valid [unfolded create_valid_def] by blast
  have "s' = s" using s(1) s'(1) by simp
  then have "view (ss_disk s) [''b'', ''snapshots''] = None \<and> view (ss_disk s) [''b'', ''volumes''] = Some VDir"
    using s'(2) by (simp add: demo_volumes_def mounted_view_def session_dirs_def view_def comps_def)
  moreover have "entry_matches demo_env ''s1'' ?meta profile_shell
      (new_entry demo_env demo_clock ''s1'' ?meta profile_shell (ss_next_lock demo_start))"
    by (rule new_matches)
  ultimately show ?thesis
    using s by (auto simp: table_get_insert entry_matches_def new_meta_def bound_profile_def Let_def merge_env_def
        demo_volumes_def volume_path_def volumes_dir_def path_join_def starts_with_def profile_shell_def)
qed

section \<open>Properties\<close>




text \<open>
  C19. The table is a cache of the disk: after a restart \<open>rebuild_from_disk\<close> refines the lost
  table. Whenever memory and disk agreed before, a new manager with an empty table on the same
  disk rebuilds without error, keeps the view of the disk, and gives back every session (with
  its identifier, workspace, profile including the environment and the volumes, alias, time
  limit and metadata).
\<close>

theorem restart_restores_sessions:
  assumes a: "agrees v s" and s0: "ss_disk s0 = ss_disk s" "ss_table s0 = []"
  shows "\<exists>n s1. rebuild_from_disk v ck s0 = (Inr n, s1) \<and> view (ss_disk s1) = view (ss_disk s)
    \<and> (\<forall>sid e. utf8_valid sid \<longrightarrow> table_get (ss_table s) sid = Some e \<longrightarrow>
         (\<exists>e'. table_get (ss_table s1) sid = Some e' \<and> ent_id e' = ent_id e
            \<and> ent_workspace e' = ent_workspace e \<and> ent_profile e' = ent_profile e
            \<and> ent_alias e' = ent_alias e \<and> ent_timeout_secs e' = ent_timeout_secs e
            \<and> ent_metadata e' = ent_metadata e))"
proof -
  have "consistent v (ss_disk s0)" using a s0 by (simp add: agrees_def)
  then obtain s1 n where s1: "rebuild_from_disk v ck s0 = (Inr n, s1)" "view (ss_disk s1) = view (ss_disk s0)"
    "\<And>i meta base. restores v (ss_disk s0) i meta base \<Longrightarrow> utf8_valid i \<Longrightarrow>
       \<exists>lock. table_get (ss_table s1) i = Some (restored_entry v ck i meta base lock)"
    using rebuild_consistent [of v s0 ck] by blast
  have "\<exists>e'. table_get (ss_table s1) sid = Some e' \<and> ent_id e' = ent_id e
            \<and> ent_workspace e' = ent_workspace e \<and> ent_profile e' = ent_profile e
            \<and> ent_alias e' = ent_alias e \<and> ent_timeout_secs e' = ent_timeout_secs e
            \<and> ent_metadata e' = ent_metadata e"
    if sid: "utf8_valid sid" "table_get (ss_table s) sid = Some e" for sid e
  proof -
    obtain meta base where m: "restores v (ss_disk s) sid meta base" "entry_matches v sid meta base e"
      using agreesE [OF a sid(2)] .
    obtain lock where "table_get (ss_table s1) sid = Some (restored_entry v ck sid meta base lock)"
      using s1(3) m(1) sid(1) s0(1) by metis
    moreover have "entry_matches v sid meta base (restored_entry v ck sid meta base lock)"
      by (rule restored_matches)
    ultimately show ?thesis using m(2) by (simp add: entry_matches_def)
  qed
  then show ?thesis using s1(1,2) s0(1) by simp
qed

lemma demo_restart:
  "\<exists>s s0. agrees demo_env s \<and> ss_disk s0 = ss_disk s \<and> ss_table s0 = []
     \<and> (\<exists>e. table_get (ss_table s) ''s1'' = Some e \<and> ent_alias e = Some ''a''
          \<and> sp_extra_writable_paths (ent_profile e) = [''b/volumes/v''])"
proof -
  obtain s where "agrees demo_env s" "\<exists>e. table_get (ss_table s) ''s1'' = Some e \<and> ent_alias e = Some ''a''
          \<and> sp_extra_writable_paths (ent_profile e) = [''b/volumes/v'']"
    using demo_created by blast
  moreover have "ss_disk (set_disk (ss_disk s) demo_start) = ss_disk s" "ss_table (set_disk (ss_disk s) demo_start) = []"
    by simp_all
  ultimately show ?thesis by blast
qed

theorem restart_restores_sessions_witness:
  "\<exists>s0 n s1 e. ss_table s0 = [] \<and> rebuild_from_disk demo_env demo_clock s0 = (Inr n, s1)
     \<and> table_get (ss_table s1) ''s1'' = Some e \<and> ent_alias e = Some ''a''
     \<and> sp_extra_writable_paths (ent_profile e) = [''b/volumes/v'']"
proof -
  obtain s s0 e where s: "agrees demo_env s" "ss_disk s0 = ss_disk s" "ss_table s0 = []"
    "table_get (ss_table s) ''s1'' = Some e" "ent_alias e = Some ''a''"
    "sp_extra_writable_paths (ent_profile e) = [''b/volumes/v'']"
    using demo_restart by blast
  have "utf8_valid ''s1''" by (simp add: ascii_def)
  then show ?thesis using restart_restores_sessions [OF s(1,2,3), of demo_clock] s by metis
qed

section \<open>The start of the server\<close>

text \<open>What \<open>main\<close> does before it serves: the recovery scan, then the reconstruction.\<close>

definition start_sessions :: "session_env \<Rightarrow> clocks \<Rightarrow> session_manager \<Rightarrow> session_manager" where
  "start_sessions v ck s = snd (rebuild_from_disk v ck (snd (on_disk (recover (sv_mgr v)) s)))"

text \<open>
  The recovery scan removes every area of the base directory, so the reconstruction finds nothing.
\<close>

lemma start_clears_areas:
  assumes m: "base_ready (sv_mgr v) (ss_disk s)" and empty: "ss_table s = []"
    and areas: "\<forall>a\<in>{''sessions'', ''snapshots'', ''volumes''}. view (ss_disk s) (comps (base_dir (sv_mgr v)) @ [a]) \<in> {None, Some VDir}"
  shows "ss_table (start_sessions v ck s) = []
    \<and> (\<forall>a\<in>{''sessions'', ''snapshots'', ''volumes''}. \<forall>q. view (ss_disk (start_sessions v ck s)) (comps (base_dir (sv_mgr v)) @ a # q) = None)"
proof -
  let ?m = "sv_mgr v" and ?t = "ss_disk s"
  obtain rep t' where t': "recover ?m ?t = (Inr rep, t')" "list_sessions ?m t' = (Inr [], t')"
    "\<And>q. view t' q = (if \<exists>n. utf8_valid n \<and> view ?t (comps (base_dir ?m) @ [n]) = Some VDir
       \<and> prefix (comps (base_dir ?m) @ [n]) q then None else view ?t q)"
    using recover_spec [OF m areas] by blast
  have "view t' (comps (base_dir ?m) @ a # q) = None" if a: "a \<in> {''sessions'', ''snapshots'', ''volumes''}" for a q
  proof (cases "view ?t (comps (base_dir ?m) @ [a]) = None")
    case True
    then show ?thesis using below_absent [OF True, of q] by (simp add: t'(3))
  next
    case False
    then have "view ?t (comps (base_dir ?m) @ [a]) = Some VDir" using bspec [OF areas a] by auto
    moreover have "utf8_valid a" using a by (auto simp: ascii_def)
    moreover have "prefix (comps (base_dir ?m) @ [a]) (comps (base_dir ?m) @ a # q)" by (simp add: prefix_def)
    ultimately show ?thesis unfolding t'(3) by metis
  qed
  moreover have "start_sessions v ck s = set_disk t' s"
    using t'(1,2) by (simp add: start_sessions_def on_disk_def rebuild_from_disk_def)
  ultimately show ?thesis using empty by simp
qed

text \<open>
  A restart loses every session, although the disk agrees with the table that the stopped server
  had, and \<open>rebuild_from_disk\<close> would restore it.
\<close>

theorem start_loses_sessions:
  assumes a: "agrees v s" and s0: "ss_disk s0 = ss_disk s" "ss_table s0 = []"
    and areas: "\<forall>a\<in>{''snapshots'', ''volumes''}. view (ss_disk s) (comps (base_dir (sv_mgr v)) @ [a]) \<in> {None, Some VDir}"
  shows "ss_table (start_sessions v ck s0) = []
    \<and> (\<forall>sid q. view (ss_disk (start_sessions v ck s0)) (session_dir (sv_mgr v) sid @ q) = None)"
  using start_clears_areas [of v s0 ck] a s0 areas by (auto simp: agrees_def consistent_def)

end
