(* ===== verification/SessionFiles.thy ===== *)
theory SessionFiles
  imports Session
begin

text \<open>
  The files of a session, \<open>sandbox-server/src/session.rs\<close>: the calls that the session manager
  passes on to the workspace module, finding files by a glob, searching their contents, and the
  snapshots and volumes. The walk over a directory (\<open>walkdir\<close>), globs (\<open>globset\<close>) and regular
  expressions (\<open>regex\<close>) are parameters.
\<close>

section \<open>Calls of the workspace module\<close>

definition workspace_dir :: "string \<Rightarrow> session_manager \<Rightarrow> CoreError + string" where
  "workspace_dir sid s =
     (case table_get (ss_table s) sid of
        None \<Rightarrow> Inl (not_found sid)
      | Some e \<Rightarrow> Inr (jw_workspace (ent_workspace e)))"

definition in_workspace ::
    "string \<Rightarrow> (string \<Rightarrow> 'a cfs) \<Rightarrow> session_manager \<Rightarrow> (CoreError + 'a) \<times> session_manager" where
  "in_workspace sid f s =
     (case workspace_dir sid s of Inl e \<Rightarrow> (Inl e, s) | Inr base \<Rightarrow> on_disk (f base) s)"

definition session_put_file :: "string \<Rightarrow> string \<Rightarrow> string \<Rightarrow> session_manager \<Rightarrow> (CoreError + unit) \<times> session_manager" where
  "session_put_file sid rel data = in_workspace sid (\<lambda>base. put_file base rel data)"

definition session_get_file :: "string \<Rightarrow> string \<Rightarrow> session_manager \<Rightarrow> (CoreError + string) \<times> session_manager" where
  "session_get_file sid rel = in_workspace sid (\<lambda>base. get_file base rel)"

definition session_list_files ::
    "accounts \<Rightarrow> (string \<Rightarrow> inode_attrs) \<Rightarrow> string \<Rightarrow> string \<Rightarrow> session_manager
      \<Rightarrow> (CoreError + FileEntry list) \<times> session_manager" where
  "session_list_files db md sid rel = in_workspace sid (\<lambda>base. list_files db md base rel)"

definition session_delete_file :: "string \<Rightarrow> string \<Rightarrow> session_manager \<Rightarrow> (CoreError + unit) \<times> session_manager" where
  "session_delete_file sid rel = in_workspace sid (\<lambda>base. delete_file base rel)"

definition session_make_dir :: "string \<Rightarrow> string \<Rightarrow> session_manager \<Rightarrow> (CoreError + unit) \<times> session_manager" where
  "session_make_dir sid rel = in_workspace sid (\<lambda>base. make_dir base rel)"

definition session_file_exists :: "string \<Rightarrow> string \<Rightarrow> session_manager \<Rightarrow> bool" where
  "session_file_exists sid rel s =
     (case workspace_dir sid s of Inl _ \<Rightarrow> False | Inr base \<Rightarrow> file_exists base rel (ss_disk s))"

text \<open>The directory that a watch, a find or a search starts at, with the base of the session.\<close>

definition root_below :: "string \<Rightarrow> string \<Rightarrow> session_manager \<Rightarrow> CoreError + (string \<times> string)" where
  "root_below sid rel s =
     res_bind (workspace_dir sid s) (\<lambda>base.
     res_bind (if rel = [] then Inr base else sanitize_relpath base rel) (\<lambda>root.
     if \<not> path_exists root (ss_disk s) then Inl (WorkspaceErr (''path not found: '' @ rel))
     else Inr (root, base)))"

definition watch_paths :: "string \<Rightarrow> string \<Rightarrow> session_manager \<Rightarrow> CoreError + (string \<times> string)" where
  "watch_paths sid rel s = root_below sid rel s"

section \<open>Finding\<close>

text \<open>One step of the walk: an entry that cannot be read, or a path with its own type.\<close>

datatype file_type = FtFile | FtDir | FtLink | FtOther

datatype walk_entry = WalkErr | WalkEntry string file_type

record FoundFile =
  ff_path :: string
  ff_entry :: FileEntry

record FindResult =
  fr_files :: "FoundFile list"
  fr_truncated :: bool

text \<open>\<open>Path::strip_prefix\<close>, on paths whose rest was made by joining names.\<close>

definition path_strip_prefix :: "string \<Rightarrow> string \<Rightarrow> string option" where
  "path_strip_prefix base p =
     (if starts_with ''/'' base = starts_with ''/'' p \<and> prefix (comps base) (comps p)
      then Some (join ''/'' (drop (length (comps base)) (comps p))) else None)"

definition rel_to_base :: "string \<Rightarrow> string \<Rightarrow> string" where
  "rel_to_base base p =
     (case path_strip_prefix base p of Some r \<Rightarrow> utf8_lossy r | None \<Rightarrow> utf8_lossy p)"

text \<open>The path that the glob sees; none for the root itself.\<close>

definition rel_to_root :: "string \<Rightarrow> string \<Rightarrow> string option" where
  "rel_to_root root p =
     (case path_strip_prefix root p of Some r \<Rightarrow> if r = [] then None else Some r | None \<Rightarrow> None)"

fun find_loop ::
    "(string \<Rightarrow> CoreError + FileEntry) \<Rightarrow> (string \<Rightarrow> bool) \<Rightarrow> string \<Rightarrow> string \<Rightarrow> nat \<Rightarrow> walk_entry list
      \<Rightarrow> FoundFile list \<Rightarrow> FindResult" where
  "find_loop entry_at is_match base root limit [] files = \<lparr>fr_files = files, fr_truncated = False\<rparr>"
| "find_loop entry_at is_match base root limit (WalkErr # es) files =
     find_loop entry_at is_match base root limit es files"
| "find_loop entry_at is_match base root limit (WalkEntry p ft # es) files =
     (case rel_to_root root p of
        None \<Rightarrow> find_loop entry_at is_match base root limit es files
      | Some r \<Rightarrow>
          if \<not> is_match r then find_loop entry_at is_match base root limit es files
          else if length files \<ge> limit then \<lparr>fr_files = files, fr_truncated = True\<rparr>
          else (case entry_at p of
                  Inl _ \<Rightarrow> find_loop entry_at is_match base root limit es files
                | Inr fe \<Rightarrow> find_loop entry_at is_match base root limit es
                    (files @ [\<lparr>ff_path = rel_to_base base p, ff_entry = fe\<rparr>])))"

definition find_session_files ::
    "accounts \<Rightarrow> (string \<Rightarrow> inode_attrs) \<Rightarrow> (string \<Rightarrow> string + (string \<Rightarrow> bool))
      \<Rightarrow> (string \<Rightarrow> node \<Rightarrow> walk_entry list) \<Rightarrow> string \<Rightarrow> string \<Rightarrow> string \<Rightarrow> nat \<Rightarrow> session_manager
      \<Rightarrow> CoreError + FindResult" where
  "find_session_files db md glob walk sid rel pattern limit s =
     res_bind (root_below sid rel s) (\<lambda>(root, base).
     case glob pattern of
       Inl e \<Rightarrow> Inl (WorkspaceErr (''invalid glob pattern: '' @ e))
     | Inr is_match \<Rightarrow>
         Inr (find_loop (\<lambda>p. fst (file_entry db md p (ss_disk s))) is_match base root limit
                (walk root (ss_disk s)) []))"

section \<open>Searching\<close>

record SearchHit =
  sh_line :: u64
  sh_text :: string

record SearchFileResult =
  sf_path :: string
  sf_matches :: "SearchHit list"

record SearchResult =
  sr_results :: "SearchFileResult list"
  sr_truncated :: bool

record SearchOpts =
  so_max_files :: nat
  so_max_file_bytes :: u64
  so_max_matches :: nat
  so_max_line_len :: nat

definition default_search_opts :: SearchOpts where
  "default_search_opts = \<lparr>so_max_files = 1000, so_max_file_bytes = 2 * 1024 * 1024,
     so_max_matches = 1000, so_max_line_len = 512\<rparr>"

definition is_binary :: "string \<Rightarrow> bool" where
  "is_binary content = (CHR 0x00 \<in> set (take (min (length content) 1024) content))"

definition truncate_line :: "string \<Rightarrow> nat \<Rightarrow> string" where
  "truncate_line line max_len =
     (if length (chars line) \<le> max_len then line
      else concat (take max_len (chars line)) @ [CHR 0xE2, CHR 0x80, CHR 0xA6])"

text \<open>The lines of one file from line \<open>i\<close> on: the hits, the count, and whether the limit was met.\<close>

fun search_lines ::
    "(string \<Rightarrow> bool) \<Rightarrow> SearchOpts \<Rightarrow> nat \<Rightarrow> string list \<Rightarrow> nat \<Rightarrow> SearchHit list \<times> nat \<times> bool" where
  "search_lines is_match opts i [] found = ([], found, False)"
| "search_lines is_match opts i (line # ls) found =
     (if is_match line then
        (let hit = \<lparr>sh_line = of_nat (i + 1), sh_text = truncate_line line (so_max_line_len opts)\<rparr>
         in if so_max_matches opts \<le> found + 1 then ([hit], found + 1, True)
            else (case search_lines is_match opts (i + 1) ls (found + 1) of
                    (hits, found', hit_limit) \<Rightarrow> (hit # hits, found', hit_limit)))
      else search_lines is_match opts (i + 1) ls found)"

text \<open>The text of a file that is searched; none for a large, unreadable or binary file.\<close>

definition searchable :: "SearchOpts \<Rightarrow> string \<Rightarrow> node \<Rightarrow> string option" where
  "searchable opts p t =
     (case stat True p t of
        Inl _ \<Rightarrow> None
      | Inr (FFile content) \<Rightarrow>
          if of_nat (length content) > so_max_file_bytes opts then None
          else if is_binary content then None else Some (utf8_lossy content)
      | Inr _ \<Rightarrow> None)"

fun search_loop ::
    "(string \<Rightarrow> bool) \<Rightarrow> SearchOpts \<Rightarrow> string \<Rightarrow> node \<Rightarrow> walk_entry list \<Rightarrow> nat \<Rightarrow> nat
      \<Rightarrow> SearchFileResult list \<Rightarrow> SearchResult" where
  "search_loop is_match opts base t [] nscan found results = \<lparr>sr_results = results, sr_truncated = False\<rparr>"
| "search_loop is_match opts base t (e # es) nscan found results =
     (case e of
        WalkEntry p FtFile \<Rightarrow>
          (if so_max_files opts \<le> nscan then \<lparr>sr_results = results, sr_truncated = True\<rparr>
           else (case searchable opts p t of
                   None \<Rightarrow> search_loop is_match opts base t es nscan found results
                 | Some txt \<Rightarrow>
                     (case search_lines is_match opts 0 (lines txt) found of
                        (hits, found', hit_limit) \<Rightarrow>
                          (let results' = (if hits = [] then results
                                 else results @ [\<lparr>sf_path = rel_to_base base p, sf_matches = hits\<rparr>])
                           in if hit_limit then \<lparr>sr_results = results', sr_truncated = True\<rparr>
                              else search_loop is_match opts base t es (nscan + 1) found' results'))))
      | _ \<Rightarrow> search_loop is_match opts base t es nscan found results)"

definition search_session_files ::
    "(string \<Rightarrow> string + (string \<Rightarrow> bool)) \<Rightarrow> (string \<Rightarrow> node \<Rightarrow> walk_entry list)
      \<Rightarrow> string \<Rightarrow> string \<Rightarrow> string \<Rightarrow> SearchOpts \<Rightarrow> session_manager \<Rightarrow> CoreError + SearchResult" where
  "search_session_files regex walk sid rel pattern opts s =
     res_bind (root_below sid rel s) (\<lambda>(root, base).
     case regex pattern of
       Inl e \<Rightarrow> Inl (WorkspaceErr (''invalid regex pattern: '' @ e))
     | Inr is_match \<Rightarrow> Inr (search_loop is_match opts base (ss_disk s) (walk root (ss_disk s)) 0 0 []))"

section \<open>Snapshots and volumes\<close>

text \<open>
  The snapshot is taken while no execution of the session runs: the caller holds its mutex.
\<close>

definition snapshot_session ::
    "session_env \<Rightarrow> nat \<Rightarrow> string \<Rightarrow> string \<Rightarrow> session_manager
      \<Rightarrow> ((CoreError + string) \<times> session_manager) option" where
  "snapshot_session v fuel snap_id sid s =
     (case table_get (ss_table s) sid of
        None \<Rightarrow> Some (Inl (not_found sid), s)
      | Some e \<Rightarrow>
          (case create_snapshot fuel (sv_mgr v) (jw_workspace (ent_workspace e)) snap_id (ss_disk s) of
             None \<Rightarrow> None
           | Some (Inl er, t) \<Rightarrow> Some (Inl er, set_disk t s)
           | Some (Inr _, t) \<Rightarrow> Some (Inr snap_id, set_disk t s)))"

definition session_snapshots :: "session_env \<Rightarrow> session_manager \<Rightarrow> (CoreError + string list) \<times> session_manager" where
  "session_snapshots v = on_disk (list_snapshots (sv_mgr v))"

definition destroy_snapshot :: "session_env \<Rightarrow> string \<Rightarrow> session_manager \<Rightarrow> (CoreError + unit) \<times> session_manager" where
  "destroy_snapshot v snap_id = on_disk (cleanup_snapshot (sv_mgr v) snap_id)"

definition session_create_volume :: "session_env \<Rightarrow> string \<Rightarrow> session_manager \<Rightarrow> (CoreError + unit) \<times> session_manager" where
  "session_create_volume v name = on_disk (create_volume (sv_mgr v) name)"

definition session_volumes :: "session_env \<Rightarrow> session_manager \<Rightarrow> (CoreError + string list) \<times> session_manager" where
  "session_volumes v = on_disk (list_volumes (sv_mgr v))"

definition session_cleanup_volume :: "session_env \<Rightarrow> string \<Rightarrow> session_manager \<Rightarrow> (CoreError + unit) \<times> session_manager" where
  "session_cleanup_volume v name = on_disk (cleanup_volume (sv_mgr v) name)"

end
