(* ===== verification/SessionSearch.thy ===== *)
theory SessionSearch
  imports SessionFiles SessionProofs
begin

text \<open>
  The search of a session's files against its specification, all matching lines of all searchable
  files, and what a link in a workspace lets the file calls of a session reach.
\<close>

section \<open>The lines of a file\<close>

definition hit_of :: "SearchOpts \<Rightarrow> nat \<Rightarrow> string \<Rightarrow> SearchHit" where
  "hit_of opts i line = \<lparr>sh_line = of_nat (i + 1), sh_text = truncate_line line (so_max_line_len opts)\<rparr>"

definition all_hits :: "(string \<Rightarrow> bool) \<Rightarrow> SearchOpts \<Rightarrow> nat \<Rightarrow> string list \<Rightarrow> SearchHit list" where
  "all_hits is_match opts i ls = map (\<lambda>(k, l). hit_of opts k l) (filter (\<lambda>(k, l). is_match l) (enumerate i ls))"

lemma all_hits_simps [simp]:
  "all_hits is_match opts i [] = []"
  "all_hits is_match opts i (l # ls) =
     (if is_match l then hit_of opts i l # all_hits is_match opts (Suc i) ls else all_hits is_match opts (Suc i) ls)"
  by (simp_all add: all_hits_def)

lemma search_lines_spec:
  "search_lines is_match opts i ls found = (hits, found', lim) \<Longrightarrow>
     found' = found + length hits
     \<and> (\<exists>rest. all_hits is_match opts i ls = hits @ rest \<and> (\<not> lim \<longrightarrow> rest = []))
     \<and> (found = 0 \<or> found < so_max_matches opts \<longrightarrow> found' \<le> max 1 (so_max_matches opts)
          \<and> (\<not> lim \<longrightarrow> found' = 0 \<or> found' < so_max_matches opts))"
proof (induction ls arbitrary: i found hits found' lim)
  case (Cons l ls)
  show ?case
  proof (cases "is_match l")
    case False
    then show ?thesis using Cons.IH [of "Suc i" found] Cons.prems by auto
  next
    case m: True
    show ?thesis
    proof (cases "so_max_matches opts \<le> found + 1")
      case True
      then show ?thesis using Cons.prems m by (auto simp: Let_def hit_of_def)
    next
      case False
      obtain hs where hs: "search_lines is_match opts (Suc i) ls (Suc found) = (hs, found', lim)"
        "hits = hit_of opts i l # hs"
        using Cons.prems m False
        by (cases "search_lines is_match opts (Suc i) ls (Suc found)") (auto simp: Let_def hit_of_def)
      show ?thesis using Cons.IH [OF hs(1)] hs(2) m False by auto
    qed
  qed
qed auto

section \<open>All files\<close>

definition file_results ::
    "(string \<Rightarrow> bool) \<Rightarrow> SearchOpts \<Rightarrow> string \<Rightarrow> node \<Rightarrow> walk_entry \<Rightarrow> SearchFileResult list" where
  "file_results is_match opts base t e =
     (case e of
        WalkEntry p FtFile \<Rightarrow>
          (case searchable opts p t of
             None \<Rightarrow> []
           | Some txt \<Rightarrow>
               (let hits = all_hits is_match opts 0 (lines txt)
                in if hits = [] then [] else [\<lparr>sf_path = rel_to_base base p, sf_matches = hits\<rparr>]))
      | _ \<Rightarrow> [])"

definition search_all ::
    "(string \<Rightarrow> bool) \<Rightarrow> SearchOpts \<Rightarrow> string \<Rightarrow> node \<Rightarrow> walk_entry list \<Rightarrow> SearchFileResult list" where
  "search_all is_match opts base t es = concat (map (file_results is_match opts base t) es)"

definition flat :: "SearchFileResult list \<Rightarrow> (string \<times> SearchHit) list" where
  "flat rs = concat (map (\<lambda>f. map (Pair (sf_path f)) (sf_matches f)) rs)"

lemma flat_simps [simp]: "flat [] = []" "flat (r # rs) = map (Pair (sf_path r)) (sf_matches r) @ flat rs"
  "flat (rs @ rs') = flat rs @ flat rs'"
  by (simp_all add: flat_def)

lemma search_loop_skip:
  "\<forall>p. e \<noteq> WalkEntry p FtFile \<Longrightarrow>
     search_loop is_match opts base t (e # es) n found rs = search_loop is_match opts base t es n found rs
     \<and> file_results is_match opts base t e = []"
  by (auto simp: file_results_def split: walk_entry.splits file_type.splits)

lemma search_loop_spec:
  "length rs \<le> n \<Longrightarrow> n \<le> so_max_files opts \<Longrightarrow> found = length (flat rs) \<Longrightarrow>
   found = 0 \<or> found < so_max_matches opts \<Longrightarrow>
   search_loop is_match opts base t es n found rs = r \<Longrightarrow>
   length (sr_results r) \<le> so_max_files opts
     \<and> length (flat (sr_results r)) \<le> max 1 (so_max_matches opts)
     \<and> prefix (flat (sr_results r)) (flat (rs @ search_all is_match opts base t es))
     \<and> (\<not> sr_truncated r \<longrightarrow> sr_results r = rs @ search_all is_match opts base t es)"
proof (induction es arbitrary: n found rs)
  case Nil
  then show ?case by (auto simp: search_all_def)
next
  case (Cons e es)
  show ?case
  proof (cases "\<exists>p. e = WalkEntry p FtFile")
    case False
    then show ?thesis
      using Cons.IH [OF Cons.prems(1,2,3,4)] Cons.prems(5) search_loop_skip [of e is_match opts base t es n found rs]
      by (simp add: search_all_def)
  next
    case True
    then obtain p where e: "e = WalkEntry p FtFile" by auto
    show ?thesis
    proof (cases "so_max_files opts \<le> n")
      case True
      then have "r = \<lparr>sr_results = rs, sr_truncated = True\<rparr>" using Cons.prems(5) by (simp add: e)
      then show ?thesis using Cons.prems(1,2,3,4) by auto
    next
      case nfull: False
      show ?thesis
      proof (cases "searchable opts p t")
        case None
        then have "file_results is_match opts base t e = []" by (simp add: file_results_def e)
        then show ?thesis
          using Cons.IH [OF Cons.prems(1,2,3,4)] Cons.prems(5) None nfull by (simp add: search_all_def e)
      next
        case (Some body)
        obtain hits found' lim where h: "search_lines is_match opts 0 (lines body) found = (hits, found', lim)"
          by (cases "search_lines is_match opts 0 (lines body) found") auto
        obtain rest where rest: "all_hits is_match opts 0 (lines body) = hits @ rest" "\<not> lim \<longrightarrow> rest = []"
          using search_lines_spec [OF h] by blast
        have lim: "found' = found + length hits" "found' \<le> max 1 (so_max_matches opts)"
          "\<not> lim \<longrightarrow> found' = 0 \<or> found' < so_max_matches opts"
          using search_lines_spec [OF h] Cons.prems(4) by blast+
        define rs' where "rs' = (if hits = [] then rs else rs @ [\<lparr>sf_path = rel_to_base base p, sf_matches = hits\<rparr>])"
        have len: "length rs' \<le> n + 1" "flat rs' = flat rs @ map (Pair (rel_to_base base p)) hits"
          using Cons.prems(1) by (simp_all add: rs'_def)
        have fr: "flat (file_results is_match opts base t e) =
            map (Pair (rel_to_base base p)) hits @ map (Pair (rel_to_base base p)) rest"
          using rest(1) by (simp add: file_results_def e Some Let_def)
        show ?thesis
        proof (cases lim)
          case True
          have "r = \<lparr>sr_results = rs', sr_truncated = True\<rparr>"
            using Cons.prems(5) nfull Some h True by (simp add: e rs'_def Let_def)
          then show ?thesis
            using len lim Cons.prems(2,3) nfull fr by (simp add: search_all_def)
        next
          case False
          have "search_loop is_match opts base t es (n + 1) found' rs' = r"
            using Cons.prems(5) nfull Some h False by (simp add: e rs'_def Let_def)
          moreover have "found' = length (flat rs')" using lim(1) Cons.prems(3) len(2) by simp
          moreover have "rs' = rs @ file_results is_match opts base t e"
            using rest False by (simp add: file_results_def e Some Let_def rs'_def)
          ultimately show ?thesis
            using Cons.IH [of rs' "n + 1" found'] len(1) nfull lim(3) False by (simp add: search_all_def)
        qed
      qed
    qed
  qed
qed


section \<open>Links in a workspace\<close>

lemma resolve_dirs:
  "list_all name_ok cs \<Longrightarrow> dir_at t (cur @ cs) \<Longrightarrow>
     resolve t follow n cur (cs @ rs) = resolve t follow n (cur @ cs) rs"
proof (induction cs arbitrary: cur)
  case (Cons c cs)
  have d: "dir_at t cur" "dir_at t (cur @ [c])"
    using dir_at_prefix [of t cur "c # cs"] dir_at_prefix [of t "cur @ [c]" cs] Cons.prems(2) by simp_all
  then obtain es where "lookup t (cur @ [c]) = Some (FDir es)" by (auto simp: dir_at_iff)
  then show ?case
    using Cons.IH [of "cur @ [c]"] Cons.prems d(1) by (auto simp: name_ok_def)
qed simp

text \<open>The last component is a link to an absolute place without further links.\<close>

lemma resolve_through_link:
  assumes d: "dir_at t []" and b: "list_all name_ok b" "dir_at t b" and n: "name_ok n"
    and l: "lookup t (b @ [n]) = Some (FLink target)" "starts_with ''/'' target" "plain t (kcomps target)"
  shows "resolve_path t True (b @ [n]) = Inr (kcomps target)"
proof -
  have "resolve t True 40 [] (b @ [n]) = resolve t True 40 b [n]"
    using resolve_dirs [of b t "[]" True 40 "[n]"] b by simp
  also have "\<dots> = resolve t True 39 [] (kcomps target)"
    using b(2) n l(1,2) by (simp add: name_ok_def)
  also have "\<dots> = Inr (kcomps target)"
    using resolve_plain_aux [of "kcomps target" t "[]" True 39] d l(3) by (auto simp: plain_def)
  finally show ?thesis by (simp add: resolve_path_def)
qed

section \<open>Properties\<close>

text \<open>
  C21. A search is bounded, and says so. For every walk, pattern and limits the answer of a
  search below an existing directory names at most \<open>max_files\<close> files and at most \<open>max_matches\<close>
  lines (one, if that is 0). The lines it reports are the first ones of the list of all matching
  lines of all regular, small, textual files in the order of the walk; and when the answer is not
  marked as truncated, it is that whole list.
\<close>

theorem search_bounded_complete:
  assumes "root_below sid rel s = Inr (root, base)" "regex pattern = Inr is_match"
  shows "\<exists>r. search_session_files regex walk sid rel pattern opts s = Inr r
    \<and> length (sr_results r) \<le> so_max_files opts
    \<and> length (flat (sr_results r)) \<le> max 1 (so_max_matches opts)
    \<and> prefix (flat (sr_results r)) (flat (search_all is_match opts base (ss_disk s) (walk root (ss_disk s))))
    \<and> (\<not> sr_truncated r \<longrightarrow> sr_results r = search_all is_match opts base (ss_disk s) (walk root (ss_disk s)))"
  using search_loop_spec [of "[]" 0 opts 0 is_match base "ss_disk s" "walk root (ss_disk s)"] assms
  by (simp add: search_session_files_def)

text \<open>A session whose workspace has one file and a link out of it.\<close>

definition link_entry :: SessionEntry where
  "link_entry =
     \<lparr>ent_id = ''s'', ent_workspace = workspace_record ''/b'', ent_profile = profile_shell,
      ent_created_at = 0, ent_last_activity = 0, ent_execs = 0, ent_exec_lock = 0, ent_started_at = 0,
      ent_alias = None, ent_timeout_secs = None, ent_metadata = []\<rparr>"

definition link_state :: session_manager where
  "link_state = (session_manager_new
     \<lparr>rn_fs = FDir [(''b'', FDir [(''workspace'', FDir [(''a'', FFile (''x'' @ [CHR 0x0A] @ ''y'')),
          (''l'', FLink ''/etc/passwd'')])]), (''etc'', FDir [(''passwd'', FFile ''secret'')])],
      rn_socks = {}, rn_cg = \<lparr>cg_dirs = (\<lambda>_. None), cg_killed = []\<rparr>,
      rn_pipe_ends = 0, rn_signals = [], rn_events = [], rn_env = None\<rparr> NoopLog)
     \<lparr>ss_table := [(''s'', link_entry)]\<rparr>"

lemma link_state_facts:
  "ss_disk link_state = FDir [(''b'', FDir [(''workspace'', FDir [(''a'', FFile (''x'' @ [CHR 0x0A] @ ''y'')),
          (''l'', FLink ''/etc/passwd'')])]), (''etc'', FDir [(''passwd'', FFile ''secret'')])]"
  "table_get (ss_table link_state) ''s'' = Some link_entry"
  "jw_workspace (ent_workspace link_entry) = ''/b/workspace''"
  by (simp_all add: link_state_def ss_disk_def session_manager_new_def table_get_def link_entry_def
      workspace_record_def path_join_def starts_with_def)

theorem search_bounded_complete_witness:
  "\<exists>r. search_session_files (\<lambda>p. Inr (\<lambda>l. l = p)) (\<lambda>root t. [WalkEntry (path_join root ''a'') FtFile]) ''s'' [] ''y''
         default_search_opts link_state = Inr r
     \<and> \<not> 1000 < length (flat (sr_results r))"
proof -
  have "stat True ''/b/workspace'' (ss_disk link_state) \<noteq> Inl e" for e
    unfolding link_state_facts(1)
    by (simp add: stat_def resolve_path_def kcomps_def comps_def)
  then have "path_exists ''/b/workspace'' (ss_disk link_state)"
    by (cases "stat True ''/b/workspace'' (ss_disk link_state)") (auto simp: path_exists_def)
  then have "root_below ''s'' [] link_state = Inr (''/b/workspace'', ''/b/workspace'')"
    by (simp add: root_below_def workspace_dir_def link_state_facts)
  from search_bounded_complete [OF this, of "\<lambda>p. Inr (\<lambda>l. l = p)" "''y''" "\<lambda>l. l = ''y''"
      "\<lambda>root t. [WalkEntry (path_join root ''a'') FtFile]" default_search_opts]
  show ?thesis by (auto simp: default_search_opts_def)
qed

text \<open>
  C22. The file calls of a session follow links. The path check looks at the text of the path
  only: when the job of a session has made a link in its workspace, reading the link's name
  through the session gives the content of the file the link points to, wherever that is, and
  writing to it overwrites that file.
\<close>

theorem session_files_follow_links:
  assumes e: "table_get (ss_table s) sid = Some e" and b: "jw_workspace (ent_workspace e) = base" "base \<noteq> []"
    and t: "tree_ok (ss_disk s)" "dir_at (ss_disk s) []" "dir_at (ss_disk s) (comps base)" and n: "name_ok n"
    and l: "view (ss_disk s) (comps base @ [n]) = Some (VLink target)" "starts_with ''/'' target"
    and target: "plain (ss_disk s) (kcomps target)" "view (ss_disk s) (kcomps target) = Some (VFile secret)"
  shows "session_get_file sid n s = (Inr secret, s)
    \<and> (\<exists>s'. session_put_file sid n data s = (Inr (), s') \<and> view (ss_disk s') (kcomps target) = Some (VFile data))"
proof -
  let ?t = "ss_disk s"
  have names: "list_all name_ok (comps base)"
    using tree_ok_names [OF t(1), of "comps base"] t(3) dir_at_lookup by blast
  note c = name_child [OF n b(2)]
  have san: "sanitize_relpath base n = Inr (path_join base n)"
    using n by (auto simp: sanitize_relpath_def name_ok_relative) (simp_all add: name_ok_def)
  have r: "resolve_path ?t True (comps base @ [n]) = Inr (kcomps target)"
    using resolve_through_link [OF t(2) names t(3) n _ l(2) target(1)] l(1) by (simp add: view_VLink)
  have look: "lookup ?t (kcomps target) = Some (FFile secret)" using target(2) by (simp add: view_VFile)
  have "fs_read (path_join base n) ?t = Inr secret"
    using r look c by (simp add: fs_read_def stat_def)
  then have get: "session_get_file sid n s = (Inr secret, s)"
    using e b san by (simp add: session_get_file_def in_workspace_def workspace_dir_def on_disk_def get_file_def
        lift_query_def set_disk_def ss_disk_def)
  have free: "free_dir ?t (comps base)" by (rule dir_free) (use t in \<open>simp_all add: view_VDir\<close>)
  have par: "create_dir_comps (comps base) ?t = (Inr (), ?t)"
    using create_dir_comps_free [OF t(2) free] t(3) dir_at_lookup by (auto simp: dir_created_def)
  have wr: "fs_write (path_join base n) data ?t = (Inr (), put ?t (kcomps target) (FFile data))"
    using r look c by (simp add: fs_write_def)
  have ne: "kcomps target \<noteq> []" using t(2) look by (cases "kcomps target") (auto simp: dir_at_iff)
  have "view (put ?t (kcomps target) (FFile data)) (kcomps target) = Some (VFile data)"
    using target ne view_put [OF ne, of ?t "FFile data" "kcomps target"] by (simp add: plain_def view_def)
  then show ?thesis
    using get e b san par wr c
    by (simp add: session_put_file_def in_workspace_def workspace_dir_def on_disk_def put_file_def st_bind_def lift_io_def)
qed

theorem session_files_follow_links_witness:
  "session_get_file ''s'' ''l'' link_state = (Inr ''secret'', link_state)
     \<and> (\<exists>s'. session_put_file ''s'' ''l'' ''root'' link_state = (Inr (), s')
          \<and> view (ss_disk s') [''etc'', ''passwd''] = Some (VFile ''root''))"
proof -
  have k: "comps ''/b/workspace'' = [''b'', ''workspace'']" "kcomps ''/etc/passwd'' = [''etc'', ''passwd'']"
    by (simp_all add: comps_def kcomps_def)
  have "name_ok ''b'' \<and> name_ok ''workspace'' \<and> name_ok ''a'' \<and> name_ok ''l'' \<and> name_ok ''etc'' \<and> name_ok ''passwd''"
    by (simp add: name_ok_def)
  then show ?thesis
    using session_files_follow_links [of link_state "''s''" link_entry "''/b/workspace''" "''l''" "''/etc/passwd''"
        "''secret''" "''root''"] link_state_facts(2,3)
    unfolding k link_state_facts(1)
    by (simp add: view_def starts_with_def plain_def is_link_node_def)
qed

end
