(* ===== verification/SessionExec.thy ===== *)
theory SessionExec
  imports SessionFiles Scheduler
begin

text \<open>
  Running commands in sessions, \<open>exec_session\<close> of \<open>sandbox-server/src/session.rs\<close>, as a machine:
  a call looks its session up and queues for the session's mutex, runs the command when it gets
  the mutex, and reports. The events come in any order, mixed with the creation, update and
  removal of sessions and with snapshots; an event that is not possible changes nothing. What a
  command does to the disk happens when it finishes.
\<close>

section \<open>The three parts of a call\<close>

definition exec_begin ::
    "session_env \<Rightarrow> string \<Rightarrow> string \<Rightarrow> JobRequest \<Rightarrow> session_manager \<Rightarrow> (CoreError + nat) \<times> session_manager" where
  "exec_begin v now sid request s =
     (case table_get (ss_table s) sid of
        None \<Rightarrow> (Inl (not_found sid), s)
      | Some e \<Rightarrow>
          (Inr (length (ss_execs s)),
           s\<lparr>ss_audit := audit_log (sv_event_json v)
               (audit_event_new now JobStarted sid (sp_name (ent_profile e)) (jr_argv request) None None None
                  (Some ''session exec'')) (ss_audit s),
             ss_execs := ss_execs s @ [\<lparr>xt_session = sid, xt_workspace = ent_workspace e,
               xt_profile = ent_profile e, xt_lock = ent_exec_lock e, xt_request = request,
               xt_phase = ExWaiting\<rparr>]\<rparr>))"

definition set_exec_phase :: "nat \<Rightarrow> exec_phase \<Rightarrow> session_manager \<Rightarrow> session_manager" where
  "set_exec_phase i ph s = s\<lparr>ss_execs := (ss_execs s)[i := (ss_execs s ! i)\<lparr>xt_phase := ph\<rparr>]\<rparr>"

definition exec_acquire :: "nat \<Rightarrow> session_manager \<Rightarrow> session_manager" where
  "exec_acquire i s =
     (if i < length (ss_execs s) \<and> xt_phase (ss_execs s ! i) = ExWaiting \<and> xt_lock (ss_execs s ! i) \<notin> ss_held s
      then set_exec_phase i ExRunning
        (s\<lparr>ss_held := insert (xt_lock (ss_execs s ! i)) (ss_held s), ss_metrics := m_started (ss_metrics s)\<rparr>)
      else s)"

text \<open>The event that reports an outcome.\<close>

definition exec_event :: "session_env \<Rightarrow> string \<Rightarrow> exec_task \<Rightarrow> (CoreError + JobResult) \<Rightarrow> AuditEvent" where
  "exec_event v now t result =
     (case result of
        Inr r \<Rightarrow> audit_event_new now (status_to_event_type (res_status r)) (xt_session t) (sp_name (xt_profile t))
          (jr_argv (xt_request t)) (res_exit_code r) (res_signal r) (Some (of_nat (res_duration r div 1000000)))
          (status_detail (res_status r))
      | Inl e \<Rightarrow> audit_event_new now JobFailed (xt_session t) (sp_name (xt_profile t))
          (jr_argv (xt_request t)) None None None (Some (''session exec error: '' @ sv_error v e)))"

text \<open>
  A result is counted, posted and logged, and a session that is still there notes it; the mutex is
  given back at the end, and also when the call panics, but then nothing is counted.
\<close>

definition exec_finish ::
    "session_env \<Rightarrow> 'acc world \<Rightarrow> clocks \<Rightarrow> string \<Rightarrow> bool \<Rightarrow> nat \<Rightarrow> session_manager \<Rightarrow> session_manager" where
  "exec_finish v w ck now stream i s =
     (if i < length (ss_execs s) \<and> xt_phase (ss_execs s ! i) = ExRunning
      then
        (let t = ss_execs s ! i
         in case run_in_workspace w (xt_workspace t) (xt_profile t) (xt_request t) stream (ss_rn s) of
              (Waiting, rn) \<Rightarrow> set_exec_phase i ExStuck (s\<lparr>ss_rn := rn\<rparr>)
            | (Panicked, rn) \<Rightarrow>
                set_exec_phase i ExPanicked (s\<lparr>ss_rn := rn, ss_held := ss_held s - {xt_lock t}\<rparr>)
            | (Returned result, rn) \<Rightarrow>
                (let ev = exec_event v now t result
                 in set_exec_phase i (ExDone result)
                   (s\<lparr>ss_rn := rn, ss_held := ss_held s - {xt_lock t},
                      ss_metrics := count_result result (m_finished (ss_metrics s)),
                      ss_posts := ss_posts s @ dispatch (sv_event_json v) (sv_hooks v) ev,
                      ss_audit := audit_log (sv_event_json v) ev (ss_audit s),
                      ss_table := (if is_ok result
                        then table_update (xt_session t)
                          (\<lambda>e. e\<lparr>ent_last_activity := ck_instant ck, ent_execs := ent_execs e + 1\<rparr>) (ss_table s)
                        else ss_table s)\<rparr>)))
      else s)"

text \<open>A snapshot waits for the mutex as an execution does.\<close>

definition exec_snapshot :: "session_env \<Rightarrow> nat \<Rightarrow> string \<Rightarrow> string \<Rightarrow> session_manager \<Rightarrow> session_manager" where
  "exec_snapshot v fuel snap_id sid s =
     (case table_get (ss_table s) sid of
        None \<Rightarrow> s
      | Some e \<Rightarrow>
          if ent_exec_lock e \<in> ss_held s then s
          else (case snapshot_session v fuel snap_id sid s of None \<Rightarrow> s | Some (_, s') \<Rightarrow> s'))"

section \<open>The machine\<close>

datatype 'acc session_event =
    CreateSession nat clocks string string "(string \<times> string) list" "string option" "VolumeMount list"
      "string option" "(string \<times> string) list" "u64 option"
  | UpdateSession clocks string "string option" "u64 option" "(string \<times> string) list"
  | DestroySession string
  | ReapExpired clocks nat
  | Snapshot nat string string
  | ExecBegin string string JobRequest
  | ExecAcquire nat
  | ExecFinish "'acc world" clocks string bool nat

fun exec_step :: "session_env \<Rightarrow> 'acc session_event \<Rightarrow> session_manager \<Rightarrow> session_manager" where
  "exec_step v (CreateSession fuel ck sid pn env snap vols alias md to) s =
     (if table_get (ss_table s) sid \<noteq> None then s
      else (case create_session_with_opts v fuel ck sid pn env snap vols alias md to s of
              None \<Rightarrow> s | Some (_, s') \<Rightarrow> s'))"
| "exec_step v (UpdateSession ck sid alias to md) s = snd (update_session v ck sid alias to md s)"
| "exec_step v (DestroySession sid) s = snd (destroy_session v sid s)"
| "exec_step v (ReapExpired ck ttl) s = snd (reap_expired v ck ttl s)"
| "exec_step v (Snapshot fuel snap_id sid) s = exec_snapshot v fuel snap_id sid s"
| "exec_step v (ExecBegin now sid request) s = snd (exec_begin v now sid request s)"
| "exec_step v (ExecAcquire i) s = exec_acquire i s"
| "exec_step v (ExecFinish w ck now stream i) s = exec_finish v w ck now stream i s"

section \<open>Mutual exclusion\<close>

text \<open>An execution that has its session's mutex, and one that the gauge counts.\<close>

definition holding :: "exec_task \<Rightarrow> bool" where
  "holding t = (xt_phase t = ExRunning \<or> xt_phase t = ExStuck)"

definition counted :: "exec_task \<Rightarrow> bool" where
  "counted t = (holding t \<or> xt_phase t = ExPanicked)"

definition table_locks :: "session_manager \<Rightarrow> bool" where
  "table_locks s =
     (distinct (map (ent_exec_lock \<circ> snd) (ss_table s))
      \<and> (\<forall>l\<in>set (map (ent_exec_lock \<circ> snd) (ss_table s)). l < ss_next_lock s))"

definition exec_inv :: "session_manager \<Rightarrow> bool" where
  "exec_inv s =
     (distinct (map xt_lock (filter holding (ss_execs s)))
      \<and> ss_held s = set (map xt_lock (filter holding (ss_execs s)))
      \<and> running_jobs (ss_metrics s) = int (length (filter counted (ss_execs s)))
      \<and> table_locks s)"

lemma count_result_running [simp]: "running_jobs (count_result r m) = running_jobs m"
proof -
  have "running_jobs (fold count_violation vs m') = running_jobs m'" for vs m'
    by (induction vs arbitrary: m') (auto simp: count_violation_def split: SandboxViolation.split)
  then show ?thesis by (simp add: count_result_def split: sum.split)
qed

text \<open>The list of executions around the one that moves.\<close>

lemma split_execs:
  assumes "i < length xs"
  obtains as zs where "xs = as @ xs ! i # zs" "length as = i"
  using assms id_take_nth_drop [OF assms] by (metis length_take min.absorb4)

lemma set_exec_phase_around:
  assumes "ss_execs s = as @ t # zs" "length as = i"
  shows "ss_execs (set_exec_phase i ph s) = as @ t\<lparr>xt_phase := ph\<rparr> # zs"
    "ss_held (set_exec_phase i ph s) = ss_held s" "ss_metrics (set_exec_phase i ph s) = ss_metrics s"
    "table_locks (set_exec_phase i ph s) = table_locks s"
  using assms by (auto simp: set_exec_phase_def table_locks_def)

lemma phase_simps [simp]:
  "holding (t\<lparr>xt_phase := ph\<rparr>) \<longleftrightarrow> ph = ExRunning \<or> ph = ExStuck"
  "counted (t\<lparr>xt_phase := ph\<rparr>) \<longleftrightarrow> ph = ExRunning \<or> ph = ExStuck \<or> ph = ExPanicked"
  by (simp_all add: holding_def counted_def)

lemma acquire_inv: "exec_inv s \<Longrightarrow> exec_inv (exec_acquire i s)"
proof (cases "i < length (ss_execs s) \<and> xt_phase (ss_execs s ! i) = ExWaiting \<and> xt_lock (ss_execs s ! i) \<notin> ss_held s")
  case True
  assume inv: "exec_inv s"
  define t where "t = ss_execs s ! i"
  obtain as zs where ab: "ss_execs s = as @ t # zs" "length as = i"
    using split_execs True unfolding t_def by blast
  let ?s = "s\<lparr>ss_held := insert (xt_lock t) (ss_held s), ss_metrics := m_started (ss_metrics s)\<rparr>"
  have w: "xt_phase t = ExWaiting" "xt_lock t \<notin> ss_held s" using True by (simp_all add: t_def)
  have "exec_acquire i s = set_exec_phase i ExRunning ?s" using True by (simp add: exec_acquire_def t_def)
  moreover have "ss_execs ?s = as @ t # zs" using ab by simp
  ultimately show ?thesis
    using inv w ab set_exec_phase_around [of ?s as t zs i ExRunning]
    by (auto simp: exec_inv_def holding_def [of t] counted_def [of t] m_started_def table_locks_def)
qed (auto simp: exec_acquire_def)

lemma update_locks: "table_locks s \<Longrightarrow> (\<And>e. ent_exec_lock (f e) = ent_exec_lock e) \<Longrightarrow>
    map (ent_exec_lock \<circ> snd) (table_update sid f tb) = map (ent_exec_lock \<circ> snd) tb"
  by (induction tb) (auto simp: table_update_def)

lemma remove_locks:
  "table_locks s \<Longrightarrow> distinct (map (ent_exec_lock \<circ> snd) (table_remove sid (ss_table s)))
     \<and> (\<forall>l\<in>set (map (ent_exec_lock \<circ> snd) (table_remove sid (ss_table s))). l < ss_next_lock s)"
  by (auto simp: table_locks_def table_remove_def intro: distinct_map_filter)

lemma finish_inv: "exec_inv s \<Longrightarrow> exec_inv (exec_finish v w ck now stream i s)"
proof (cases "i < length (ss_execs s) \<and> xt_phase (ss_execs s ! i) = ExRunning")
  case True
  assume inv: "exec_inv s"
  define t where "t = ss_execs s ! i"
  obtain as zs where ab: "ss_execs s = as @ t # zs" "length as = i"
    using split_execs True unfolding t_def by blast
  have run: "xt_phase t = ExRunning" using True by (simp add: t_def)
  obtain r rn where r: "run_in_workspace w (xt_workspace t) (xt_profile t) (xt_request t) stream (ss_rn s) = (r, rn)"
    by (cases "run_in_workspace w (xt_workspace t) (xt_profile t) (xt_request t) stream (ss_rn s)") auto
  note d = exec_inv_def holding_def [of t] counted_def [of t] table_locks_def
  show ?thesis
  proof (cases r)
    case (Returned result)
    let ?ev = "exec_event v now t result"
    let ?tb = "if is_ok result then table_update (xt_session t)
       (\<lambda>e. e\<lparr>ent_last_activity := ck_instant ck, ent_execs := ent_execs e + 1\<rparr>) (ss_table s) else ss_table s"
    let ?s = "s\<lparr>ss_rn := rn, ss_held := ss_held s - {xt_lock t},
        ss_metrics := count_result result (m_finished (ss_metrics s)),
        ss_posts := ss_posts s @ dispatch (sv_event_json v) (sv_hooks v) ?ev,
        ss_audit := audit_log (sv_event_json v) ?ev (ss_audit s), ss_table := ?tb\<rparr>"
    have "map (ent_exec_lock \<circ> snd) ?tb = map (ent_exec_lock \<circ> snd) (ss_table s)"
      using inv update_locks [of s "\<lambda>e. e\<lparr>ent_last_activity := ck_instant ck, ent_execs := ent_execs e + 1\<rparr>"]
      by (simp add: exec_inv_def)
    then have "table_locks ?s" using inv unfolding exec_inv_def table_locks_def by simp
    moreover have "exec_finish v w ck now stream i s = set_exec_phase i (ExDone result) ?s"
      using True r Returned by (simp add: exec_finish_def t_def Let_def)
    ultimately show ?thesis
      using inv run ab set_exec_phase_around [of ?s as t zs i "ExDone result"]
      by (auto simp: exec_inv_def holding_def [of t] counted_def [of t] m_finished_def)
  next
    case Panicked
    let ?s = "s\<lparr>ss_rn := rn, ss_held := ss_held s - {xt_lock t}\<rparr>"
    have "exec_finish v w ck now stream i s = set_exec_phase i ExPanicked ?s"
      using True r Panicked by (simp add: exec_finish_def t_def Let_def)
    then show ?thesis
      using inv run ab set_exec_phase_around [of ?s as t zs i ExPanicked] by (auto simp: d)
  next
    case Waiting
    let ?s = "s\<lparr>ss_rn := rn\<rparr>"
    have "exec_finish v w ck now stream i s = set_exec_phase i ExStuck ?s"
      using True r Waiting by (simp add: exec_finish_def t_def Let_def)
    then show ?thesis
      using inv run ab set_exec_phase_around [of ?s as t zs i ExStuck] by (auto simp: d)
  qed
qed (auto simp: exec_finish_def)


text \<open>The calls that run nothing keep the executions, and the mutexes of the table stay apart.\<close>

definition quiet :: "session_manager \<Rightarrow> session_manager \<Rightarrow> bool" where
  "quiet s s' = (ss_execs s' = ss_execs s \<and> ss_held s' = ss_held s \<and> ss_metrics s' = ss_metrics s
     \<and> (table_locks s \<longrightarrow> table_locks s'))"

lemma quiet_inv: "quiet s s' \<Longrightarrow> exec_inv s \<Longrightarrow> exec_inv s'"
  by (simp add: quiet_def exec_inv_def)

lemma quiet_refl [simp]: "quiet s s"
  by (simp add: quiet_def)

lemma quiet_trans: "quiet s s' \<Longrightarrow> quiet s' s'' \<Longrightarrow> quiet s s''"
  by (simp add: quiet_def)

lemma quiet_disk [simp]: "quiet s (set_disk t s)"
  by (simp add: quiet_def set_disk_def table_locks_def)

lemma quiet_on_disk: "quiet s (snd (on_disk m s))"
  by (simp add: on_disk_def split: prod.split)

lemma quiet_remove: "quiet s (s\<lparr>ss_table := table_remove sid (ss_table s)\<rparr>)"
  using remove_locks [of s sid] by (simp add: quiet_def table_locks_def)

lemma quiet_update:
  "(\<And>e. ent_exec_lock (f e) = ent_exec_lock e) \<Longrightarrow> quiet s (s\<lparr>ss_table := table_update sid f (ss_table s)\<rparr>)"
  using update_locks [of s f sid "ss_table s"] unfolding quiet_def by (simp add: table_locks_def)

lemma quiet_insert:
  assumes "ent_exec_lock e = ss_next_lock s"
  shows "quiet s (s\<lparr>ss_next_lock := ss_next_lock s + 1, ss_table := table_insert e (ss_table s)\<rparr>)"
  using remove_locks [of s "ent_id e"] assms
  by (fastforce simp: quiet_def table_locks_def table_insert_def less_Suc_eq)

lemma quiet_insert_disk:
  "ent_exec_lock e = ss_next_lock s \<Longrightarrow>
     quiet s ((set_disk t s)\<lparr>ss_next_lock := Suc (ss_next_lock s), ss_table := table_insert e (ss_table s)\<rparr>)"
  using quiet_trans [OF quiet_disk [of s t] quiet_insert [of e "set_disk t s"]] by simp

lemma quiet_destroy: "quiet s (snd (destroy_session v sid s))"
  by (auto simp: destroy_session_def intro: quiet_trans [OF quiet_remove quiet_on_disk] split: option.split)

lemma quiet_reap_each: "quiet s (snd (reap_each v ids acc s))"
proof (induction ids arbitrary: acc s)
  case (Cons i ids)
  then show ?case
    using quiet_trans [OF quiet_destroy [of s v i]] by (fastforce split: prod.split sum.split)
qed simp

lemma quiet_update_session: "quiet s (snd (update_session v ck sid al to md s))"
proof (cases "table_get (ss_table s) sid")
  case (Some e)
  let ?s = "s\<lparr>ss_table := table_update sid (\<lambda>e. e\<lparr>ent_alias := al, ent_timeout_secs := to,
      ent_metadata := md, ent_last_activity := ck_instant ck\<rparr>) (ss_table s)\<rparr>"
  have q: "quiet s ?s" by (rule quiet_update) simp
  then have "quiet s (set_disk t ?s)" for t using quiet_trans [OF _ quiet_disk] by blast
  then show ?thesis
    using q Some by (simp add: update_session_def Let_def split: sum.split prod.split)
qed (simp add: update_session_def)

lemma quiet_create:
  "create_session_with_opts v fuel ck sid pn env snap vols al md to s = Some (r, s') \<Longrightarrow> quiet s s'"
proof (cases "registry_get (sv_registry v) pn")
  case None
  assume "create_session_with_opts v fuel ck sid pn env snap vols al md to s = Some (r, s')"
  then show ?thesis using None by (simp add: create_session_with_opts_def)
next
  case (Some base)
  assume c: "create_session_with_opts v fuel ck sid pn env snap vols al md to s = Some (r, s')"
  then show ?thesis
    using Some
    by (auto simp: create_session_with_opts_def on_disk_def Let_def quiet_insert_disk
        split: prod.splits sum.splits option.splits)
qed

lemma quiet_snapshot: "quiet s (exec_snapshot v fuel snap_id sid s)"
  by (auto simp: exec_snapshot_def snapshot_session_def split: option.split sum.split prod.split)

lemma begin_inv: "exec_inv s \<Longrightarrow> exec_inv (snd (exec_begin v now sid request s))"
  by (auto simp: exec_begin_def exec_inv_def holding_def counted_def table_locks_def split: option.split)

lemma exec_step_inv: "exec_inv s \<Longrightarrow> exec_inv (exec_step v ev s)"
proof (cases ev)
  case (CreateSession fuel ck sid pn env snap vols al md to)
  assume "exec_inv s"
  then show ?thesis
    using CreateSession quiet_inv [OF quiet_create] by (auto split: option.split)
next
  case (UpdateSession ck sid al to md)
  assume "exec_inv s"
  then show ?thesis using UpdateSession quiet_inv [OF quiet_update_session] by simp
next
  case (DestroySession sid)
  assume "exec_inv s"
  then show ?thesis using DestroySession quiet_inv [OF quiet_destroy] by simp
next
  case (ReapExpired ck ttl)
  assume "exec_inv s"
  then show ?thesis using ReapExpired quiet_inv [OF quiet_reap_each] by (simp add: reap_expired_def)
next
  case (Snapshot fuel snap_id sid)
  assume "exec_inv s"
  then show ?thesis using Snapshot quiet_inv [OF quiet_snapshot] by simp
qed (simp_all add: begin_inv acquire_inv finish_inv)

interpretation session_machine: guarded_system "exec_step v" exec_inv
  by unfold_locales (rule exec_step_inv)

lemma new_exec_inv: "exec_inv (session_manager_new rn audit)"
  by (simp add: exec_inv_def session_manager_new_def table_locks_def)

text \<open>
  C23. Executions of a session exclude each other. After any interleaving of creations, updates,
  removals, expiry scans, snapshots and the parts of executions, from a new manager on: no two
  executions that run or hang have the same mutex, the mutexes held are exactly theirs (so each
  one that has ended or panicked gave its mutex back), no two sessions of the table share a mutex,
  and the gauge of running jobs counts the executions that run or hang and, since nothing takes
  them out again, all that ever panicked.
\<close>

theorem executions_exclusive:
  "distinct (map xt_lock (filter holding (ss_execs (fold (exec_step v) evs (session_manager_new rn audit)))))
   \<and> ss_held (fold (exec_step v) evs (session_manager_new rn audit)) =
       set (map xt_lock (filter holding (ss_execs (fold (exec_step v) evs (session_manager_new rn audit)))))
   \<and> distinct (map (ent_exec_lock \<circ> snd) (ss_table (fold (exec_step v) evs (session_manager_new rn audit))))
   \<and> running_jobs (ss_metrics (fold (exec_step v) evs (session_manager_new rn audit))) =
       int (length (filter counted (ss_execs (fold (exec_step v) evs (session_manager_new rn audit)))))"
proof -
  have "exec_inv (fold (exec_step v) evs (session_manager_new rn audit))"
    by (rule session_machine.fold_inv) (rule new_exec_inv)
  then show ?thesis by (simp add: exec_inv_def table_locks_def)
qed

end
