(* ===== verification/HttpJson.thy ===== *)
theory HttpJson
  imports RustStr
begin

text \<open>
  What the programs that call the server share: JSON values as \<open>serde_json::Value\<close> has them, and HTTP
  calls and answers. The HTTP library is a \<open>transport\<close>, a parameter of its callers.
\<close>

section \<open>JSON values\<close>

text \<open>\<open>serde_json::Value\<close>; a number is an integer of the types \<open>u64\<close> and \<open>i64\<close> or the text of a float.\<close>

datatype json =
    JNull
  | JBool bool
  | JInt int
  | JFloat string
  | JStr string
  | JArr "json list"
  | JObj "(string \<times> json) list"

definition json_get :: "json \<Rightarrow> string \<Rightarrow> json option" where
  "json_get v k = (case v of JObj kvs \<Rightarrow> map_of kvs k | _ \<Rightarrow> None)"

definition json_index :: "json \<Rightarrow> string \<Rightarrow> json" where
  "json_index v k = (case json_get v k of Some x \<Rightarrow> x | None \<Rightarrow> JNull)"

definition as_str :: "json \<Rightarrow> string option" where
  "as_str v = (case v of JStr s \<Rightarrow> Some s | _ \<Rightarrow> None)"

definition as_i64 :: "json \<Rightarrow> int option" where
  "as_i64 v = (case v of JInt i \<Rightarrow> if - (2 ^ 63) \<le> i \<and> i < 2 ^ 63 then Some i else None | _ \<Rightarrow> None)"

definition as_u64 :: "json \<Rightarrow> nat option" where
  "as_u64 v = (case v of JInt i \<Rightarrow> if 0 \<le> i \<and> i < 2 ^ 64 then Some (nat i) else None | _ \<Rightarrow> None)"

definition as_array :: "json \<Rightarrow> json list option" where
  "as_array v = (case v of JArr vs \<Rightarrow> Some vs | _ \<Rightarrow> None)"

definition get_str :: "json \<Rightarrow> string \<Rightarrow> string option" where
  "get_str v k = Option.bind (json_get v k) as_str"

definition or_else :: "'a option \<Rightarrow> 'a \<Rightarrow> 'a" where
  "or_else x d = (case x of Some a \<Rightarrow> a | None \<Rightarrow> d)"

definition json_nat :: "nat \<Rightarrow> json" where
  "json_nat n = JInt (int n)"

definition show_int :: "int \<Rightarrow> string" where
  "show_int i = (if i < 0 then ''-'' @ show_nat (nat (- i)) else show_nat (nat i))"

section \<open>HTTP calls\<close>

datatype call_body = NoBody | JsonBody json | RawBody string

record http_call =
  hc_method :: string
  hc_url :: string
  hc_auth :: "string option"
  hc_body :: call_body

text \<open>An answer; reading its body can fail.\<close>

record http_answer =
  ha_status :: nat
  ha_body :: "string + string"

type_synonym 's transport = "http_call \<Rightarrow> ('s, string, http_answer) st"

definition is_success :: "nat \<Rightarrow> bool" where
  "is_success status = (200 \<le> status \<and> status < 300)"

definition trim_end_char :: "char \<Rightarrow> string \<Rightarrow> string" where
  "trim_end_char c s = rev (dropWhile (\<lambda>x. x = c) (rev s))"

end
