(* ===== verification/Tty.thy ===== *)
theory Tty
  imports SessionExec HttpJson
begin

text \<open>
  The terminal of a session, \<open>sandbox-server/src/tty.rs\<close>: a program on a pseudo-terminal behind a
  WebSocket. The program is prepared and confined as a job is (\<open>Process\<close>), and the session's mutex is
  held while the terminal is open. What the client, the program and the kernel do is a list of events,
  each with the time that has passed, in nanoseconds, since the loop began to wait for it.
\<close>

section \<open>Requests and messages\<close>

record TtyQuery =
  tq_argv :: string
  tq_timeout_secs :: "u64 option"
  tq_cols :: "u16 option"
  tq_rows :: "u16 option"

datatype ws_message = TextMsg string | BinaryMsg string

record winsize =
  ws_row :: u16
  ws_col :: u16

text \<open>A size is a message with the type \<open>resize\<close> and two numbers that are not zero; \<open>decode\<close> is the derived decoder.\<close>

definition try_parse_resize :: "(string \<Rightarrow> (string \<times> u16 \<times> u16) option) \<Rightarrow> string \<Rightarrow> (u16 \<times> u16) option" where
  "try_parse_resize decode s =
     (case decode s of
        None \<Rightarrow> None
      | Some (kind, cols, rows) \<Rightarrow> if kind \<noteq> ''resize'' \<or> cols = 0 \<or> rows = 0 then None else Some (cols, rows))"

section \<open>State and world\<close>

text \<open>
  The server's side of one terminal: messages sent, bytes written to the program, the size of the
  window, the number of the server's open descriptors of pseudo-terminals, the environment of the
  program, and the state of the runner.
\<close>

record tty =
  ty_sent :: "ws_message list"
  ty_input :: string
  ty_size :: winsize
  ty_ptys :: nat
  ty_env :: "env option"
  ty_rn :: rstate

text \<open>
  Output of the program, with whether it could be sent; a message of the client, with the number of
  bytes that the terminal takes; any other message, an error or the end of the connection; and the end
  of the program, with its status when the wait gives one, and the output read then and 50 ms later.
\<close>

datatype tty_event =
    PtyOutput string bool
  | ClientBinary string nat
  | ClientText string nat bool
  | ClientOther
  | ProgramEnds "exit_status option" "string list" "string list"

text \<open>
  The machine of a job (\<open>world\<close>), whether a pseudo-terminal can be opened and its descriptor copied,
  the number of its slave, the decoder of sizes, what happens while the loop runs, and the text of an
  error.
\<close>

record 'acc tty_world =
  tw_world :: "'acc world"
  tw_openpty_ok :: bool
  tw_slave :: "32 word"
  tw_clone_ok :: bool
  tw_resize :: "string \<Rightarrow> (string \<times> u16 \<times> u16) option"
  tw_events :: "(nat \<times> tty_event) list"
  tw_error :: "CoreError \<Rightarrow> string"

definition tty_send :: "ws_message \<Rightarrow> tty \<Rightarrow> tty" where
  "tty_send m c = c\<lparr>ty_sent := ty_sent c @ [m]\<rparr>"

definition tty_write :: "string \<Rightarrow> nat \<Rightarrow> tty \<Rightarrow> tty" where
  "tty_write data n c = c\<lparr>ty_input := ty_input c @ take n data\<rparr>"

text \<open>\<open>TIOCSWINSZ\<close>, whose failure is ignored.\<close>

definition apply_resize :: "u16 \<Rightarrow> u16 \<Rightarrow> bool \<Rightarrow> tty \<Rightarrow> tty" where
  "apply_resize cols rows ok c = (if ok then c\<lparr>ty_size := \<lparr>ws_row = rows, ws_col = cols\<rparr>\<rparr> else c)"

text \<open>The texts of the messages are raw JSON with the values put in between.\<close>

definition dq :: string where
  "dq = [CHR 0x22]"

definition error_text :: "string \<Rightarrow> ws_message" where
  "error_text m = TextMsg (''{'' @ dq @ ''type'' @ dq @ '':'' @ dq @ ''error'' @ dq @ '','' @ dq @ ''message'' @ dq @ '':'' @ dq @ m @ dq @ ''}'')"

definition timeout_text :: ws_message where
  "timeout_text = TextMsg (''{'' @ dq @ ''type'' @ dq @ '':'' @ dq @ ''timeout'' @ dq @ ''}'')"

definition debug_opt :: "int option \<Rightarrow> string" where
  "debug_opt v = (case v of None \<Rightarrow> ''None'' | Some n \<Rightarrow> ''Some('' @ show_int n @ '')'')"

definition exit_text :: "exit_status option \<Rightarrow> ws_message" where
  "exit_text r =
     TextMsg (''{'' @ dq @ ''type'' @ dq @ '':'' @ dq @ ''exit'' @ dq @ '','' @ dq @ ''exit_code'' @ dq @ '':''
       @ debug_opt (Option.bind r exit_code) @ '','' @ dq @ ''signal'' @ dq @ '':''
       @ debug_opt (Option.bind r exit_signal) @ ''}'')"

section \<open>The loop\<close>

text \<open>
  The end of the loop: the client is gone, the program ended, or the sleep ended first. The sleep is
  made anew in each round. When no event comes any more, the sleep ends.
\<close>

datatype tty_end = ClientGone | ProgramEnded | SleepEnded

definition end_program :: "exit_status option \<Rightarrow> string list \<Rightarrow> string list \<Rightarrow> tty \<Rightarrow> tty" where
  "end_program r now late c =
     tty_send (exit_text r) (c\<lparr>ty_sent := ty_sent c @ map BinaryMsg now @ map BinaryMsg late\<rparr>)"

definition stop_program :: "int \<Rightarrow> tty \<Rightarrow> tty" where
  "stop_program pid c =
     tty_send timeout_text (c\<lparr>ty_rn := (ty_rn c)\<lparr>rn_signals := rn_signals (ty_rn c) @ [KillPgTerm pid, KillChild]\<rparr>\<rparr>)"

text \<open>One event: the state after it, and whether the loop ends with it.\<close>

definition tty_step ::
    "(string \<Rightarrow> (string \<times> u16 \<times> u16) option) \<Rightarrow> tty_event \<Rightarrow> tty \<Rightarrow> tty_end option \<times> tty" where
  "tty_step decode e c =
     (case e of
        PtyOutput data sent \<Rightarrow> if sent then (None, tty_send (BinaryMsg data) c) else (Some ClientGone, c)
      | ClientBinary data n \<Rightarrow> (None, tty_write data n c)
      | ClientText s n ok \<Rightarrow>
          (None, case try_parse_resize decode s of
                   Some (cols, rows) \<Rightarrow> apply_resize cols rows ok c
                 | None \<Rightarrow> tty_write s n c)
      | ClientOther \<Rightarrow> (Some ClientGone, c)
      | ProgramEnds r now late \<Rightarrow> (Some ProgramEnded, end_program r now late c))"

fun tty_loop ::
    "(string \<Rightarrow> (string \<times> u16 \<times> u16) option) \<Rightarrow> int \<Rightarrow> nat \<Rightarrow> (nat \<times> tty_event) list \<Rightarrow> tty \<Rightarrow> tty_end \<times> tty" where
  "tty_loop decode pid limit [] c = (SleepEnded, stop_program pid c)"
| "tty_loop decode pid limit ((gap, e) # es) c =
     (if limit < gap then (SleepEnded, stop_program pid c)
      else (case tty_step decode e c of
              (Some r, c) \<Rightarrow> (r, c)
            | (None, c) \<Rightarrow> tty_loop decode pid limit es c))"

section \<open>One terminal\<close>

text \<open>\<open>openpty\<close>, the environment and the preparation: what the program starts with, or an error sent.\<close>

definition tty_prepare ::
    "'acc tty_world \<Rightarrow> TtyQuery \<Rightarrow> JobWorkspace \<Rightarrow> SandboxProfile \<Rightarrow> string \<Rightarrow> tty
      \<Rightarrow> (env \<times> JobCgroup option \<times> 'acc PreparedSandboxContext) option \<times> tty" where
  "tty_prepare w qy jw profile sid c =
     (if \<not> tw_openpty_ok w then (None, tty_send (error_text ''openpty failed'') c)
      else
        (let c = c\<lparr>ty_ptys := ty_ptys c + 2,
               ty_size := \<lparr>ws_row = (case tq_rows qy of Some n \<Rightarrow> n | None \<Rightarrow> 24),
                           ws_col = (case tq_cols qy of Some n \<Rightarrow> n | None \<Rightarrow> 80)\<rparr>\<rparr>;
             env = build_sanitized_env sid (jw_workspace jw) (sp_env profile) [];
             (prepared, cg) = psc_prepare (w_host (tw_world w)) profile (jw_workspace jw) sid (w_cap (tw_world w)) (rn_cg (ty_rn c));
             c = c\<lparr>ty_rn := (ty_rn c)\<lparr>rn_cg := cg\<rparr>\<rparr>
         in case prepared of
              Inl e \<Rightarrow> (None, (tty_send (error_text (''prepare: '' @ tw_error w e)) c)\<lparr>ty_ptys := ty_ptys c - 2\<rparr>)
            | Inr ctx \<Rightarrow>
                (let (cgroup, ctx) = take_cgroup (ctx\<lparr>psc_tty_slave_fd := Some (tw_slave w)\<rparr>)
                 in (Some (env, cgroup, ctx), c))))"

text \<open>
  \<open>spawn\<close>, with \<open>-1\<close> as the error pipe: a child that cannot be confined exits with status 1 and nobody
  is told, so for the server it has started. A left value: it could not be started.
\<close>

definition tty_spawn ::
    "'acc tty_world \<Rightarrow> 'acc PreparedSandboxContext \<Rightarrow> string \<Rightarrow> string + ((PreExecError + unit) \<times> 'acc child)" where
  "tty_spawn w ctx workspace =
     (let v = (tw_world w)\<lparr>w_error_fd := - 1\<rparr>
      in case w_fork_err v of
           Some e \<Rightarrow> Inl e
         | None \<Rightarrow>
             (case apply_in_child (w_kernel v) ctx workspace (w_error_fd v) (w_child v) of
                (Inl e, ch) \<Rightarrow> Inr (Inl e, ch)
              | (Inr _, ch) \<Rightarrow> (case exec_reported v ctx workspace of Some e \<Rightarrow> Inl e | None \<Rightarrow> Inr (Inr (), ch))))"

datatype tty_outcome = TtyReturned "tty_end option" | TtyPanicked | TtyWaiting

text \<open>
  Steps 2 to 9. The command keeps the three copies of the slave until the end; a copy that cannot be
  made is a panic, which leaves the master open.
\<close>

definition serve_tty ::
    "'acc tty_world \<Rightarrow> TtyQuery \<Rightarrow> JobWorkspace \<Rightarrow> SandboxProfile \<Rightarrow> string \<Rightarrow> tty \<Rightarrow> tty_outcome \<times> tty" where
  "serve_tty w qy jw profile sid c =
     (case tty_prepare w qy jw profile sid c of
        (None, c) \<Rightarrow> (TtyReturned None, c)
      | (Some (env, cgroup, ctx), c) \<Rightarrow>
          if \<not> tw_clone_ok w then (TtyPanicked, c\<lparr>ty_ptys := ty_ptys c - 1\<rparr>)
          else
            (let c = c\<lparr>ty_ptys := ty_ptys c + 2\<rparr>;
                 close = (\<lambda>c. c\<lparr>ty_ptys := ty_ptys c - 4,
                    ty_rn := (ty_rn c)\<lparr>rn_cg := destroy_opt (h_cgroup (w_host (tw_world w))) cgroup (rn_cg (ty_rn c))\<rparr>\<rparr>)
             in case tty_spawn w ctx (jw_workspace jw) of
                  Inl e \<Rightarrow> (TtyReturned None, close (tty_send (error_text (''spawn: '' @ e)) c))
                | Inr _ \<Rightarrow>
                    (let pid = sint (case w_pid (tw_world w) of Some p \<Rightarrow> p | None \<Rightarrow> 0);
                         limit = unat (case tq_timeout_secs qy of Some n \<Rightarrow> n | None \<Rightarrow> 300) * 1000000000;
                         c = c\<lparr>ty_env := Some env, ty_rn := (ty_rn c)\<lparr>rn_fs := w_job_fs (tw_world w) (rn_fs (ty_rn c))\<rparr>\<rparr>;
                         (r, c) = tty_loop (tw_resize w) pid limit (tw_events w) c
                     in (TtyReturned (Some r), close c))))"

text \<open>\<open>run_tty\<close>: the session is looked up, its mutex taken, and given back when the handler ends.\<close>

definition run_tty ::
    "'acc tty_world \<Rightarrow> TtyQuery \<Rightarrow> string \<Rightarrow> session_manager \<Rightarrow> tty \<Rightarrow> tty_outcome \<times> session_manager \<times> tty" where
  "run_tty w qy sid s c =
     (let argv = split_whitespace (tq_argv qy)
      in if argv = [] then (TtyReturned None, s, tty_send (error_text ''no argv'') c)
         else case exec_context sid s of
           Inl e \<Rightarrow> (TtyReturned None, s, tty_send (error_text (''session not found: '' @ tw_error w e)) c)
         | Inr (jw, profile, lock) \<Rightarrow>
             if lock \<in> ss_held s then (TtyWaiting, s, c)
             else
               (let s = s\<lparr>ss_held := insert lock (ss_held s)\<rparr>
                in case serve_tty w qy jw profile sid (c\<lparr>ty_rn := ss_rn s\<rparr>) of
                     (r, c) \<Rightarrow> (r, s\<lparr>ss_rn := ty_rn c, ss_held := ss_held s - {lock}\<rparr>, c)))"

end
