(* ===== verification/TtyProofs.thy ===== *)
theory TtyProofs
  imports Tty ExecReport
begin

text \<open>Properties of the terminal: what confines its program, when it is stopped, and what it leaves.\<close>

section \<open>The loop\<close>

text \<open>An event after which the loop waits for the next one.\<close>

definition goes_on :: "tty_event \<Rightarrow> bool" where
  "goes_on e = (case e of PtyOutput data sent \<Rightarrow> sent | ClientBinary data n \<Rightarrow> True | ClientText s n ok \<Rightarrow> True
     | ClientOther \<Rightarrow> False | ProgramEnds r now late \<Rightarrow> False)"

lemma tty_simps [simp]:
  "ty_ptys (tty_send m c) = ty_ptys c" "ty_rn (tty_send m c) = ty_rn c" "ty_env (tty_send m c) = ty_env c"
  "ty_ptys (tty_write d n c) = ty_ptys c" "ty_rn (tty_write d n c) = ty_rn c"
  "ty_ptys (apply_resize cols rows ok c) = ty_ptys c" "ty_rn (apply_resize cols rows ok c) = ty_rn c"
  "ty_ptys (end_program r now late c) = ty_ptys c" "ty_rn (end_program r now late c) = ty_rn c"
  "ty_ptys (stop_program pid c) = ty_ptys c"
  "ty_rn (stop_program pid c) = (ty_rn c)\<lparr>rn_signals := rn_signals (ty_rn c) @ [KillPgTerm pid, KillChild]\<rparr>"
  by (simp_all add: tty_send_def tty_write_def apply_resize_def end_program_def stop_program_def)

lemma tty_step_goes_on: "fst (tty_step decode e c) = None \<longleftrightarrow> goes_on e"
  by (cases e) (simp_all add: tty_step_def goes_on_def)

lemma tty_step_end: "fst (tty_step decode e c) = Some r \<Longrightarrow> r \<noteq> SleepEnded"
  by (cases e) (auto simp: tty_step_def split: if_splits)

lemma tty_step_frame:
  "tty_step decode e c = (r, c') \<Longrightarrow> ty_ptys c' = ty_ptys c \<and> ty_rn c' = ty_rn c"
  by (cases e) (auto simp: tty_step_def split: if_splits option.splits)

text \<open>The signals that the end of the loop sends.\<close>

definition end_signals :: "int \<Rightarrow> tty_end \<Rightarrow> sent_signal list" where
  "end_signals pid r = (if r = SleepEnded then [KillPgTerm pid, KillChild] else [])"

lemma tty_loop_frame:
  "tty_loop decode pid limit es c = (r, c') \<Longrightarrow>
     ty_ptys c' = ty_ptys c \<and> ty_rn c' = (ty_rn c)\<lparr>rn_signals := rn_signals (ty_rn c) @ end_signals pid r\<rparr>"
proof (induction es arbitrary: c)
  case Nil
  then show ?case by (auto simp: end_signals_def)
next
  case (Cons ge es)
  obtain g e where ge: "ge = (g, e)" by (cases ge)
  obtain x d where x: "tty_step decode e c = (x, d)" by fastforce
  show ?case
  proof (cases x)
    case None
    then show ?thesis using Cons tty_step_frame [OF x] by (auto simp: ge x end_signals_def split: if_splits)
  next
    case (Some y)
    then show ?thesis using Cons.prems tty_step_frame [OF x] tty_step_end [of decode e c y]
      by (auto simp: ge x end_signals_def split: if_splits)
  qed
qed

lemma tty_loop_over:
  "list_all (\<lambda>(g, e). g \<le> limit \<and> goes_on e) es \<Longrightarrow> \<exists>d. \<forall>zs. tty_loop decode pid limit (es @ zs) c = tty_loop decode pid limit zs d"
proof (induction es arbitrary: c)
  case (Cons ge es)
  obtain g e where ge: "ge = (g, e)" by (cases ge)
  have e: "g \<le> limit" "goes_on e" using Cons.prems by (simp_all add: ge)
  obtain d where "tty_step decode e c = (None, d)"
    using tty_step_goes_on [of decode e c] e by (cases "tty_step decode e c") auto
  then have "tty_loop decode pid limit ((ge # es) @ zs) c = tty_loop decode pid limit (es @ zs) d" for zs
    using e by (simp add: ge)
  then show ?case using Cons by simp
qed auto

text \<open>The sleep ends first exactly when a wait for one event, after events that go on, is too long.\<close>

definition silence :: "nat \<Rightarrow> (nat \<times> tty_event) list \<Rightarrow> bool" where
  "silence limit es =
     (case dropWhile (\<lambda>(g, e). g \<le> limit \<and> goes_on e) es of [] \<Rightarrow> True | (g, e) # _ \<Rightarrow> limit < g)"

lemma tty_loop_sleep_iff: "fst (tty_loop decode pid limit es c) = SleepEnded \<longleftrightarrow> silence limit es"
proof (induction es arbitrary: c)
  case (Cons ge es)
  obtain g e where ge: "ge = (g, e)" by (cases ge)
  obtain x d where x: "tty_step decode e c = (x, d)" by fastforce
  show ?case
  proof (cases x)
    case None
    then have "goes_on e" using tty_step_goes_on [of decode e c] x by simp
    then show ?thesis using Cons [of d] x None by (simp add: ge silence_def)
  next
    case (Some r)
    then have "\<not> goes_on e" "r \<noteq> SleepEnded"
      using tty_step_goes_on [of decode e c] tty_step_end [of decode e c r] x by simp_all
    then show ?thesis using x Some by (simp add: ge silence_def)
  qed
qed (simp add: silence_def)

text \<open>
  C25. The time limit of a terminal is a limit on silence. The program is signalled exactly when no
  event comes for longer than the limit, after any number of events that go on; a client or a program
  that sends something within the limit each time keeps the terminal, and the mutex of the session,
  for any time.
\<close>

theorem tty_limit_is_idle:
  "(fst (tty_loop decode pid limit es c) = SleepEnded \<longleftrightarrow> silence limit es)
    \<and> rn_signals (ty_rn (snd (tty_loop decode pid limit es c))) =
        rn_signals (ty_rn c) @ (if fst (tty_loop decode pid limit es c) = SleepEnded then [KillPgTerm pid, KillChild] else [])
    \<and> (\<exists>as. limit * n \<le> sum_list (map fst as) \<and> (\<forall>r. fst (tty_loop decode pid limit (as @ [(0, ProgramEnds r [] [])]) c) = ProgramEnded))"
proof -
  let ?as = "replicate n (limit, ClientBinary [] 0)"
  have "list_all (\<lambda>(g, e). g \<le> limit \<and> goes_on e) ?as" by (simp add: list_all_iff goes_on_def)
  then obtain d where "\<forall>zs. tty_loop decode pid limit (?as @ zs) c = tty_loop decode pid limit zs d"
    using tty_loop_over by blast
  then have "fst (tty_loop decode pid limit (?as @ [(0, ProgramEnds r [] [])]) c) = ProgramEnded" for r
    by (simp add: tty_step_def)
  moreover have "limit * n \<le> sum_list (map fst ?as)" by (simp add: sum_list_replicate)
  ultimately have "\<exists>as. limit * n \<le> sum_list (map fst as)
      \<and> (\<forall>r. fst (tty_loop decode pid limit (as @ [(0, ProgramEnds r [] [])]) c) = ProgramEnded)" by blast
  moreover obtain r c' where "tty_loop decode pid limit es c = (r, c')" by fastforce
  ultimately show ?thesis
    using tty_loop_sleep_iff [of decode pid limit es c] tty_loop_frame [of decode pid limit es c]
    by (simp add: end_signals_def)
qed

section \<open>What a terminal leaves\<close>

lemma tty_prepare_frame:
  "tty_prepare w qy jw profile sid c = (r, c') \<Longrightarrow>
     ty_ptys c' = ty_ptys c + (if r = None then 0 else 2)
     \<and> (\<exists>cg. ty_rn c' = (ty_rn c)\<lparr>rn_cg := cg\<rparr>)"
  by (auto simp: tty_prepare_def Let_def take_cgroup_def split: if_splits prod.splits sum.splits)
    (metis rstate.surjective rstate.update_convs(3))+

text \<open>The process number that signals are sent to.\<close>

definition tty_pid :: "'acc tty_world \<Rightarrow> int" where
  "tty_pid w = sint (case w_pid (tw_world w) of Some p \<Rightarrow> p | None \<Rightarrow> 0)"

lemma serve_tty_frame:
  assumes "serve_tty w qy jw profile sid c = (r, c')"
  shows "ty_ptys c' = ty_ptys c + (if r = TtyPanicked then 1 else 0) \<and> r \<noteq> TtyWaiting
    \<and> rn_signals (ty_rn c') = rn_signals (ty_rn c) @ (if r = TtyReturned (Some SleepEnded) then [KillPgTerm (tty_pid w), KillChild] else [])"
proof -
  obtain p d where p: "tty_prepare w qy jw profile sid c = (p, d)" by fastforce
  note fr = tty_prepare_frame [OF p]
  show ?thesis
  proof (cases p)
    case None
    then show ?thesis using assms fr by (auto simp: serve_tty_def p)
  next
    case (Some t)
    obtain env cgroup ctx where t: "t = (env, cgroup, ctx)" by (cases t)
    show ?thesis
    proof (cases "tw_clone_ok w")
      case False
      then show ?thesis using assms fr Some t by (auto simp: serve_tty_def p)
    next
      case True
      show ?thesis
      proof (cases "tty_spawn w ctx (jw_workspace jw)")
        case (Inl e)
        then show ?thesis using assms fr Some t True by (auto simp: serve_tty_def p Let_def)
      next
        case (Inr u)
        let ?limit = "unat (case tq_timeout_secs qy of Some n \<Rightarrow> n | None \<Rightarrow> 300) * 1000000000"
        let ?c = "d\<lparr>ty_ptys := ty_ptys d + 2, ty_env := Some env, ty_rn := (ty_rn d)\<lparr>rn_fs := w_job_fs (tw_world w) (rn_fs (ty_rn d))\<rparr>\<rparr>"
        obtain x y where l: "tty_loop (tw_resize w) (tty_pid w) ?limit (tw_events w) ?c = (x, y)" by fastforce
        have "r = TtyReturned (Some x)" "ty_ptys c' = ty_ptys y - 4" "rn_signals (ty_rn c') = rn_signals (ty_rn y)"
          using assms True Some t l Inr by (auto simp: serve_tty_def p Let_def tty_pid_def)
        then show ?thesis using tty_loop_frame [OF l] fr Some by (auto simp: end_signals_def)
      qed
    qed
  qed
qed

text \<open>
  What a terminal leaves. It gives back the mutex of its session and, unless it panics, all
  descriptors of its pseudo-terminal. It signals its program only when the limit has passed, not when
  the client disconnects.
  Nothing is audited or counted, and the terminal does not count as activity of its session: which
  sessions expire is the same as if it had never been opened.
\<close>

theorem terminal_leaves:
  "case run_tty w qy sid s c of
     (r, s', c') \<Rightarrow>
       ss_held s' = ss_held s \<and> ss_table s' = ss_table s \<and> ss_execs s' = ss_execs s
       \<and> ss_audit s' = ss_audit s \<and> ss_metrics s' = ss_metrics s \<and> ss_posts s' = ss_posts s
       \<and> expired_ids now ttl s' = expired_ids now ttl s
       \<and> ty_ptys c' = ty_ptys c + (if r = TtyPanicked then 1 else 0)
       \<and> rn_signals (ss_rn s') = rn_signals (ss_rn s)
            @ (if r = TtyReturned (Some SleepEnded) then [KillPgTerm (tty_pid w), KillChild] else [])"
proof (cases "split_whitespace (tq_argv qy) = []")
  case False
  show ?thesis
  proof (cases "exec_context sid s")
    case (Inr t)
    obtain jw profile lock where t: "t = (jw, profile, lock)" by (cases t)
    obtain r c' where v: "serve_tty w qy jw profile sid (c\<lparr>ty_rn := ss_rn s\<rparr>) = (r, c')" by fastforce
    show ?thesis
      using False Inr serve_tty_frame [OF v] by (auto simp: run_tty_def Let_def t v expired_ids_def)
  qed (simp add: run_tty_def False expired_ids_def)
qed (simp add: run_tty_def expired_ids_def)

section \<open>What confines the program\<close>

lemma child_tty:
  assumes "apply_in_child k ctx workspace fd s = (Inr u, s')" and "psc_tty_slave_fd ctx = Some slave"
  shows "ch_tty s' = Some slave"
proof -
  have st: "ch_tty (started ctx s) = Some slave" using assms(2) by (simp add: started_def Let_def)
  obtain s4 s5 s6 where s: "do_landlock k ctx (started ctx s) = Some s4" "do_seccomp k ctx s4 = Some s5"
    "do_rlimit k ctx s5 = Some s6" "s' = the (do_close k fd (s6\<lparr>ch_cwd := workspace\<rparr>))"
    using assms(1) by (auto simp: apply_in_child_eq confine_def split: if_splits option.splits)
  obtain l where "s4 = (started ctx s)\<lparr>ch_landlock := l\<rparr>" using do_landlock_Some [OF s(1)] by blast
  moreover obtain ls where "s6 = s5\<lparr>ch_limits := ls\<rparr>" using do_rlimit_Some [OF s(3)] by blast
  ultimately show ?thesis using do_seccomp_Some [OF s(2)] st s(4) by (simp add: do_close_def)
qed

lemma prepare_cgroup_procs:
  assumes "prepare_cgroup h profile workspace job_id cap s = (Inr (Some cg), s')"
  shows "cg_read_file s' (cg_path cg) ''cgroup.procs'' = k_new_files (h_cgroup h) (cg_path cg) ''cgroup.procs''"
proof -
  obtain parent res avail where c: "cgroup_create (h_cgroup h) job_id parent res avail s = (Inr cg, s')"
    using assms by (auto simp: prepare_cgroup_def split: option.splits if_splits prod.splits sum.splits)
  have "limit_value res ''cgroup.procs'' = None" by (simp add: limit_value_def)
  then show ?thesis
    using cgroup_create_at [OF refl, where k = "h_cgroup h" and job_id = job_id and parent = parent and r = res and avail = avail and s = s] c
    by (auto simp: cg_read_file_def split: option.split)
qed

lemma tty_prepare_parts:
  assumes "tty_prepare w qy jw profile sid c = (Some (env, cgroup, ctx), c')"
  shows "psc_rlimit ctx = sp_rlimit profile \<and> psc_tty_slave_fd ctx = Some (tw_slave w)
    \<and> prepare_landlock (w_host (tw_world w)) profile (jw_workspace jw) (w_cap (tw_world w)) = Inr (psc_landlock ctx)
    \<and> prepare_cgroup (w_host (tw_world w)) profile (jw_workspace jw) sid (w_cap (tw_world w)) (rn_cg (ty_rn c)) =
        (Inr cgroup, rn_cg (ty_rn c'))
    \<and> env = build_sanitized_env sid (jw_workspace jw) (sp_env profile) []"
  using assms
  by (auto simp: tty_prepare_def Let_def take_cgroup_def split: if_splits prod.splits sum.splits dest!: prepare_parts)

lemma migrate_opt_file:
  "cg_read_file (migrate_opt k (Some cg) pid s) (cg_path cg) ''cgroup.procs'' =
     (case cg_read_file s (cg_path cg) ''cgroup.procs'' of
        None \<Rightarrow> None
      | Some old \<Rightarrow> Some (if k_write_err k (cg_path cg) ''cgroup.procs'' (show_nat (unat pid)) = None
                       then show_nat (unat pid) else old))"
  by (auto simp: migrate_opt_def migrate_process_def cg_write_def cg_read_file_def split: option.splits)

text \<open>
  C24. The program of a terminal is confined as that of a job, but outside its group. A child that
  starts leads a session on the terminal, cannot gain privileges, runs in the workspace and has the
  prepared filter and Landlock rules and exactly the limits of the profile; but the group with the
  limits on memory, processor and processes, which is made for it, is left as the kernel made it
  through the whole loop: nobody writes the program's number there, as is done for a job.
\<close>

theorem terminal_outside_its_group:
  assumes prep: "tty_prepare w qy jw profile sid c = (Some (env, Some cg, ctx), c')"
    and start: "tty_spawn w ctx (jw_workspace jw) = Inr (Inr u, ch)"
    and loop: "ty_rn d = (ty_rn c')\<lparr>rn_fs := f\<rparr>" "tty_loop (tw_resize w) pid limit es d = (r, c'')"
  shows "ch_session_leader ch \<and> ch_tty ch = Some (tw_slave w) \<and> no_new_privs (ch_seccomp ch) \<and> ch_cwd ch = jw_workspace jw
    \<and> loaded (ch_seccomp ch) = (case psc_seccomp ctx of None \<Rightarrow> loaded (ch_seccomp (w_child (tw_world w)))
        | Some prog \<Rightarrow> take (unat (of_nat (length prog) :: u16)) prog # loaded (ch_seccomp (w_child (tw_world w))))
    \<and> (case psc_landlock ctx of None \<Rightarrow> ch_landlock ch = ch_landlock (w_child (tw_world w))
       | Some pr \<Rightarrow> \<exists>created active. pr_inner pr = Some created \<and> ch_landlock ch = Some active
           \<and> set (cr_rules created) \<subseteq> set (cr_rules active)
           \<and> set (cr_rules active) \<subseteq> insert (''/proc/'' @ show_nat (ck_pid (w_kernel (tw_world w))),
                 ll_from_read (ck_landlock (w_kernel (tw_world w))) (pr_abi pr)) (set (cr_rules created)))
    \<and> (\<forall>x. ch_limits ch x = (case configured (sp_rlimit profile) x of Some v \<Rightarrow> (v, v)
         | None \<Rightarrow> ch_limits (w_child (tw_world w)) x))
    \<and> cg_read_file (rn_cg (ty_rn c'')) (cg_path cg) ''cgroup.procs'' =
        k_new_files (h_cgroup (w_host (tw_world w))) (cg_path cg) ''cgroup.procs''
    \<and> cg_read_file (migrate_opt (h_cgroup (w_host (tw_world w))) (Some cg) p (rn_cg (ty_rn c''))) (cg_path cg) ''cgroup.procs'' =
        (case k_new_files (h_cgroup (w_host (tw_world w))) (cg_path cg) ''cgroup.procs'' of
           None \<Rightarrow> None
         | Some old \<Rightarrow> Some (if k_write_err (h_cgroup (w_host (tw_world w))) (cg_path cg) ''cgroup.procs'' (show_nat (unat p)) = None
             then show_nat (unat p) else old))"
proof -
  note pp = tty_prepare_parts [OF prep]
  have child: "apply_in_child (w_kernel (tw_world w)) ctx (jw_workspace jw) (- 1) (w_child (tw_world w)) = (Inr u, ch)"
    using start by (auto simp: tty_spawn_def Let_def split: option.splits prod.splits sum.splits)
  have "rn_cg (ty_rn c'') = rn_cg (ty_rn c')" using tty_loop_frame [OF loop(2)] loop(1) by simp
  then have "cg_read_file (rn_cg (ty_rn c'')) (cg_path cg) ''cgroup.procs'' =
        k_new_files (h_cgroup (w_host (tw_world w))) (cg_path cg) ''cgroup.procs''"
    using prepare_cgroup_procs pp by metis
  moreover have "ch_tty ch = Some (tw_slave w)" using child_tty [OF child] pp by simp
  ultimately show ?thesis
    using child_state [OF child] pp unfolding migrate_opt_file by simp
qed

text \<open>A terminal of the profile \<open>shell\<close> on the concrete host.\<close>

definition demo_tty_world :: "(nat \<times> tty_event) list \<Rightarrow> demo_acc tty_world" where
  "demo_tty_world es = \<lparr>tw_world = demo_world None [] [], tw_openpty_ok = True, tw_slave = 5, tw_clone_ok = True,
     tw_resize = (\<lambda>_. None), tw_events = es, tw_error = (\<lambda>_. [])\<rparr>"

definition demo_tty :: tty where
  "demo_tty = \<lparr>ty_sent = [], ty_input = [], ty_size = \<lparr>ws_row = 0, ws_col = 0\<rparr>, ty_ptys = 0, ty_env = None, ty_rn = demo_rs\<rparr>"

lemma demo_tty_child:
  "\<exists>ch. apply_in_child demo_kernel (demo_ctx\<lparr>psc_tty_slave_fd := Some 5, psc_cgroup := None\<rparr>) ''/w/j'' (- 1) demo_child = (Inr (), ch)"
proof -
  let ?ctx = "demo_ctx\<lparr>psc_tty_slave_fd := Some 5, psc_cgroup := None\<rparr>"
  have "do_landlock demo_kernel ?ctx (started ?ctx demo_child) = Some ((started ?ctx demo_child)\<lparr>ch_landlock := Some demo_active\<rparr>)"
    by (simp add: do_landlock_def demo_ctx_def demo_kernel_def demo_apply) (simp add: demo_child_def demo_apply)
  moreover obtain t where "do_seccomp demo_kernel ?ctx ((started ?ctx demo_child)\<lparr>ch_landlock := Some demo_active\<rparr>) = Some t"
    by (simp add: do_seccomp_def demo_ctx_def demo_kernel_def filter_apply_def Let_def)
  moreover obtain t' where "do_rlimit demo_kernel ?ctx t = Some t'"
    using set_all_ok [of "psc_rlimit ?ctx" call_order "ch_limits t"]
    by (auto simp: do_rlimit_def demo_kernel_def rlimit_apply_set_all)
  ultimately show ?thesis
    by (simp add: apply_in_child_eq confine_def) (simp add: demo_kernel_def)
qed

theorem terminal_outside_its_group_witness:
  "\<exists>env cg ctx c' r c''. tty_prepare (demo_tty_world []) \<lparr>tq_argv = ''sh'', tq_timeout_secs = None, tq_cols = None, tq_rows = None\<rparr>
      demo_jw profile_shell ''j'' demo_tty = (Some (env, Some cg, ctx), c')
    \<and> tty_loop (\<lambda>_. None) 7 9 [(5, ClientText ''ls'' 2 True)] c' = (r, c'')
    \<and> cg_read_file (rn_cg (ty_rn c'')) (cg_path cg) ''cgroup.procs'' = Some []"
proof -
  let ?w = "demo_tty_world []" and ?q = "\<lparr>tq_argv = ''sh'', tq_timeout_secs = None, tq_cols = None, tq_rows = None\<rparr>"
  let ?ctx = "demo_ctx\<lparr>psc_tty_slave_fd := Some 5, psc_cgroup := None\<rparr>"
  obtain cgs where "psc_prepare demo_host profile_shell ''/w/j'' ''j'' demo_cap (rn_cg demo_rs) = (Inr demo_ctx, cgs)"
    using demo_prepared_run [of None "[]" "[]"] by (auto simp: prepared_def demo_jw_def demo_req_def demo_world_def)
  then obtain env c' where p: "tty_prepare ?w ?q demo_jw profile_shell ''j'' demo_tty = (Some (env, psc_cgroup demo_ctx, ?ctx), c')"
    by (simp add: tty_prepare_def demo_tty_world_def demo_tty_def demo_jw_def demo_world_def take_cgroup_def)
  obtain cg where cg: "psc_cgroup demo_ctx = Some cg" by (simp add: demo_ctx_def)
  obtain ch where ch: "apply_in_child demo_kernel ?ctx ''/w/j'' (- 1) demo_child = (Inr (), ch)" using demo_tty_child by blast
  have "exec_reported ((demo_world None [] [])\<lparr>w_error_fd := - 1\<rparr>) ?ctx ''/w/j'' = None"
    by (simp add: exec_reported_def demo_world_def)
  then have start: "tty_spawn ?w ?ctx (jw_workspace demo_jw) = Inr (Inr (), ch)"
    using ch by (simp add: tty_spawn_def demo_tty_world_def demo_world_def demo_jw_def)
  obtain r c'' where l: "tty_loop (tw_resize ?w) 7 9 [(5, ClientText ''ls'' 2 True)] c' = (r, c'')" by fastforce
  have rn: "ty_rn c' = (ty_rn c')\<lparr>rn_fs := rn_fs (ty_rn c')\<rparr>" by simp
  have "cg_read_file (rn_cg (ty_rn c'')) (cg_path cg) ''cgroup.procs'' =
      k_new_files (h_cgroup (w_host (tw_world ?w))) (cg_path cg) ''cgroup.procs''"
    using terminal_outside_its_group [OF p [unfolded cg] start rn l] by blast
  also have "\<dots> = Some []" by (simp add: demo_tty_world_def demo_world_def demo_host_def)
  finally show ?thesis using p l cg by (auto simp: demo_tty_world_def)
qed

end
