(* ===== verification/Config.thy ===== *)
theory Config
  imports Runner RateLimit AuditLog
begin

text \<open>
  The configuration of the server, \<open>sandbox-server/src/config.rs\<close>, and how \<open>main.rs\<close> builds the
  runner from it at the start and \<open>/api/v1/reload\<close> later. The YAML parser and the shell that runs
  a template's setup command are parameters. A hash map is a list of entries in its iteration
  order, with every key once. Products of \<open>u64\<close> wrap, as in a release build.
\<close>

section \<open>The sections\<close>

record RateLimitSection =
  rl_enabled :: bool
  rl_limits :: RateLimitConfig

definition default_requests_per_window :: u64 where
  "default_requests_per_window = 60"

definition default_window_secs :: u64 where
  "default_window_secs = 60"

definition rate_limit_default :: RateLimitSection where
  "rate_limit_default = \<lparr>rl_enabled = False, rl_limits =
     \<lparr>requests_per_window = default_requests_per_window, window_secs = default_window_secs\<rparr>\<rparr>"

record AuditConfig =
  au_enabled :: bool
  au_path :: string

definition default_audit_path :: string where
  "default_audit_path = ''/var/log/sandbox/audit.jsonl''"

definition audit_default :: AuditConfig where
  "audit_default = \<lparr>au_enabled = False, au_path = default_audit_path\<rparr>"

record ServerSection =
  cs_listen_addr :: string
  cs_max_concurrent_jobs :: nat
  cs_log_level :: string
  cs_log_format :: string
  cs_audit :: AuditConfig
  cs_api_key :: "string option"
  cs_webhooks :: "string list"
  cs_otel_endpoint :: "string option"
  cs_rate_limit :: RateLimitSection
  cs_shutdown_timeout_secs :: u64

definition server_default :: ServerSection where
  "server_default =
     \<lparr>cs_listen_addr = ''0.0.0.0:8080'', cs_max_concurrent_jobs = 100, cs_log_level = ''info'',
      cs_log_format = ''json'', cs_audit = audit_default, cs_api_key = None, cs_webhooks = [],
      cs_otel_endpoint = None, cs_rate_limit = rate_limit_default, cs_shutdown_timeout_secs = 30\<rparr>"

record SandboxSection =
  cb_base_dir :: string
  cb_disk_watermark_mb :: u64
  cb_default_profile :: string
  cb_fail_closed :: bool
  cb_session_ttl_secs :: "u64 option"

definition sandbox_default :: SandboxSection where
  "sandbox_default = \<lparr>cb_base_dir = ''/sandboxes'', cb_disk_watermark_mb = 1024,
     cb_default_profile = ''shell'', cb_fail_closed = True, cb_session_ttl_secs = None\<rparr>"

datatype SeccompMode = Denylist | Allowlist

record RlimitFileConfig =
  rf_cpu_seconds :: "u64 option"
  rf_nofile :: "u64 option"
  rf_nproc :: "u64 option"
  rf_fsize_mb :: "u64 option"
  rf_core :: "u64 option"
  rf_stack_mb :: "u64 option"
  rf_memlock :: "u64 option"

record ProfileConfig =
  pc_rlimit :: "RlimitFileConfig option"
  pc_extra_readonly_paths :: "string list option"
  pc_max_stdout_mb :: "u64 option"
  pc_max_stderr_mb :: "u64 option"
  pc_default_timeout :: "string option"
  pc_egress_allowlist :: "EgressRule list option"
  pc_disk_quota_mb :: "u64 option"
  pc_env :: "(string \<times> string) list option"
  pc_seccomp_mode :: "SeccompMode option"

record TemplateConfig =
  tc_profile :: ProfileConfig
  tc_setup :: "string option"

record AppConfig =
  ac_server :: ServerSection
  ac_sandbox :: SandboxSection
  ac_profiles :: "(string \<times> ProfileConfig) list"
  ac_templates :: "(string \<times> TemplateConfig) list"

definition app_default :: AppConfig where
  "app_default = \<lparr>ac_server = server_default, ac_sandbox = sandbox_default, ac_profiles = [], ac_templates = []\<rparr>"

section \<open>From the file to a profile\<close>

definition parse_duration :: "string \<Rightarrow> nat option" where
  "parse_duration s =
     (let s = trim s
      in case strip_suffix ''ms'' s of
           Some num \<Rightarrow> map_option from_millis (parse_uint 64 10 num)
         | None \<Rightarrow>
             (case strip_suffix ''s'' s of
                Some num \<Rightarrow> map_option from_secs (parse_uint 64 10 num)
              | None \<Rightarrow>
                  (case strip_suffix ''m'' s of
                     Some num \<Rightarrow> map_option (\<lambda>mins. from_secs (unat (of_nat mins * 60 :: u64))) (parse_uint 64 10 num)
                   | None \<Rightarrow> map_option from_secs (parse_uint 64 10 s))))"

definition set_opt :: "('v \<Rightarrow> 'c \<Rightarrow> 'c) \<Rightarrow> 'v option \<Rightarrow> 'c \<Rightarrow> 'c" where
  "set_opt f v c = (case v of Some x \<Rightarrow> f x c | None \<Rightarrow> c)"

definition to_rlimit_config :: "RlimitFileConfig \<Rightarrow> RlimitConfig" where
  "to_rlimit_config rl =
     set_opt memlock_with (rf_memlock rl)
       (set_opt with_stack_mb (rf_stack_mb rl)
         (set_opt core_disabled_with (rf_core rl)
           (set_opt with_fsize_mb (rf_fsize_mb rl)
             (set_opt with_nproc (rf_nproc rl)
               (set_opt with_nofile (rf_nofile rl)
                 (set_opt with_cpu_seconds (rf_cpu_seconds rl) rlimit_new))))))"

definition or_default :: "'a option \<Rightarrow> 'a \<Rightarrow> 'a" where
  "or_default v d = (case v of Some x \<Rightarrow> x | None \<Rightarrow> d)"

definition template_for :: "string \<Rightarrow> string list \<Rightarrow> LandlockTemplate" where
  "template_for name extra_readonly_paths =
     (if name = ''shell'' then ShellLl
      else if name = ''python'' then PythonLl
      else if name = ''node'' then NodeLl
      else CustomLl extra_readonly_paths)"

definition seccomp_for :: "string \<Rightarrow> SeccompMode \<Rightarrow> SeccompProfile" where
  "seccomp_for name mode =
     (case mode of
        Denylist \<Rightarrow> default_denylist
      | Allowlist \<Rightarrow>
          if name = ''shell'' then default_allowlist_shell
          else if name = ''python'' then default_allowlist_python
          else if name = ''node'' then default_allowlist_node
          else default_denylist)"

definition to_profile :: "ProfileConfig \<Rightarrow> string \<Rightarrow> SandboxSection \<Rightarrow> string + SandboxProfile" where
  "to_profile pc name sandbox_section =
     (let default_profile = profile_shell;
          rlimit = (case pc_rlimit pc of Some rl \<Rightarrow> to_rlimit_config rl | None \<Rightarrow> sp_rlimit default_profile)
      in res_bind (case pc_default_timeout pc of
              Some t \<Rightarrow> (case parse_duration t of
                  Some d \<Rightarrow> Inr d | None \<Rightarrow> Inl (''invalid timeout format: '' @ t))
            | None \<Rightarrow> Inr (sp_default_timeout default_profile)) (\<lambda>default_timeout.
         let max_stdout_bytes = (case pc_max_stdout_mb pc of
               Some mb \<Rightarrow> mb * 1024 * 1024 | None \<Rightarrow> sp_max_stdout_bytes default_profile);
             max_stderr_bytes = (case pc_max_stderr_mb pc of
               Some mb \<Rightarrow> mb * 1024 * 1024 | None \<Rightarrow> sp_max_stderr_bytes default_profile);
             extra_readonly_paths = or_default (pc_extra_readonly_paths pc) [];
             mode = or_default (pc_seccomp_mode pc) Denylist;
             fail_closed = (case mode of Allowlist \<Rightarrow> True | Denylist \<Rightarrow> cb_fail_closed sandbox_section)
         in Inr \<lparr>sp_name = name, sp_rlimit = rlimit,
              sp_landlock_template = template_for name extra_readonly_paths,
              sp_seccomp_profile = Some (seccomp_for name mode),
              sp_cgroup_resources = None,
              sp_max_stdout_bytes = max_stdout_bytes, sp_max_stderr_bytes = max_stderr_bytes,
              sp_default_timeout = default_timeout, sp_fail_closed = fail_closed,
              sp_extra_readonly_paths = extra_readonly_paths,
              sp_egress_allowlist = or_default (pc_egress_allowlist pc) [],
              sp_disk_quota_mb = pc_disk_quota_mb pc,
              sp_env = or_default (pc_env pc) [],
              sp_extra_writable_paths = []\<rparr>))"

section \<open>Loading\<close>

datatype config_error = ConfigRead io_error | ConfigYaml string | ConfigRunner CoreError | ConfigProfiles string

text \<open>\<open>conf path\<close> is what the file holds, if it exists.\<close>

definition load_from_path ::
    "(string \<Rightarrow> string + AppConfig) \<Rightarrow> (string \<Rightarrow> (io_error + string) option) \<Rightarrow> string \<Rightarrow> config_error + AppConfig" where
  "load_from_path from_yaml conf path =
     (case conf path of
        None \<Rightarrow> Inr app_default
      | Some (Inl e) \<Rightarrow> Inl (ConfigRead e)
      | Some (Inr content) \<Rightarrow>
          (case from_yaml content of Inl e \<Rightarrow> Inl (ConfigYaml e) | Inr config \<Rightarrow> Inr config))"

definition watermark_bytes :: "AppConfig \<Rightarrow> u64" where
  "watermark_bytes config =
     (if 0 < cb_disk_watermark_mb (ac_sandbox config) then cb_disk_watermark_mb (ac_sandbox config) * 1024 * 1024 else 0)"

text \<open>An invalid profile is skipped at the start.\<close>

fun register_valid :: "SandboxSection \<Rightarrow> (string \<times> ProfileConfig) list \<Rightarrow> ProfileRegistry \<Rightarrow> ProfileRegistry" where
  "register_valid sandbox [] reg = reg"
| "register_valid sandbox ((name, pc) # ps) reg =
     register_valid sandbox ps (case to_profile pc name sandbox of Inr p \<Rightarrow> register p reg | Inl _ \<Rightarrow> reg)"

definition build_profile_registry ::
    "(string \<rightharpoonup> string) \<Rightarrow> (string \<Rightarrow> io_error + string) \<Rightarrow> AppConfig \<Rightarrow> ProfileRegistry" where
  "build_profile_registry envv read_pem config =
     register_valid (ac_sandbox config) (ac_profiles config) (with_defaults envv read_pem)"

text \<open>
  The templates: the setup commands that are run, the names registered, the registry. How a command
  ended is only logged.
\<close>

fun run_template_setups ::
    "SandboxSection \<Rightarrow> (string \<times> TemplateConfig) list \<Rightarrow> ProfileRegistry \<Rightarrow> string list \<times> string list \<times> ProfileRegistry" where
  "run_template_setups sandbox [] reg = ([], [], reg)"
| "run_template_setups sandbox ((name, tmpl) # ts) reg =
     (let cmds = (case tc_setup tmpl of Some cmd \<Rightarrow> [cmd] | None \<Rightarrow> []);
          (registered, reg) = (case to_profile (tc_profile tmpl) name sandbox of
             Inr p \<Rightarrow> ([name], register p reg) | Inl _ \<Rightarrow> ([], reg));
          (cmds', registered', reg) = run_template_setups sandbox ts reg
      in (cmds @ cmds', registered @ registered', reg))"

text \<open>A reload collects the errors, and refuses the file when there is one.\<close>

fun register_strict ::
    "SandboxSection \<Rightarrow> (string \<times> ProfileConfig) list \<Rightarrow> string list \<Rightarrow> ProfileRegistry \<Rightarrow> string list \<times> ProfileRegistry" where
  "register_strict sandbox [] errors reg = (errors, reg)"
| "register_strict sandbox ((name, pc) # ps) errors reg =
     (case to_profile pc name sandbox of
        Inr p \<Rightarrow> register_strict sandbox ps errors (register p reg)
      | Inl e \<Rightarrow> register_strict sandbox ps (errors @ [name @ '': '' @ e]) reg)"

type_synonym runner_parts = "WorkspaceManager \<times> ProfileRegistry"

definition build_runner_from_config ::
    "(string \<Rightarrow> string + AppConfig) \<Rightarrow> (string \<Rightarrow> (io_error + string) option) \<Rightarrow>
     (string \<rightharpoonup> string) \<Rightarrow> (string \<Rightarrow> io_error + string) \<Rightarrow> string \<Rightarrow>
     node \<Rightarrow> (config_error + runner_parts \<times> string set) \<times> node" where
  "build_runner_from_config from_yaml conf envv read_pem path t =
     (case load_from_path from_yaml conf path of
        Inl e \<Rightarrow> (Inl e, t)
      | Inr config \<Rightarrow>
          (case runner_new (cb_base_dir (ac_sandbox config)) (watermark_bytes config) envv read_pem t of
             (Inl e, t) \<Rightarrow> (Inl (ConfigRunner e), t)
           | (Inr (mgr, reg), t) \<Rightarrow>
               (let (errors, reg) = register_strict (ac_sandbox config) (ac_profiles config) [] reg
                in if errors \<noteq> []
                   then (Inl (ConfigProfiles (''invalid profile config, refusing to load: '' @ join ''; '' errors)), t)
                   else (Inr ((mgr, reg), names reg), t))))"

text \<open>The start in \<open>main\<close>, up to the recovery scan; the result has the commands that were run.\<close>

definition start_runner ::
    "(string \<Rightarrow> string + AppConfig) \<Rightarrow> (string \<Rightarrow> (io_error + string) option) \<Rightarrow>
     (string \<rightharpoonup> string) \<Rightarrow> (string \<Rightarrow> io_error + string) \<Rightarrow> string \<Rightarrow>
     node \<Rightarrow> (config_error + AppConfig \<times> runner_parts \<times> string list) \<times> node" where
  "start_runner from_yaml conf envv read_pem path t =
     (case load_from_path from_yaml conf path of
        Inl e \<Rightarrow> (Inl e, t)
      | Inr config \<Rightarrow>
          (case runner_new (cb_base_dir (ac_sandbox config)) (watermark_bytes config) envv read_pem t of
             (Inl e, t) \<Rightarrow> (Inl (ConfigRunner e), t)
           | (Inr (mgr, reg), t) \<Rightarrow>
               (let reg = register_valid (ac_sandbox config) (ac_profiles config) reg;
                    (cmds, _, reg) = run_template_setups (ac_sandbox config) (ac_templates config) reg
                in (Inr (config, (mgr, reg), cmds), t))))"

text \<open>\<open>resolve_config_path\<close>: the arguments after the program's name, the environment, the default.\<close>

fun config_arg :: "string list \<Rightarrow> string option" where
  "config_arg [] = None"
| "config_arg (a # as) =
     (if a = ''--config'' \<and> as \<noteq> [] then Some (hd as)
      else case strip_prefix ''--config='' a of Some path \<Rightarrow> Some path | None \<Rightarrow> config_arg as)"

definition resolve_config_path :: "string list \<Rightarrow> (string \<rightharpoonup> string) \<Rightarrow> string" where
  "resolve_config_path args envv =
     (case config_arg (drop 1 args) of
        Some path \<Rightarrow> path
      | None \<Rightarrow> (case envv ''SANDBOX_CONFIG'' of
            Some path \<Rightarrow> path | None \<Rightarrow> ''/etc/sandbox-server/config.yaml''))"

section \<open>What is registered\<close>

definition valid_profile :: "SandboxSection \<Rightarrow> (string \<times> ProfileConfig) list \<Rightarrow> string \<Rightarrow> SandboxProfile option" where
  "valid_profile sandbox ps n =
     Option.bind (map_of ps n) (\<lambda>pc. case to_profile pc n sandbox of Inr p \<Rightarrow> Some p | Inl _ \<Rightarrow> None)"

definition first_of :: "'a option \<Rightarrow> 'a option \<Rightarrow> 'a option" where
  "first_of a b = (case a of Some x \<Rightarrow> Some x | None \<Rightarrow> b)"

lemma to_profile_facts:
  assumes "to_profile pc n sandbox = Inr p"
  shows "sp_name p = n" "sp_cgroup_resources p = None"
    "pc_seccomp_mode pc = Some Allowlist \<Longrightarrow> sp_fail_closed p"
    "pc_rlimit pc = Some rl \<Longrightarrow> sp_rlimit p = to_rlimit_config rl"
  using assms by (auto simp: to_profile_def Let_def res_bind_Inr_iff or_default_def)

lemma valid_Cons:
  "name \<notin> fst ` set ps \<Longrightarrow> valid_profile sandbox ((name, pc) # ps) n =
     (if n = name then (case to_profile pc n sandbox of Inr p \<Rightarrow> Some p | Inl _ \<Rightarrow> None)
      else valid_profile sandbox ps n)"
  by (simp add: valid_profile_def)

lemma valid_absent: "n \<notin> fst ` set ps \<Longrightarrow> valid_profile sandbox ps n = None"
proof -
  assume "n \<notin> fst ` set ps"
  then have "map_of ps n = None" by (simp add: map_of_eq_None_iff)
  then show ?thesis by (simp add: valid_profile_def)
qed

lemma register_valid_spec:
  "distinct (map fst ps) \<Longrightarrow> register_valid sandbox ps reg n = first_of (valid_profile sandbox ps n) (reg n)"
proof (induction ps arbitrary: reg)
  case (Cons e ps)
  obtain name pc where e: "e = (name, pc)" by fastforce
  have nin: "name \<notin> fst ` set ps" and d: "distinct (map fst ps)" using Cons.prems e by auto
  show ?case
  proof (cases "to_profile pc name sandbox")
    case (Inl err)
    then show ?thesis using Cons.IH [OF d] e nin valid_absent [OF nin, of sandbox]
      by (auto simp: valid_Cons [OF nin] first_of_def)
  next
    case (Inr p)
    then show ?thesis using Cons.IH [OF d] e nin valid_absent [OF nin, of sandbox] to_profile_facts(1) [OF Inr]
      by (auto simp: valid_Cons [OF nin] first_of_def register_def split: option.splits)
  qed
qed (simp add: valid_profile_def first_of_def)

lemma templates_spec:
  "snd (snd (run_template_setups sandbox ts reg)) = register_valid sandbox (map (\<lambda>(n, t). (n, tc_profile t)) ts) reg
   \<and> fst (run_template_setups sandbox ts reg) = List.map_filter (tc_setup \<circ> snd) ts"
  by (induction sandbox ts reg rule: run_template_setups.induct)
     (auto simp: Let_def map_filter_simps split: sum.splits option.splits prod.splits)

definition all_valid :: "SandboxSection \<Rightarrow> (string \<times> ProfileConfig) list \<Rightarrow> bool" where
  "all_valid sandbox ps = list_all (\<lambda>(n, pc). is_ok (to_profile pc n sandbox)) ps"

lemma register_strict_spec:
  "(fst (register_strict sandbox ps errors reg) = [] \<longleftrightarrow> errors = [] \<and> all_valid sandbox ps)
   \<and> snd (register_strict sandbox ps errors reg) = register_valid sandbox ps reg"
  by (induction sandbox ps errors reg rule: register_strict.induct)
     (auto simp: all_valid_def split: sum.splits)

lemma distinct_templates: "map fst (map (\<lambda>(n, t). (n, tc_profile t)) ts) = map fst ts"
  by (simp add: case_prod_unfold comp_def)

definition template_profile :: "SandboxSection \<Rightarrow> (string \<times> TemplateConfig) list \<Rightarrow> string \<Rightarrow> SandboxProfile option" where
  "template_profile sandbox ts = valid_profile sandbox (map (\<lambda>(n, t). (n, tc_profile t)) ts)"

lemma valid_profile_cgroup: "valid_profile sandbox ps n = Some p \<Longrightarrow> sp_cgroup_resources p = None"
  by (cases "map_of ps n"; cases "to_profile (the (map_of ps n)) n sandbox")
     (auto simp: valid_profile_def dest: to_profile_facts(2))

text \<open>
  C31. What a configuration registers. After the start a name stands for the template of that name,
  or else the configured profile, or else the built-in one, invalid entries being skipped and
  every setup command run in order. A reload of the same file refuses it when a profile is invalid,
  and otherwise registers the configured profiles but none of the templates. No profile from the
  file has limits of a control group, whatever the built-in profile of its name had.
\<close>

theorem configured_registry:
  assumes "load_from_path from_yaml conf path = Inr config"
    and "lift_io (create_dir_all (cb_base_dir (ac_sandbox config))) t = (Inr (), t')"
    and "distinct (map fst (ac_profiles config))" and "distinct (map fst (ac_templates config))"
  shows "let sandbox = ac_sandbox config; builtin = with_defaults envv read_pem;
             custom = valid_profile sandbox (ac_profiles config);
             tmpl = template_profile sandbox (ac_templates config);
             mgr = \<lparr>base_dir = cb_base_dir sandbox, disk_watermark_bytes = watermark_bytes config\<rparr>
         in start_runner from_yaml conf envv read_pem path t =
              (Inr (config, (mgr, \<lambda>n. first_of (tmpl n) (first_of (custom n) (builtin n))),
                 List.map_filter (tc_setup \<circ> snd) (ac_templates config)), t')
          \<and> (if all_valid sandbox (ac_profiles config)
             then let reg = (\<lambda>n. first_of (custom n) (builtin n))
                  in build_runner_from_config from_yaml conf envv read_pem path t = (Inr ((mgr, reg), dom reg), t')
             else \<exists>msg. build_runner_from_config from_yaml conf envv read_pem path t = (Inl (ConfigProfiles msg), t'))
          \<and> (\<forall>n p. tmpl n = Some p \<or> custom n = Some p \<longrightarrow> sp_cgroup_resources p = None)"
proof -
  let ?s = "ac_sandbox config" and ?b = "with_defaults envv read_pem"
  let ?ts = "map (\<lambda>(n, t). (n, tc_profile t)) (ac_templates config)"
  let ?mgr = "\<lparr>base_dir = cb_base_dir ?s, disk_watermark_bytes = watermark_bytes config\<rparr>"
  have new: "runner_new (cb_base_dir ?s) (watermark_bytes config) envv read_pem t = (Inr (?mgr, ?b), t')"
    using assms(2) by (simp add: runner_new_def st_bind_def st_ret_def)
  have custom: "register_valid ?s (ac_profiles config) r = (\<lambda>n. first_of (valid_profile ?s (ac_profiles config) n) (r n))" for r
    by (rule ext) (rule register_valid_spec [OF assms(3)])
  have "distinct (map fst ?ts)" using assms(4) unfolding distinct_templates .
  then have tmpl: "register_valid ?s ?ts r = (\<lambda>n. first_of (template_profile ?s (ac_templates config) n) (r n))" for r
    unfolding template_profile_def by (intro ext register_valid_spec)
  obtain cmds registered reg where rt: "run_template_setups ?s (ac_templates config) (register_valid ?s (ac_profiles config) ?b)
      = (cmds, registered, reg)" using prod_cases3 by blast
  obtain errors reg2 where rs: "register_strict ?s (ac_profiles config) [] ?b = (errors, reg2)" by fastforce
  have "start_runner from_yaml conf envv read_pem path t =
      (Inr (config, (?mgr, \<lambda>n. first_of (template_profile ?s (ac_templates config) n)
          (first_of (valid_profile ?s (ac_profiles config) n) (?b n))),
         List.map_filter (tc_setup \<circ> snd) (ac_templates config)), t')"
    using templates_spec [of ?s "ac_templates config" "register_valid ?s (ac_profiles config) ?b"] assms(1) new rt
    by (simp add: start_runner_def tmpl custom)
  moreover have "build_runner_from_config from_yaml conf envv read_pem path t =
      (if errors \<noteq> [] then (Inl (ConfigProfiles (''invalid profile config, refusing to load: '' @ join ''; '' errors)), t')
       else (Inr ((?mgr, reg2), dom reg2), t'))"
    using assms(1) new rs by (simp add: build_runner_from_config_def names_def)
  moreover have "errors = [] \<longleftrightarrow> all_valid ?s (ac_profiles config)"
    "reg2 = (\<lambda>n. first_of (valid_profile ?s (ac_profiles config) n) (?b n))"
    using register_strict_spec [of ?s "ac_profiles config" "[]" ?b] rs by (simp_all add: custom)
  moreover have "\<forall>n p. template_profile ?s (ac_templates config) n = Some p
      \<or> valid_profile ?s (ac_profiles config) n = Some p \<longrightarrow> sp_cgroup_resources p = None"
    using valid_profile_cgroup by (auto simp: template_profile_def)
  ultimately show ?thesis by (simp add: Let_def)
qed


text \<open>The witness: a template that is there after the start and gone after a reload of the same file.\<close>

definition plain_profile :: ProfileConfig where
  "plain_profile = \<lparr>pc_rlimit = None, pc_extra_readonly_paths = None, pc_max_stdout_mb = None,
     pc_max_stderr_mb = None, pc_default_timeout = None, pc_egress_allowlist = None,
     pc_disk_quota_mb = None, pc_env = None, pc_seccomp_mode = None\<rparr>"

definition demo_config :: AppConfig where
  "demo_config = app_default\<lparr>ac_templates := [(''ds'', \<lparr>tc_profile = plain_profile, tc_setup = Some ''pip''\<rparr>)]\<rparr>"

theorem configured_registry_witness:
  "\<exists>mgr reg reg' t.
     fst (start_runner (\<lambda>_. Inr demo_config) (\<lambda>_. Some (Inr '''')) Map.empty (\<lambda>_. Inl UnexpectedEof) ''/c'' t)
       = Inr (demo_config, (mgr, reg), [''pip''])
   \<and> fst (build_runner_from_config (\<lambda>_. Inr demo_config) (\<lambda>_. Some (Inr '''')) Map.empty (\<lambda>_. Inl UnexpectedEof) ''/c'' t)
       = Inr ((mgr, reg'), dom reg')
   \<and> reg ''ds'' \<noteq> None \<and> reg' ''ds'' = None"
proof -
  let ?t = "FDir []"
  have "dir_at ?t []" "free_dir ?t (comps ''/sandboxes'')"
    by (simp_all add: comps_def free_dir_def name_ok_def prefix_Cons)
  from create_dir_all_view [OF this] obtain t' where "create_dir_all ''/sandboxes'' ?t = (Inr (), t')" by blast
  then have made: "lift_io (create_dir_all (cb_base_dir (ac_sandbox demo_config))) ?t = (Inr (), t')"
    by (simp add: demo_config_def app_default_def sandbox_default_def lift_io_def)
  have load: "load_from_path (\<lambda>_. Inr demo_config) (\<lambda>_. Some (Inr '''')) ''/c'' = Inr demo_config"
    by (simp add: load_from_path_def)
  have empty: "ac_profiles demo_config = []" and ts: "ac_templates demo_config = [(''ds'', \<lparr>tc_profile = plain_profile, tc_setup = Some ''pip''\<rparr>)]"
    by (simp_all add: demo_config_def app_default_def)
  have ds: "template_profile (ac_sandbox demo_config) (ac_templates demo_config) ''ds'' \<noteq> None"
    by (simp add: ts template_profile_def valid_profile_def to_profile_def plain_profile_def Let_def)
  have none: "valid_profile (ac_sandbox demo_config) [] ''ds'' = None" "with_defaults Map.empty (\<lambda>_. Inl UnexpectedEof) ''ds'' = None"
    by (simp_all add: valid_profile_def with_defaults_eq)
  have "distinct (map fst (ac_profiles demo_config))" "distinct (map fst (ac_templates demo_config))"
    by (simp_all add: empty ts)
  note r = configured_registry [OF load made this, of Map.empty "\<lambda>_. Inl UnexpectedEof", unfolded Let_def empty]
  let ?mgr = "\<lparr>base_dir = cb_base_dir (ac_sandbox demo_config), disk_watermark_bytes = watermark_bytes demo_config\<rparr>"
  let ?reg' = "\<lambda>n. first_of (valid_profile (ac_sandbox demo_config) [] n) (with_defaults Map.empty (\<lambda>_. Inl UnexpectedEof) n)"
  let ?reg = "\<lambda>n. first_of (template_profile (ac_sandbox demo_config) (ac_templates demo_config) n) (?reg' n)"
  have "fst (start_runner (\<lambda>_. Inr demo_config) (\<lambda>_. Some (Inr '''')) Map.empty (\<lambda>_. Inl UnexpectedEof) ''/c'' ?t)
      = Inr (demo_config, (?mgr, ?reg), [''pip''])"
    using conjunct1 [OF r] by (simp add: ts map_filter_simps)
  moreover have "fst (build_runner_from_config (\<lambda>_. Inr demo_config) (\<lambda>_. Some (Inr '''')) Map.empty (\<lambda>_. Inl UnexpectedEof) ''/c'' ?t)
      = Inr ((?mgr, ?reg'), dom ?reg')"
    using conjunct1 [OF conjunct2 [OF r]] by (simp add: all_valid_def)
  moreover have "?reg ''ds'' \<noteq> None" "?reg' ''ds'' = None" using ds none by (auto simp: first_of_def)
  ultimately show ?thesis by blast
qed

end
