(* ===== verification/Api.thy ===== *)
theory Api
  imports Config SchedulerProofs SessionExec
begin

text \<open>
  The HTTP interface, \<open>sandbox-server/src/api.rs\<close>: the API key, the rate limit around it, and one
  handler per endpoint, on the states of the scheduler and the session manager. A call is what the
  router and the extractors of axum made of a request; a body is the value that serde serialises.
  A handler that waits for ever has no response. The terminal is in \<open>Tty\<close>, the watch in \<open>Watch\<close>.
\<close>

section \<open>Requests\<close>

record CreateJobRequest =
  cj_job_id :: string
  cj_argv :: "string list"
  cj_profile_name :: string
  cj_timeout :: "string option"
  cj_custom_env :: "(string \<times> string) list option"
  cj_stdin :: "string option"
  cj_dry_run :: "bool option"

record CreateSessionRequest =
  cr_profile_name :: string
  cr_env :: "(string \<times> string) list option"
  cr_from_snapshot :: "string option"
  cr_volumes :: "VolumeMount list option"
  cr_alias :: "string option"
  cr_metadata :: "(string \<times> string) list option"
  cr_timeout_secs :: "u64 option"

record PatchSessionRequest =
  ps_alias :: "string option"
  ps_timeout_secs :: "u64 option"
  ps_metadata :: "(string \<times> string) list option"

record ExecSessionRequest =
  xr_argv :: "string list"
  xr_timeout :: "string option"
  xr_stdin :: "string option"
  xr_custom_env :: "(string \<times> string) list option"
  xr_list_files :: "bool option"
  xr_cwd :: "string option"

section \<open>Responses\<close>

record EgressRuleView =
  ev_host :: string
  ev_port :: "u16 option"

record DryRunSummary =
  dr_profile :: string
  dr_dry_run :: bool
  dr_default_timeout_secs :: nat
  dr_max_stdout_mb :: u64
  dr_landlock :: string
  dr_fail_closed :: bool
  dr_egress_allowlist :: "EgressRuleView list"
  dr_disk_quota_mb :: "u64 option"

record FileMeta =
  fm_path :: string
  fm_size :: u64
  fm_mime :: string

record JobResponse =
  jp_job_id :: string
  jp_status :: string
  jp_exit_code :: "int option"
  jp_signal :: "int option"
  jp_stdout :: "string option"
  jp_stderr :: "string option"
  jp_duration_ms :: "u64 option"
  jp_timed_out :: "bool option"
  jp_files :: "FileMeta list option"

record HealthReport =
  he_status :: string
  he_landlock_supported :: bool
  he_landlock_abi :: u32
  he_cgroup_available :: bool
  he_cgroup_controllers :: "string list"
  he_seccomp :: bool
  he_disk_watermark_ok :: bool

datatype payload =
    PError string
  | PHealth HealthReport
  | PDryRun DryRunSummary
  | PCreateJob string string
  | PJob JobResponse
  | PStatus nat nat nat
  | PProfiles "string set"
  | PReload bool "string set" string
  | PSession string
  | PSessions "SessionInfo list"
  | PInfo SessionInfo
  | PDestroyed bool string
  | POk
  | PEntries "FileEntry list"
  | PBytes string string
  | PEmpty
  | PFound FindResult
  | PHits SearchResult
  | PSnapshot string
  | PNames "string list"
  | POkName string
  | PEvents nat

record response =
  rs_code :: nat
  rs_body :: payload

definition reply_of :: "nat \<Rightarrow> payload \<Rightarrow> response" where
  "reply_of status body = \<lparr>rs_code = status, rs_body = body\<rparr>"

definition error_reply :: "nat \<Rightarrow> string \<Rightarrow> response" where
  "error_reply status msg = reply_of status (PError msg)"

section \<open>The state and what it is built on\<close>

record app_state =
  ap_sched :: "runner_parts scheduler"
  ap_sess :: session_manager

text \<open>
  The environment of the handlers: of the scheduler and the session manager, the text of errors and
  of \<open>Debug\<close>, the regular expressions of the redaction, the accounts and attributes of files, the
  glob and regex engines and the directory walk, the configuration file, and the text of the counters.
\<close>

record api_env =
  av_sched :: sched_env
  av_sess :: session_env
  av_replace_all :: "string \<Rightarrow> string \<Rightarrow> string \<Rightarrow> string"
  av_debug_status :: "JobStatus \<Rightarrow> string"
  av_debug_landlock :: "LandlockTemplate \<Rightarrow> string"
  av_debug_controller :: "CgroupController \<Rightarrow> string"
  av_lower :: "string \<Rightarrow> string"
  av_accounts :: accounts
  av_attrs :: "string \<Rightarrow> inode_attrs"
  av_glob :: "string \<Rightarrow> string + (string \<Rightarrow> bool)"
  av_regex :: "string \<Rightarrow> string + (string \<Rightarrow> bool)"
  av_walk :: "string \<Rightarrow> node \<Rightarrow> walk_entry list"
  av_from_yaml :: "string \<Rightarrow> string + AppConfig"
  av_conf :: "string \<Rightarrow> (io_error + string) option"
  av_env :: "string \<rightharpoonup> string"
  av_read_pem :: "string \<Rightarrow> io_error + string"
  av_config_error :: "config_error \<Rightarrow> string"
  av_config_path :: string
  av_metrics_text :: "metrics \<Rightarrow> string"

text \<open>What is new at each call: the clocks, the time stamp, a fresh identifier, fuel for copies.\<close>

record tick =
  ti_clocks :: clocks
  ti_now :: string
  ti_id :: string
  ti_fuel :: nat

type_synonym handler = "app_state \<Rightarrow> response option \<times> app_state"

text \<open>An answer that changes nothing, and a call of the session manager.\<close>

definition answer :: "response \<Rightarrow> handler" where
  "answer r st = (Some r, st)"

definition core_err_response :: "api_env \<Rightarrow> CoreError \<Rightarrow> response" where
  "core_err_response v e =
     (let text_of = sv_error (av_sess v)
      in case e of
           IoErr ioe \<Rightarrow> if ioe = ENOENT then error_reply 404 (text_of e) else error_reply 500 (text_of e)
         | WorkspaceErr m \<Rightarrow> if contains_str ''not found'' m then error_reply 404 m else error_reply 400 (text_of e)
         | ProfileNotFound _ \<Rightarrow> error_reply 400 (text_of e)
         | _ \<Rightarrow> error_reply 500 (text_of e))"

definition from_result :: "api_env \<Rightarrow> ('a \<Rightarrow> response) \<Rightarrow> CoreError + 'a \<Rightarrow> response" where
  "from_result v f r = (case r of Inr x \<Rightarrow> f x | Inl e \<Rightarrow> core_err_response v e)"

definition on_sessions ::
    "api_env \<Rightarrow> (session_manager \<Rightarrow> (CoreError + 'a) \<times> session_manager) \<Rightarrow> ('a \<Rightarrow> response) \<Rightarrow> handler" where
  "on_sessions v f ok st =
     (case f (ap_sess st) of (r, s) \<Rightarrow> (Some (from_result v ok r), st\<lparr>ap_sess := s\<rparr>))"

section \<open>Jobs\<close>

definition api_parse_duration :: "string \<Rightarrow> nat option" where
  "api_parse_duration s =
     (let s = trim s
      in case strip_suffix ''ms'' s of
           Some num \<Rightarrow> map_option from_millis (parse_uint 64 10 num)
         | None \<Rightarrow>
             (case strip_suffix ''s'' s of
                Some num \<Rightarrow> map_option from_secs (parse_uint 64 10 num)
              | None \<Rightarrow>
                  (case strip_suffix ''m'' s of
                     Some num \<Rightarrow> map_option (\<lambda>mins. from_secs (unat (of_nat mins * 60 :: u64))) (parse_uint 64 10 num)
                   | None \<Rightarrow> map_option from_secs (parse_uint 64 10 s))))"

definition parse_timeout :: "string option \<Rightarrow> response + nat option" where
  "parse_timeout timeout =
     (case timeout of
        None \<Rightarrow> Inr None
      | Some t \<Rightarrow> (case api_parse_duration t of
           Some d \<Rightarrow> Inr (Some d)
         | None \<Rightarrow> Inl (error_reply 400 (''invalid timeout format: '' @ t))))"

definition get_profile :: "string \<Rightarrow> runner_parts scheduler \<Rightarrow> SandboxProfile option" where
  "get_profile name s = registry_get (snd (sc_runner s)) name"

definition profile_names :: "runner_parts scheduler \<Rightarrow> string set" where
  "profile_names s = names (snd (sc_runner s))"

definition dry_run_summary :: "api_env \<Rightarrow> SandboxProfile \<Rightarrow> DryRunSummary" where
  "dry_run_summary v p =
     \<lparr>dr_profile = sp_name p, dr_dry_run = True,
      dr_default_timeout_secs = as_secs (sp_default_timeout p),
      dr_max_stdout_mb = sp_max_stdout_bytes p div 1024 div 1024,
      dr_landlock = av_debug_landlock v (sp_landlock_template p), dr_fail_closed = sp_fail_closed p,
      dr_egress_allowlist = map (\<lambda>r. \<lparr>ev_host = er_host r, ev_port = er_port r\<rparr>) (sp_egress_allowlist p),
      dr_disk_quota_mb = sp_disk_quota_mb p\<rparr>"

definition job_request_of :: "CreateJobRequest \<Rightarrow> nat option \<Rightarrow> JobRequest" where
  "job_request_of req timeout =
     \<lparr>jr_job_id = cj_job_id req, jr_argv = cj_argv req, jr_profile_name = cj_profile_name req,
      jr_timeout = timeout, jr_custom_env = or_default (cj_custom_env req) [],
      jr_stdin_data = cj_stdin req, jr_cwd = None\<rparr>"

definition create_job :: "api_env \<Rightarrow> bool \<Rightarrow> CreateJobRequest \<Rightarrow> handler" where
  "create_job v stream req st =
     (if or_default (cj_dry_run req) False then
        answer (case get_profile (cj_profile_name req) (ap_sched st) of
            Some profile \<Rightarrow> reply_of 200 (PDryRun (dry_run_summary v profile))
          | None \<Rightarrow> error_reply 404 (''profile not found: '' @ cj_profile_name req)) st
      else
        (case parse_timeout (cj_timeout req) of
           Inl bad \<Rightarrow> answer bad st
         | Inr timeout \<Rightarrow>
             if stream then
               (Some (reply_of 200 (PEvents (length (sc_tasks (ap_sched st))))),
                st\<lparr>ap_sched := submit_streaming (av_sched v) (job_request_of req timeout) (ap_sched st)\<rparr>)
             else
               (case submit_async (av_sched v) (job_request_of req timeout) (ap_sched st) of
                  (job_id, s) \<Rightarrow> (Some (reply_of 202 (PCreateJob job_id ''Running'')), st\<lparr>ap_sched := s\<rparr>))))"

definition redacted :: "api_env \<Rightarrow> string \<Rightarrow> string" where
  "redacted v bytes = redact (av_replace_all v) (utf8_lossy bytes)"

definition job_response :: "api_env \<Rightarrow> FileMeta list option \<Rightarrow> JobResult \<Rightarrow> JobResponse" where
  "job_response v fs r =
     \<lparr>jp_job_id = res_job_id r, jp_status = av_debug_status v (res_status r),
      jp_exit_code = res_exit_code r, jp_signal = res_signal r,
      jp_stdout = Some (redacted v (res_stdout r)), jp_stderr = Some (redacted v (res_stderr r)),
      jp_duration_ms = Some (of_nat (res_duration r div 1000000)), jp_timed_out = Some (res_timed_out r),
      jp_files = fs\<rparr>"

definition api_get_job :: "api_env \<Rightarrow> string \<Rightarrow> handler" where
  "api_get_job v job_id st =
     answer (case get_job job_id (ap_sched st) of
         Some RunningState \<Rightarrow> reply_of 200 (PJob \<lparr>jp_job_id = job_id, jp_status = ''Running'', jp_exit_code = None,
             jp_signal = None, jp_stdout = None, jp_stderr = None, jp_duration_ms = None, jp_timed_out = None,
             jp_files = None\<rparr>)
       | Some (DoneState result) \<Rightarrow> reply_of 200 (PJob (job_response v None result))
       | None \<Rightarrow> error_reply 404 ''job not found or expired'') st"

definition api_cancel_job :: "string \<Rightarrow> handler" where
  "api_cancel_job job_id st =
     (case cancel_job job_id (ap_sched st) of
        (r, s) \<Rightarrow>
          (Some (case r of
               Inr _ \<Rightarrow> reply_of 200 (PCreateJob job_id ''Cancelled'')
             | Inl NotFound \<Rightarrow> error_reply 404 ''job not found''
             | Inl AlreadyDone \<Rightarrow> error_reply 409 ''job already finished, cannot cancel''),
           st\<lparr>ap_sched := s\<rparr>))"

section \<open>Status and reload\<close>

definition api_health :: "api_env \<Rightarrow> WorkerStatus \<Rightarrow> handler" where
  "api_health v ws =
     answer (reply_of 200 (PHealth
       \<lparr>he_status = ''ok'',
        he_landlock_supported = ll_supported (cap_landlock (ws_capability_report ws)),
        he_landlock_abi = ll_abi_version (cap_landlock (ws_capability_report ws)),
        he_cgroup_available = cg_available (cap_cgroup (ws_capability_report ws)),
        he_cgroup_controllers = map (av_debug_controller v) (cg_controllers (cap_cgroup (ws_capability_report ws))),
        he_seccomp = cap_seccomp (ws_capability_report ws),
        he_disk_watermark_ok = ws_disk_watermark_ok ws\<rparr>))"

definition api_status :: "WorkerStatus \<Rightarrow> handler" where
  "api_status ws = answer (reply_of 200 (PStatus (ws_running_jobs ws) (ws_max_concurrent ws) (as_secs (ws_uptime ws))))"

text \<open>The page of the counters, in the text format of the library.\<close>

definition api_metrics :: "api_env \<Rightarrow> handler" where
  "api_metrics v st =
     answer (reply_of 200 (PBytes ''text/plain; version=0.0.4; charset=utf-8''
       (av_metrics_text v (metrics_add (sc_metrics (ap_sched st)) (ss_metrics (ap_sess st)))))) st"

definition api_profiles :: handler where
  "api_profiles st = answer (reply_of 200 (PProfiles (profile_names (ap_sched st)))) st"

text \<open>A reload makes the base directory, and gives the scheduler the new runner.\<close>

definition api_reload :: "api_env \<Rightarrow> handler" where
  "api_reload v st =
     (let path = utf8_lossy (av_config_path v)
      in case build_runner_from_config (av_from_yaml v) (av_conf v) (av_env v) (av_read_pem v) path (ss_disk (ap_sess st)) of
           (Inr (runner, profiles), t) \<Rightarrow>
             (Some (reply_of 200 (PReload True profiles
                (''reloaded '' @ show_nat (card profiles) @ '' profiles from '' @ path))),
              st\<lparr>ap_sched := reload runner (ap_sched st), ap_sess := set_disk t (ap_sess st)\<rparr>)
         | (Inl e, t) \<Rightarrow>
             (Some (reply_of 500 (PReload False {} (''reload failed: '' @ av_config_error v e))),
              st\<lparr>ap_sess := set_disk t (ap_sess st)\<rparr>))"

section \<open>Sessions\<close>

definition api_create_session :: "api_env \<Rightarrow> tick \<Rightarrow> CreateSessionRequest \<Rightarrow> handler" where
  "api_create_session v ti req st =
     (case create_session_with_opts (av_sess v) (ti_fuel ti) (ti_clocks ti) (ti_id ti) (cr_profile_name req)
             (or_default (cr_env req) []) (cr_from_snapshot req) (or_default (cr_volumes req) []) (cr_alias req)
             (or_default (cr_metadata req) []) (cr_timeout_secs req) (ap_sess st) of
        None \<Rightarrow> (None, st)
      | Some (r, s) \<Rightarrow>
          (Some (from_result v (\<lambda>sid. reply_of 201 (PSession sid)) r), st\<lparr>ap_sess := s\<rparr>))"

definition api_list_sessions :: "api_env \<Rightarrow> tick \<Rightarrow> handler" where
  "api_list_sessions v ti st =
     answer (reply_of 200 (PSessions (list_session_infos (av_sess v) (ti_clocks ti) (ap_sess st)))) st"

definition api_get_session :: "api_env \<Rightarrow> tick \<Rightarrow> string \<Rightarrow> handler" where
  "api_get_session v ti sid st =
     answer (case get_session (av_sess v) (ti_clocks ti) sid (ap_sess st) of
         Some info \<Rightarrow> reply_of 200 (PInfo info)
       | None \<Rightarrow> error_reply 404 (''session not found: '' @ sid)) st"

definition api_destroy_session :: "api_env \<Rightarrow> string \<Rightarrow> handler" where
  "api_destroy_session v sid =
     on_sessions v (destroy_session (av_sess v) sid) (\<lambda>_. reply_of 200 (PDestroyed True sid))"

definition api_patch_session :: "api_env \<Rightarrow> tick \<Rightarrow> string \<Rightarrow> PatchSessionRequest \<Rightarrow> handler" where
  "api_patch_session v ti sid req =
     on_sessions v (update_session (av_sess v) (ti_clocks ti) sid (ps_alias req) (ps_timeout_secs req)
       (or_default (ps_metadata req) [])) (\<lambda>_. reply_of 200 POk)"

definition exec_request_of :: "string \<Rightarrow> ExecSessionRequest \<Rightarrow> nat option \<Rightarrow> JobRequest" where
  "exec_request_of sid req timeout =
     \<lparr>jr_job_id = ''session:'' @ sid, jr_argv = xr_argv req, jr_profile_name = '''', jr_timeout = timeout,
      jr_custom_env = or_default (xr_custom_env req) [], jr_stdin_data = xr_stdin req, jr_cwd = xr_cwd req\<rparr>"

text \<open>
  The first part of an execution: refused, streamed (an unknown session ends the stream), or
  begun; a call that is not streamed is answered when the execution is done.
\<close>

definition api_exec_session :: "api_env \<Rightarrow> tick \<Rightarrow> string \<Rightarrow> bool \<Rightarrow> ExecSessionRequest \<Rightarrow> handler" where
  "api_exec_session v ti sid stream req st =
     (case parse_timeout (xr_timeout req) of
        Inl bad \<Rightarrow> answer bad st
      | Inr timeout \<Rightarrow>
          (case exec_begin (av_sess v) (ti_now ti) sid (exec_request_of sid req timeout) (ap_sess st) of
             (r, s) \<Rightarrow>
               (if stream then Some (reply_of 200 (PEvents (length (ss_execs (ap_sess st)))))
                else (case r of Inl e \<Rightarrow> Some (core_err_response v e) | Inr _ \<Rightarrow> None),
                st\<lparr>ap_sess := s\<rparr>)))"

definition mime_for :: "(string \<Rightarrow> string) \<Rightarrow> string \<Rightarrow> string" where
  "mime_for lower name =
     (let ext = lower (last (split_char (CHR ''.'') name))
      in if ext = ''png'' then ''image/png''
         else if ext = ''jpg'' \<or> ext = ''jpeg'' then ''image/jpeg''
         else if ext = ''gif'' then ''image/gif''
         else if ext = ''svg'' then ''image/svg+xml''
         else if ext = ''webp'' then ''image/webp''
         else if ext = ''html'' \<or> ext = ''htm'' then ''text/html''
         else if ext = ''json'' then ''application/json''
         else if ext = ''csv'' then ''text/csv''
         else if ext = ''txt'' then ''text/plain''
         else if ext = ''md'' then ''text/markdown''
         else if ext = ''pdf'' then ''application/pdf''
         else ''application/octet-stream'')"

text \<open>The answer when the execution is done.\<close>

definition exec_response :: "api_env \<Rightarrow> string \<Rightarrow> ExecSessionRequest \<Rightarrow> CoreError + JobResult \<Rightarrow> handler" where
  "exec_response v sid req result st =
     (case result of
        Inl e \<Rightarrow> answer (core_err_response v e) st
      | Inr r \<Rightarrow>
          if or_default (xr_list_files req) False then
            (case session_list_files (av_accounts v) (av_attrs v) sid '''' (ap_sess st) of
               (entries, s) \<Rightarrow>
                 (Some (reply_of 200 (PJob (job_response v
                    (case entries of
                       Inl _ \<Rightarrow> None
                     | Inr es \<Rightarrow> Some (map (\<lambda>e. \<lparr>fm_path = fe_name e, fm_size = fe_size e,
                         fm_mime = mime_for (av_lower v) (fe_name e)\<rparr>) es)) r))), st\<lparr>ap_sess := s\<rparr>))
          else answer (reply_of 200 (PJob (job_response v None r))) st)"

section \<open>Files\<close>

definition api_list_files :: "api_env \<Rightarrow> string \<Rightarrow> string option \<Rightarrow> handler" where
  "api_list_files v sid path =
     on_sessions v (session_list_files (av_accounts v) (av_attrs v) sid (or_default path ''''))
       (\<lambda>es. reply_of 200 (PEntries es))"

definition api_put_file :: "api_env \<Rightarrow> string \<Rightarrow> string \<Rightarrow> string \<Rightarrow> handler" where
  "api_put_file v sid path bytes = on_sessions v (session_put_file sid path bytes) (\<lambda>_. reply_of 200 POk)"

definition api_get_file :: "api_env \<Rightarrow> string \<Rightarrow> string \<Rightarrow> handler" where
  "api_get_file v sid path =
     on_sessions v (session_get_file sid path) (\<lambda>data. reply_of 200 (PBytes ''application/octet-stream'' data))"

definition api_delete_file :: "api_env \<Rightarrow> string \<Rightarrow> string \<Rightarrow> handler" where
  "api_delete_file v sid path = on_sessions v (session_delete_file sid path) (\<lambda>_. reply_of 200 POk)"

definition api_mkdir :: "api_env \<Rightarrow> string \<Rightarrow> string \<Rightarrow> handler" where
  "api_mkdir v sid path = on_sessions v (session_make_dir sid path) (\<lambda>_. reply_of 200 POk)"

definition api_head_file :: "string \<Rightarrow> string \<Rightarrow> handler" where
  "api_head_file sid path st =
     answer (reply_of (if session_file_exists sid path (ap_sess st) then 200 else 404) PEmpty) st"

definition DEFAULT_LIMIT :: nat where
  "DEFAULT_LIMIT = 1000"

definition MAX_LIMIT :: nat where
  "MAX_LIMIT = 10000"

definition api_find_files :: "api_env \<Rightarrow> string \<Rightarrow> string option \<Rightarrow> string \<Rightarrow> nat option \<Rightarrow> handler" where
  "api_find_files v sid path pattern limit st =
     answer (from_result v (\<lambda>res. reply_of 200 (PFound res))
       (find_session_files (av_accounts v) (av_attrs v) (av_glob v) (av_walk v) sid (or_default path '''') pattern
          (min (or_default limit DEFAULT_LIMIT) MAX_LIMIT) (ap_sess st))) st"

definition api_search_files :: "api_env \<Rightarrow> string \<Rightarrow> string option \<Rightarrow> string \<Rightarrow> handler" where
  "api_search_files v sid path pattern st =
     answer (from_result v (\<lambda>res. reply_of 200 (PHits res))
       (search_session_files (av_regex v) (av_walk v) sid (or_default path '''') pattern default_search_opts (ap_sess st))) st"

section \<open>Snapshots and volumes\<close>

text \<open>A snapshot waits for the mutex of the session.\<close>

definition api_snapshot_session :: "api_env \<Rightarrow> tick \<Rightarrow> string \<Rightarrow> handler" where
  "api_snapshot_session v ti sid st =
     (let waits = (case table_get (ss_table (ap_sess st)) sid of
                     None \<Rightarrow> False | Some e \<Rightarrow> ent_exec_lock e \<in> ss_held (ap_sess st))
      in if waits then (None, st)
         else (case snapshot_session (av_sess v) (ti_fuel ti) (ti_id ti) sid (ap_sess st) of
            None \<Rightarrow> (None, st)
          | Some (r, s) \<Rightarrow> (Some (from_result v (\<lambda>snap_id. reply_of 201 (PSnapshot snap_id)) r), st\<lparr>ap_sess := s\<rparr>)))"

text \<open>\<open>unwrap_or_default\<close>: an error lists nothing.\<close>

definition names_or_none :: "CoreError + string list \<Rightarrow> response" where
  "names_or_none r = reply_of 200 (PNames (case r of Inr ns \<Rightarrow> ns | Inl _ \<Rightarrow> []))"

definition api_list_snapshots :: "api_env \<Rightarrow> handler" where
  "api_list_snapshots v st =
     (case session_snapshots (av_sess v) (ap_sess st) of (r, s) \<Rightarrow> (Some (names_or_none r), st\<lparr>ap_sess := s\<rparr>))"

definition api_destroy_snapshot :: "api_env \<Rightarrow> string \<Rightarrow> handler" where
  "api_destroy_snapshot v snap_id =
     on_sessions v (destroy_snapshot (av_sess v) snap_id) (\<lambda>_. reply_of 200 (POkName snap_id))"

definition api_create_volume :: "api_env \<Rightarrow> string \<Rightarrow> handler" where
  "api_create_volume v name =
     on_sessions v (session_create_volume (av_sess v) name) (\<lambda>_. reply_of 201 (POkName name))"

definition api_list_volumes :: "api_env \<Rightarrow> handler" where
  "api_list_volumes v st =
     (case session_volumes (av_sess v) (ap_sess st) of (r, s) \<Rightarrow> (Some (names_or_none r), st\<lparr>ap_sess := s\<rparr>))"

definition api_destroy_volume :: "api_env \<Rightarrow> string \<Rightarrow> handler" where
  "api_destroy_volume v name =
     on_sessions v (session_cleanup_volume (av_sess v) name) (\<lambda>_. reply_of 200 (POkName name))"

section \<open>The router and its layers\<close>

datatype api_call =
    Health
  | Metrics
  | CreateJob bool CreateJobRequest
  | GetJob string
  | CancelJob string
  | Status
  | Profiles
  | Reload
  | ApiCreateSession CreateSessionRequest
  | ListSessions
  | GetSession string
  | ApiDestroySession string
  | PatchSession string PatchSessionRequest
  | ExecSession string bool ExecSessionRequest
  | SnapshotSession string
  | ListFiles string "string option"
  | GetFile string string
  | PutFile string string string
  | DeleteFile string string
  | HeadFile string string
  | Mkdir string string
  | FindFiles string "string option" string "nat option"
  | SearchFiles string "string option" string
  | ListSnapshots
  | DestroySnapshot string
  | CreateVolume string
  | ListVolumes
  | DestroyVolume string

fun handle :: "api_env \<Rightarrow> tick \<Rightarrow> WorkerStatus \<Rightarrow> api_call \<Rightarrow> handler" where
  "handle v ti ws Health = api_health v ws"
| "handle v ti ws Metrics = api_metrics v"
| "handle v ti ws (CreateJob stream req) = create_job v stream req"
| "handle v ti ws (GetJob jid) = api_get_job v jid"
| "handle v ti ws (CancelJob jid) = api_cancel_job jid"
| "handle v ti ws Status = api_status ws"
| "handle v ti ws Profiles = api_profiles"
| "handle v ti ws Reload = api_reload v"
| "handle v ti ws (ApiCreateSession req) = api_create_session v ti req"
| "handle v ti ws ListSessions = api_list_sessions v ti"
| "handle v ti ws (GetSession sid) = api_get_session v ti sid"
| "handle v ti ws (ApiDestroySession sid) = api_destroy_session v sid"
| "handle v ti ws (PatchSession sid req) = api_patch_session v ti sid req"
| "handle v ti ws (ExecSession sid stream req) = api_exec_session v ti sid stream req"
| "handle v ti ws (SnapshotSession sid) = api_snapshot_session v ti sid"
| "handle v ti ws (ListFiles sid path) = api_list_files v sid path"
| "handle v ti ws (GetFile sid path) = api_get_file v sid path"
| "handle v ti ws (PutFile sid path bytes) = api_put_file v sid path bytes"
| "handle v ti ws (DeleteFile sid path) = api_delete_file v sid path"
| "handle v ti ws (HeadFile sid path) = api_head_file sid path"
| "handle v ti ws (Mkdir sid path) = api_mkdir v sid path"
| "handle v ti ws (FindFiles sid path pattern limit) = api_find_files v sid path pattern limit"
| "handle v ti ws (SearchFiles sid path pattern) = api_search_files v sid path pattern"
| "handle v ti ws ListSnapshots = api_list_snapshots v"
| "handle v ti ws (DestroySnapshot snap_id) = api_destroy_snapshot v snap_id"
| "handle v ti ws (CreateVolume name) = api_create_volume v name"
| "handle v ti ws ListVolumes = api_list_volumes v"
| "handle v ti ws (DestroyVolume name) = api_destroy_volume v name"

text \<open>\<open>ct_eq\<close>: every byte is looked at.\<close>

definition byte_of :: "char \<Rightarrow> u8" where
  "byte_of c = of_nat (code c)"

definition ct_eq :: "string \<Rightarrow> string \<Rightarrow> bool" where
  "ct_eq a b =
     (if length a \<noteq> length b then False
      else fold (\<lambda>(x, y) d. or d (xor (byte_of x) (byte_of y))) (zip a b) 0 = 0)"

text \<open>A request: its path, the two headers that are looked at, and the call it was routed to.\<close>

record api_request =
  rq_path :: string
  rq_authorization :: "string option"
  rq_x_forwarded_for :: "string option"
  rq_call :: api_call

definition authed :: "string \<Rightarrow> api_request \<Rightarrow> bool" where
  "authed expected rq =
     (case Option.bind (rq_authorization rq) header_to_str of
        None \<Rightarrow> False
      | Some h \<Rightarrow> (case strip_prefix ''Bearer '' h of Some tok \<Rightarrow> ct_eq tok expected | None \<Rightarrow> False))"

definition require_api_key :: "string option \<Rightarrow> api_request \<Rightarrow> handler \<Rightarrow> handler" where
  "require_api_key api_key rq next st =
     (if rq_path rq = ''/health'' then next st
      else (case api_key of
          None \<Rightarrow> next st
        | Some expected \<Rightarrow>
            if authed expected rq then next st else answer (error_reply 401 ''unauthorized'') st))"

text \<open>The rate limit is the outer layer, when there is one; \<open>now\<close> is the time of the request.\<close>

definition serve ::
    "api_env \<Rightarrow> string option \<Rightarrow> RateLimitConfig option \<Rightarrow> (string \<Rightarrow> 'ip option) \<Rightarrow> tick \<Rightarrow> WorkerStatus \<Rightarrow>
     api_request \<Rightarrow> 'ip windows \<Rightarrow> app_state \<Rightarrow> response option \<times> 'ip windows \<times> app_state" where
  "serve v api_key limiter parse_ip ti ws rq w st =
     (let next = require_api_key api_key rq (handle v ti ws (rq_call rq))
      in case limiter of
           None \<Rightarrow> (case next st of (r, st) \<Rightarrow> (r, w, st))
         | Some cfg \<Rightarrow>
             (case rate_limit_middleware cfg parse_ip (ck_instant (ti_clocks ti)) (rq_path rq) (rq_x_forwarded_for rq) () w of
                (TooManyRequests, w) \<Rightarrow> (Some (reply_of 429 (PBytes ''text/plain; charset=utf-8'' ''rate limit exceeded'')), w, st)
              | (NextResponse _, w) \<Rightarrow> (case next st of (r, st) \<Rightarrow> (r, w, st))))"

end
