(* ===== verification/ApiProofs.thy ===== *)
theory ApiProofs
  imports Api RunnerProofs
begin

text \<open>
  What the HTTP interface guarantees: who may act, how sessions that are not there are answered, and
  what the name that a client gives to its job can do to the other areas of the base directory.
\<close>

section \<open>The API key\<close>

lemma xor_eq_zero: "xor (a :: 'a::len word) b = 0 \<longleftrightarrow> a = b"
  by (auto simp: bit_eq_iff bit_simps)

lemma byte_of_inject: "byte_of a = byte_of b \<longleftrightarrow> a = b"
proof -
  have "code a < 2 ^ 8" "code b < 2 ^ 8" using nat_of_char_less_256 by simp_all
  then have "unat (byte_of a) = code a" "unat (byte_of b) = code b"
    unfolding byte_of_def by (simp_all add: unat_of_nat take_bit_eq_mod)
  then show ?thesis by (metis of_char_eq_iff)
qed

text \<open>The comparison looks at every byte and is equality.\<close>

lemma fold_differences:
  "length a = length b \<Longrightarrow>
     fold (\<lambda>(x, y) d. or d (xor (byte_of x) (byte_of y))) (zip a b) d = 0 \<longleftrightarrow> d = 0 \<and> a = b"
  by (induction a b arbitrary: d rule: list_induct2) (auto simp: or_eq_0_iff xor_eq_zero byte_of_inject)

lemma ct_eq_iff: "ct_eq a b \<longleftrightarrow> a = b"
  using fold_differences [of a b 0] by (auto simp: ct_eq_def)

lemma authed_iff:
  "authed key rq \<longleftrightarrow>
     rq_authorization rq = Some (''Bearer '' @ key) \<and> header_to_str (''Bearer '' @ key) \<noteq> None"
proof (cases "Option.bind (rq_authorization rq) header_to_str")
  case None
  then show ?thesis by (auto simp: authed_def)
next
  case (Some h)
  then have h: "rq_authorization rq = Some h" "header_to_str h = Some h"
    by (auto simp: bind_eq_Some_conv header_to_str_def split: if_splits)
  show ?thesis
  proof (cases "strip_prefix ''Bearer '' h")
    case (Some tok)
    then have "h = ''Bearer '' @ tok" by (simp only: strip_prefix_Some)
    then show ?thesis using h Some by (auto simp: authed_def ct_eq_iff)
  next
    case None
    then have "h \<noteq> ''Bearer '' @ key" by (metis option.distinct(1) strip_prefix_append)
    then show ?thesis using h None by (simp add: authed_def)
  qed
qed

definition limited_reply :: response where
  "limited_reply = reply_of 429 (PBytes ''text/plain; charset=utf-8'' ''rate limit exceeded'')"

text \<open>
  C32. Only who knows the key acts. With an API key configured, a request to any path but the health
  probe reaches its handler only if its authorization header is exactly the key as a bearer token,
  whatever the rate limiter does; every other request is answered 401, or 429 by the limiter, and
  changes neither the scheduler nor the sessions nor the disk.
\<close>

theorem only_key_holder_acts:
  assumes served: "serve v (Some key) limiter parse_ip ti ws rq w st = (r, w', st')"
    and path: "rq_path rq \<noteq> ''/health''"
  shows "limiter \<noteq> None \<and> r = Some limited_reply \<and> st' = st
    \<or> (if rq_authorization rq = Some (''Bearer '' @ key) \<and> header_to_str (''Bearer '' @ key) \<noteq> None
        then (r, st') = handle v ti ws (rq_call rq) st
        else r = Some (error_reply 401 ''unauthorized'') \<and> st' = st)"
  using served path unfolding authed_iff [symmetric]
  by (auto simp: serve_def require_api_key_def answer_def limited_reply_def Let_def
      split: option.splits prod.splits limited.splits if_splits)

theorem only_key_holder_acts_witness:
  "\<forall>v parse_ip ti ws w (st :: app_state). serve v (Some ''k'') None parse_ip ti ws
     \<lparr>rq_path = ''/api/v1/reload'', rq_authorization = Some ''Bearer j'', rq_x_forwarded_for = None, rq_call = Reload\<rparr> w st
     = (Some (error_reply 401 ''unauthorized''), w, st)"
proof (intro allI)
  fix v :: api_env and parse_ip :: "string \<Rightarrow> 'a option" and ti ws w and st :: app_state
  let ?rq = "\<lparr>rq_path = ''/api/v1/reload'', rq_authorization = Some ''Bearer j'',
    rq_x_forwarded_for = None, rq_call = Reload\<rparr>"
  obtain r w' st' where s: "serve v (Some ''k'') None parse_ip ti ws ?rq w st = (r, w', st')"
    by (cases "serve v (Some ''k'') None parse_ip ti ws ?rq w st") auto
  have "w' = w" using s by (simp add: serve_def Let_def split: prod.splits)
  then show "serve v (Some ''k'') None parse_ip ti ws ?rq w st = (Some (error_reply 401 ''unauthorized''), w, st)"
    using only_key_holder_acts [OF s] s by simp
qed

section \<open>Sessions that are not there\<close>

text \<open>The session that a call is about.\<close>

fun about_session :: "api_call \<Rightarrow> string option" where
  "about_session (GetSession sid) = Some sid"
| "about_session (ApiDestroySession sid) = Some sid"
| "about_session (PatchSession sid _) = Some sid"
| "about_session (ExecSession sid stream req) =
     (if stream \<or> isl (parse_timeout (xr_timeout req)) then None else Some sid)"
| "about_session (SnapshotSession sid) = Some sid"
| "about_session (ListFiles sid _) = Some sid"
| "about_session (GetFile sid _) = Some sid"
| "about_session (PutFile sid _ _) = Some sid"
| "about_session (DeleteFile sid _) = Some sid"
| "about_session (Mkdir sid _) = Some sid"
| "about_session (FindFiles sid _ _ _) = Some sid"
| "about_session (SearchFiles sid _ _) = Some sid"
| "about_session _ = None"

lemma unknown_session_reply:
  "core_err_response v (not_found sid) = error_reply 404 (''session not found: '' @ sid)"
proof -
  have "contains_str ''not found'' (''session not found: '' @ sid)"
    unfolding contains_str_iff
    by (simp add: sublist_def) (metis append_Cons append_Nil)
  then show ?thesis by (simp add: core_err_response_def not_found_def)
qed

lemma in_workspace_unknown:
  "table_get (ss_table s) sid = None \<Longrightarrow> in_workspace sid f s = (Inl (not_found sid), s)"
  by (simp add: in_workspace_def workspace_dir_def)

lemma root_below_unknown: "table_get (ss_table s) sid = None \<Longrightarrow> root_below sid rel s = Inl (not_found sid)"
  by (simp add: root_below_def workspace_dir_def)

lemma on_sessions_refused:
  "f (ap_sess st) = (Inl (not_found sid), ap_sess st) \<Longrightarrow>
     on_sessions v f ok st = (Some (error_reply 404 (''session not found: '' @ sid)), st)"
  by (simp add: on_sessions_def from_result_def unknown_session_reply)

text \<open>
  A call about a session that the server does not have, an execution, a file operation, a
  search, a snapshot, a change or a removal, is answered 404 with the name of the session and
  changes nothing: no file is touched, no job is begun and nothing is logged.
\<close>

theorem unknown_session_refused:
  assumes gone: "table_get (ss_table (ap_sess st)) sid = None" and about: "about_session c = Some sid"
  shows "handle v ti ws c st = (Some (error_reply 404 (''session not found: '' @ sid)), st)"
proof -
  note unknown = in_workspace_unknown [OF gone] root_below_unknown [OF gone] on_sessions_refused
  have upd: "ap_sess_update (\<lambda>_. ap_sess st) st = st" by simp
  show ?thesis
    using about gone
    by (cases c; cases "parse_timeout (xr_timeout (case c of ExecSession _ _ req \<Rightarrow> req | _ \<Rightarrow> undefined))";
        (simp split: if_splits; fail)?)
      (auto split: if_splits simp: unknown unknown_session_reply upd answer_def from_result_def
        api_get_session_def get_session_def api_destroy_session_def destroy_session_def
        api_patch_session_def update_session_def api_exec_session_def exec_begin_def
        api_snapshot_session_def snapshot_session_def api_list_files_def session_list_files_def
        api_get_file_def session_get_file_def api_put_file_def session_put_file_def
        api_delete_file_def session_delete_file_def api_mkdir_def session_make_dir_def
        api_find_files_def find_session_files_def api_search_files_def search_session_files_def)
qed

theorem unknown_session_refused_witness:
  "\<forall>v ti ws sched rn audit. handle v ti ws (ExecSession ''s'' False \<lparr>xr_argv = [''sh''], xr_timeout = None,
       xr_stdin = None, xr_custom_env = None, xr_list_files = None, xr_cwd = None\<rparr>)
       \<lparr>ap_sched = sched, ap_sess = session_manager_new rn audit\<rparr>
     = (Some (error_reply 404 (''session not found: '' @ ''s'')), \<lparr>ap_sched = sched, ap_sess = session_manager_new rn audit\<rparr>)"
  by (intro allI, rule unknown_session_refused)
    (simp_all add: session_manager_new_def table_get_def parse_timeout_def)

section \<open>The name of a job\<close>

lemma create_job_over:
  assumes m: "base_ready m t" and j: "name_ok j"
    and free: "\<forall>d\<in>{[''workspace'', ''tmp''], [''input''], [''output'']}. free_dir t (comps (base_dir m) @ j # d)"
  shows "\<exists>w t1. create_job_workspace m j t = (Inr w, t1) \<and> tree_ok t1
    \<and> (\<forall>q. prefix q (comps (base_dir m) @ [j]) \<longrightarrow> view t1 q = Some VDir)"
proof -
  let ?b = "comps (base_dir m)"
  note r = m [unfolded base_ready_def]
  obtain w t1 where "create_job_workspace m j t = (Inr w, t1)" "tree_ok t1"
    "\<And>q. prefix q (?b @ [j, ''input'']) \<Longrightarrow> view t1 q = Some VDir"
    using create_workspace_at_view [of t "path_join (base_dir m) j"] r job_dir_facts [OF m j] free
    by (auto simp: create_job_workspace_def)
  moreover have "prefix q (?b @ [j, ''input''])" if "prefix q (?b @ [j])" for q
    using that by (auto simp: prefix_append prefix_Cons)
  ultimately show ?thesis by blast
qed

text \<open>
  C34. The name of a job is not checked. A request to run a job whose identifier is the name of any
  directory of the base directory, such as the one of all sessions, is accepted like any other; when
  that job has run, with a result or an error, the directory and everything in it are gone, although
  the job itself changed nothing outside its workspace.
\<close>

theorem job_name_removes_directory:
  assumes m: "base_ready m (rn_fs s)" and j: "name_ok (cj_job_id req)"
    and free: "\<forall>d\<in>{[''workspace'', ''tmp''], [''input''], [''output'']}.
      free_dir (rn_fs s) (comps (base_dir m) @ cj_job_id req # d)"
    and confined: "\<forall>t. tree_ok t \<longrightarrow> tree_ok (w_job_fs w t) \<and>
      (\<forall>q. \<not> prefix (comps (base_dir m) @ [cj_job_id req, ''workspace'']) q \<longrightarrow>
         view (w_job_fs w t) q = view t q)"
    and asked: "cj_dry_run req \<noteq> Some True" "parse_timeout (cj_timeout req) = Inr timeout"
    and ready: "check_disk_watermark (w_statvfs w) m = Inr True" "registry_get reg (cj_profile_name req) \<noteq> None"
    and run: "run_job_with_cancel w m reg (job_request_of req timeout) False s = (Returned r, s')"
  shows "(\<exists>st'. create_job v False req st = (Some (reply_of 202 (PCreateJob (cj_job_id req) ''Running'')), st')
      \<and> sc_tasks (ap_sched st') \<noteq> [] \<and> tk_request (last (sc_tasks (ap_sched st'))) = job_request_of req timeout)
    \<and> (\<forall>d. view (rn_fs s') (comps (base_dir m) @ cj_job_id req # d) = None)"
proof -
  let ?b = "comps (base_dir m)" and ?j = "cj_job_id req" and ?r = "job_request_of req timeout"
  have jid: "jr_job_id ?r = ?j" "jr_profile_name ?r = cj_profile_name req" by (simp_all add: job_request_of_def)
  obtain jw t1 where cr: "create_job_workspace m ?j (rn_fs s) = (Inr jw, t1)" "tree_ok t1"
    "\<forall>q. prefix q (?b @ [?j]) \<longrightarrow> view t1 q = Some VDir"
    using create_job_over [OF m j free] by blast
  obtain profile s2 where ran: "run_in_workspace w jw profile ?r False (s\<lparr>rn_fs := t1\<rparr>) = (Returned r, s2)"
    "rn_fs s' = snd (cleanup_job m ?j (rn_fs s2))"
    using run cr(1) ready jid
    by (auto simp: run_job_with_cancel_def split: option.splits prod.splits outcome.splits)
  have "rn_fs s2 = t1 \<or> rn_fs s2 = w_job_fs w t1" using run_fs [OF ran(1)] by simp
  moreover have "\<not> prefix (?b @ [?j, ''workspace'']) q" if "prefix q (?b @ [?j])" for q
    using that by (auto simp: prefix_def)
  ultimately have t2: "tree_ok (rn_fs s2)" "\<forall>q. prefix q (?b @ [?j]) \<longrightarrow> view (rn_fs s2) q = Some VDir"
    using confined cr(2,3) by auto
  obtain t3 where "cleanup_job m ?j (rn_fs s2) = (Inr (), t3)" "pruned (?b @ [?j]) (rn_fs s2) t3"
    using cleanup_job_view [OF m j t2] by blast
  then have "\<forall>d. view (rn_fs s') (?b @ ?j # d) = None"
    using ran(2) by (simp add: pruned_def)
  moreover have "create_job v False req st = (Some (reply_of 202 (PCreateJob ?j ''Running'')),
      st\<lparr>ap_sched := submit_background (av_sched v) False ?r (ap_sched st)\<rparr>)"
    using asked by (cases "cj_dry_run req") (simp_all add: create_job_def submit_async_def jid or_default_def)
  ultimately show ?thesis by (simp add: submit_background_def)
qed

theorem job_name_removes_directory_witness:
  "\<exists>r s'. run_job_with_cancel ((demo_world None [] [])\<lparr>w_fork_err := Some ''EAGAIN''\<rparr>) demo_mgr
       [''shell'' \<mapsto> profile_shell] (job_request_of \<lparr>cj_job_id = ''sessions'', cj_argv = [''sh''],
         cj_profile_name = ''shell'', cj_timeout = None, cj_custom_env = None, cj_stdin = None, cj_dry_run = None\<rparr> None)
       False (demo_rs\<lparr>rn_fs := demo_disk\<rparr>) = (Returned r, s')
     \<and> view demo_disk [''b'', ''sessions'', ''s1'', ''workspace'', ''a''] = Some (VFile ''data'')
     \<and> view (rn_fs s') [''b'', ''sessions'', ''s1'', ''workspace'', ''a''] = None"
proof -
  let ?w = "(demo_world None [] [])\<lparr>w_fork_err := Some ''EAGAIN''\<rparr>"
  let ?q = "\<lparr>cj_job_id = ''sessions'', cj_argv = [''sh''], cj_profile_name = ''shell'', cj_timeout = None,
    cj_custom_env = None, cj_stdin = None, cj_dry_run = None\<rparr> :: CreateJobRequest"
  let ?r = "job_request_of ?q None" and ?s = "demo_rs\<lparr>rn_fs := demo_disk\<rparr>"
  let ?reg = "[''shell'' \<mapsto> profile_shell]"
  have b: "comps (base_dir demo_mgr) = [''b'']" by (simp add: demo_mgr_def comps_def)
  have m: "base_ready demo_mgr (rn_fs ?s)" using demo_ready by simp
  have j: "name_ok (cj_job_id ?q)" by (simp add: name_ok_def)
  have "view demo_disk p = None \<or> view demo_disk p = Some VDir"
    if "prefix p (''b'' # ''sessions'' # d)" "d \<in> {[''workspace'', ''tmp''], [''input''], [''output'']}" for p d
    using that by (auto simp: prefix_Cons demo_disk_def view_def)
  then have free: "\<forall>d\<in>{[''workspace'', ''tmp''], [''input''], [''output'']}.
      free_dir (rn_fs ?s) (comps (base_dir demo_mgr) @ cj_job_id ?q # d)"
    unfolding b by (auto simp: free_dir_view name_ok_def)
  have same: "w_job_fs ?w t = t" for t by (simp add: demo_world_def)
  then have conf: "\<forall>t. tree_ok t \<longrightarrow> tree_ok (w_job_fs ?w t) \<and>
      (\<forall>q. \<not> prefix (comps (base_dir demo_mgr) @ [cj_job_id ?q, ''workspace'']) q \<longrightarrow>
         view (w_job_fs ?w t) q = view t q)" by simp
  have asked: "cj_dry_run ?q \<noteq> Some True" "parse_timeout (cj_timeout ?q) = Inr None"
    by (simp_all add: parse_timeout_def)
  have ready: "check_disk_watermark (w_statvfs ?w) demo_mgr = Inr True" "registry_get ?reg (cj_profile_name ?q) \<noteq> None"
    by (simp_all add: check_disk_watermark_def demo_world_def demo_mgr_def registry_get_def)
  obtain jw t1 where cr: "create_job_workspace demo_mgr ''sessions'' (rn_fs ?s) = (Inr jw, t1)"
    using create_job_over [OF m j free] by auto
  have r: "jr_argv ?r \<noteq> []" "jr_job_id ?r = ''sessions''" "jr_profile_name ?r = ''shell''"
    by (simp_all add: job_request_of_def)
  obtain e s2 where "run_in_workspace ?w jw profile_shell ?r False (?s\<lparr>rn_fs := t1\<rparr>) = (Returned (Inl e), s2)"
    using run_fork_fails [of ?w "''EAGAIN''" ?r jw profile_shell False "?s\<lparr>rn_fs := t1\<rparr>"] r by auto
  then obtain s' where run: "run_job_with_cancel ?w demo_mgr ?reg ?r False ?s = (Returned (Inl e), s')"
    using ready(1) cr r by (simp add: run_job_with_cancel_def registry_get_def)
  show ?thesis
    using run conjunct2 [OF job_name_removes_directory [OF m j free conf asked ready run],
        rule_format, of "[''s1'', ''workspace'', ''a'']"]
    by (auto simp: b demo_disk_def view_def)
qed

end
