(* ===== verification/Watch.thy ===== *)
theory Watch
  imports ApiProofs
begin

text \<open>
  The watch of a session's files, \<open>sandbox-server/src/watch.rs\<close>, and the end of the server, the last
  part of \<open>main\<close> in \<open>sandbox-server/src/main.rs\<close>. Events of the file system come from a library; they
  are a list with the time since the stream began, in nanoseconds.
\<close>

section \<open>Events\<close>

datatype notify_kind = NkAny | NkAccess | NkCreate | NkModify | NkRemove | NkOther

record notify_event =
  ne_kind :: notify_kind
  ne_paths :: "string list"

record sse =
  sse_event :: string
  sse_paths :: "string list"

definition event_to_sse :: "notify_event \<Rightarrow> string \<Rightarrow> sse option" where
  "event_to_sse ev base =
     (let kind = (case ne_kind ev of NkCreate \<Rightarrow> Some ''created'' | NkModify \<Rightarrow> Some ''modified''
            | NkRemove \<Rightarrow> Some ''removed'' | _ \<Rightarrow> None);
          paths = map (rel_to_base base) (ne_paths ev)
      in case kind of
           None \<Rightarrow> None
         | Some k \<Rightarrow> if paths = [] then None else Some \<lparr>sse_event = k, sse_paths = paths\<rparr>)"

section \<open>The stream\<close>

text \<open>The deadline is one sleep for the whole stream, unlike that of a terminal.\<close>

datatype watch_input = WatchEvent notify_event | WatcherGone

fun watch_stream :: "string \<Rightarrow> nat \<Rightarrow> (nat \<times> watch_input) list \<Rightarrow> (nat \<times> sse) list" where
  "watch_stream base limit [] = []"
| "watch_stream base limit ((t, i) # es) =
     (if limit < t then []
      else case i of
        WatcherGone \<Rightarrow> []
      | WatchEvent ev \<Rightarrow>
          (case event_to_sse ev base of
             Some e \<Rightarrow> (t, e) # watch_stream base limit es
           | None \<Rightarrow> watch_stream base limit es))"

section \<open>The handler\<close>

record watch_query =
  wq_path :: "string option"
  wq_timeout_secs :: "u64 option"

text \<open>The streams that are open, and the counter of them.\<close>

record watchers =
  wa_active :: u64
  wa_open :: "(nat \<times> string \<times> nat) list"
  wa_next :: nat

text \<open>\<open>init_err\<close> and \<open>watch_err\<close>: why the watcher cannot be made, or cannot watch a directory.\<close>

definition watch_files ::
    "api_env \<Rightarrow> string option \<Rightarrow> (string \<Rightarrow> string option) \<Rightarrow> string \<Rightarrow> watch_query \<Rightarrow> session_manager \<Rightarrow> watchers
      \<Rightarrow> (response + nat) \<times> watchers" where
  "watch_files v init_err watch_err sid qy sm wa =
     (case watch_paths sid (case wq_path qy of Some p \<Rightarrow> p | None \<Rightarrow> []) sm of
        Inl e \<Rightarrow> (Inl (core_err_response v e), wa)
      | Inr (watch_root, base) \<Rightarrow>
          (case init_err of
             Some e \<Rightarrow> (Inl (error_reply 500 (''watch init failed: '' @ e)), wa)
           | None \<Rightarrow>
               (case watch_err watch_root of
                  Some e \<Rightarrow> (Inl (error_reply 500 (''watch failed: '' @ e)), wa)
                | None \<Rightarrow>
                    (let limit = unat (case wq_timeout_secs qy of Some n \<Rightarrow> n | None \<Rightarrow> 60) * 1000000000
                     in (Inr (wa_next wa),
                         wa\<lparr>wa_active := wa_active wa + 1, wa_open := wa_open wa @ [(wa_next wa, base, limit)],
                            wa_next := wa_next wa + 1\<rparr>)))))"

text \<open>The end of a stream, by its limit or because it is dropped: the guard counts down.\<close>

definition watch_end :: "nat \<Rightarrow> watchers \<Rightarrow> watchers" where
  "watch_end i wa = wa\<lparr>wa_active := wa_active wa - 1, wa_open := filter (\<lambda>e. fst e \<noteq> i) (wa_open wa)\<rparr>"

inductive watch_step :: "watchers \<Rightarrow> watchers \<Rightarrow> bool" where
  asked: "watch_files v ie we sid qy sm wa = (r, wa') \<Longrightarrow> watch_step wa wa'"
| ended: "i \<in> fst ` set (wa_open wa) \<Longrightarrow> watch_step wa (watch_end i wa)"

inductive_cases watch_stepE: "watch_step wa wa'"

definition watch_inv :: "watchers \<Rightarrow> bool" where
  "watch_inv wa = (wa_active wa = of_nat (length (wa_open wa)) \<and> distinct (map fst (wa_open wa))
     \<and> (\<forall>e\<in>set (wa_open wa). fst e < wa_next wa))"

lemma length_filter_one:
  "distinct (map fst xs) \<Longrightarrow> i \<in> fst ` set xs \<Longrightarrow> Suc (length (filter (\<lambda>e. fst e \<noteq> i) xs)) = length xs"
proof (induction xs)
  case (Cons x xs)
  show ?case
  proof (cases "fst x = i")
    case True
    then have "filter (\<lambda>e. fst e \<noteq> i) xs = xs" using Cons.prems by (intro filter_True) (auto simp: image_iff)
    then show ?thesis using True by simp
  next
    case False
    then show ?thesis using Cons by auto
  qed
qed simp

lemma watch_step_inv: "watch_step wa wa' \<Longrightarrow> watch_inv wa \<Longrightarrow> watch_inv wa'"
proof (induction rule: watch_step.induct)
  case (asked v ie we sid qy sm wa r wa')
  have "wa' = wa \<or> (\<exists>b l. wa' = wa\<lparr>wa_active := wa_active wa + 1, wa_open := wa_open wa @ [(wa_next wa, b, l)], wa_next := wa_next wa + 1\<rparr>)"
    using asked(1) by (auto simp: watch_files_def Let_def split: sum.splits option.splits prod.splits)
  then show ?case
  proof
    assume "\<exists>b l. wa' = wa\<lparr>wa_active := wa_active wa + 1, wa_open := wa_open wa @ [(wa_next wa, b, l)], wa_next := wa_next wa + 1\<rparr>"
    then obtain b l where wa': "wa' = wa\<lparr>wa_active := wa_active wa + 1, wa_open := wa_open wa @ [(wa_next wa, b, l)], wa_next := wa_next wa + 1\<rparr>"
      by blast
    have old: "fst e < wa_next wa" if "e \<in> set (wa_open wa)" for e using asked(2) that by (simp add: watch_inv_def)
    then have "wa_next wa \<notin> fst ` set (wa_open wa)" by (metis imageE less_irrefl)
    moreover have "\<forall>e\<in>set (wa_open wa). fst e < Suc (wa_next wa)" using old less_SucI by blast
    ultimately show ?thesis using asked(2) by (simp add: wa' watch_inv_def)
  qed (use asked in simp)
next
  case (ended i wa)
  then have "Suc (length (filter (\<lambda>e. fst e \<noteq> i) (wa_open wa))) = length (wa_open wa)"
    by (intro length_filter_one) (simp_all add: watch_inv_def)
  then have "of_nat (length (wa_open wa)) - 1 = (of_nat (length (filter (\<lambda>e. fst e \<noteq> i) (wa_open wa))) :: u64)"
    by (metis add_diff_cancel_left' of_nat_Suc)
  then show ?case using ended by (auto simp: watch_inv_def watch_end_def distinct_map_filter)
qed

text \<open>The counter is the number of open streams in every state that can be reached.\<close>

theorem watchers_counted:
  "watch_step\<^sup>*\<^sup>* \<lparr>wa_active = 0, wa_open = [], wa_next = 0\<rparr> wa \<Longrightarrow> wa_active wa = of_nat (length (wa_open wa))"
proof -
  assume "watch_step\<^sup>*\<^sup>* \<lparr>wa_active = 0, wa_open = [], wa_next = 0\<rparr> wa"
  then have "watch_inv wa"
  proof (induction rule: rtranclp_induct)
    case (step wa wa')
    show ?case by (rule watch_step_inv [OF step(2,3)])
  qed (simp add: watch_inv_def)
  then show ?thesis by (simp add: watch_inv_def)
qed

text \<open>The stream gives the changes that come within its limit, in their order, and nothing after it.\<close>

theorem watch_stream_changes:
  "watch_stream base limit es =
     List.map_filter (\<lambda>(t, i). case i of WatchEvent ev \<Rightarrow> map_option (Pair t) (event_to_sse ev base) | WatcherGone \<Rightarrow> None)
       (takeWhile (\<lambda>(t, i). t \<le> limit \<and> i \<noteq> WatcherGone) es)"
proof (induction base limit es rule: watch_stream.induct)
  case (2 base limit t i es)
  then show ?case by (cases i) (auto simp: List.map_filter_simps split: option.splits)
qed (simp add: List.map_filter_simps)

section \<open>The end of the server\<close>

text \<open>
  After the HTTP server has stopped: the jobs that hold a permit are waited for, a second at a time,
  until the deadline. \<open>now\<close> and \<open>busy\<close> are read in each round, \<open>pass\<close> is what happens while it
  sleeps; \<open>None\<close> when there are more rounds than \<open>fuel\<close>.
\<close>

datatype drain_end = AllCompleted | ForcedExit nat

fun drain_jobs :: "('s \<Rightarrow> nat) \<Rightarrow> ('s \<Rightarrow> nat) \<Rightarrow> ('s \<Rightarrow> 's) \<Rightarrow> nat \<Rightarrow> nat \<Rightarrow> 's \<Rightarrow> (drain_end \<times> 's) option" where
  "drain_jobs now busy pass deadline 0 s = None"
| "drain_jobs now busy pass deadline (Suc fuel) s =
     (if busy s = 0 then Some (AllCompleted, s)
      else if deadline \<le> now s then Some (ForcedExit (busy s), s)
      else drain_jobs now busy pass deadline fuel (pass s))"

definition shut_down :: "('s \<Rightarrow> nat) \<Rightarrow> ('s \<Rightarrow> nat) \<Rightarrow> ('s \<Rightarrow> 's) \<Rightarrow> nat \<Rightarrow> nat \<Rightarrow> 's \<Rightarrow> (drain_end \<times> 's) option" where
  "shut_down now busy pass timeout_secs fuel s = drain_jobs now busy pass (now s + timeout_secs * 1000000000) fuel s"

lemma drain_jobs_ends:
  assumes "\<And>s. now s + 1000000000 \<le> now (pass s)"
  shows "deadline \<le> now s + 1000000000 * fuel \<Longrightarrow> drain_jobs now busy pass deadline (Suc fuel) s \<noteq> None"
proof (induction fuel arbitrary: s)
  case (Suc fuel)
  have "deadline \<le> now (pass s) + 1000000000 * fuel" using Suc.prems assms [of s] by simp
  from Suc.IH [OF this] show ?case by simp
qed simp

lemma drain_jobs_result:
  "drain_jobs now busy pass deadline fuel s = Some (r, s') \<Longrightarrow>
     (r = AllCompleted \<and> busy s' = 0) \<or> (r = ForcedExit (busy s') \<and> busy s' \<noteq> 0 \<and> deadline \<le> now s')"
  by (induction fuel arbitrary: s) (auto split: if_splits)

text \<open>
  The server ends, at most one round per second of its time limit: without jobs that hold a permit,
  or after the limit with the number of them. Commands of sessions hold no permit, so they are not
  waited for.
\<close>

theorem shut_down_ends:
  assumes "\<And>s. now s + 1000000000 \<le> now (pass s)"
  shows "\<exists>r s'. shut_down now busy pass timeout_secs (Suc timeout_secs) s = Some (r, s')
    \<and> (r = AllCompleted \<longleftrightarrow> busy s' = 0) \<and> (r \<noteq> AllCompleted \<longrightarrow> now s + timeout_secs * 1000000000 \<le> now s')"
proof -
  have "drain_jobs now busy pass (now s + timeout_secs * 1000000000) (Suc timeout_secs) s \<noteq> None"
    by (rule drain_jobs_ends) (simp_all add: assms)
  then obtain r s' where r: "drain_jobs now busy pass (now s + timeout_secs * 1000000000) (Suc timeout_secs) s = Some (r, s')"
    by auto
  then show ?thesis using drain_jobs_result [OF r] by (auto simp: shut_down_def)
qed

end
