(* ===== verification/ApiTypes.thy ===== *)
theory ApiTypes
  imports ApiProofs
begin

text \<open>
  The types of the HTTP interface, \<open>sandbox-server/src/api.rs\<close>: which status codes and bodies a call can
  be answered with, as a relation between calls and responses, and that every handler keeps to it.
\<close>

text \<open>The codes of the errors that a call can be answered with.\<close>

definition session_errors :: "nat set" where
  "session_errors = {400, 404, 500}"

fun error_codes :: "api_call \<Rightarrow> nat set" where
  "error_codes (CreateJob stream req) = (if or_default (cj_dry_run req) False then {404} else {400})"
| "error_codes (GetJob jid) = {404}"
| "error_codes (CancelJob jid) = {404, 409}"
| "error_codes (GetSession sid) = {404}"
| "error_codes (ExecSession sid stream req) = (if stream then {400} else session_errors)"
| "error_codes Health = {}"
| "error_codes Metrics = {}"
| "error_codes Status = {}"
| "error_codes Profiles = {}"
| "error_codes Reload = {}"
| "error_codes ListSessions = {}"
| "error_codes (HeadFile sid path) = {}"
| "error_codes ListSnapshots = {}"
| "error_codes ListVolumes = {}"
| "error_codes call = session_errors"

inductive answers :: "api_call \<Rightarrow> response \<Rightarrow> bool" where
  failed: "c \<in> error_codes call \<Longrightarrow> answers call (error_reply c msg)"
| health: "answers Health (reply_of 200 (PHealth h))"
| metrics_page: "answers Metrics (reply_of 200 (PBytes ''text/plain; version=0.0.4; charset=utf-8'' text))"
| dry_run: "or_default (cj_dry_run req) False \<Longrightarrow> answers (CreateJob stream req) (reply_of 200 (PDryRun d))"
| job_made: "\<not> or_default (cj_dry_run req) False \<Longrightarrow> answers (CreateJob False req) (reply_of 202 (PCreateJob (cj_job_id req) ''Running''))"
| job_streamed: "\<not> or_default (cj_dry_run req) False \<Longrightarrow> answers (CreateJob True req) (reply_of 200 (PEvents n))"
| job_shown: "answers (GetJob jid) (reply_of 200 (PJob j))"
| job_cancelled: "answers (CancelJob jid) (reply_of 200 (PCreateJob jid ''Cancelled''))"
| status: "answers Status (reply_of 200 (PStatus a b c))"
| profiles: "answers Profiles (reply_of 200 (PProfiles ns))"
| reloaded: "answers Reload (reply_of 200 (PReload True ns msg))"
| not_reloaded: "answers Reload (reply_of 500 (PReload False {} msg))"
| session_made: "answers (ApiCreateSession req) (reply_of 201 (PSession sid))"
| sessions: "answers ListSessions (reply_of 200 (PSessions infos))"
| session_shown: "answers (GetSession sid) (reply_of 200 (PInfo info))"
| session_gone: "answers (ApiDestroySession sid) (reply_of 200 (PDestroyed True sid))"
| session_patched: "answers (PatchSession sid preq) (reply_of 200 POk)"
| exec_streamed: "answers (ExecSession sid True xreq) (reply_of 200 (PEvents n))"
| snapshot_made: "answers (SnapshotSession sid) (reply_of 201 (PSnapshot snap))"
| files_listed: "answers (ListFiles sid path) (reply_of 200 (PEntries es))"
| file_read: "answers (GetFile sid p) (reply_of 200 (PBytes ''application/octet-stream'' data))"
| file_written: "answers (PutFile sid p bytes) (reply_of 200 POk)"
| file_deleted: "answers (DeleteFile sid p) (reply_of 200 POk)"
| file_there: "answers (HeadFile sid p) (reply_of 200 PEmpty)"
| file_not_there: "answers (HeadFile sid p) (reply_of 404 PEmpty)"
| dir_made: "answers (Mkdir sid p) (reply_of 200 POk)"
| found: "answers (FindFiles sid path pattern limit) (reply_of 200 (PFound res))"
| hits: "answers (SearchFiles sid path pattern) (reply_of 200 (PHits hs))"
| snapshots: "answers ListSnapshots (reply_of 200 (PNames ns))"
| snapshot_gone: "answers (DestroySnapshot snap) (reply_of 200 (POkName snap))"
| volume_made: "answers (CreateVolume name) (reply_of 201 (POkName name))"
| volumes: "answers ListVolumes (reply_of 200 (PNames ns))"
| volume_gone: "answers (DestroyVolume name) (reply_of 200 (POkName name))"

inductive_cases answersE: "answers call r"

lemma core_err_response_code: "\<exists>c msg. core_err_response v e = error_reply c msg \<and> c \<in> session_errors"
  by (cases e) (auto simp: core_err_response_def session_errors_def Let_def)

lemma from_result_answers:
  assumes "error_codes call = session_errors" and "\<And>x. answers call (f x)"
  shows "answers call (from_result v f r)"
proof (cases r)
  case (Inl e)
  obtain c msg where "core_err_response v e = error_reply c msg" "c \<in> session_errors"
    using core_err_response_code by blast
  then show ?thesis using Inl assms(1) answers.failed by (simp add: from_result_def)
qed (simp add: from_result_def assms(2))

lemma on_sessions_answers:
  assumes "fst (on_sessions v f ok st) = Some r"
    and "error_codes call = session_errors" and "\<And>x. answers call (ok x)"
  shows "answers call r"
  using assms from_result_answers [OF assms(2,3)] by (auto simp: on_sessions_def split: prod.splits)

lemma parse_timeout_error: "parse_timeout t = Inl r \<Longrightarrow> \<exists>msg. r = error_reply 400 msg"
  by (auto simp: parse_timeout_def split: option.splits)

lemma handle_answers: "fst (handle v ti ws call st) = Some r \<Longrightarrow> answers call r"
proof (cases call)
  case (CreateJob stream req)
  assume "fst (handle v ti ws call st) = Some r"
  then show ?thesis
    by (auto simp: CreateJob create_job_def answer_def submit_async_def job_request_of_def
        intro: answers.intros dest!: parse_timeout_error split: if_splits option.splits sum.splits prod.splits)
next
  case (CancelJob jid)
  assume "fst (handle v ti ws call st) = Some r"
  then show ?thesis
    by (auto simp: CancelJob api_cancel_job_def intro: answers.intros split: prod.splits sum.splits CancelError.splits)
next
  case (ExecSession sid stream req)
  assume r: "fst (handle v ti ws call st) = Some r"
  show ?thesis
  proof (cases "parse_timeout (xr_timeout req)")
    case (Inl bad)
    then obtain msg where "r = error_reply 400 msg"
      using r parse_timeout_error [OF Inl] by (auto simp: ExecSession api_exec_session_def answer_def)
    then show ?thesis by (auto simp: ExecSession session_errors_def intro!: answers.failed)
  next
    case (Inr t)
    show ?thesis
    proof (cases stream)
      case True
      then show ?thesis using r Inr by (auto simp: ExecSession api_exec_session_def intro: answers.intros split: prod.splits)
    next
      case False
      then obtain e where "r = core_err_response v e"
        using r Inr by (auto simp: ExecSession api_exec_session_def split: prod.splits sum.splits)
      then show ?thesis using False core_err_response_code [of v e] by (auto simp: ExecSession intro!: answers.failed)
    qed
  qed
next
  case (ApiCreateSession req)
  assume "fst (handle v ti ws call st) = Some r"
  then show ?thesis
    by (auto simp: ApiCreateSession api_create_session_def split: option.splits prod.splits
        intro!: from_result_answers answers.session_made)
next
  case (SnapshotSession sid)
  assume "fst (handle v ti ws call st) = Some r"
  then show ?thesis
    by (auto simp: SnapshotSession api_snapshot_session_def Let_def split: option.splits prod.splits if_splits
        intro!: from_result_answers answers.snapshot_made)
next
  case (FindFiles sid path pattern limit)
  assume "fst (handle v ti ws call st) = Some r"
  then show ?thesis
    by (auto simp: FindFiles api_find_files_def answer_def intro!: from_result_answers answers.found)
next
  case (SearchFiles sid path pattern)
  assume "fst (handle v ti ws call st) = Some r"
  then show ?thesis
    by (auto simp: SearchFiles api_search_files_def answer_def intro!: from_result_answers answers.hits)
next
  case (GetJob jid)
  assume "fst (handle v ti ws call st) = Some r"
  then show ?thesis
    by (cases "get_job jid (ap_sched st)")
      (auto simp: GetJob api_get_job_def answer_def intro: answers.intros split: JobRunState.splits)
qed (auto simp: api_health_def api_metrics_def api_status_def api_profiles_def api_reload_def api_list_sessions_def
    api_get_session_def api_head_file_def answer_def Let_def api_list_snapshots_def api_list_volumes_def names_or_none_def
    api_destroy_session_def api_patch_session_def api_list_files_def api_get_file_def api_put_file_def api_delete_file_def
    api_mkdir_def api_destroy_snapshot_def api_create_volume_def api_destroy_volume_def
    intro: answers.intros elim!: on_sessions_answers split: option.splits prod.splits sum.splits)



end
