(* ===== verification/ServerStart.thy ===== *)
theory ServerStart
  imports ApiTypes SessionRestart
begin

text \<open>
  The start of the server as a whole, \<open>main\<close> of \<open>sandbox-server/src/main.rs\<close> up to serving, and the
  removal of expired sessions in the background, \<open>spawn_reaper\<close> of \<open>sandbox-server/src/session.rs\<close>.
\<close>

section \<open>The parts\<close>

text \<open>A log file that cannot be opened is no log; \<open>open_log\<close> gives the lines that the file has.\<close>

definition audit_start :: "(string \<Rightarrow> io_error + string list) \<Rightarrow> AuditConfig \<Rightarrow> AuditLogger" where
  "audit_start open_log a =
     (if au_enabled a then (case open_log (au_path a) of Inr ls \<Rightarrow> FileLog ls | Inl _ \<Rightarrow> NoopLog) else NoopLog)"

definition reaper_start :: "SandboxSection \<Rightarrow> nat option" where
  "reaper_start sb =
     (case cb_session_ttl_secs sb of None \<Rightarrow> None | Some ttl \<Rightarrow> if 0 < ttl then Some (unat ttl) else None)"

definition limiter_start :: "RateLimitSection \<Rightarrow> RateLimitConfig option" where
  "limiter_start rl = (if rl_enabled rl then Some (rl_limits rl) else None)"

text \<open>The server that runs: its state, and what the layers and the reaper were started with.\<close>

record server =
  se_config :: AppConfig
  se_env :: api_env
  se_state :: app_state
  se_api_key :: "string option"
  se_limiter :: "RateLimitConfig option"
  se_reaper :: "nat option"
  se_setups :: "string list"

datatype start_error = StartConfig config_error | StartListen io_error

definition start_env :: "api_env \<Rightarrow> string \<Rightarrow> AppConfig \<Rightarrow> runner_parts \<Rightarrow> api_env" where
  "start_env v path config parts =
     v\<lparr>av_config_path := path,
       av_sess := (av_sess v)\<lparr>sv_mgr := fst parts, sv_registry := snd parts, sv_hooks := cs_webhooks (ac_server config)\<rparr>\<rparr>"

definition start_server ::
    "api_env \<Rightarrow> (string \<Rightarrow> io_error + string list) \<Rightarrow> (string \<Rightarrow> io_error option) \<Rightarrow> clocks \<Rightarrow> string list \<Rightarrow> rstate \<Rightarrow>
     (start_error + server) \<times> rstate" where
  "start_server v open_log listen_err ck args rn =
     (let path = resolve_config_path args (av_env v)
      in case start_runner (av_from_yaml v) (av_conf v) (av_env v) (av_read_pem v) path (rn_fs rn) of
           (Inl e, t) \<Rightarrow> (Inl (StartConfig e), rn\<lparr>rn_fs := t\<rparr>)
         | (Inr (config, parts, cmds), t) \<Rightarrow>
             (let sc = ac_server config;
                  v = start_env v path config parts;
                  audit = audit_start open_log (cs_audit sc);
                  sched = with_webhooks (cs_webhooks sc)
                    (with_audit audit (scheduler_new parts (cs_max_concurrent_jobs sc)));
                  sess = start_sessions (av_sess v) ck (session_manager_new (rn\<lparr>rn_fs := t\<rparr>) audit)
              in case listen_err (cs_listen_addr sc) of
                   Some e \<Rightarrow> (Inl (StartListen e), ss_rn sess)
                 | None \<Rightarrow>
                     (Inr \<lparr>se_config = config, se_env = v, se_state = \<lparr>ap_sched = sched, ap_sess = sess\<rparr>,
                           se_api_key = cs_api_key sc, se_limiter = limiter_start (cs_rate_limit sc),
                           se_reaper = reaper_start (ac_sandbox config), se_setups = cmds\<rparr>,
                      ss_rn sess)))"

definition answer_request ::
    "server \<Rightarrow> (string \<Rightarrow> 'ip option) \<Rightarrow> tick \<Rightarrow> WorkerStatus \<Rightarrow> api_request \<Rightarrow> 'ip windows \<Rightarrow> app_state \<Rightarrow>
     response option \<times> 'ip windows \<times> app_state" where
  "answer_request se parse_ip ti ws rq w st = serve (se_env se) (se_api_key se) (se_limiter se) parse_ip ti ws rq w st"

section \<open>The reaper\<close>

text \<open>The rounds of the reaper, each with its clocks: at once, then every 60 seconds.\<close>

fun spawn_reaper :: "session_env \<Rightarrow> nat \<Rightarrow> clocks list \<Rightarrow> session_manager \<Rightarrow> session_manager" where
  "spawn_reaper v ttl_secs [] s = s"
| "spawn_reaper v ttl_secs (ck # cks) s = spawn_reaper v ttl_secs cks (snd (reap_expired v ck ttl_secs s))"

definition expired_at :: "nat \<Rightarrow> clocks \<Rightarrow> SessionEntry \<Rightarrow> bool" where
  "expired_at ttl_secs ck e = (ttl_secs * 1000000000 < ck_instant ck - ent_last_activity e)"

text \<open>
  The rounds keep the agreement of table and disk, and leave exactly the sessions that have expired
  at none of them, as they were.
\<close>

theorem reaper_leaves:
  assumes "session_inv v s"
  shows "session_inv v (spawn_reaper v ttl cks s)
    \<and> (\<forall>i. table_get (ss_table (spawn_reaper v ttl cks s)) i =
         (case table_get (ss_table s) i of
            Some e \<Rightarrow> if list_ex (\<lambda>ck. expired_at ttl ck e) cks then None else Some e
          | None \<Rightarrow> None))"
  using assms
proof (induction cks arbitrary: s)
  case (Cons ck cks)
  have a: "agrees v s" and d: "distinct (map fst (ss_table s))" using Cons.prems by (simp_all add: session_inv_def)
  obtain s1 where s1: "snd (reap_expired v ck ttl s) = s1" "agrees v s1"
    "\<forall>i. table_get (ss_table s1) i = (case table_get (ss_table s) i of
        Some e \<Rightarrow> if expired_at ttl ck e then None else Some e | None \<Rightarrow> None)"
    using reap_spec [OF a d, of ck ttl] unfolding expired_at_def by force
  have "distinct (map fst (ss_table s1))" using s1(1) reap_keys [OF d] by (auto simp: reap_expired_def)
  then have "session_inv v s1" using s1(2) by (simp add: session_inv_def)
  from Cons.IH [OF this] show ?case by (auto simp: s1(1,3) split: option.split)
qed (simp add: option.case_eq_if)

section \<open>What a start guarantees\<close>

lemma start_serverE:
  assumes "start_server v open_log listen_err ck args rn = (Inr se, rn')"
  obtains parts cmds t where
    "start_runner (av_from_yaml v) (av_conf v) (av_env v) (av_read_pem v) (resolve_config_path args (av_env v)) (rn_fs rn)
       = (Inr (se_config se, parts, cmds), t)"
    "se_env se = start_env v (resolve_config_path args (av_env v)) (se_config se) parts"
    "ap_sess (se_state se) = start_sessions (av_sess (se_env se)) ck
       (session_manager_new (rn\<lparr>rn_fs := t\<rparr>) (audit_start open_log (cs_audit (ac_server (se_config se)))))"
    "sc_runner (ap_sched (se_state se)) = parts"
    "se_api_key se = cs_api_key (ac_server (se_config se))" "rn' = ss_rn (ap_sess (se_state se))"
  using assms by (auto simp: start_server_def Let_def scheduler_new_def with_webhooks_def with_audit_def
      split: prod.splits sum.splits option.splits)

text \<open>The base directory of a server that was there before is found, and not changed.\<close>

lemma runner_new_present:
  assumes m: "base_ready m t" and b: "base_dir m = dir"
  shows "runner_new dir w envv read_pem t = (Inr (\<lparr>base_dir = dir, disk_watermark_bytes = w\<rparr>, with_defaults envv read_pem), t)"
proof -
  have r: "dir_at t []" "tree_ok t" "view t (comps dir) = Some VDir" using m b by (auto simp: base_ready_def)
  then have "free_dir t (comps dir)" by (simp add: dir_free)
  then obtain t' where t': "create_dir_all dir t = (Inr (), t')" "dir_created t (comps dir) t'"
    using create_dir_all_view r(1) by blast
  have "lookup t (comps dir) \<noteq> None" using r(3) by (auto simp: view_def)
  then have "t' = t" using t'(2) by (simp add: dir_created_def)
  then show ?thesis using t'(1) by (simp add: runner_new_def st_bind_def st_ret_def lift_io_def)
qed

text \<open>
  C20. A restart of the server loses everything it kept. Whatever the configuration, when \<open>main\<close> comes to
  serve on the base directory of a server that has stopped, there is no session, although the disk
  agreed with the table of the stopped server and \<open>rebuild_from_disk\<close> would have restored it: nothing
  is left below \<open>sessions\<close>, \<open>snapshots\<close> and \<open>volumes\<close>, and a request for a session that was there is
  answered 404.
\<close>

theorem restart_loses_state:
  assumes start: "start_server v open_log listen_err ck args rn = (Inr se, rn')"
    and stopped: "agrees v0 s" "rn_fs rn = ss_disk s" "base_dir (sv_mgr v0) = cb_base_dir (ac_sandbox (se_config se))"
    and areas: "\<forall>a\<in>{''snapshots'', ''volumes''}. view (ss_disk s) (comps (base_dir (sv_mgr v0)) @ [a]) \<in> {None, Some VDir}"
  shows "ss_table (ap_sess (se_state se)) = []
    \<and> (\<forall>a\<in>{''sessions'', ''snapshots'', ''volumes''}. \<forall>q. view (rn_fs rn') (comps (base_dir (sv_mgr v0)) @ a # q) = None)
    \<and> (\<forall>ti ws sid. fst (handle (se_env se) ti ws (GetSession sid) (se_state se))
         = Some (error_reply 404 (''session not found: '' @ sid)))"
proof -
  let ?c = "se_config se" and ?b = "base_dir (sv_mgr v0)"
  have m0: "base_ready (sv_mgr v0) (rn_fs rn)" "view (rn_fs rn) (comps ?b @ [''sessions'']) \<in> {None, Some VDir}"
    using stopped(1,2) by (auto simp: agrees_def consistent_def)
  obtain parts cmds t where p:
    "start_runner (av_from_yaml v) (av_conf v) (av_env v) (av_read_pem v) (resolve_config_path args (av_env v)) (rn_fs rn)
       = (Inr (?c, parts, cmds), t)"
    "se_env se = start_env v (resolve_config_path args (av_env v)) ?c parts"
    "ap_sess (se_state se) = start_sessions (av_sess (se_env se)) ck
       (session_manager_new (rn\<lparr>rn_fs := t\<rparr>) (audit_start open_log (cs_audit (ac_server ?c))))"
    and rn': "rn' = ss_rn (ap_sess (se_state se))"
    using start_serverE [OF start] by metis
  have t: "t = rn_fs rn" "base_dir (fst parts) = ?b"
    using p(1) stopped(3) runner_new_present [OF m0(1)]
    by (auto simp: start_runner_def Let_def split: prod.splits sum.splits)
  then have "base_dir (sv_mgr (av_sess (se_env se))) = ?b" by (simp add: p(2) start_env_def)
  then have "ss_table (ap_sess (se_state se)) = []
    \<and> (\<forall>a\<in>{''sessions'', ''snapshots'', ''volumes''}. \<forall>q. view (ss_disk (ap_sess (se_state se))) (comps ?b @ a # q) = None)"
    using start_clears_areas [of "av_sess (se_env se)" "session_manager_new (rn\<lparr>rn_fs := t\<rparr>) (audit_start open_log (cs_audit (ac_server ?c)))" ck]
      m0 areas t(1) unfolding p(3)
    by (auto simp: base_ready_def session_manager_new_def ss_disk_def stopped(2))
  then show ?thesis
    by (simp add: rn' ss_disk_def api_get_session_def get_session_def answer_def table_get_def)
qed

text \<open>The witness: the session \<open>s1\<close> of a server that keeps its files in \<open>b\<close>, and a restart with the same directory.\<close>

definition restart_config :: AppConfig where
  "restart_config = app_default\<lparr>ac_sandbox := sandbox_default\<lparr>cb_base_dir := ''b''\<rparr>\<rparr>"

definition restart_env :: "api_env \<Rightarrow> api_env" where
  "restart_env v = v\<lparr>av_from_yaml := (\<lambda>_. Inr restart_config), av_conf := (\<lambda>_. Some (Inr []))\<rparr>"

lemma restart_starts:
  assumes "agrees demo_env s"
  shows "\<exists>se rn'. start_server (restart_env v) open_log (\<lambda>_. None) ck [] (ss_rn s) = (Inr se, rn') \<and> se_config se = restart_config"
proof -
  have m: "base_ready (sv_mgr demo_env) (rn_fs (ss_rn s))" using assms by (simp add: agrees_def consistent_def ss_disk_def)
  have "start_runner (\<lambda>_. Inr restart_config) (\<lambda>_. Some (Inr [])) (av_env v) (av_read_pem v) path (rn_fs (ss_rn s))
      = (Inr (restart_config, (\<lparr>base_dir = ''b'', disk_watermark_bytes = watermark_bytes restart_config\<rparr>,
             with_defaults (av_env v) (av_read_pem v)), []), rn_fs (ss_rn s))" for path
    using runner_new_present [OF m, of "''b''"]
    by (simp add: start_runner_def load_from_path_def restart_config_def app_default_def)
  then show ?thesis
    by (simp add: start_server_def restart_env_def Let_def)
qed

theorem restart_loses_state_witness:
  "\<forall>v open_log ti ws. \<exists>s se rn'. agrees demo_env s \<and> table_get (ss_table s) ''s1'' \<noteq> None
     \<and> start_server (restart_env v) open_log (\<lambda>_. None) demo_clock [] (ss_rn s) = (Inr se, rn')
     \<and> fst (handle (se_env se) ti ws (GetSession ''s1'') (se_state se)) = Some (error_reply 404 ''session not found: s1'')"
proof (intro allI)
  fix v open_log ti ws
  obtain s e where s: "agrees demo_env s" "table_get (ss_table s) ''s1'' = Some e"
    "view (ss_disk s) [''b'', ''snapshots''] = None" "view (ss_disk s) [''b'', ''volumes''] = Some VDir"
    using demo_created by blast
  obtain se rn' where se: "start_server (restart_env v) open_log (\<lambda>_. None) demo_clock [] (ss_rn s) = (Inr se, rn')"
    "se_config se = restart_config"
    using restart_starts [OF s(1)] by blast
  have b: "comps (base_dir (sv_mgr demo_env)) = [''b'']" by (simp add: comps_def)
  have "base_dir (sv_mgr demo_env) = cb_base_dir (ac_sandbox (se_config se))"
    by (simp add: se(2) restart_config_def)
  moreover have "\<forall>a\<in>{''snapshots'', ''volumes''}. view (ss_disk s) (comps (base_dir (sv_mgr demo_env)) @ [a]) \<in> {None, Some VDir}"
    using s(3,4) unfolding b by simp
  ultimately have "fst (handle (se_env se) ti ws (GetSession ''s1'') (se_state se)) = Some (error_reply 404 ''session not found: s1'')"
    using restart_loses_state [OF se(1) s(1) ss_disk_def [symmetric]] by simp
  then show "\<exists>s se rn'. agrees demo_env s \<and> table_get (ss_table s) ''s1'' \<noteq> None
     \<and> start_server (restart_env v) open_log (\<lambda>_. None) demo_clock [] (ss_rn s) = (Inr se, rn')
     \<and> fst (handle (se_env se) ti ws (GetSession ''s1'') (se_state se)) = Some (error_reply 404 ''session not found: s1'')"
    using s(1,2) se(1) by auto
qed

end
