(* ===== verification/Cli.thy ===== *)
theory Cli
  imports HttpJson RateLimit
begin

text \<open>
  The command line client \<open>lvs\<close>, \<open>lv-cli/src/main.rs\<close>: its commands, the calls they make, what they
  print and the status they exit with. Argument parsing is of \<open>clap\<close>: a command is a value of \<open>Cmd\<close>.
  The HTTP library, the derived decoders and the WebSocket library are parameters. The client's state
  is that of the server behind the transport, beside what was printed and the files written.
\<close>

section \<open>Commands\<close>

datatype JobsCmd = JobsRun "string list" string "string option"

datatype SessionsCmd = SessionsLs | SessionsNew string "string option" "string list" | SessionsRm string

datatype FilesCmd = FilesPut string string string | FilesGet string string "string option" | FilesLs string string

datatype SnapshotsCmd = SnapshotsLs | SnapshotsNew string | SnapshotsRm string

datatype VolumesCmd = VolumesLs | VolumesNew string | VolumesRm string

datatype Cmd =
    CmdStatus
  | CmdProfiles
  | CmdJobs JobsCmd
  | CmdSessions SessionsCmd
  | CmdExec string "string list" "string option"
  | CmdShell string "string list"
  | CmdFiles FilesCmd
  | CmdSnapshots SnapshotsCmd
  | CmdVolumes VolumesCmd

section \<open>Answers\<close>

record JobResp =
  jo_status :: string
  jo_exit_code :: "int option"
  jo_stdout :: "string option"
  jo_stderr :: "string option"

record CreateResp =
  cp_session_id :: "string option"
  cp_snapshot_id :: "string option"

record SessionRow =
  sr_session_id :: string
  sr_profile :: string

record FileRow =
  fr_name :: string
  fr_size :: nat
  fr_is_dir :: bool

record StringsResp =
  st_profiles :: "string list"
  st_snapshots :: "string list"
  st_volumes :: "string list"

text \<open>The derived decoders of \<open>serde\<close>, the printer, and the encoding of a query.\<close>

record cli_lib =
  cl_job :: "string \<Rightarrow> string + JobResp"
  cl_create :: "string \<Rightarrow> string + CreateResp"
  cl_sessions :: "string \<Rightarrow> string + SessionRow list"
  cl_files :: "string \<Rightarrow> string + FileRow list"
  cl_strings :: "string \<Rightarrow> string + StringsResp"
  cl_value :: "string \<Rightarrow> string + json"
  cl_pretty :: "json \<Rightarrow> string"
  cl_query :: "string \<Rightarrow> string \<Rightarrow> string"

datatype cli_error = CliHttp string | CliStatus nat | CliDecode string | CliMessage string | CliIo string

section \<open>The client\<close>

record CliClient =
  cc_base :: string
  cc_auth :: "string option"

definition cli_client :: "string \<Rightarrow> string option \<Rightarrow> CliClient" where
  "cli_client base api_key =
     \<lparr>cc_base = trim_end_char (CHR ''/'') base,
      cc_auth = Option.bind api_key (\<lambda>k. header_to_str (''Bearer '' @ k))\<rparr>"

definition cli_url :: "CliClient \<Rightarrow> string \<Rightarrow> string" where
  "cli_url c path = cc_base c @ path"

text \<open>\<open>send\<close> and \<open>error_for_status\<close>: the statuses 400 to 599 are errors.\<close>

definition cli_send :: "'s transport \<Rightarrow> CliClient \<Rightarrow> string \<Rightarrow> string \<Rightarrow> call_body \<Rightarrow> ('s, cli_error, http_answer) st" where
  "cli_send tr c verb path body s =
     (case tr \<lparr>hc_method = verb, hc_url = cli_url c path, hc_auth = cc_auth c, hc_body = body\<rparr> s of
        (Inl e, s) \<Rightarrow> (Inl (CliHttp e), s)
      | (Inr a, s) \<Rightarrow>
          (if 400 \<le> ha_status a \<and> ha_status a < 600 then Inl (CliStatus (ha_status a)) else Inr a, s))"

definition cli_body :: "http_answer \<Rightarrow> cli_error + string" where
  "cli_body a = map_err CliHttp (ha_body a)"

definition cli_json :: "(string \<Rightarrow> string + 'a) \<Rightarrow> http_answer \<Rightarrow> ('s, cli_error, 'a) st" where
  "cli_json decode a s = (res_bind (cli_body a) (\<lambda>b. map_err CliDecode (decode b)), s)"

definition get_json :: "'s transport \<Rightarrow> CliClient \<Rightarrow> (string \<Rightarrow> string + 'a) \<Rightarrow> string \<Rightarrow> ('s, cli_error, 'a) st" where
  "get_json tr c decode path = st_bind (cli_send tr c ''GET'' path NoBody) (cli_json decode)"

definition post_json ::
    "'s transport \<Rightarrow> CliClient \<Rightarrow> (string \<Rightarrow> string + 'a) \<Rightarrow> string \<Rightarrow> json \<Rightarrow> ('s, cli_error, 'a) st" where
  "post_json tr c decode path body = st_bind (cli_send tr c ''POST'' path (JsonBody body)) (cli_json decode)"

definition cli_delete :: "'s transport \<Rightarrow> CliClient \<Rightarrow> string \<Rightarrow> ('s, cli_error, unit) st" where
  "cli_delete tr c path = st_bind (cli_send tr c ''DELETE'' path NoBody) (\<lambda>_. st_ret ())"

definition put_raw :: "'s transport \<Rightarrow> CliClient \<Rightarrow> string \<Rightarrow> string \<Rightarrow> ('s, cli_error, unit) st" where
  "put_raw tr c path data = st_bind (cli_send tr c ''PUT'' path (RawBody data)) (\<lambda>_. st_ret ())"

definition get_raw :: "'s transport \<Rightarrow> CliClient \<Rightarrow> string \<Rightarrow> ('s, cli_error, string) st" where
  "get_raw tr c path = st_bind (cli_send tr c ''GET'' path NoBody) (\<lambda>a s. (cli_body a, s))"

text \<open>
  Polling until the job is not running: \<open>pass\<close> is what happens to the server in the 100 ms between two
  polls; \<open>None\<close> when the job still runs after \<open>fuel\<close> polls.
\<close>

fun poll_job ::
    "cli_lib \<Rightarrow> 's transport \<Rightarrow> CliClient \<Rightarrow> ('s \<Rightarrow> 's) \<Rightarrow> string \<Rightarrow> nat \<Rightarrow> 's \<Rightarrow> ((cli_error + JobResp) \<times> 's) option" where
  "poll_job cl tr c pass jid 0 s = None"
| "poll_job cl tr c pass jid (Suc fuel) s =
     (case get_json tr c (cl_job cl) (''/api/v1/jobs/'' @ jid) s of
        (Inl e, s) \<Rightarrow> Some (Inl e, s)
      | (Inr jr, s) \<Rightarrow>
          if jo_status jr \<noteq> ''Running'' then Some (Inr jr, s) else poll_job cl tr c pass jid fuel (pass s))"

definition job_body :: "nat \<Rightarrow> string list \<Rightarrow> string \<Rightarrow> string option \<Rightarrow> json" where
  "job_body pid argv profile timeout =
     JObj ([(''argv'', JArr (map JStr argv)), (''profile_name'', JStr profile), (''job_id'', JStr (''cli-'' @ show_nat pid))]
       @ (case timeout of None \<Rightarrow> [] | Some t \<Rightarrow> [(''timeout'', JStr t)]))"

definition job_run ::
    "cli_lib \<Rightarrow> 's transport \<Rightarrow> CliClient \<Rightarrow> ('s \<Rightarrow> 's) \<Rightarrow> nat \<Rightarrow> string list \<Rightarrow> string \<Rightarrow> string option \<Rightarrow> nat
      \<Rightarrow> 's \<Rightarrow> ((cli_error + JobResp) \<times> 's) option" where
  "job_run cl tr c pass pid argv profile timeout fuel s =
     (let body = job_body pid argv profile timeout
      in case post_json tr c (cl_create cl) ''/api/v1/jobs'' body s of
           (Inl e, s) \<Rightarrow> Some (Inl e, s)
         | (Inr r, s) \<Rightarrow>
             (let jid = (case cp_session_id r of Some i \<Rightarrow> Some i | None \<Rightarrow> as_str (json_index body ''job_id''))
              in case jid of
                   None \<Rightarrow> Some (Inl (CliMessage ''server returned no job_id''), s)
                 | Some i \<Rightarrow> poll_job cl tr c pass i fuel s))"

section \<open>The shell\<close>

text \<open>
  The terminal over a WebSocket: what comes from the standard input and from the server, in the order
  of \<open>select\<close>; a send to the server can fail. The terminal is raw while the loop runs.
\<close>

datatype shell_event =
    StdinChunk string bool
  | StdinFailed string
  | WsBinary string
  | WsText string
  | WsClose
  | WsOther
  | WsGone

record shell_io =
  sh_sent :: "string list"
  sh_out :: string
  sh_err :: string
  sh_raw :: bool

definition shell_url :: "string \<Rightarrow> string \<Rightarrow> string list \<Rightarrow> string" where
  "shell_url base sid argv =
     (let ws_base = replace_first ''https://'' ''wss://'' (replace_first ''http://'' ''ws://'' base)
      in trim_end_char (CHR ''/'') ws_base @ ''/api/v1/sessions/'' @ sid @ ''/tty?argv='' @ join ''+'' argv)"

definition control_message :: "string \<Rightarrow> bool" where
  "control_message s =
     (let q = [CHR 0x22]; has = (\<lambda>k. contains_str (q @ ''type'' @ q @ '':'' @ q @ k @ q) s)
      in has ''exit'' \<or> has ''timeout'' \<or> has ''error'')"

text \<open>The result of the loop; none while it waits for the next event.\<close>

fun shell_loop :: "shell_event list \<Rightarrow> shell_io \<Rightarrow> (cli_error + unit) option \<times> shell_io" where
  "shell_loop [] io = (None, io)"
| "shell_loop (StdinChunk data sent # es) io =
     (if data = [] then (Some (Inr ()), io)
      else if \<not> sent then (Some (Inr ()), io)
      else shell_loop es (io\<lparr>sh_sent := sh_sent io @ [data]\<rparr>))"
| "shell_loop (StdinFailed e # es) io = (Some (Inl (CliIo e)), io)"
| "shell_loop (WsBinary data # es) io = shell_loop es (io\<lparr>sh_out := sh_out io @ data\<rparr>)"
| "shell_loop (WsText s # es) io =
     (if control_message s then (Some (Inr ()), io\<lparr>sh_err := sh_err io @ s @ [CHR 0x0A]\<rparr>)
      else shell_loop es (io\<lparr>sh_out := sh_out io @ s\<rparr>))"
| "shell_loop (WsClose # es) io = (Some (Inr ()), io)"
| "shell_loop (WsOther # es) io = shell_loop es io"
| "shell_loop (WsGone # es) io = (Some (Inr ()), io)"

text \<open>The connection is made without a header; the key of the client is not looked at.\<close>

definition shell_request :: "string \<Rightarrow> string option \<Rightarrow> string \<Rightarrow> string list \<Rightarrow> http_call" where
  "shell_request base api_key sid argv =
     \<lparr>hc_method = ''GET'', hc_url = shell_url base sid argv, hc_auth = None, hc_body = NoBody\<rparr>"

definition run_shell ::
    "(http_call \<Rightarrow> string + unit) \<Rightarrow> bool \<Rightarrow> string \<Rightarrow> string option \<Rightarrow> string \<Rightarrow> string list \<Rightarrow> shell_event list
      \<Rightarrow> shell_io \<Rightarrow> (cli_error + unit) option \<times> shell_io" where
  "run_shell connect raw_ok base api_key sid argv es io =
     (case connect (shell_request base api_key sid argv) of
        Inl e \<Rightarrow> (Some (Inl (CliHttp e)), io)
      | Inr _ \<Rightarrow>
          (case shell_loop es (io\<lparr>sh_raw := raw_ok \<or> sh_raw io\<rparr>) of
             (None, io) \<Rightarrow> (None, io)
           | (Some r, io') \<Rightarrow> (Some r, if raw_ok then io'\<lparr>sh_raw := sh_raw io\<rparr> else io')))"

section \<open>The commands\<close>

record 's cli_state =
  cs_server :: 's
  cs_out :: string
  cs_files :: "(string \<times> string) list"
  cs_shell :: shell_io

text \<open>
  What the machine gives: the transport, the process number, local files, the passing of time, the
  WebSocket connection and what comes in over it and from the terminal.
\<close>

record 's cli_env =
  ce_lib :: cli_lib
  ce_transport :: "'s transport"
  ce_pass :: "'s \<Rightarrow> 's"
  ce_pid :: nat
  ce_read :: "string \<Rightarrow> string + string"
  ce_write_error :: "string \<Rightarrow> string option"
  ce_connect :: "http_call \<Rightarrow> string + unit"
  ce_raw_ok :: bool
  ce_events :: "shell_event list"

definition on_server :: "('s, cli_error, 'a) st \<Rightarrow> ('s cli_state, cli_error, 'a) st" where
  "on_server m s = (case m (cs_server s) of (r, t) \<Rightarrow> (r, s\<lparr>cs_server := t\<rparr>))"

definition print :: "string \<Rightarrow> ('s cli_state, cli_error, unit) st" where
  "print text_out s = (Inr (), s\<lparr>cs_out := cs_out s @ text_out\<rparr>)"

definition println :: "string \<Rightarrow> ('s cli_state, cli_error, unit) st" where
  "println line = print (line @ [CHR 0x0A])"

definition print_lines :: "string list \<Rightarrow> ('s cli_state, cli_error, unit) st" where
  "print_lines ls = print (concat (map (\<lambda>l. l @ [CHR 0x0A]) ls))"

definition print_out :: "JobResp \<Rightarrow> ('s cli_state, cli_error, unit) st" where
  "print_out r = (case jo_stdout r of Some s \<Rightarrow> print s | None \<Rightarrow> st_ret ())"

text \<open>A value that has to be there, printed on a line of its own.\<close>

definition print_or :: "string \<Rightarrow> string option \<Rightarrow> ('s cli_state, cli_error, unit) st" where
  "print_or missing v = (case v of Some x \<Rightarrow> println x | None \<Rightarrow> st_err (CliMessage missing))"

text \<open>
  A command ends with the exit status of the program; \<open>Ok\<close> is 0. \<open>None\<close>: the job is still running
  after all polls, or the shell waits for its next event.
\<close>

type_synonym 's command = "'s cli_state \<Rightarrow> ((cli_error + int) \<times> 's cli_state) option"

definition ends_ok :: "('s cli_state, cli_error, unit) st \<Rightarrow> 's command" where
  "ends_ok m s = Some (st_bind m (\<lambda>_. st_ret 0) s)"

definition exit_with :: "JobResp \<Rightarrow> ('s cli_state, cli_error, int) st" where
  "exit_with r = st_bind (print_out r) (\<lambda>_. st_ret (or_else (jo_exit_code r) 0))"

definition cli_jobs_run :: "'s cli_env \<Rightarrow> CliClient \<Rightarrow> nat \<Rightarrow> string list \<Rightarrow> string \<Rightarrow> string option \<Rightarrow> 's command" where
  "cli_jobs_run ce c fuel argv profile timeout s =
     (if argv = [] then Some (Inl (CliMessage ''no argv given''), s)
      else map_option (\<lambda>(r, t).
             (case r of Inl e \<Rightarrow> (Inl e, s\<lparr>cs_server := t\<rparr>) | Inr jr \<Rightarrow> exit_with jr (s\<lparr>cs_server := t\<rparr>)))
           (job_run (ce_lib ce) (ce_transport ce) c (ce_pass ce) (ce_pid ce) argv profile timeout fuel (cs_server s)))"

text \<open>\<open>name:mount\<close>; without a colon the volume is mounted under its name.\<close>

definition volume_json :: "string \<Rightarrow> json" where
  "volume_json v =
     (case split_once (CHR '':'') v of
        Some (name, mount) \<Rightarrow> JObj [(''name'', JStr name), (''mount'', JStr mount)]
      | None \<Rightarrow> JObj [(''name'', JStr v), (''mount'', JStr v)])"

definition session_body :: "string \<Rightarrow> string option \<Rightarrow> string list \<Rightarrow> json" where
  "session_body profile from_snapshot volume =
     JObj ([(''profile_name'', JStr profile)]
       @ (case from_snapshot of None \<Rightarrow> [] | Some x \<Rightarrow> [(''from_snapshot'', JStr x)])
       @ (if volume = [] then [] else [(''volumes'', JArr (map volume_json volume))]))"

fun cli_sessions :: "'s cli_env \<Rightarrow> CliClient \<Rightarrow> SessionsCmd \<Rightarrow> ('s cli_state, cli_error, unit) st" where
  "cli_sessions ce c SessionsLs =
     st_bind (on_server (get_json (ce_transport ce) c (cl_sessions (ce_lib ce)) ''/api/v1/sessions'')) (\<lambda>rows.
       print_lines (map (\<lambda>r. sr_session_id r @ [CHR 0x09] @ sr_profile r) rows))"
| "cli_sessions ce c (SessionsNew profile from_snapshot volume) =
     st_bind (on_server (post_json (ce_transport ce) c (cl_create (ce_lib ce)) ''/api/v1/sessions''
         (session_body profile from_snapshot volume))) (\<lambda>r.
       print_or ''no session_id'' (cp_session_id r))"
| "cli_sessions ce c (SessionsRm sid) = on_server (cli_delete (ce_transport ce) c (''/api/v1/sessions/'' @ sid))"

definition exec_body :: "string list \<Rightarrow> string option \<Rightarrow> json" where
  "exec_body argv timeout =
     JObj ([(''argv'', JArr (map JStr argv))] @ (case timeout of None \<Rightarrow> [] | Some t \<Rightarrow> [(''timeout'', JStr t)]))"

definition cli_exec :: "'s cli_env \<Rightarrow> CliClient \<Rightarrow> string \<Rightarrow> string list \<Rightarrow> string option \<Rightarrow> ('s cli_state, cli_error, int) st" where
  "cli_exec ce c sid argv timeout =
     (if argv = [] then st_err (CliMessage ''no argv given'')
      else st_bind (on_server (post_json (ce_transport ce) c (cl_job (ce_lib ce))
             (''/api/v1/sessions/'' @ sid @ ''/exec'') (exec_body argv timeout))) exit_with)"

definition files_url :: "string \<Rightarrow> string \<Rightarrow> string" where
  "files_url sid path = ''/api/v1/sessions/'' @ sid @ ''/files/'' @ path"

definition file_line :: "FileRow \<Rightarrow> string" where
  "file_line e = (if fr_is_dir e then ''d'' else ''f'') @ [CHR 0x09] @ show_nat (fr_size e) @ [CHR 0x09] @ fr_name e"

fun cli_files :: "'s cli_env \<Rightarrow> CliClient \<Rightarrow> FilesCmd \<Rightarrow> ('s cli_state, cli_error, unit) st" where
  "cli_files ce c (FilesPut sid path local_file) =
     (case ce_read ce local_file of
        Inl e \<Rightarrow> st_err (CliIo (''read '' @ local_file))
      | Inr data \<Rightarrow> on_server (put_raw (ce_transport ce) c (files_url sid path) data))"
| "cli_files ce c (FilesGet sid path out) =
     st_bind (on_server (get_raw (ce_transport ce) c (files_url sid path))) (\<lambda>data.
       case out of
         None \<Rightarrow> print data
       | Some f \<Rightarrow> (\<lambda>s. case ce_write_error ce f of
             Some e \<Rightarrow> (Inl (CliIo e), s)
           | None \<Rightarrow> (Inr (), s\<lparr>cs_files := cs_files s @ [(f, data)]\<rparr>)))"
| "cli_files ce c (FilesLs sid path) =
     st_bind (on_server (get_json (ce_transport ce) c (cl_files (ce_lib ce))
         (''/api/v1/sessions/'' @ sid @ ''/files'' @ (if path = [] then [] else cl_query (ce_lib ce) ''path'' path)))) (\<lambda>rows.
       print_lines (map file_line rows))"

fun cli_snapshots :: "'s cli_env \<Rightarrow> CliClient \<Rightarrow> SnapshotsCmd \<Rightarrow> ('s cli_state, cli_error, unit) st" where
  "cli_snapshots ce c SnapshotsLs =
     st_bind (on_server (get_json (ce_transport ce) c (cl_strings (ce_lib ce)) ''/api/v1/snapshots'')) (\<lambda>r.
       print_lines (st_snapshots r))"
| "cli_snapshots ce c (SnapshotsNew sid) =
     st_bind (on_server (post_json (ce_transport ce) c (cl_create (ce_lib ce))
         (''/api/v1/sessions/'' @ sid @ ''/snapshot'') (JObj []))) (\<lambda>r.
       print_or ''no snapshot_id'' (cp_snapshot_id r))"
| "cli_snapshots ce c (SnapshotsRm snap) = on_server (cli_delete (ce_transport ce) c (''/api/v1/snapshots/'' @ snap))"

fun cli_volumes :: "'s cli_env \<Rightarrow> CliClient \<Rightarrow> VolumesCmd \<Rightarrow> ('s cli_state, cli_error, unit) st" where
  "cli_volumes ce c VolumesLs =
     st_bind (on_server (get_json (ce_transport ce) c (cl_strings (ce_lib ce)) ''/api/v1/volumes'')) (\<lambda>r.
       print_lines (st_volumes r))"
| "cli_volumes ce c (VolumesNew name) =
     st_bind (on_server (post_json (ce_transport ce) c (cl_value (ce_lib ce)) ''/api/v1/volumes''
         (JObj [(''name'', JStr name)]))) (\<lambda>_. st_ret ())"
| "cli_volumes ce c (VolumesRm name) = on_server (cli_delete (ce_transport ce) c (''/api/v1/volumes/'' @ name))"

fun cli_main :: "'s cli_env \<Rightarrow> string \<Rightarrow> string option \<Rightarrow> nat \<Rightarrow> Cmd \<Rightarrow> 's command" where
  "cli_main ce base key fuel CmdStatus =
     ends_ok (st_bind (on_server (get_json (ce_transport ce) (cli_client base key) (cl_value (ce_lib ce)) ''/api/v1/status''))
       (\<lambda>v. println (cl_pretty (ce_lib ce) v)))"
| "cli_main ce base key fuel CmdProfiles =
     ends_ok (st_bind (on_server (get_json (ce_transport ce) (cli_client base key) (cl_strings (ce_lib ce)) ''/api/v1/profiles''))
       (\<lambda>r. print_lines (st_profiles r)))"
| "cli_main ce base key fuel (CmdJobs (JobsRun argv profile timeout)) =
     cli_jobs_run ce (cli_client base key) fuel argv profile timeout"
| "cli_main ce base key fuel (CmdSessions cmd) = ends_ok (cli_sessions ce (cli_client base key) cmd)"
| "cli_main ce base key fuel (CmdExec sid argv timeout) =
     (\<lambda>s. Some (cli_exec ce (cli_client base key) sid argv timeout s))"
| "cli_main ce base key fuel (CmdShell sid argv) =
     (\<lambda>s. if argv = [] then Some (Inl (CliMessage ''no argv given''), s)
        else (case run_shell (ce_connect ce) (ce_raw_ok ce) base key sid argv (ce_events ce) (cs_shell s) of
            (None, io) \<Rightarrow> None
          | (Some r, io) \<Rightarrow> Some (res_bind r (\<lambda>_. Inr 0), s\<lparr>cs_shell := io\<rparr>)))"
| "cli_main ce base key fuel (CmdFiles cmd) = ends_ok (cli_files ce (cli_client base key) cmd)"
| "cli_main ce base key fuel (CmdSnapshots cmd) = ends_ok (cli_snapshots ce (cli_client base key) cmd)"
| "cli_main ce base key fuel (CmdVolumes cmd) = ends_ok (cli_volumes ce (cli_client base key) cmd)"

end
