(* ===== verification/ApiClient.thy ===== *)
theory ApiClient
  imports ApiProofs HttpJson
begin

text \<open>
  The HTTP calls of the clients as calls of the server's interface.
\<close>

text \<open>
  An HTTP call that reaches the server as the call \<open>c\<close> of its interface, at \<open>path\<close>, with the header
  the client sent; \<open>enc\<close> encodes bodies.
\<close>

definition carried ::
    "api_env \<Rightarrow> string option \<Rightarrow> tick \<Rightarrow> WorkerStatus \<Rightarrow> (payload \<Rightarrow> string) \<Rightarrow> string \<Rightarrow> api_call \<Rightarrow> http_call
      \<Rightarrow> (app_state, string, http_answer) st" where
  "carried v key ti ws enc path c call st =
     (case serve v key None (\<lambda>_. None :: unit option) ti ws
             \<lparr>rq_path = path, rq_authorization = hc_auth call, rq_x_forwarded_for = None, rq_call = c\<rparr> Map.empty st of
        (Some r, _, st') \<Rightarrow> (Inr \<lparr>ha_status = rs_code r, ha_body = Inr (enc (rs_body r))\<rparr>, st')
      | (None, _, st') \<Rightarrow> (Inl ''no answer'', st'))"

lemma carried_authorized:
  assumes "hc_auth call = Some (''Bearer '' @ key)" "header_to_str (''Bearer '' @ key) \<noteq> None"
    and "handle v ti ws c st = (Some r, st')"
  shows "carried v (Some key) ti ws enc path c call st = (Inr \<lparr>ha_status = rs_code r, ha_body = Inr (enc (rs_body r))\<rparr>, st')"
proof -
  let ?rq = "\<lparr>rq_path = path, rq_authorization = hc_auth call, rq_x_forwarded_for = None, rq_call = c\<rparr>"
  have "authed key ?rq" unfolding authed_iff using assms(1,2) by simp
  then show ?thesis using assms(3) by (simp add: carried_def serve_def Let_def require_api_key_def)
qed

end
