(* ===== verification/CliProofs.thy ===== *)
theory CliProofs
  imports Cli ApiClient
begin

text \<open>
  What the command line client reports of a job that the server ran.
\<close>

definition jobs_call :: "CliClient \<Rightarrow> json \<Rightarrow> http_call" where
  "jobs_call c body = \<lparr>hc_method = ''POST'', hc_url = cc_base c @ ''/api/v1/jobs'', hc_auth = cc_auth c, hc_body = JsonBody body\<rparr>"

definition job_call :: "CliClient \<Rightarrow> string \<Rightarrow> http_call" where
  "job_call c jid =
     \<lparr>hc_method = ''GET'', hc_url = cc_base c @ ''/api/v1/jobs/'' @ jid, hc_auth = cc_auth c, hc_body = NoBody\<rparr>"

text \<open>The decoders of the client read what the server encodes of a running job and of a result.\<close>

definition running_response :: "string \<Rightarrow> JobResponse" where
  "running_response jid = \<lparr>jp_job_id = jid, jp_status = ''Running'', jp_exit_code = None, jp_signal = None,
     jp_stdout = None, jp_stderr = None, jp_duration_ms = None, jp_timed_out = None, jp_files = None\<rparr>"

definition decodes :: "(payload \<Rightarrow> string) \<Rightarrow> cli_lib \<Rightarrow> JobResponse \<Rightarrow> bool" where
  "decodes enc cl j \<longleftrightarrow> cl_job cl (enc (PJob j)) = Inr \<lparr>jo_status = jp_status j, jo_exit_code = jp_exit_code j,
     jo_stdout = jp_stdout j, jo_stderr = jp_stderr j\<rparr>"

definition decodes_jobs :: "api_env \<Rightarrow> (payload \<Rightarrow> string) \<Rightarrow> cli_lib \<Rightarrow> string \<Rightarrow> JobResult \<Rightarrow> bool" where
  "decodes_jobs v enc cl jid r \<longleftrightarrow>
     decodes enc cl (running_response jid) \<and> decodes enc cl (job_response v None r)
     \<and> cl_create cl (enc (PCreateJob jid ''Running'')) = Inr \<lparr>cp_session_id = None, cp_snapshot_id = None\<rparr>"

lemma cli_auth: "header_to_str (''Bearer '' @ key) \<noteq> None \<Longrightarrow> cc_auth (cli_client url (Some key)) = Some (''Bearer '' @ key)"
  by (auto simp: cli_client_def header_to_str_def split: if_splits)

text \<open>One poll, of a job that runs or is done.\<close>

lemma poll_once:
  assumes key: "header_to_str (''Bearer '' @ key) \<noteq> None" "cc_auth c = Some (''Bearer '' @ key)"
    and tr: "tr (job_call c jid) st = carried v (Some key) ti ws enc path (GetJob jid) (job_call c jid) st"
    and dec: "decodes_jobs v enc cl jid r"
    and found: "get_job jid (ap_sched st) = Some js" "js = RunningState \<or> js = DoneState r"
  shows "get_json tr c (cl_job cl) (''/api/v1/jobs/'' @ jid) st =
    (Inr (case js of
            RunningState \<Rightarrow> \<lparr>jo_status = ''Running'', jo_exit_code = None, jo_stdout = None, jo_stderr = None\<rparr>
          | DoneState r \<Rightarrow> \<lparr>jo_status = av_debug_status v (res_status r), jo_exit_code = res_exit_code r,
              jo_stdout = Some (redacted v (res_stdout r)), jo_stderr = Some (redacted v (res_stderr r))\<rparr>), st)"
proof -
  define j where "j = (case js of RunningState \<Rightarrow> running_response jid | DoneState r \<Rightarrow> job_response v None r)"
  have "handle v ti ws (GetJob jid) st = (Some (reply_of 200 (PJob j)), st)"
    using found(1) by (simp add: api_get_job_def answer_def j_def running_response_def split: JobRunState.splits)
  then have "tr (job_call c jid) st = (Inr \<lparr>ha_status = 200, ha_body = Inr (enc (PJob j))\<rparr>, st)"
    using carried_authorized [of "job_call c jid" key v ti ws "GetJob jid" st] key tr
    by (simp add: job_call_def reply_of_def)
  moreover have "decodes enc cl j" using dec found(2) by (auto simp: decodes_jobs_def j_def)
  ultimately show ?thesis using found(2)
    by (auto simp: get_json_def st_bind_def cli_send_def cli_url_def job_call_def cli_json_def cli_body_def map_err_def
        decodes_def j_def job_response_def running_response_def)
qed

lemma poll_until_done:
  assumes key: "header_to_str (''Bearer '' @ key) \<noteq> None" "cc_auth c = Some (''Bearer '' @ key)"
    and tr: "\<And>st. tr (job_call c jid) st = carried v (Some key) ti ws enc path (GetJob jid) (job_call c jid) st"
    and dec: "decodes_jobs v enc cl jid r"
    and status: "av_debug_status v (res_status r) \<noteq> ''Running''"
  shows "(\<forall>i<k. get_job jid (ap_sched ((pass ^^ i) st)) = Some RunningState) \<Longrightarrow>
    get_job jid (ap_sched ((pass ^^ k) st)) = Some (DoneState r) \<Longrightarrow> k < fuel \<Longrightarrow>
    poll_job cl tr c pass jid fuel st =
      Some (Inr \<lparr>jo_status = av_debug_status v (res_status r), jo_exit_code = res_exit_code r,
        jo_stdout = Some (redacted v (res_stdout r)), jo_stderr = Some (redacted v (res_stderr r))\<rparr>, (pass ^^ k) st)"
proof (induction k arbitrary: st fuel)
  case 0
  then obtain f where "fuel = Suc f" using gr0_implies_Suc by blast
  then show ?case using poll_once [where tr = tr, OF key tr dec] 0 status by simp
next
  case (Suc k)
  then obtain f where f: "fuel = Suc f" "k < f" using Suc_less_eq2 by blast
  have now: "get_job jid (ap_sched st) = Some RunningState" using Suc.prems(1) by (metis funpow_0 zero_less_Suc)
  have later: "\<forall>i<k. get_job jid (ap_sched ((pass ^^ i) (pass st))) = Some RunningState"
    using Suc.prems(1) by (metis Suc_mono funpow_Suc_right o_apply)
  have "get_job jid (ap_sched ((pass ^^ k) (pass st))) = Some (DoneState r)"
    using Suc.prems(2) by (simp add: funpow_swap1)
  then have "poll_job cl tr c pass jid f (pass st) =
      Some (Inr \<lparr>jo_status = av_debug_status v (res_status r), jo_exit_code = res_exit_code r,
        jo_stdout = Some (redacted v (res_stdout r)), jo_stderr = Some (redacted v (res_stderr r))\<rparr>, (pass ^^ k) (pass st))"
    using Suc.IH later f(2) by blast
  then show ?case using poll_once [where tr = tr, OF key tr dec now] f(1) by (simp add: funpow_swap1)
qed

text \<open>The request that the server makes of the body of \<open>job_run\<close>.\<close>

definition cli_request :: "nat \<Rightarrow> string list \<Rightarrow> string \<Rightarrow> string option \<Rightarrow> CreateJobRequest" where
  "cli_request pid argv profile timeout =
     \<lparr>cj_job_id = ''cli-'' @ show_nat pid, cj_argv = argv, cj_profile_name = profile, cj_timeout = timeout,
      cj_custom_env = None, cj_stdin = None, cj_dry_run = None\<rparr>"


text \<open>A job that runs out of time between the first and the second poll.\<close>

definition late_result :: JobResult where
  "late_result = \<lparr>res_job_id = ''cli-'' @ show_nat 7, res_status = TimedOut, res_exit_code = None, res_signal = Some 9,
     res_stdout = [], res_stderr = [], res_duration = 0, res_timed_out = True, res_violations = [], res_usage = None\<rparr>"

definition late_pass :: "app_state \<Rightarrow> app_state" where
  "late_pass st = st\<lparr>ap_sched := task_finish demo_env 0 (Inr late_result) (task_acquire 0 (task_begin 0 (ap_sched st)))\<rparr>"

definition late_lib :: "JobResponse \<Rightarrow> cli_lib" where
  "late_lib j = \<lparr>cl_job = (\<lambda>b. Inr (if b = ''r'' then \<lparr>jo_status = ''Running'', jo_exit_code = None, jo_stdout = None, jo_stderr = None\<rparr>
       else \<lparr>jo_status = jp_status j, jo_exit_code = jp_exit_code j, jo_stdout = jp_stdout j, jo_stderr = jp_stderr j\<rparr>)),
     cl_create = (\<lambda>_. Inr \<lparr>cp_session_id = None, cp_snapshot_id = None\<rparr>), cl_sessions = (\<lambda>_. Inl []), cl_files = (\<lambda>_. Inl []),
     cl_strings = (\<lambda>_. Inl []), cl_value = (\<lambda>_. Inl []), cl_pretty = (\<lambda>_. []), cl_query = (\<lambda>_ _. [])\<rparr>"

definition late_enc :: "payload \<Rightarrow> string" where
  "late_enc p = (case p of PJob j \<Rightarrow> if jp_status j = ''Running'' then ''r'' else ''d'' | _ \<Rightarrow> ''c'')"

definition late_tr :: "api_env \<Rightarrow> tick \<Rightarrow> WorkerStatus \<Rightarrow> app_state transport" where
  "late_tr v ti ws call st =
     (if hc_method call = ''POST'' then carried v (Some ''k'') ti ws late_enc ''/api/v1/jobs''
        (CreateJob False (cli_request 7 [''sleep''] ''shell'' None)) call st
      else carried v (Some ''k'') ti ws late_enc (''/api/v1/jobs/'' @ ''cli-'' @ show_nat 7) (GetJob (''cli-'' @ show_nat 7)) call st)"

definition late_client :: "api_env \<Rightarrow> tick \<Rightarrow> WorkerStatus \<Rightarrow> app_state cli_env" where
  "late_client v ti ws = \<lparr>ce_lib = late_lib (job_response v None late_result), ce_transport = late_tr v ti ws,
     ce_pass = late_pass, ce_pid = 7, ce_read = (\<lambda>_. Inl []), ce_write_error = (\<lambda>_. None), ce_connect = (\<lambda>_. Inl []),
     ce_raw_ok = False, ce_events = []\<rparr>"


end
