(* ===== verification/Mcp.thy ===== *)
theory Mcp
  imports HttpJson RateLimit
begin

text \<open>
  The MCP gateway, \<open>sandbox-mcp\<close>: \<open>tools.rs\<close>, the parameters and results of the tools; \<open>client.rs\<close>,
  the calls of the server that they make; \<open>server.rs\<close>, the tools; and the settings of \<open>main.rs\<close>. The
  protocol (\<open>rmcp\<close>), the HTTP library and the derived decoders are parameters. The state is that of
  the server behind the transport; it has a clock, in milliseconds, that calls and sleeping advance.
\<close>

section \<open>Parameters and results\<close>

record SandboxRunParams =
  rp_argv :: "string list"
  rp_profile :: string
  rp_timeout :: "string option"
  rp_env :: "(string \<times> string) list"
  rp_stdin :: "string option"
  rp_job_id :: "string option"

definition default_profile :: string where
  "default_profile = ''shell''"

record SandboxReloadParams =
  lp_config_path :: "string option"

record JobResultInfo =
  ji_job_id :: string
  ji_status :: string
  ji_exit_code :: "int option"
  ji_signal :: "int option"
  ji_stdout :: string
  ji_stderr :: string
  ji_duration_ms :: u64
  ji_timed_out :: bool

record StatusInfo =
  si_running_jobs :: nat
  si_max_concurrent :: nat
  si_uptime_secs :: nat

record ProfilesInfo =
  pi_profiles :: "string list"

record ReloadInfo =
  ri_success :: bool
  ri_profiles_loaded :: "string list"
  ri_message :: string

text \<open>
  The libraries: the parser, the derived decoders and printers, the text of a status code, of a
  header that is not valid, and the encoding of a query.
\<close>

record mcp_lib =
  ml_parse :: "string \<Rightarrow> string + json"
  ml_profiles :: "string \<Rightarrow> string + ProfilesInfo"
  ml_status :: "string \<Rightarrow> string + StatusInfo"
  ml_reload :: "string \<Rightarrow> string + ReloadInfo"
  ml_print_job :: "JobResultInfo \<Rightarrow> string + string"
  ml_print_profiles :: "ProfilesInfo \<Rightarrow> string + string"
  ml_print_status :: "StatusInfo \<Rightarrow> string + string"
  ml_print_reload :: "ReloadInfo \<Rightarrow> string + string"
  ml_status_text :: "nat \<Rightarrow> string"
  ml_bad_header :: string
  ml_query :: "string \<Rightarrow> string \<Rightarrow> string"

section \<open>The client\<close>

record SandboxHttpClient =
  mc_base_url :: string
  mc_api_key :: "string option"

definition mcp_client_new :: "string \<Rightarrow> SandboxHttpClient" where
  "mcp_client_new base_url = \<lparr>mc_base_url = base_url, mc_api_key = None\<rparr>"

definition with_api_key :: "string option \<Rightarrow> SandboxHttpClient \<Rightarrow> SandboxHttpClient" where
  "with_api_key api_key c = c\<lparr>mc_api_key := api_key\<rparr>"

text \<open>\<open>add_auth\<close>: a key that does not make a valid header lets the sending fail.\<close>

definition add_auth :: "mcp_lib \<Rightarrow> SandboxHttpClient \<Rightarrow> string + string option" where
  "add_auth ml c =
     (case mc_api_key c of
        None \<Rightarrow> Inr None
      | Some k \<Rightarrow> (case header_to_str (''Bearer '' @ k) of None \<Rightarrow> Inl (ml_bad_header ml) | Some h \<Rightarrow> Inr (Some h)))"

text \<open>A call; an answer that is no success is the error \<open>what\<close> with its status.\<close>

definition mcp_send ::
    "mcp_lib \<Rightarrow> 's transport \<Rightarrow> SandboxHttpClient \<Rightarrow> string \<Rightarrow> string \<Rightarrow> string \<Rightarrow> call_body \<Rightarrow> ('s, string, http_answer) st" where
  "mcp_send ml tr c what verb path body s =
     (case add_auth ml c of
        Inl e \<Rightarrow> (Inl e, s)
      | Inr auth \<Rightarrow>
          (case tr \<lparr>hc_method = verb, hc_url = mc_base_url c @ path, hc_auth = auth, hc_body = body\<rparr> s of
             (Inl e, s) \<Rightarrow> (Inl e, s)
           | (Inr a, s) \<Rightarrow>
               (if is_success (ha_status a) then Inr a
                else Inl (what @ '' failed: HTTP '' @ ml_status_text ml (ha_status a)), s)))"

definition mcp_json :: "(string \<Rightarrow> string + 'a) \<Rightarrow> http_answer \<Rightarrow> ('s, string, 'a) st" where
  "mcp_json decode a s = (res_bind (ha_body a) decode, s)"

definition opt_json :: "string option \<Rightarrow> json" where
  "opt_json v = (case v of None \<Rightarrow> JNull | Some s \<Rightarrow> JStr s)"

definition run_body :: "string \<Rightarrow> SandboxRunParams \<Rightarrow> json" where
  "run_body job_id ps =
     JObj [(''job_id'', JStr job_id), (''argv'', JArr (map JStr (rp_argv ps))), (''profile_name'', JStr (rp_profile ps)),
       (''timeout'', opt_json (rp_timeout ps)), (''custom_env'', JObj (map (\<lambda>(k, v). (k, JStr v)) (rp_env ps))),
       (''stdin'', opt_json (rp_stdin ps))]"

text \<open>\<open>as i32\<close> keeps the low 32 bits.\<close>

definition as_i32 :: "int \<Rightarrow> int" where
  "as_i32 i = sint (word_of_int i :: u32)"

definition as_bool :: "json \<Rightarrow> bool option" where
  "as_bool v = (case v of JBool b \<Rightarrow> Some b | _ \<Rightarrow> None)"

definition job_info :: "json \<Rightarrow> JobResultInfo" where
  "job_info v =
     \<lparr>ji_job_id = or_else (as_str (json_index v ''job_id'')) [], ji_status = or_else (as_str (json_index v ''status'')) [],
      ji_exit_code = map_option as_i32 (as_i64 (json_index v ''exit_code'')),
      ji_signal = map_option as_i32 (as_i64 (json_index v ''signal'')),
      ji_stdout = or_else (as_str (json_index v ''stdout'')) [], ji_stderr = or_else (as_str (json_index v ''stderr'')) [],
      ji_duration_ms = word_of_int (or_else (as_i64 (json_index v ''duration_ms'')) 0),
      ji_timed_out = or_else (as_bool (json_index v ''timed_out'')) False\<rparr>"

text \<open>
  Polling until the job is not running, at most until the deadline: \<open>now\<close> is the clock, \<open>sleep\<close> what
  happens in the 50 ms between two polls; \<open>None\<close> when there are more than \<open>fuel\<close> rounds.
\<close>

fun poll_until ::
    "mcp_lib \<Rightarrow> 's transport \<Rightarrow> SandboxHttpClient \<Rightarrow> ('s \<Rightarrow> nat) \<Rightarrow> ('s \<Rightarrow> 's) \<Rightarrow> string \<Rightarrow> nat \<Rightarrow> nat \<Rightarrow> 's
      \<Rightarrow> ((string + JobResultInfo) \<times> 's) option" where
  "poll_until ml tr c now sleep job_id deadline 0 s = None"
| "poll_until ml tr c now sleep job_id deadline (Suc fuel) s =
     (if deadline < now s then Some (Inl (''job '' @ job_id @ '' polling timed out (300s)''), s)
      else (case st_bind (mcp_send ml tr c ''get_job'' ''GET'' (''/api/v1/jobs/'' @ job_id) NoBody) (mcp_json (ml_parse ml)) s of
          (Inl e, s) \<Rightarrow> Some (Inl e, s)
        | (Inr v, s) \<Rightarrow>
            if as_str (json_index v ''status'') = Some ''Running''
            then poll_until ml tr c now sleep job_id deadline fuel (sleep s)
            else Some (Inr (job_info v), s)))"

definition mcp_submit ::
    "mcp_lib \<Rightarrow> 's transport \<Rightarrow> SandboxHttpClient \<Rightarrow> ('s \<Rightarrow> nat) \<Rightarrow> ('s \<Rightarrow> 's) \<Rightarrow> string \<Rightarrow> SandboxRunParams \<Rightarrow> nat \<Rightarrow> 's
      \<Rightarrow> ((string + JobResultInfo) \<times> 's) option" where
  "mcp_submit ml tr c now sleep uuid ps fuel s =
     (let job_id = or_else (rp_job_id ps) uuid
      in case mcp_send ml tr c ''submit'' ''POST'' ''/api/v1/jobs'' (JsonBody (run_body job_id ps)) s of
           (Inl e, s) \<Rightarrow> Some (Inl e, s)
         | (Inr _, s) \<Rightarrow> poll_until ml tr c now sleep job_id (now s + 300000) fuel s)"

definition get_profiles :: "mcp_lib \<Rightarrow> 's transport \<Rightarrow> SandboxHttpClient \<Rightarrow> ('s, string, ProfilesInfo) st" where
  "get_profiles ml tr c =
     st_bind (mcp_send ml tr c ''get_profiles'' ''GET'' ''/api/v1/profiles'' NoBody) (mcp_json (ml_profiles ml))"

definition get_status :: "mcp_lib \<Rightarrow> 's transport \<Rightarrow> SandboxHttpClient \<Rightarrow> ('s, string, StatusInfo) st" where
  "get_status ml tr c = st_bind (mcp_send ml tr c ''get_status'' ''GET'' ''/api/v1/status'' NoBody) (mcp_json (ml_status ml))"

definition mcp_reload :: "mcp_lib \<Rightarrow> 's transport \<Rightarrow> SandboxHttpClient \<Rightarrow> SandboxReloadParams \<Rightarrow> ('s, string, ReloadInfo) st" where
  "mcp_reload ml tr c ps =
     (let path = ''/api/v1/reload'' @ (case lp_config_path ps of None \<Rightarrow> [] | Some p \<Rightarrow> ml_query ml ''path'' p)
      in st_bind (mcp_send ml tr c ''reload'' ''POST'' path NoBody) (mcp_json (ml_reload ml)))"

section \<open>The tools\<close>

definition sandbox_run ::
    "mcp_lib \<Rightarrow> 's transport \<Rightarrow> SandboxHttpClient \<Rightarrow> ('s \<Rightarrow> nat) \<Rightarrow> ('s \<Rightarrow> 's) \<Rightarrow> string \<Rightarrow> SandboxRunParams \<Rightarrow> nat \<Rightarrow> 's
      \<Rightarrow> ((string + string) \<times> 's) option" where
  "sandbox_run ml tr c now sleep uuid ps fuel s =
     map_option (\<lambda>(r, s). (res_bind r (ml_print_job ml), s)) (mcp_submit ml tr c now sleep uuid ps fuel s)"

definition printed :: "('s, string, 'a) st \<Rightarrow> ('a \<Rightarrow> string + string) \<Rightarrow> ('s, string, string) st" where
  "printed m pr = st_bind m (\<lambda>info s. (pr info, s))"

definition sandbox_profiles :: "mcp_lib \<Rightarrow> 's transport \<Rightarrow> SandboxHttpClient \<Rightarrow> ('s, string, string) st" where
  "sandbox_profiles ml tr c = printed (get_profiles ml tr c) (ml_print_profiles ml)"

definition sandbox_status :: "mcp_lib \<Rightarrow> 's transport \<Rightarrow> SandboxHttpClient \<Rightarrow> ('s, string, string) st" where
  "sandbox_status ml tr c = printed (get_status ml tr c) (ml_print_status ml)"

definition sandbox_reload ::
    "mcp_lib \<Rightarrow> 's transport \<Rightarrow> SandboxHttpClient \<Rightarrow> SandboxReloadParams \<Rightarrow> ('s, string, string) st" where
  "sandbox_reload ml tr c ps = printed (mcp_reload ml tr c ps) (ml_print_reload ml)"

text \<open>The settings of the gateway; an empty key is no key.\<close>

definition mcp_settings :: "(string \<rightharpoonup> string) \<Rightarrow> SandboxHttpClient" where
  "mcp_settings env =
     with_api_key (case env ''SANDBOX_API_KEY'' of Some k \<Rightarrow> if k = [] then None else Some k | None \<Rightarrow> None)
       (mcp_client_new (or_else (env ''SANDBOX_SERVER_URL'') ''http://127.0.0.1:8080''))"

section \<open>The end of polling\<close>

text \<open>The clock does not go back, and sleeping takes the time that was asked for.\<close>

definition clock_runs :: "('s \<Rightarrow> nat) \<Rightarrow> ('s \<Rightarrow> 's) \<Rightarrow> 's transport \<Rightarrow> bool" where
  "clock_runs now sleep tr \<longleftrightarrow> (\<forall>s. now s + 50 \<le> now (sleep s)) \<and> (\<forall>call s. now s \<le> now (snd (tr call s)))"

lemma mcp_send_clock: "clock_runs now sleep tr \<Longrightarrow> now s \<le> now (snd (mcp_send ml tr c what verb path body s))"
  by (auto simp: mcp_send_def clock_runs_def split: sum.splits prod.splits) (metis snd_conv)+

lemma mcp_json_state: "snd (st_bind m (mcp_json d) s) = snd (m s)"
  by (simp add: st_bind_def mcp_json_def split: prod.splits sum.splits)

lemma poll_ends:
  assumes "clock_runs now sleep tr"
  shows "deadline < now s + 50 * fuel \<Longrightarrow> poll_until ml tr c now sleep job_id deadline (Suc fuel) s \<noteq> None"
proof (induction fuel arbitrary: s)
  case 0
  then show ?case by simp
next
  case (Suc fuel)
  let ?m = "st_bind (mcp_send ml tr c ''get_job'' ''GET'' (''/api/v1/jobs/'' @ job_id) NoBody) (mcp_json (ml_parse ml))"
  obtain r t where m: "?m s = (r, t)" by fastforce
  have "now s \<le> now (snd (?m s))" unfolding mcp_json_state by (rule mcp_send_clock [OF assms])
  then have "now s \<le> now t" unfolding m by simp
  moreover have "now t + 50 \<le> now (sleep t)" using assms by (simp add: clock_runs_def)
  ultimately have "deadline < now (sleep t) + 50 * fuel" using Suc.prems by simp
  then have on: "poll_until ml tr c now sleep job_id deadline (Suc fuel) (sleep t) \<noteq> None" by (rule Suc.IH)
  show ?case
    unfolding poll_until.simps(2) [of ml tr c now sleep job_id deadline "Suc fuel" s] m
    using on by (cases r) (simp_all del: poll_until.simps)
qed

text \<open>
  C40. The tool that runs a command comes back. However long the job runs, the polling of the gateway
  ends after at most 6002 rounds, when every call of the server returns: with the result, with an
  error of a call, or because 300 seconds have passed.
\<close>

theorem sandbox_run_ends:
  assumes "clock_runs now sleep tr" and "6002 \<le> fuel"
  shows "sandbox_run ml tr c now sleep uuid ps fuel s \<noteq> None"
proof -
  obtain f where f: "fuel = Suc f" "6001 \<le> f" using assms(2) by (cases fuel) simp_all
  have "poll_until ml tr c now sleep job_id (now t + 300000) (Suc f) t \<noteq> None" for job_id t
    using f(2) by (intro poll_ends [OF assms(1)]) simp
  then show ?thesis
    by (simp add: sandbox_run_def mcp_submit_def Let_def f(1) split: sum.splits prod.splits del: poll_until.simps)
qed

text \<open>A server whose job never ends, with a clock as its whole state.\<close>

definition busy_lib :: mcp_lib where
  "busy_lib = \<lparr>ml_parse = (\<lambda>_. Inr (JObj [(''status'', JStr ''Running'')])), ml_profiles = (\<lambda>_. Inl []), ml_status = (\<lambda>_. Inl []),
     ml_reload = (\<lambda>_. Inl []), ml_print_job = (\<lambda>_. Inl []), ml_print_profiles = (\<lambda>_. Inl []), ml_print_status = (\<lambda>_. Inl []),
     ml_print_reload = (\<lambda>_. Inl []), ml_status_text = show_nat, ml_bad_header = [], ml_query = (\<lambda>_ _. [])\<rparr>"

theorem sandbox_run_ends_witness:
  "\<exists>r. sandbox_run busy_lib (\<lambda>_ s. (Inr \<lparr>ha_status = 200, ha_body = Inr []\<rparr>, s)) (mcp_client_new ''http://h'') (\<lambda>s. s)
     (\<lambda>s. s + 50) ''u'' \<lparr>rp_argv = [''sleep''], rp_profile = default_profile, rp_timeout = None, rp_env = [],
       rp_stdin = None, rp_job_id = None\<rparr> 6002 0 = Some r"
proof -
  have "clock_runs (\<lambda>s. s) (\<lambda>s. s + 50) (\<lambda>_ s. (Inr \<lparr>ha_status = 200, ha_body = Inr []\<rparr>, s))"
    by (simp add: clock_runs_def)
  from sandbox_run_ends [OF this, of 6002] show ?thesis by auto
qed

end
