(* ===== verification/Broker.thy ===== *)
theory Broker
  imports HttpJson RateLimit
begin

text \<open>
  The tools of the broker, \<open>sandbox-broker\<close>: \<open>lv_client.rs\<close>, the calls of the sandbox server that
  the tools need and their implementation over HTTP; \<open>session_map.rs\<close>, one session per task; and
  \<open>translate.rs\<close>, the eight tools. The trait \<open>SandboxHttp\<close> is a record of operations on the state of
  what is behind it. The HTTP library and the JSON parser are parameters.
\<close>

section \<open>The surface of the sandbox server\<close>

datatype BridgeError =
    BHttp string
  | BStatus nat string
  | BDecode string
  | BUnknownTool string
  | BMissingField string

text \<open>The text of an error.\<close>

definition bridge_text :: "BridgeError \<Rightarrow> string" where
  "bridge_text e =
     (case e of
        BHttp m \<Rightarrow> ''sandbox http error: '' @ m
      | BStatus status body \<Rightarrow> ''sandbox returned non-2xx: '' @ show_nat status @ '' '' @ body
      | BDecode m \<Rightarrow> ''decode error: '' @ m
      | BUnknownTool t \<Rightarrow> ''unknown tool: '' @ t
      | BMissingField f \<Rightarrow> ''missing field '' @ [CHR 0x27] @ f @ [CHR 0x27] @ '' in tool input'')"

record LvResult =
  lr_status :: string
  lr_exit_code :: "int option"
  lr_stdout :: "string option"
  lr_stderr :: "string option"
  lr_duration_ms :: "nat option"
  lr_timed_out :: "bool option"

record 's sandbox_http =
  ht_create_session :: "string \<Rightarrow> (string \<times> string) list \<Rightarrow> nat \<Rightarrow> ('s, BridgeError, string) st"
  ht_exec :: "string \<Rightarrow> string list \<Rightarrow> string option \<Rightarrow> string option \<Rightarrow> ('s, BridgeError, LvResult) st"
  ht_get_file :: "string \<Rightarrow> string \<Rightarrow> ('s, BridgeError, string) st"
  ht_put_file :: "string \<Rightarrow> string \<Rightarrow> string \<Rightarrow> ('s, BridgeError, unit) st"
  ht_head_file :: "string \<Rightarrow> string \<Rightarrow> ('s, BridgeError, bool) st"
  ht_find :: "string \<Rightarrow> string \<Rightarrow> string \<Rightarrow> ('s, BridgeError, string list) st"
  ht_search :: "string \<Rightarrow> string \<Rightarrow> string \<Rightarrow> ('s, BridgeError, string list) st"
  ht_destroy_session :: "string \<Rightarrow> ('s, BridgeError, unit) st"

section \<open>The client over HTTP\<close>

text \<open>
  What \<open>serde\<close> gives: the parser, its inverse, and the derived decoders of the two typed answers.
\<close>

record json_lib =
  jl_parse :: "string \<Rightarrow> string + json"
  jl_print :: "json \<Rightarrow> string"
  jl_session_id :: "json \<Rightarrow> string + string"
  jl_job_result :: "json \<Rightarrow> string + LvResult"

record LvClient =
  lc_base :: string
  lc_auth :: "string option"

definition lv_client_new :: "string \<Rightarrow> string option \<Rightarrow> LvClient" where
  "lv_client_new base api_key =
     \<lparr>lc_base = trim_end_char (CHR ''/'') base,
      lc_auth = Option.bind (map_option (\<lambda>k. ''Bearer '' @ k) api_key) header_to_str\<rparr>"

definition lv_send :: "'s transport \<Rightarrow> LvClient \<Rightarrow> string \<Rightarrow> string \<Rightarrow> call_body \<Rightarrow> ('s, BridgeError, http_answer) st" where
  "lv_send tr c verb path body s =
     (case tr \<lparr>hc_method = verb, hc_url = lc_base c @ path, hc_auth = lc_auth c, hc_body = body\<rparr> s of
        (Inl e, s) \<Rightarrow> (Inl (BHttp e), s)
      | (Inr a, s) \<Rightarrow> (Inr a, s))"

definition err_for :: "http_answer \<Rightarrow> BridgeError + http_answer" where
  "err_for a =
     (if is_success (ha_status a) then Inr a
      else Inl (BStatus (ha_status a) (case ha_body a of Inr b \<Rightarrow> utf8_lossy b | Inl _ \<Rightarrow> [])))"

definition http_bytes :: "http_answer \<Rightarrow> BridgeError + string" where
  "http_bytes a = (case ha_body a of Inl e \<Rightarrow> Inl (BHttp e) | Inr b \<Rightarrow> Inr b)"

text \<open>\<open>Response::json\<close>, the body read, parsed and decoded.\<close>

definition json_of :: "json_lib \<Rightarrow> (json \<Rightarrow> string + 'a) \<Rightarrow> http_answer \<Rightarrow> string + 'a" where
  "json_of jl decode a = res_bind (ha_body a) (\<lambda>b. res_bind (jl_parse jl b) decode)"

text \<open>An answer that is checked and then read, without further effect.\<close>

definition lv_call ::
    "'s transport \<Rightarrow> LvClient \<Rightarrow> string \<Rightarrow> string \<Rightarrow> call_body \<Rightarrow> (http_answer \<Rightarrow> BridgeError + 'a) \<Rightarrow> ('s, BridgeError, 'a) st" where
  "lv_call tr c verb path body read =
     st_bind (lv_send tr c verb path body) (\<lambda>a s. (res_bind (err_for a) read, s))"

definition session_url :: "string \<Rightarrow> string" where
  "session_url session_id = ''/api/v1/sessions/'' @ session_id"

definition file_url :: "string \<Rightarrow> string \<Rightarrow> string" where
  "file_url session_id path = session_url session_id @ ''/files/'' @ path"

definition lv_create_session ::
    "json_lib \<Rightarrow> 's transport \<Rightarrow> LvClient \<Rightarrow> string \<Rightarrow> (string \<times> string) list \<Rightarrow> nat \<Rightarrow> ('s, BridgeError, string) st" where
  "lv_create_session jl tr c profile metadata timeout_secs =
     lv_call tr c ''POST'' ''/api/v1/sessions''
       (JsonBody (JObj ([(''profile_name'', JStr profile)]
          @ (if metadata = [] then [] else [(''metadata'', JObj (map (\<lambda>(k, v). (k, JStr v)) metadata))])
          @ [(''timeout_secs'', JInt (int timeout_secs))])))
       (\<lambda>a. map_err BHttp (json_of jl (jl_session_id jl) a))"

definition opt_field :: "string \<Rightarrow> string option \<Rightarrow> (string \<times> json) list" where
  "opt_field k v = (case v of None \<Rightarrow> [] | Some s \<Rightarrow> [(k, JStr s)])"

definition lv_exec ::
    "json_lib \<Rightarrow> 's transport \<Rightarrow> LvClient \<Rightarrow> string \<Rightarrow> string list \<Rightarrow> string option \<Rightarrow> string option
      \<Rightarrow> ('s, BridgeError, LvResult) st" where
  "lv_exec jl tr c session_id argv timeout stdin =
     lv_call tr c ''POST'' (session_url session_id @ ''/exec'')
       (JsonBody (JObj ([(''argv'', JArr (map JStr argv))] @ opt_field ''timeout'' timeout @ opt_field ''stdin'' stdin)))
       (\<lambda>a. map_err BDecode (json_of jl (jl_job_result jl) a))"

definition lv_get_file :: "'s transport \<Rightarrow> LvClient \<Rightarrow> string \<Rightarrow> string \<Rightarrow> ('s, BridgeError, string) st" where
  "lv_get_file tr c session_id path = lv_call tr c ''GET'' (file_url session_id path) NoBody http_bytes"

definition lv_put_file :: "'s transport \<Rightarrow> LvClient \<Rightarrow> string \<Rightarrow> string \<Rightarrow> string \<Rightarrow> ('s, BridgeError, unit) st" where
  "lv_put_file tr c session_id path bytes =
     lv_call tr c ''PUT'' (file_url session_id path) (RawBody bytes) (\<lambda>_. Inr ())"

definition lv_head_file :: "'s transport \<Rightarrow> LvClient \<Rightarrow> string \<Rightarrow> string \<Rightarrow> ('s, BridgeError, bool) st" where
  "lv_head_file tr c session_id path =
     st_bind (lv_send tr c ''HEAD'' (file_url session_id path) NoBody) (\<lambda>a. st_ret (is_success (ha_status a)))"

definition path_pattern :: "string \<Rightarrow> string \<Rightarrow> call_body" where
  "path_pattern path pattern = JsonBody (JObj [(''path'', JStr path), (''pattern'', JStr pattern)])"

definition found_paths :: "json \<Rightarrow> string list" where
  "found_paths v =
     (case as_array (json_index v ''files'') of
        None \<Rightarrow> [] | Some a \<Rightarrow> List.map_filter (\<lambda>x. get_str x ''path'') a)"

definition lv_find ::
    "json_lib \<Rightarrow> 's transport \<Rightarrow> LvClient \<Rightarrow> string \<Rightarrow> string \<Rightarrow> string \<Rightarrow> ('s, BridgeError, string list) st" where
  "lv_find jl tr c session_id path pattern =
     lv_call tr c ''POST'' (file_url session_id ''find'') (path_pattern path pattern)
       (\<lambda>a. map_err BHttp (json_of jl (\<lambda>v. Inr (found_paths v)) a))"

text \<open>The hits of a search, one line each; a file without hits is skipped.\<close>

definition hit_line :: "string \<Rightarrow> json \<Rightarrow> string" where
  "hit_line path m =
     path @ '':'' @ show_nat (or_else (Option.bind (json_get m ''line'') as_u64) 0) @ '':'' @ or_else (get_str m ''text'') []"

definition file_hits :: "json \<Rightarrow> string list" where
  "file_hits v =
     (case Option.bind (json_get v ''matches'') as_array of
        None \<Rightarrow> [] | Some ms \<Rightarrow> map (hit_line (or_else (get_str v ''path'') [])) ms)"

definition search_lines_of :: "json \<Rightarrow> string list" where
  "search_lines_of v =
     (case as_array (json_index v ''results'') of None \<Rightarrow> [] | Some a \<Rightarrow> concat (map file_hits a))"

definition lv_search ::
    "json_lib \<Rightarrow> 's transport \<Rightarrow> LvClient \<Rightarrow> string \<Rightarrow> string \<Rightarrow> string \<Rightarrow> ('s, BridgeError, string list) st" where
  "lv_search jl tr c session_id path pattern =
     lv_call tr c ''POST'' (file_url session_id ''search'') (path_pattern path pattern)
       (\<lambda>a. map_err BHttp (json_of jl (\<lambda>v. Inr (search_lines_of v)) a))"

definition lv_destroy_session :: "'s transport \<Rightarrow> LvClient \<Rightarrow> string \<Rightarrow> ('s, BridgeError, unit) st" where
  "lv_destroy_session tr c session_id = lv_call tr c ''DELETE'' (session_url session_id) NoBody (\<lambda>_. Inr ())"

text \<open>The implementation of the trait.\<close>

definition lv_client :: "json_lib \<Rightarrow> 's transport \<Rightarrow> LvClient \<Rightarrow> 's sandbox_http" where
  "lv_client jl tr c =
     \<lparr>ht_create_session = lv_create_session jl tr c, ht_exec = lv_exec jl tr c,
      ht_get_file = lv_get_file tr c, ht_put_file = lv_put_file tr c, ht_head_file = lv_head_file tr c,
      ht_find = lv_find jl tr c, ht_search = lv_search jl tr c, ht_destroy_session = lv_destroy_session tr c\<rparr>"

section \<open>One session per task\<close>

record SessionMap =
  sm_default_profile :: string
  sm_session_secs :: nat
  sm_sessions :: "string \<rightharpoonup> string"

definition session_map_new :: "string \<Rightarrow> nat \<Rightarrow> SessionMap" where
  "session_map_new profile timeout_secs =
     \<lparr>sm_default_profile = profile, sm_session_secs = timeout_secs, sm_sessions = Map.empty\<rparr>"

text \<open>The map is locked while the session is created.\<close>

definition get_or_create ::
    "'s sandbox_http \<Rightarrow> string \<Rightarrow> string option \<Rightarrow> (SessionMap \<times> 's, BridgeError, string) st" where
  "get_or_create http task_id profile_override = (\<lambda>(sm, s).
     case sm_sessions sm task_id of
       Some sid \<Rightarrow> (Inr sid, (sm, s))
     | None \<Rightarrow>
         (case ht_create_session http (or_else profile_override (sm_default_profile sm))
                 [(''fixus_task_id'', task_id)] (sm_session_secs sm) s of
            (Inl e, s) \<Rightarrow> (Inl e, (sm, s))
          | (Inr sid, s) \<Rightarrow> (Inr sid, (sm\<lparr>sm_sessions := (sm_sessions sm)(task_id \<mapsto> sid)\<rparr>, s))))"

definition invalidate :: "string \<Rightarrow> SessionMap \<Rightarrow> SessionMap" where
  "invalidate task_id sm = sm\<lparr>sm_sessions := (sm_sessions sm)(task_id := None)\<rparr>"

section \<open>The tools\<close>

record ToolOutput =
  to_success :: bool
  to_output :: json
  to_error :: "string option"

definition ok_exec :: "LvResult \<Rightarrow> ToolOutput" where
  "ok_exec j =
     (let exit = or_else (lr_exit_code j) (- 1);
          timed_out = or_else (lr_timed_out j) False;
          success = (\<not> timed_out \<and> exit = 0)
      in \<lparr>to_success = success,
          to_output = JObj [(''stdout'', JStr (or_else (lr_stdout j) [])), (''stderr'', JStr (or_else (lr_stderr j) [])),
            (''exit_code'', JInt exit)],
          to_error = (if timed_out then Some ''timed out''
            else if \<not> success then Some (''exit code '' @ show_int exit) else None)\<rparr>)"

definition success_output :: "(string \<times> json) list \<Rightarrow> ToolOutput" where
  "success_output kvs = \<lparr>to_success = True, to_output = JObj kvs, to_error = None\<rparr>"

text \<open>A field of the input that has to be a string.\<close>

definition need :: "json \<Rightarrow> string \<Rightarrow> ('s, BridgeError, string) st" where
  "need input k = (case get_str input k of Some v \<Rightarrow> st_ret v | None \<Rightarrow> st_err (BMissingField k))"

definition run_argv ::
    "'s sandbox_http \<Rightarrow> string \<Rightarrow> string option \<Rightarrow> string list \<Rightarrow> ('s, BridgeError, ToolOutput) st" where
  "run_argv http sid timeout argv = st_bind (ht_exec http sid argv timeout None) (\<lambda>j. st_ret (ok_exec j))"

definition tool_bash :: "'s sandbox_http \<Rightarrow> string \<Rightarrow> string option \<Rightarrow> json \<Rightarrow> ('s, BridgeError, ToolOutput) st" where
  "tool_bash http sid timeout input =
     (let field = (case json_get input ''command'' of Some v \<Rightarrow> Some v | None \<Rightarrow> json_get input ''code'');
          script = or_else (Option.bind field as_str) (''echo '' @ [CHR 0x27] @ ''no command'' @ [CHR 0x27])
      in run_argv http sid timeout [''bash'', ''-c'', script])"

definition tool_jq :: "'s sandbox_http \<Rightarrow> string \<Rightarrow> string option \<Rightarrow> json \<Rightarrow> ('s, BridgeError, ToolOutput) st" where
  "tool_jq http sid timeout input =
     st_bind (need input ''filter'') (\<lambda>jq_filter.
     st_bind (need input ''file'') (\<lambda>file.
     run_argv http sid timeout [''jq'', ''-r'', jq_filter, file]))"

definition tool_rg :: "'s sandbox_http \<Rightarrow> string \<Rightarrow> string option \<Rightarrow> json \<Rightarrow> ('s, BridgeError, ToolOutput) st" where
  "tool_rg http sid timeout input =
     st_bind (need input ''pattern'') (\<lambda>pattern.
     run_argv http sid timeout [''rg'', pattern, or_else (get_str input ''path'') ''.''])"

text \<open>\<open>as usize\<close>: a negative offset is a very large one.\<close>

definition as_usize :: "int \<Rightarrow> nat" where
  "as_usize i = unat (word_of_int i :: u64)"

definition read_window :: "int option \<Rightarrow> int option \<Rightarrow> string list \<Rightarrow> nat \<times> nat" where
  "read_window offset limit ls =
     (let start = min (as_usize (or_else offset 0)) (length ls)
      in (start, case limit of Some l \<Rightarrow> if 0 < l then min (start + as_usize l) (length ls) else length ls
                             | None \<Rightarrow> length ls))"

definition tool_read :: "'s sandbox_http \<Rightarrow> string \<Rightarrow> json \<Rightarrow> ('s, BridgeError, ToolOutput) st" where
  "tool_read http sid input =
     st_bind (need input ''file_path'') (\<lambda>file_path.
     st_bind (ht_get_file http sid file_path) (\<lambda>bytes.
       let ls = lines (utf8_lossy bytes);
           (start, stop) = read_window (Option.bind (json_get input ''offset'') as_i64)
             (Option.bind (json_get input ''limit'') as_i64) ls
       in st_ret (success_output [(''content'', JStr (join [CHR 0x0A] (take (stop - start) (drop start ls)))),
            (''total_lines'', json_nat (length ls)), (''lines_returned'', json_nat (stop - start)),
            (''offset'', json_nat start)])))"

definition tool_write :: "'s sandbox_http \<Rightarrow> string \<Rightarrow> json \<Rightarrow> ('s, BridgeError, ToolOutput) st" where
  "tool_write http sid input =
     st_bind (need input ''file_path'') (\<lambda>file_path.
     st_bind (need input ''content'') (\<lambda>content.
     st_bind (ht_put_file http sid file_path content) (\<lambda>_.
     st_ret (success_output [(''bytes_written'', json_nat (length content)), (''file_path'', JStr file_path)]))))"

definition tool_edit :: "'s sandbox_http \<Rightarrow> string \<Rightarrow> json \<Rightarrow> ('s, BridgeError, ToolOutput) st" where
  "tool_edit http sid input =
     st_bind (need input ''file_path'') (\<lambda>file_path.
     st_bind (need input ''old_string'') (\<lambda>old.
       let new = or_else (get_str input ''new_string'') [] in
     st_bind (ht_get_file http sid file_path) (\<lambda>bytes.
       let content = utf8_lossy bytes in
       if \<not> contains_str old content then
         st_ret \<lparr>to_success = False, to_output = JNull, to_error = Some (''old_string not found in '' @ file_path)\<rparr>
       else
         (let replaced = replace_first old new content in
          st_bind (ht_put_file http sid file_path replaced) (\<lambda>_.
          st_ret (success_output [(''file_path'', JStr file_path), (''replaced'', JBool True),
            (''bytes_written'', json_nat (length replaced))]))))))"

definition tool_glob :: "'s sandbox_http \<Rightarrow> string \<Rightarrow> json \<Rightarrow> ('s, BridgeError, ToolOutput) st" where
  "tool_glob http sid input =
     st_bind (need input ''pattern'') (\<lambda>pattern.
     st_bind (ht_find http sid (or_else (get_str input ''path'') []) pattern) (\<lambda>fs.
     st_ret (success_output [(''files'', JArr (map JStr fs)), (''count'', json_nat (length fs)), (''pattern'', JStr pattern)])))"

definition tool_grep :: "'s sandbox_http \<Rightarrow> string \<Rightarrow> json \<Rightarrow> ('s, BridgeError, ToolOutput) st" where
  "tool_grep http sid input =
     st_bind (need input ''pattern'') (\<lambda>pattern.
     st_bind (ht_search http sid (or_else (get_str input ''path'') []) pattern) (\<lambda>results.
     st_ret (success_output [(''matches'', JStr (join [CHR 0x0A] results)), (''count'', json_nat (length results)),
       (''pattern'', JStr pattern)])))"

definition run_tool ::
    "'s sandbox_http \<Rightarrow> string \<Rightarrow> string option \<Rightarrow> string \<Rightarrow> json \<Rightarrow> ('s, BridgeError, ToolOutput) st" where
  "run_tool http sid timeout tool_name input =
     (if tool_name = ''fixus_bash'' then tool_bash http sid timeout input
      else if tool_name = ''fixus_jq'' then tool_jq http sid timeout input
      else if tool_name = ''fixus_rg'' then tool_rg http sid timeout input
      else if tool_name = ''fixus_read'' then tool_read http sid input
      else if tool_name = ''fixus_write'' then tool_write http sid input
      else if tool_name = ''fixus_edit'' then tool_edit http sid input
      else if tool_name = ''fixus_glob'' then tool_glob http sid input
      else if tool_name = ''fixus_grep'' then tool_grep http sid input
      else st_err (BUnknownTool tool_name))"

text \<open>An operation on what is behind the trait, beside the map of sessions.\<close>

definition beside_map :: "('s, 'e, 'a) st \<Rightarrow> (SessionMap \<times> 's, 'e, 'a) st" where
  "beside_map m = (\<lambda>(sm, s). case m s of (r, s) \<Rightarrow> (r, (sm, s)))"

definition execute ::
    "'s sandbox_http \<Rightarrow> string \<Rightarrow> json \<Rightarrow> nat \<Rightarrow> string \<Rightarrow> string option \<Rightarrow> (SessionMap \<times> 's, BridgeError, ToolOutput) st" where
  "execute http tool_name input timeout_secs task_id profile_override =
     st_bind (get_or_create http task_id profile_override) (\<lambda>sid.
       let timeout = (if 0 < timeout_secs then Some (show_nat timeout_secs @ ''s'') else None)
       in beside_map (run_tool http sid timeout tool_name input))"

end
