(* ===== verification/BrokerLoop.thy ===== *)
theory BrokerLoop
  imports Broker
begin

text \<open>
  The consumer of the broker, \<open>sandbox-broker/src/main.rs\<close>, with the cache of \<open>idem.rs\<close>: records of
  tool calls come in from a stream, each is answered from the cache or by a task of its own that
  holds a permit while it executes, and positions are committed. A machine whose events are the
  frames of the stream and the moves of the tasks; the result of an execution is given by its event.
  A new run of the consumer has its own permits and its own commit queue; tasks of an earlier run go
  on with theirs, and the cache outlives all runs.
\<close>

section \<open>Calls and results\<close>

record ToolResult =
  tr_success :: bool
  tr_output :: json
  tr_error :: "string option"
  tr_duration_ms :: u64

definition cache_get :: "(string \<rightharpoonup> ToolResult) \<Rightarrow> string \<Rightarrow> ToolResult option" where
  "cache_get c k = c k"

definition cache_put :: "string \<times> ToolResult \<Rightarrow> (string \<rightharpoonup> ToolResult) \<Rightarrow> (string \<rightharpoonup> ToolResult)" where
  "cache_put e c = c(fst e \<mapsto> snd e)"

interpretation idem_cache: registry cache_get cache_put fst snd
  by unfold_locales (simp add: cache_get_def cache_put_def)

text \<open>A record of the stream.\<close>

record Record =
  rc_event_type :: string
  rc_content :: string
  rc_metadata :: "string \<rightharpoonup> string"
  rc_shard_id :: u32
  rc_seq :: u64

definition net_profile_override :: "json_lib \<Rightarrow> (string \<rightharpoonup> string) \<Rightarrow> string option" where
  "net_profile_override jl metadata =
     (case Option.bind (metadata ''effective_policy'')
             (\<lambda>v. case jl_parse jl v of Inr p \<Rightarrow> Some p | Inl _ \<Rightarrow> None) of
        None \<Rightarrow> None
      | Some p \<Rightarrow>
          (case Option.bind (Option.bind (json_get p ''net'') (\<lambda>n. json_get n ''egress'')) as_array of
             Some (_ # _) \<Rightarrow> Some ''git''
           | _ \<Rightarrow> None))"

text \<open>What is read from a record, with the defaults of missing fields.\<close>

record tool_call =
  tc_tool_name :: string
  tc_key :: string
  tc_call_id :: string
  tc_step_id :: string
  tc_task_id :: string
  tc_shard_id :: u32
  tc_seq :: u64
  tc_override :: "string option"
  tc_input :: json
  tc_timeout_secs :: nat
  tc_session_src :: string

definition parse_call :: "json_lib \<Rightarrow> Record \<Rightarrow> tool_call" where
  "parse_call jl rc =
     (let payload = (case jl_parse jl (rc_content rc) of Inr v \<Rightarrow> v | Inl _ \<Rightarrow> JNull);
          text_of = (\<lambda>k d. or_else (as_str (json_index payload k)) d);
          task_id = or_else (rc_metadata rc ''task_id'') [];
          timeout_ms = or_else (Option.bind (json_get payload ''timeout_ms'') as_u64) 120000
      in \<lparr>tc_tool_name = text_of ''tool_name'' ''?'', tc_key = text_of ''idempotency_key'' ''?'',
          tc_call_id = text_of ''tool_call_id'' ''?'', tc_step_id = or_else (rc_metadata rc ''step_id'') [],
          tc_task_id = task_id, tc_shard_id = rc_shard_id rc, tc_seq = rc_seq rc,
          tc_override = net_profile_override jl (rc_metadata rc),
          tc_input = or_else (json_get payload ''input'') JNull,
          tc_timeout_secs = max 1 (min 600 (timeout_ms div 1000)),
          tc_session_src = text_of ''session_id'' task_id\<rparr>)"

text \<open>What a task executes, on the sessions and on what is behind them.\<close>

definition execute_call ::
    "'s sandbox_http \<Rightarrow> tool_call \<Rightarrow> (SessionMap \<times> 's, BridgeError, ToolOutput) st" where
  "execute_call http c =
     execute http (tc_tool_name c) (tc_input c) (tc_timeout_secs c) (tc_session_src c) (tc_override c)"

definition tool_result :: "BridgeError + ToolOutput \<Rightarrow> u64 \<Rightarrow> ToolResult" where
  "tool_result r dur =
     (case r of
        Inr o' \<Rightarrow> \<lparr>tr_success = to_success o', tr_output = to_output o', tr_error = to_error o', tr_duration_ms = dur\<rparr>
      | Inl e \<Rightarrow> \<lparr>tr_success = False, tr_output = JNull, tr_error = Some (bridge_text e), tr_duration_ms = dur\<rparr>)"

text \<open>A message of the result stream: its content, its key and its metadata.\<close>

record result_message =
  rm_content :: json
  rm_key :: string
  rm_metadata :: "(string \<times> string) list"

definition produce_result :: "tool_call \<Rightarrow> ToolResult \<Rightarrow> result_message" where
  "produce_result c r =
     \<lparr>rm_content = JObj [(''step_id'', JStr (tc_step_id c)), (''task_id'', JStr (tc_task_id c)),
        (''tool_call_id'', JStr (tc_call_id c)), (''tool_name'', JStr (tc_tool_name c)),
        (''success'', JBool (tr_success r)), (''output'', tr_output r),
        (''error'', case tr_error r of None \<Rightarrow> JNull | Some e \<Rightarrow> JStr e),
        (''duration_ms'', JInt (uint (tr_duration_ms r)))],
      rm_key = tc_step_id c,
      rm_metadata = [(''step_id'', tc_step_id c), (''task_id'', tc_task_id c), (''event_type'', ''tool_result'')]\<rparr>"

section \<open>The consumer\<close>

datatype call_phase = CallWaiting | CallRunning | CallDone

record call_task =
  ct_call :: tool_call
  ct_run :: nat
  ct_phase :: call_phase

datatype consumer_phase = Consuming | Draining | ConsumerLeft | ConsumerFailed

text \<open>The permits are those of each run; messages and commits that failed are only logged.\<close>

record consumer =
  co_cache :: "string \<rightharpoonup> ToolResult"
  co_tasks :: "call_task list"
  co_run :: nat
  co_phase :: consumer_phase
  co_permits :: "nat \<Rightarrow> nat"
  co_queue :: "(u32 \<times> u64) list"
  co_errors :: u32
  co_committed :: "(u32 \<times> u64) list"
  co_produced :: "result_message list"

definition consumer_start :: "nat \<Rightarrow> consumer" where
  "consumer_start concurrency =
     \<lparr>co_cache = Map.empty, co_tasks = [], co_run = 0, co_phase = Consuming,
      co_permits = (\<lambda>_. max 1 concurrency), co_queue = [], co_errors = 0, co_committed = [], co_produced = []\<rparr>"

datatype frame = RecordFrame Record | OtherFrame

text \<open>Before each item of the stream the positions that tasks have sent are committed.\<close>

definition commit_queued :: "consumer \<Rightarrow> consumer" where
  "commit_queued s = s\<lparr>co_committed := co_committed s @ co_queue s, co_queue := []\<rparr>"

definition on_record :: "json_lib \<Rightarrow> Record \<Rightarrow> consumer \<Rightarrow> consumer" where
  "on_record jl rc s =
     (if rc_event_type rc \<noteq> ''tool_invoked'' then s
      else
        (let c = parse_call jl rc
         in case cache_get (co_cache s) (tc_key c) of
              Some cached \<Rightarrow>
                s\<lparr>co_produced := co_produced s @ [produce_result c cached],
                  co_committed := co_committed s @ [(tc_shard_id c, tc_seq c)]\<rparr>
            | None \<Rightarrow> s\<lparr>co_tasks := co_tasks s @ [\<lparr>ct_call = c, ct_run = co_run s, ct_phase = CallWaiting\<rparr>]\<rparr>))"

definition on_item :: "json_lib \<Rightarrow> string + frame \<Rightarrow> consumer \<Rightarrow> consumer" where
  "on_item jl item s =
     (let s = commit_queued s
      in case item of
           Inl _ \<Rightarrow>
             (let s = s\<lparr>co_errors := co_errors s + 1\<rparr>
              in if 3 \<le> co_errors s then s\<lparr>co_phase := ConsumerFailed, co_queue := []\<rparr> else s)
         | Inr OtherFrame \<Rightarrow> s\<lparr>co_errors := 0\<rparr>
         | Inr (RecordFrame rc) \<Rightarrow> on_record jl rc (s\<lparr>co_errors := 0\<rparr>))"

definition set_call_phase :: "nat \<Rightarrow> call_phase \<Rightarrow> consumer \<Rightarrow> consumer" where
  "set_call_phase i ph s = s\<lparr>co_tasks := (co_tasks s)[i := (co_tasks s ! i)\<lparr>ct_phase := ph\<rparr>]\<rparr>"

definition call_begin :: "nat \<Rightarrow> consumer \<Rightarrow> consumer" where
  "call_begin i s =
     (if i < length (co_tasks s) \<and> ct_phase (co_tasks s ! i) = CallWaiting
         \<and> 0 < co_permits s (ct_run (co_tasks s ! i))
      then set_call_phase i CallRunning
        (s\<lparr>co_permits := (co_permits s)(ct_run (co_tasks s ! i) := co_permits s (ct_run (co_tasks s ! i)) - 1)\<rparr>)
      else s)"

text \<open>The queue of a run that has ended takes nothing more.\<close>

definition takes_commits :: "nat \<Rightarrow> consumer \<Rightarrow> bool" where
  "takes_commits n s = (n = co_run s \<and> (co_phase s = Consuming \<or> co_phase s = Draining))"

definition call_finish :: "nat \<Rightarrow> BridgeError + ToolOutput \<Rightarrow> u64 \<Rightarrow> consumer \<Rightarrow> consumer" where
  "call_finish i result dur s =
     (if i < length (co_tasks s) \<and> ct_phase (co_tasks s ! i) = CallRunning
      then
        (let t = co_tasks s ! i; c = ct_call t; r = tool_result result dur
         in set_call_phase i CallDone
              (s\<lparr>co_cache := cache_put (tc_key c, r) (co_cache s),
                co_produced := co_produced s @ [produce_result c r],
                co_queue := (if takes_commits (ct_run t) s then co_queue s @ [(tc_shard_id c, tc_seq c)] else co_queue s),
                co_permits := (co_permits s)(ct_run t := co_permits s (ct_run t) + 1)\<rparr>))
      else s)"

text \<open>At the end of the stream the consumer waits for its tasks, commits what they send, and leaves.\<close>

definition tasks_done :: "consumer \<Rightarrow> bool" where
  "tasks_done s = list_all (\<lambda>t. ct_run t = co_run s \<longrightarrow> ct_phase t = CallDone) (co_tasks s)"

definition drain :: "consumer \<Rightarrow> consumer" where
  "drain s =
     (case co_queue s of
        p # q \<Rightarrow> s\<lparr>co_committed := co_committed s @ [p], co_queue := q\<rparr>
      | [] \<Rightarrow> if tasks_done s then s\<lparr>co_phase := ConsumerLeft\<rparr> else s)"

definition rejoin :: "nat \<Rightarrow> consumer \<Rightarrow> consumer" where
  "rejoin concurrency s =
     s\<lparr>co_run := co_run s + 1, co_phase := Consuming, co_queue := [], co_errors := 0,
       co_permits := (co_permits s)(co_run s + 1 := max 1 concurrency)\<rparr>"

datatype consumer_event =
    Item "string + frame"
  | EndOfStream
  | CallBegin nat
  | CallFinish nat "BridgeError + ToolOutput" u64
  | Drain
  | Rejoin

fun consumer_step :: "json_lib \<Rightarrow> nat \<Rightarrow> consumer_event \<Rightarrow> consumer \<Rightarrow> consumer" where
  "consumer_step jl n (Item item) s = (if co_phase s = Consuming then on_item jl item s else s)"
| "consumer_step jl n EndOfStream s = (if co_phase s = Consuming then s\<lparr>co_phase := Draining\<rparr> else s)"
| "consumer_step jl n (CallBegin i) s = call_begin i s"
| "consumer_step jl n (CallFinish i result dur) s = call_finish i result dur s"
| "consumer_step jl n Drain s = (if co_phase s = Draining then drain s else s)"
| "consumer_step jl n Rejoin s =
     (if co_phase s = ConsumerLeft \<or> co_phase s = ConsumerFailed then rejoin n s else s)"

definition run_consumer :: "json_lib \<Rightarrow> nat \<Rightarrow> consumer_event list \<Rightarrow> consumer" where
  "run_consumer jl n es = fold (consumer_step jl n) es (consumer_start n)"

end
