(* ===== verification/BrokerProofs.thy ===== *)
theory BrokerProofs
  imports BrokerLoop
begin

text \<open>
  What holds of the broker: of every run of its consumer, of the sessions of its tasks, and of its
  tools.
\<close>

section \<open>Runs of the consumer\<close>

text \<open>A call that the stream has delivered.\<close>

definition delivered :: "json_lib \<Rightarrow> consumer_event list \<Rightarrow> tool_call \<Rightarrow> bool" where
  "delivered jl es c \<longleftrightarrow>
     (\<exists>rc. Item (Inr (RecordFrame rc)) \<in> set es \<and> rc_event_type rc = ''tool_invoked'' \<and> c = parse_call jl rc)"

text \<open>The result of a finished execution of a call with this key.\<close>

definition result_for :: "consumer_event list \<Rightarrow> consumer \<Rightarrow> string \<Rightarrow> ToolResult \<Rightarrow> bool" where
  "result_for es s k r \<longleftrightarrow>
     (\<exists>i result dur. i < length (co_tasks s) \<and> ct_phase (co_tasks s ! i) = CallDone
        \<and> tc_key (ct_call (co_tasks s ! i)) = k \<and> CallFinish i result dur \<in> set es
        \<and> r = tool_result result dur)"

text \<open>A position of a delivered call that was answered with the result of a call of its key.\<close>

definition answered :: "json_lib \<Rightarrow> consumer_event list \<Rightarrow> consumer \<Rightarrow> u32 \<times> u64 \<Rightarrow> bool" where
  "answered jl es s pos \<longleftrightarrow>
     (\<exists>c r. delivered jl es c \<and> pos = (tc_shard_id c, tc_seq c) \<and> result_for es s (tc_key c) r
        \<and> produce_result c r \<in> set (co_produced s))"

definition in_progress :: "nat \<Rightarrow> consumer \<Rightarrow> nat" where
  "in_progress n s = length (filter (\<lambda>t. ct_run t = n \<and> ct_phase t = CallRunning) (co_tasks s))"

text \<open>The invariant, of the events so far and the state.\<close>

definition permits_ok :: "nat \<Rightarrow> consumer \<Rightarrow> bool" where
  "permits_ok limit s \<longleftrightarrow>
     (\<forall>t\<in>set (co_tasks s). ct_run t \<le> co_run s)
     \<and> (\<forall>n\<le>co_run s. co_permits s n + in_progress n s = max 1 limit)"

definition answers_ok :: "json_lib \<Rightarrow> consumer_event list \<Rightarrow> consumer \<Rightarrow> bool" where
  "answers_ok jl es s \<longleftrightarrow>
     (\<forall>t\<in>set (co_tasks s). delivered jl es (ct_call t))
     \<and> (\<forall>k r. co_cache s k = Some r \<longrightarrow> result_for es s k r)
     \<and> (\<forall>pos\<in>set (co_committed s) \<union> set (co_queue s). answered jl es s pos)"

subsection \<open>Steps go on\<close>

definition extends :: "consumer \<Rightarrow> consumer \<Rightarrow> bool" where
  "extends s s' \<longleftrightarrow>
     length (co_tasks s) \<le> length (co_tasks s') \<and> set (co_produced s) \<subseteq> set (co_produced s')
     \<and> (\<forall>i<length (co_tasks s). ct_call (co_tasks s' ! i) = ct_call (co_tasks s ! i)
          \<and> (ct_phase (co_tasks s ! i) = CallDone \<longrightarrow> ct_phase (co_tasks s' ! i) = CallDone))"

lemma extends_same: "co_tasks s' = co_tasks s \<Longrightarrow> co_produced s' = co_produced s \<Longrightarrow> extends s s'"
  by (simp add: extends_def)

lemma result_for_mono: "extends s s' \<Longrightarrow> set es \<subseteq> set es' \<Longrightarrow> result_for es s k r \<Longrightarrow> result_for es' s' k r"
  unfolding result_for_def extends_def by (metis less_le_trans subsetD)

lemma answered_mono: "extends s s' \<Longrightarrow> set es \<subseteq> set es' \<Longrightarrow> answered jl es s pos \<Longrightarrow> answered jl es' s' pos"
  unfolding answered_def delivered_def
  by (metis result_for_mono extends_def subsetD)

lemma set_call_phase_frame [simp]:
  "co_cache (set_call_phase i ph s) = co_cache s" "co_run (set_call_phase i ph s) = co_run s"
  "co_permits (set_call_phase i ph s) = co_permits s" "co_queue (set_call_phase i ph s) = co_queue s"
  "co_committed (set_call_phase i ph s) = co_committed s" "co_produced (set_call_phase i ph s) = co_produced s"
  "co_phase (set_call_phase i ph s) = co_phase s" "length (co_tasks (set_call_phase i ph s)) = length (co_tasks s)"
  by (simp_all add: set_call_phase_def)

lemma set_call_phase_nth:
  "j < length (co_tasks s) \<Longrightarrow> co_tasks (set_call_phase i ph s) ! j =
     (if i = j then (co_tasks s ! j)\<lparr>ct_phase := ph\<rparr> else co_tasks s ! j)"
  by (simp add: set_call_phase_def nth_list_update)

lemma set_call_phase_calls:
  "t \<in> set (co_tasks (set_call_phase i ph s)) \<Longrightarrow>
     \<exists>u\<in>set (co_tasks s). ct_call t = ct_call u \<and> ct_run t = ct_run u"
  by (auto simp: in_set_conv_nth set_call_phase_nth split: if_splits) force+

lemma in_progress_set_call_phase:
  assumes "i < length (co_tasks s)"
  shows "in_progress n (set_call_phase i ph s)
      + (if ct_run (co_tasks s ! i) = n \<and> ct_phase (co_tasks s ! i) = CallRunning then 1 else 0)
    = in_progress n s + (if ct_run (co_tasks s ! i) = n \<and> ph = CallRunning then 1 else 0)"
  using length_filter_update [OF assms, of "\<lambda>t. ct_run t = n \<and> ct_phase t = CallRunning"]
  by (simp add: in_progress_def set_call_phase_def)

lemma in_progress_tasks: "co_tasks s' = co_tasks s \<Longrightarrow> in_progress n s' = in_progress n s"
  by (simp add: in_progress_def)

subsection \<open>Permits\<close>

lemma permits_begin: "permits_ok l s \<Longrightarrow> permits_ok l (call_begin i s)"
proof -
  assume ok: "permits_ok l s"
  show ?thesis
  proof (cases "i < length (co_tasks s) \<and> ct_phase (co_tasks s ! i) = CallWaiting
      \<and> 0 < co_permits s (ct_run (co_tasks s ! i))")
    case True
    let ?g = "ct_run (co_tasks s ! i)"
    let ?s = "s\<lparr>co_permits := (co_permits s)(?g := co_permits s ?g - 1)\<rparr>"
    have i: "i < length (co_tasks ?s)" using True by simp
    have "co_permits ?s n + in_progress n (set_call_phase i CallRunning ?s) = max 1 l" if "n \<le> co_run s" for n
      using in_progress_set_call_phase [OF i, of n CallRunning] in_progress_tasks [of ?s s n] True ok that
      by (auto simp: permits_ok_def split: if_splits)
    then show ?thesis using True ok
      by (auto simp: call_begin_def permits_ok_def dest!: set_call_phase_calls)
  qed (auto simp: call_begin_def ok)
qed

lemma permits_finish: "permits_ok l s \<Longrightarrow> permits_ok l (call_finish i result dur s)"
proof -
  assume ok: "permits_ok l s"
  show ?thesis
  proof (cases "i < length (co_tasks s) \<and> ct_phase (co_tasks s ! i) = CallRunning")
    case True
    let ?t = "co_tasks s ! i" and ?r = "tool_result result dur"
    let ?c = "ct_call ?t"
    let ?s = "s\<lparr>co_cache := cache_put (tc_key ?c, ?r) (co_cache s),
                co_produced := co_produced s @ [produce_result ?c ?r],
                co_queue := (if takes_commits (ct_run ?t) s then co_queue s @ [(tc_shard_id ?c, tc_seq ?c)] else co_queue s),
                co_permits := (co_permits s)(ct_run ?t := co_permits s (ct_run ?t) + 1)\<rparr>"
    have i: "i < length (co_tasks ?s)" using True by simp
    have fin: "call_finish i result dur s = set_call_phase i CallDone ?s"
      using True by (simp add: call_finish_def Let_def)
    have "co_permits ?s n + in_progress n (set_call_phase i CallDone ?s) = max 1 l" if "n \<le> co_run s" for n
      using in_progress_set_call_phase [OF i, of n CallDone] in_progress_tasks [of ?s s n] True ok that
      by (auto simp: permits_ok_def split: if_splits)
    then show ?thesis unfolding fin using ok
      by (auto simp: permits_ok_def dest!: set_call_phase_calls)
  qed (auto simp: call_finish_def ok)
qed

lemma permits_ok_same:
  "co_tasks s' = co_tasks s \<Longrightarrow> co_run s' = co_run s \<Longrightarrow> co_permits s' = co_permits s \<Longrightarrow>
     permits_ok l s' \<longleftrightarrow> permits_ok l s"
  by (simp add: permits_ok_def in_progress_def)

lemma commit_queued_frame [simp]:
  "co_tasks (commit_queued s) = co_tasks s" "co_run (commit_queued s) = co_run s"
  "co_permits (commit_queued s) = co_permits s" "co_cache (commit_queued s) = co_cache s"
  "co_produced (commit_queued s) = co_produced s" "co_phase (commit_queued s) = co_phase s"
  by (simp_all add: commit_queued_def)

lemma permits_item: "permits_ok l s \<Longrightarrow> permits_ok l (on_item jl item s)"
  by (auto simp: on_item_def Let_def on_record_def permits_ok_def in_progress_def
      split: sum.splits frame.splits option.splits)

lemma permits_rejoin: "permits_ok l s \<Longrightarrow> permits_ok l (rejoin l s)"
proof -
  assume ok: "permits_ok l s"
  have runs: "ct_run t \<le> co_run s" if "t \<in> set (co_tasks s)" for t
    using ok that by (simp add: permits_ok_def)
  have none: "in_progress (Suc (co_run s)) s = 0"
    using runs by (fastforce simp: in_progress_def filter_empty_conv)
  have same: "in_progress n (rejoin l s) = in_progress n s" for n
    by (rule in_progress_tasks) (simp add: rejoin_def)
  show ?thesis unfolding permits_ok_def
  proof (intro conjI ballI allI impI)
    fix t assume "t \<in> set (co_tasks (rejoin l s))"
    then show "ct_run t \<le> co_run (rejoin l s)" using runs [of t] by (simp add: rejoin_def)
  next
    fix n assume n: "n \<le> co_run (rejoin l s)"
    show "co_permits (rejoin l s) n + in_progress n (rejoin l s) = max 1 l"
    proof (cases "n = Suc (co_run s)")
      case True
      then show ?thesis unfolding same by (simp add: none rejoin_def)
    next
      case False
      then have "n \<le> co_run s" using n by (simp add: rejoin_def)
      then show ?thesis unfolding same using False ok by (simp add: rejoin_def permits_ok_def)
    qed
  qed
qed

lemma drain_frame [simp]:
  "co_tasks (drain s) = co_tasks s" "co_run (drain s) = co_run s" "co_permits (drain s) = co_permits s"
  "co_produced (drain s) = co_produced s" "co_cache (drain s) = co_cache s"
  "set (co_committed (drain s)) \<union> set (co_queue (drain s)) = set (co_committed s) \<union> set (co_queue s)"
  by (auto simp: drain_def split: list.splits)

lemma permits_step: "permits_ok l s \<Longrightarrow> permits_ok l (consumer_step jl l e s)"
proof (cases e)
  case EndOfStream
  then show "permits_ok l s \<Longrightarrow> ?thesis" using permits_ok_same [of "s\<lparr>co_phase := Draining\<rparr>" s l] by simp
next
  case Drain
  then show "permits_ok l s \<Longrightarrow> ?thesis" using permits_ok_same [of "drain s" s l] by simp
qed (simp_all add: permits_begin permits_finish permits_item permits_rejoin)

interpretation consumer: guarded_system "consumer_step jl l" "permits_ok l" for jl l
  by unfold_locales (rule permits_step)

lemma permits_run: "permits_ok l (run_consumer jl l es)"
  unfolding run_consumer_def
  by (rule consumer.fold_inv) (simp add: permits_ok_def consumer_start_def in_progress_def)

subsection \<open>Answers\<close>

lemma extends_set_call_phase:
  assumes "co_tasks s' = co_tasks s" "set (co_produced s) \<subseteq> set (co_produced s')"
    "i < length (co_tasks s)" "ct_phase (co_tasks s ! i) \<noteq> CallDone"
  shows "extends s (set_call_phase i ph s')"
  using assms by (auto simp: extends_def set_call_phase_nth)

lemma extends_begin: "extends s (call_begin i s)"
  using extends_set_call_phase [of _ s i CallRunning] by (auto simp: call_begin_def intro: extends_same)

lemma extends_finish: "extends s (call_finish i result dur s)"
proof (cases "i < length (co_tasks s) \<and> ct_phase (co_tasks s ! i) = CallRunning")
  case True
  then show ?thesis
    unfolding call_finish_def Let_def if_P [OF True] by (intro extends_set_call_phase) auto
next
  case False
  then show ?thesis unfolding call_finish_def if_not_P [OF False] by (simp add: extends_same)
qed

lemma extends_item: "extends s (on_item jl item s)"
  by (auto simp: on_item_def Let_def on_record_def extends_def nth_append
      split: sum.splits frame.splits option.splits)

lemma extends_step: "extends s (consumer_step jl l e s)"
  by (cases e) (auto simp: extends_begin extends_finish extends_item rejoin_def intro: extends_same)

text \<open>What a step adds: one call, one finished execution, or positions that were queued.\<close>

lemma answers_keep:
  assumes ok: "answers_ok jl es s" and ext: "extends s s'" and es: "set es \<subseteq> set es'"
    and calls: "\<And>t. t \<in> set (co_tasks s') \<Longrightarrow> (\<exists>u\<in>set (co_tasks s). ct_call t = ct_call u) \<or> delivered jl es' (ct_call t)"
    and cache: "\<And>k r. co_cache s' k = Some r \<Longrightarrow> co_cache s k = Some r \<or> result_for es' s' k r"
    and positions: "\<And>pos. pos \<in> set (co_committed s') \<union> set (co_queue s') \<Longrightarrow>
      pos \<in> set (co_committed s) \<union> set (co_queue s) \<or> answered jl es' s' pos"
  shows "answers_ok jl es' s'"
  unfolding answers_ok_def
proof (intro conjI ballI allI impI)
  fix t assume "t \<in> set (co_tasks s')"
  then show "delivered jl es' (ct_call t)"
    using calls [of t] ok es by (auto simp: answers_ok_def delivered_def) blast
next
  fix k r assume "co_cache s' k = Some r"
  then show "result_for es' s' k r"
    using cache [of k r] ok result_for_mono [OF ext es] unfolding answers_ok_def by blast
next
  fix pos assume "pos \<in> set (co_committed s') \<union> set (co_queue s')"
  then show "answered jl es' s' pos"
    using positions [of pos] ok answered_mono [OF ext es] unfolding answers_ok_def by blast
qed

lemma answers_begin: "answers_ok jl es s \<Longrightarrow> answers_ok jl (es @ [e]) (call_begin i s)"
  by (rule answers_keep [OF _ extends_begin])
    (auto simp: call_begin_def split: if_splits dest!: set_call_phase_calls)

lemma answers_finish:
  assumes ok: "answers_ok jl es s"
  shows "answers_ok jl (es @ [CallFinish i result dur]) (call_finish i result dur s)" (is "answers_ok jl ?es ?s")
proof (cases "i < length (co_tasks s) \<and> ct_phase (co_tasks s ! i) = CallRunning")
  case True
  let ?c = "ct_call (co_tasks s ! i)" and ?r = "tool_result result dur"
  have tasks: "i < length (co_tasks ?s)" "co_tasks ?s ! i = (co_tasks s ! i)\<lparr>ct_phase := CallDone\<rparr>"
    using True by (simp_all add: call_finish_def Let_def set_call_phase_nth)
  have made: "result_for ?es ?s (tc_key ?c) ?r"
    unfolding result_for_def by (rule exI [of _ i], rule exI [of _ result], rule exI [of _ dur]) (simp add: tasks)
  have "delivered jl ?es ?c"
    using ok True by (force simp: answers_ok_def delivered_def)
  moreover have "produce_result ?c ?r \<in> set (co_produced ?s)"
    using True by (simp add: call_finish_def Let_def)
  ultimately have ans: "answered jl ?es ?s (tc_shard_id ?c, tc_seq ?c)"
    using made unfolding answered_def by blast
  show ?thesis
  proof (rule answers_keep [OF ok extends_finish])
    fix k r assume "co_cache ?s k = Some r"
    then show "co_cache s k = Some r \<or> result_for ?es ?s k r"
      using True made by (auto simp: call_finish_def Let_def cache_put_def split: if_splits)
  next
    fix pos assume "pos \<in> set (co_committed ?s) \<union> set (co_queue ?s)"
    then show "pos \<in> set (co_committed s) \<union> set (co_queue s) \<or> answered jl ?es ?s pos"
      using True ans by (auto simp: call_finish_def Let_def split: if_splits)
  qed (use True in \<open>auto simp: call_finish_def Let_def dest!: set_call_phase_calls\<close>)
next
  case False
  then have "?s = s" by (auto simp: call_finish_def)
  then show ?thesis using answers_keep [OF ok extends_same, of s ?es] by auto
qed

lemma answers_item:
  assumes ok: "answers_ok jl es s"
  shows "answers_ok jl (es @ [Item item]) (on_item jl item s)" (is "answers_ok jl ?es ?s")
proof (rule answers_keep [OF ok extends_item])
  fix t assume "t \<in> set (co_tasks ?s)"
  then show "(\<exists>u\<in>set (co_tasks s). ct_call t = ct_call u) \<or> delivered jl ?es (ct_call t)"
    by (auto simp: on_item_def Let_def on_record_def delivered_def
        split: sum.splits frame.splits option.splits if_splits)
next
  fix k r assume "co_cache ?s k = Some r"
  then show "co_cache s k = Some r \<or> result_for ?es ?s k r"
    by (auto simp: on_item_def Let_def on_record_def split: sum.splits frame.splits option.splits if_splits)
next
  fix pos assume p: "pos \<in> set (co_committed ?s) \<union> set (co_queue ?s)"
  show "pos \<in> set (co_committed s) \<union> set (co_queue s) \<or> answered jl ?es ?s pos"
  proof (rule ccontr)
    assume new: "\<not> ?thesis"
    then obtain rc r where rc: "item = Inr (RecordFrame rc)" "rc_event_type rc = ''tool_invoked''"
      "co_cache s (tc_key (parse_call jl rc)) = Some r"
      "pos = (tc_shard_id (parse_call jl rc), tc_seq (parse_call jl rc))"
      using p by (auto simp: on_item_def Let_def on_record_def commit_queued_def cache_get_def
          split: sum.splits frame.splits option.splits if_splits)
    have "result_for ?es ?s (tc_key (parse_call jl rc)) r"
      using ok rc(3) result_for_mono [OF extends_item, of es ?es s "tc_key (parse_call jl rc)" r jl item]
      by (auto simp: answers_ok_def)
    moreover have "produce_result (parse_call jl rc) r \<in> set (co_produced ?s)"
      using rc(1-3) by (simp add: on_item_def Let_def on_record_def cache_get_def)
    moreover have "delivered jl ?es (parse_call jl rc)" using rc(1,2) by (auto simp: delivered_def)
    ultimately have "answered jl ?es ?s pos" unfolding answered_def rc(4) by blast
    then show False using new by simp
  qed
qed auto

lemma answers_same:
  assumes "answers_ok jl es s" "co_tasks s' = co_tasks s" "co_produced s' = co_produced s" "co_cache s' = co_cache s"
    "set (co_committed s') \<union> set (co_queue s') \<subseteq> set (co_committed s) \<union> set (co_queue s)"
  shows "answers_ok jl (es @ [e]) s'"
  using assms by (intro answers_keep [OF assms(1) extends_same [OF assms(2,3)]]) auto

lemma answers_step: "answers_ok jl es s \<Longrightarrow> answers_ok jl (es @ [e]) (consumer_step jl l e s)"
proof (cases e)
  case (Item item)
  then show "answers_ok jl es s \<Longrightarrow> ?thesis" using answers_item answers_same [of jl es s s] by auto
next
  case Drain
  then show "answers_ok jl es s \<Longrightarrow> ?thesis"
    using answers_same [of jl es s "drain s" e] answers_same [of jl es s s e] by simp
qed (auto simp: answers_begin answers_finish rejoin_def intro: answers_same)

lemma answers_run: "answers_ok jl es (run_consumer jl l es)"
proof (induction es rule: rev_induct)
  case Nil
  then show ?case by (simp add: answers_ok_def run_consumer_def consumer_start_def)
next
  case (snoc e es)
  then show ?case using answers_step [of jl es "run_consumer jl l es" e l] by (simp add: run_consumer_def)
qed

text \<open>The key of a finished execution stays in the cache.\<close>

definition done_cached :: "consumer \<Rightarrow> bool" where
  "done_cached s \<longleftrightarrow> (\<forall>t\<in>set (co_tasks s). ct_phase t = CallDone \<longrightarrow> cache_get (co_cache s) (tc_key (ct_call t)) \<noteq> None)"

lemma done_cached_update:
  assumes ok: "done_cached s" and i: "i < length (co_tasks s)"
    and s': "co_tasks s' = co_tasks s" "\<And>k. cache_get (co_cache s) k \<noteq> None \<Longrightarrow> cache_get (co_cache s') k \<noteq> None"
    and this_one: "ph = CallDone \<Longrightarrow> cache_get (co_cache s') (tc_key (ct_call (co_tasks s ! i))) \<noteq> None"
  shows "done_cached (set_call_phase i ph s')"
  unfolding done_cached_def
proof (intro ballI impI)
  fix t assume t: "t \<in> set (co_tasks (set_call_phase i ph s'))" "ct_phase t = CallDone"
  then obtain j where j: "j < length (co_tasks s)" "t = co_tasks (set_call_phase i ph s') ! j"
    using s'(1) by (auto simp: in_set_conv_nth)
  show "cache_get (co_cache (set_call_phase i ph s')) (tc_key (ct_call t)) \<noteq> None"
    using t j s' this_one ok nth_mem [OF j(1)]
    by (cases "i = j") (auto simp: set_call_phase_nth done_cached_def)
qed

lemma done_cached_step: "done_cached s \<Longrightarrow> done_cached (consumer_step jl l e s)"
proof -
  assume ok: "done_cached s"
  show ?thesis
  proof (cases e)
    case (Item item)
    then show ?thesis using ok
      by (auto simp: on_item_def Let_def on_record_def done_cached_def split: sum.splits frame.splits option.splits)
  next
    case (CallBegin i)
    then show ?thesis using ok done_cached_update [OF ok, of i _ CallRunning] by (auto simp: call_begin_def)
  next
    case (CallFinish i result dur)
    then show ?thesis using ok
      by (auto simp: call_finish_def Let_def idem_cache.lookup_insert intro!: done_cached_update [OF ok])
  qed (use ok in \<open>auto simp: done_cached_def rejoin_def\<close>)
qed

lemma done_cached_run: "done_cached (run_consumer jl l es)"
proof -
  have start: "done_cached (consumer_start l)" by (simp add: done_cached_def consumer_start_def)
  show ?thesis unfolding run_consumer_def
    by (induction es rule: rev_induct) (simp_all add: start done_cached_step)
qed


text \<open>
  A key is executed once, and all calls without a key are one call. When a call has been
  executed, every later record with its key is answered at once with the result of such an
  execution, is committed and starts nothing, whatever tool and input it names. A record without an
  idempotency key has the key \<open>?\<close>, so that after one keyless call has run all other keyless calls,
  of any task, get its result.
\<close>

theorem known_key_not_executed:
  fixes jl l es rc
  defines "s \<equiv> run_consumer jl l es" and "c \<equiv> parse_call jl rc"
  assumes ran: "i < length (co_tasks s)" "ct_phase (co_tasks s ! i) = CallDone"
      "tc_key (ct_call (co_tasks s ! i)) = tc_key c"
    and now: "co_phase s = Consuming" "rc_event_type rc = ''tool_invoked''"
  shows "(\<exists>r s'. consumer_step jl l (Item (Inr (RecordFrame rc))) s = s' \<and> result_for es s (tc_key c) r
      \<and> co_tasks s' = co_tasks s \<and> co_produced s' = co_produced s @ [produce_result c r]
      \<and> (tc_shard_id c, tc_seq c) \<in> set (co_committed s'))
    \<and> (as_str (json_index (case jl_parse jl (rc_content rc) of Inr v \<Rightarrow> v | Inl _ \<Rightarrow> JNull) ''idempotency_key'') = None
      \<longrightarrow> tc_key c = ''?'')"
proof (intro conjI impI)
  have "co_tasks s ! i \<in> set (co_tasks s)" using ran(1) by simp
  then obtain r where r: "cache_get (co_cache s) (tc_key c) = Some r"
    using done_cached_run [of jl l es] ran(2,3) unfolding s_def done_cached_def by (metis option.exhaust)
  moreover have "result_for es s (tc_key c) r"
    using answers_run [of jl es l] r by (auto simp: answers_ok_def cache_get_def s_def)
  ultimately show "\<exists>r s'. consumer_step jl l (Item (Inr (RecordFrame rc))) s = s' \<and> result_for es s (tc_key c) r
      \<and> co_tasks s' = co_tasks s \<and> co_produced s' = co_produced s @ [produce_result c r]
      \<and> (tc_shard_id c, tc_seq c) \<in> set (co_committed s')"
    using now by (intro exI [of _ r]) (simp add: on_item_def Let_def on_record_def c_def)
next
  show "as_str (json_index (case jl_parse jl (rc_content rc) of Inr v \<Rightarrow> v | Inl _ \<Rightarrow> JNull) ''idempotency_key'') = None
      \<Longrightarrow> tc_key c = ''?''"
    by (simp add: c_def parse_call_def Let_def or_else_def)
qed

definition demo_jl :: json_lib where
  "demo_jl = \<lparr>jl_parse = (\<lambda>s. Inr (JObj [(''tool_name'', JStr s)])), jl_print = (\<lambda>_. []),
     jl_session_id = (\<lambda>_. Inl []), jl_job_result = (\<lambda>_. Inl [])\<rparr>"

definition demo_record :: "string \<Rightarrow> u64 \<Rightarrow> Record" where
  "demo_record tool n = \<lparr>rc_event_type = ''tool_invoked'', rc_content = tool, rc_metadata = Map.empty,
     rc_shard_id = 0, rc_seq = n\<rparr>"

definition demo_events :: "consumer_event list" where
  "demo_events = [Item (Inr (RecordFrame (demo_record ''fixus_read'' 1))), CallBegin 0,
     CallFinish 0 (Inr \<lparr>to_success = True, to_output = JNull, to_error = None\<rparr>) 5]"

theorem known_key_not_executed_witness:
  "\<exists>r s'. consumer_step demo_jl 4 (Item (Inr (RecordFrame (demo_record ''fixus_bash'' 2)))) (run_consumer demo_jl 4 demo_events) = s'
     \<and> result_for demo_events (run_consumer demo_jl 4 demo_events) ''?'' r
     \<and> length (co_tasks s') = 1
     \<and> produce_result (parse_call demo_jl (demo_record ''fixus_bash'' 2)) r \<in> set (co_produced s')"
proof -
  let ?rc = "demo_record ''fixus_bash'' 2" and ?s = "run_consumer demo_jl 4 demo_events"
  have k: "tc_key (parse_call demo_jl (demo_record t n)) = ''?''" for t n
    by (simp add: parse_call_def demo_jl_def demo_record_def Let_def json_index_def json_get_def as_str_def or_else_def)
  have ran: "0 < length (co_tasks ?s)" "ct_phase (co_tasks ?s ! 0) = CallDone"
    "tc_key (ct_call (co_tasks ?s ! 0)) = tc_key (parse_call demo_jl ?rc)" "co_phase ?s = Consuming"
    "length (co_tasks ?s) = 1"
    by (simp_all add: run_consumer_def demo_events_def consumer_start_def on_item_def Let_def on_record_def
        commit_queued_def cache_get_def call_begin_def call_finish_def set_call_phase_def k)
      (simp_all add: demo_record_def)
  have "rc_event_type ?rc = ''tool_invoked''" by (simp add: demo_record_def)
  from known_key_not_executed [OF ran(1-4) this] show ?thesis
    using ran(5) by (auto simp: k)
qed

end
