(* ===== verification/BrokerTools.thy ===== *)
theory BrokerTools
  imports BrokerLoop ApiClient WorkspaceProofs
begin

text \<open>
  The tools of the broker: the session a call is executed in, and the tools on files end to end, from
  the input of a tool through the HTTP client, the API key and the handlers of the server to the file
  system and back.
\<close>

section \<open>The session of a task\<close>

lemma get_or_create_keeps:
  "sm_sessions (fst x) t = Some sid \<Longrightarrow> sm_sessions (fst (snd (get_or_create http t' ov x))) t = Some sid"
  by (auto simp: get_or_create_def split: prod.splits option.splits sum.splits)

lemma get_or_create_known:
  "sm_sessions (fst x) t = Some sid \<Longrightarrow> get_or_create http t ov x = (Inr sid, x)"
  by (cases x) (simp add: get_or_create_def)

lemma beside_map_fst [simp]: "fst (snd (beside_map m x)) = fst x"
  by (simp add: beside_map_def split: prod.splits)

lemma execute_keeps:
  "sm_sessions (fst x) t = Some sid \<Longrightarrow> sm_sessions (fst (snd (execute http tool input n t' ov x))) t = Some sid"
  using get_or_create_keeps [of x t sid http t' ov]
  by (auto simp: execute_def st_bind_def Let_def split: prod.splits sum.splits)

lemma execute_known:
  "sm_sessions (fst x) t = Some sid \<Longrightarrow>
     execute http tool input n t ov x =
       beside_map (run_tool http sid (if 0 < n then Some (show_nat n @ ''s'') else None) tool input) x"
  by (simp add: execute_def st_bind_def get_or_create_known Let_def)

text \<open>Calls one after the other, of any tasks.\<close>

definition run_calls :: "'s sandbox_http \<Rightarrow> tool_call list \<Rightarrow> SessionMap \<times> 's \<Rightarrow> SessionMap \<times> 's" where
  "run_calls http = fold (\<lambda>c x. snd (execute_call http c x))"

lemma run_calls_keeps:
  "sm_sessions (fst x) t = Some sid \<Longrightarrow> sm_sessions (fst (run_calls http cs x)) t = Some sid"
  by (induction cs arbitrary: x) (simp_all add: run_calls_def execute_call_def execute_keeps)

text \<open>
  C36. The first call of a task decides its session for good. Once the first call of a task has got a
  session, with the profile that its network policy asked for or the default one, every later call of
  the task is executed in that session, whatever was called in between and whatever network policy
  the later call declares.
\<close>

theorem first_call_decides_session:
  assumes new: "sm_sessions sm (tc_session_src first) = None"
    and created: "ht_create_session http (or_else (tc_override first) (sm_default_profile sm))
      [(''fixus_task_id'', tc_session_src first)] (sm_session_secs sm) s = (Inr sid, s1)"
    and same: "tc_session_src later = tc_session_src first"
    and x: "x = run_calls http between (snd (execute_call http first (sm, s)))"
  shows "execute_call http later x =
    beside_map (run_tool http sid (if 0 < tc_timeout_secs later then Some (show_nat (tc_timeout_secs later) @ ''s'') else None)
      (tc_tool_name later) (tc_input later)) x"
proof -
  have "get_or_create http (tc_session_src first) (tc_override first) (sm, s) =
      (Inr sid, (sm\<lparr>sm_sessions := (sm_sessions sm)(tc_session_src first \<mapsto> sid)\<rparr>, s1))"
    using new created by (simp add: get_or_create_def)
  then have "sm_sessions (fst (snd (execute_call http first (sm, s)))) (tc_session_src first) = Some sid"
    by (simp add: execute_call_def execute_def st_bind_def Let_def)
  then have "sm_sessions (fst x) (tc_session_src later) = Some sid"
    unfolding x same by (rule run_calls_keeps)
  then show ?thesis unfolding execute_call_def by (rule execute_known)
qed

text \<open>A server that numbers its sessions and answers every command with the session's name.\<close>

definition demo_http :: "nat sandbox_http" where
  "demo_http = \<lparr>ht_create_session = (\<lambda>profile _ _ n. (Inr (profile @ show_nat n), Suc n)),
     ht_exec = (\<lambda>sid _ _ _. st_ret \<lparr>lr_status = ''Completed'', lr_exit_code = Some 0, lr_stdout = Some sid,
       lr_stderr = None, lr_duration_ms = None, lr_timed_out = Some False\<rparr>),
     ht_get_file = (\<lambda>_ _. st_ret []), ht_put_file = (\<lambda>_ _ _. st_ret ()), ht_head_file = (\<lambda>_ _. st_ret True),
     ht_find = (\<lambda>_ _ _. st_ret []), ht_search = (\<lambda>_ _ _. st_ret []), ht_destroy_session = (\<lambda>_. st_ret ())\<rparr>"

definition demo_tool_call :: "string option \<Rightarrow> tool_call" where
  "demo_tool_call ov = \<lparr>tc_tool_name = ''fixus_bash'', tc_key = ''k'', tc_call_id = ''c'', tc_step_id = ''s'',
     tc_task_id = ''t'', tc_shard_id = 0, tc_seq = 0, tc_override = ov, tc_input = JNull, tc_timeout_secs = 1,
     tc_session_src = ''t''\<rparr>"

theorem first_call_decides_session_witness:
  "\<exists>o' x. execute_call demo_http (demo_tool_call None)
      (snd (execute_call demo_http (demo_tool_call (Some ''git'')) (session_map_new ''shell'' 60, 0))) = (Inr o', x)
     \<and> to_output o' = JObj [(''stdout'', JStr (''git'' @ show_nat 0)), (''stderr'', JStr []), (''exit_code'', JInt 0)]"
proof -
  let ?f = "demo_tool_call (Some ''git'')" and ?sm = "session_map_new ''shell'' 60"
  have new: "sm_sessions ?sm (tc_session_src ?f) = None" by (simp add: session_map_new_def)
  have created: "ht_create_session demo_http (or_else (tc_override ?f) (sm_default_profile ?sm))
      [(''fixus_task_id'', tc_session_src ?f)] (sm_session_secs ?sm) 0 = (Inr (''git'' @ show_nat 0), Suc 0)"
    by (simp add: demo_http_def demo_tool_call_def or_else_def)
  have same: "tc_session_src (demo_tool_call None) = tc_session_src ?f" by (simp add: demo_tool_call_def)
  show ?thesis
    using first_call_decides_session [OF new created same, of _ "[]"]
    by (simp add: run_calls_def demo_tool_call_def run_tool_def tool_bash_def json_get_def Let_def run_argv_def
        beside_map_def st_bind_def demo_http_def ok_exec_def or_else_def split: prod.splits)
qed

section \<open>The tools and the server\<close>

text \<open>The two calls of the file tools, as the client makes them.\<close>

definition get_call :: "LvClient \<Rightarrow> string \<Rightarrow> string \<Rightarrow> http_call" where
  "get_call lc sid rel = \<lparr>hc_method = ''GET'', hc_url = lc_base lc @ file_url sid rel, hc_auth = lc_auth lc, hc_body = NoBody\<rparr>"

definition put_call :: "LvClient \<Rightarrow> string \<Rightarrow> string \<Rightarrow> string \<Rightarrow> http_call" where
  "put_call lc sid rel data =
     \<lparr>hc_method = ''PUT'', hc_url = lc_base lc @ file_url sid rel, hc_auth = lc_auth lc, hc_body = RawBody data\<rparr>"

lemma client_auth:
  "header_to_str (''Bearer '' @ key) \<noteq> None \<Longrightarrow> lc_auth (lv_client_new url (Some key)) = Some (''Bearer '' @ key)"
  by (auto simp: lv_client_new_def header_to_str_def split: if_splits)

lemma get_file_carried:
  assumes key: "header_to_str (''Bearer '' @ key) \<noteq> None" "lc_auth lc = Some (''Bearer '' @ key)"
    and tr: "tr (get_call lc sid rel) st = carried v (Some key) ti ws enc path (GetFile sid' rel') (get_call lc sid rel) st"
    and enc: "enc (PBytes ''application/octet-stream'' data) = data"
    and read: "session_get_file sid' rel' (ap_sess st) = (Inr data, s')"
  shows "lv_get_file tr lc sid rel st = (Inr data, st\<lparr>ap_sess := s'\<rparr>)"
proof -
  have "handle v ti ws (GetFile sid' rel') st =
      (Some (reply_of 200 (PBytes ''application/octet-stream'' data)), st\<lparr>ap_sess := s'\<rparr>)"
    by (simp add: api_get_file_def on_sessions_def read from_result_def)
  then have "tr (get_call lc sid rel) st = (Inr \<lparr>ha_status = 200, ha_body = Inr data\<rparr>, st\<lparr>ap_sess := s'\<rparr>)"
    using carried_authorized [of "get_call lc sid rel" key v ti ws "GetFile sid' rel'" st] key tr enc
    by (simp add: get_call_def reply_of_def)
  then show ?thesis
    by (simp add: lv_get_file_def lv_call_def st_bind_def lv_send_def get_call_def err_for_def is_success_def http_bytes_def)
qed

lemma put_file_carried:
  assumes key: "header_to_str (''Bearer '' @ key) \<noteq> None" "lc_auth lc = Some (''Bearer '' @ key)"
    and tr: "tr (put_call lc sid rel data) st = carried v (Some key) ti ws enc path (PutFile sid rel data) (put_call lc sid rel data) st"
    and put: "session_put_file sid rel data (ap_sess st) = (Inr (), s')"
  shows "lv_put_file tr lc sid rel data st = (Inr (), st\<lparr>ap_sess := s'\<rparr>)"
proof -
  have "handle v ti ws (PutFile sid rel data) st = (Some (reply_of 200 POk), st\<lparr>ap_sess := s'\<rparr>)"
    by (simp add: api_put_file_def on_sessions_def put from_result_def)
  then have "tr (put_call lc sid rel data) st = (Inr \<lparr>ha_status = 200, ha_body = Inr (enc POk)\<rparr>, st\<lparr>ap_sess := s'\<rparr>)"
    using carried_authorized [of "put_call lc sid rel data" key v ti ws "PutFile sid rel data" st] key tr
    by (simp add: put_call_def reply_of_def)
  then show ?thesis
    by (simp add: lv_put_file_def lv_call_def st_bind_def lv_send_def put_call_def err_for_def is_success_def)
qed

text \<open>A whole file, as the reading tool gives it.\<close>

definition read_output :: "string \<Rightarrow> ToolOutput" where
  "read_output data =
     (let ls = lines (utf8_lossy data)
      in success_output [(''content'', JStr (join [CHR 0x0A] ls)), (''total_lines'', json_nat (length ls)),
           (''lines_returned'', json_nat (length ls)), (''offset'', json_nat 0)])"

lemma tool_read_whole:
  assumes "get_str input ''file_path'' = Some rel" "json_get input ''offset'' = None" "json_get input ''limit'' = None"
    and "ht_get_file http sid rel st = (Inr data, st')"
  shows "run_tool http sid to ''fixus_read'' input st = (Inr (read_output data), st')"
  using assms by (simp add: run_tool_def tool_read_def need_def st_bind_def read_window_def or_else_def
      as_usize_def read_output_def Let_def)

text \<open>
  C37. What a tool writes, a tool reads. With the key of the server, a task that has a session writes
  text to a relative path of its link-free workspace and then reads the path: both calls go through
  the client, the API key, the handlers and the session manager to the file system; the read returns
  the lines of exactly that text, and no other file of the server is changed.
\<close>

theorem tool_write_then_read:
  fixes url key rel
  defines "lc \<equiv> lv_client_new url (Some key)"
  assumes key: "header_to_str (''Bearer '' @ key) \<noteq> None"
    and tr: "\<And>st. tr (get_call lc sid rel) st =
        carried v (Some key) ti ws enc (file_url sid rel) (GetFile sid rel) (get_call lc sid rel) st"
      "\<And>st. tr (put_call lc sid rel data) st =
        carried v (Some key) ti ws enc (file_url sid rel) (PutFile sid rel data) (put_call lc sid rel data) st"
    and enc: "\<And>ct d. enc (PBytes ct d) = d"
    and session: "sm_sessions sm task = Some sid" "table_get (ss_table (ap_sess st)) sid = Some e"
    and base: "base = jw_workspace (ent_workspace e)" "base \<noteq> []" "list_all name_ok (comps base)"
    and disk: "t = ss_disk (ap_sess st)" "dir_at t []"
    and rel: "rel \<noteq> []" "\<not> starts_with ''/'' rel" "''..'' \<notin> set (comps rel)" "kcomps rel = comps rel"
    and free: "free_dir t (comps base @ butlast (comps rel))"
    and target: "view t (comps base @ comps rel) = None \<or> (\<exists>d. view t (comps base @ comps rel) = Some (VFile d))"
    and inputs: "get_str write_in ''file_path'' = Some rel" "get_str write_in ''content'' = Some data"
      "get_str read_in ''file_path'' = Some rel" "json_get read_in ''offset'' = None" "json_get read_in ''limit'' = None"
  shows "\<exists>w st'. execute (lv_client jl tr lc) ''fixus_write'' write_in n task ov (sm, st) = (Inr w, (sm, st'))
    \<and> to_success w
    \<and> execute (lv_client jl tr lc) ''fixus_read'' read_in n task ov (sm, st') = (Inr (read_output data), (sm, st'))
    \<and> (\<forall>q. view (ss_disk (ap_sess st')) q =
         (if q = comps base @ comps rel then Some (VFile data)
          else if strict_prefix q (comps base @ comps rel) then Some VDir else view t q))"
proof -
  obtain t' where t': "put_file base rel data t = (Inr (), t')" "get_file base rel t' = (Inr data, t')"
    "\<forall>q. view t' q = (if q = comps base @ comps rel then Some (VFile data)
          else if strict_prefix q (comps base @ comps rel) then Some VDir else view t q)"
    using put_file_get_file [OF disk(2) base(2,3) rel free target] by blast
  let ?m = "set_disk t' (ap_sess st)"
  let ?st = "st\<lparr>ap_sess := ?m\<rparr>"
  have auth: "lc_auth lc = Some (''Bearer '' @ key)" unfolding lc_def using key by (rule client_auth)
  have "session_put_file sid rel data (ap_sess st) = (Inr (), ?m)"
    using session(2) t'(1) disk(1) base(1)
    by (simp add: session_put_file_def in_workspace_def workspace_dir_def on_disk_def)
  note put = put_file_carried [where tr = tr, OF key auth tr(2) this]
  have "session_get_file sid rel (ap_sess ?st) = (Inr data, ?m)"
    using session(2) t'(2) base(1)
    by (simp add: session_get_file_def in_workspace_def workspace_dir_def on_disk_def set_disk_def ss_disk_def)
  note get = get_file_carried [where tr = tr, OF key auth tr(1) enc this]
  let ?http = "lv_client jl tr lc" and ?to = "if 0 < n then Some (show_nat n @ ''s'') else None"
  have "run_tool ?http sid ?to ''fixus_write'' write_in st =
      (Inr (success_output [(''bytes_written'', json_nat (length data)), (''file_path'', JStr rel)]), ?st)"
    using inputs(1,2) put by (simp add: run_tool_def tool_write_def need_def st_bind_def lv_client_def)
  moreover have "run_tool ?http sid ?to ''fixus_read'' read_in ?st = (Inr (read_output data), ?st)"
    using get by (intro tool_read_whole [OF inputs(3-5)]) (simp add: lv_client_def)
  moreover have "ss_disk (ap_sess ?st) = t'" by simp
  ultimately show ?thesis
    using execute_known [of "(sm, st)" task sid] execute_known [of "(sm, ?st)" task sid] session(1) t'(3)
    by (simp add: beside_map_def success_output_def)
qed

text \<open>A server with one session, whose workspace holds one file.\<close>

definition demo_entry :: SessionEntry where
  "demo_entry = \<lparr>ent_id = ''s'', ent_workspace = \<lparr>jw_root = ''/'', jw_workspace = ''w'', jw_tmp = ''w/tmp'',
       jw_input = ''i'', jw_output = ''o''\<rparr>, ent_profile = profile_shell, ent_created_at = 0, ent_last_activity = 0,
     ent_execs = 0, ent_exec_lock = 0, ent_started_at = 0, ent_alias = None, ent_timeout_secs = None, ent_metadata = []\<rparr>"

definition demo_server :: "runner_parts scheduler \<Rightarrow> app_state" where
  "demo_server sched = \<lparr>ap_sched = sched,
     ap_sess = set_disk demo_tree ((session_manager_new demo_rs NoopLog)\<lparr>ss_table := [(''s'', demo_entry)]\<rparr>)\<rparr>"

lemma demo_server_simps:
  "table_get (ss_table (ap_sess (demo_server sched))) ''s'' = Some demo_entry"
  "ss_disk (ap_sess (demo_server sched)) = demo_tree"
  "jw_workspace (ent_workspace demo_entry) = ''w''"
  by (simp_all add: demo_server_def table_get_def demo_entry_def)

definition body_bytes_of :: "payload \<Rightarrow> string" where
  "body_bytes_of p = (case p of PBytes _ d \<Rightarrow> d | _ \<Rightarrow> [])"

definition demo_sessions :: SessionMap where
  "demo_sessions = (session_map_new ''shell'' 60)\<lparr>sm_sessions := [''t'' \<mapsto> ''s'']\<rparr>"

theorem tool_write_then_read_witness:
  "\<forall>v ti ws sched jl. \<exists>tr st' w.
     execute (lv_client jl tr (lv_client_new ''http://h'' (Some ''k''))) ''fixus_write''
       (JObj [(''file_path'', JStr ''n''), (''content'', JStr ''one'')]) 5 ''t'' None (demo_sessions, demo_server sched)
       = (Inr w, (demo_sessions, st'))
     \<and> execute (lv_client jl tr (lv_client_new ''http://h'' (Some ''k''))) ''fixus_read''
       (JObj [(''file_path'', JStr ''n'')]) 5 ''t'' None (demo_sessions, st') = (Inr (read_output ''one''), (demo_sessions, st'))
     \<and> view (ss_disk (ap_sess st')) [''w'', ''n''] = Some (VFile ''one'')"
proof (intro allI)
  fix v ti ws and sched :: "runner_parts scheduler" and jl
  let ?lc = "lv_client_new ''http://h'' (Some ''k'')" and ?url = "file_url ''s'' ''n''"
  let ?g = "get_call ?lc ''s'' ''n''" and ?p = "put_call ?lc ''s'' ''n'' ''one''" and ?enc = body_bytes_of
  let ?tr = "\<lambda>call st. if call = ?g then carried v (Some ''k'') ti ws ?enc ?url (GetFile ''s'' ''n'') ?g st
    else if call = ?p then carried v (Some ''k'') ti ws ?enc ?url (PutFile ''s'' ''n'' ''one'') ?p st else (Inl [], st)"
  have key: "header_to_str (''Bearer '' @ ''k'') \<noteq> None" by (simp add: header_to_str_def)
  have gp: "?g \<noteq> ?p" by (simp add: get_call_def put_call_def)
  have c: "comps ''w'' = [''w'']" "comps ''n'' = [''n'']" "kcomps ''n'' = [''n'']"
    by (simp_all add: comps_def kcomps_def)
  have free: "free_dir demo_tree [''w'']"
    by (auto simp: free_dir_view prefix_Cons demo_tree_def view_def name_ok_def)
  have target: "view demo_tree [''w'', ''n''] = None" by (simp add: demo_tree_def view_def)
  have "\<exists>w st'. execute (lv_client jl ?tr ?lc) ''fixus_write'' (JObj [(''file_path'', JStr ''n''), (''content'', JStr ''one'')])
       5 ''t'' None (demo_sessions, demo_server sched) = (Inr w, (demo_sessions, st'))
    \<and> to_success w
    \<and> execute (lv_client jl ?tr ?lc) ''fixus_read'' (JObj [(''file_path'', JStr ''n'')]) 5 ''t'' None (demo_sessions, st')
      = (Inr (read_output ''one''), (demo_sessions, st'))
    \<and> (\<forall>q. view (ss_disk (ap_sess st')) q =
         (if q = comps ''w'' @ comps ''n'' then Some (VFile ''one'')
          else if strict_prefix q (comps ''w'' @ comps ''n'') then Some VDir else view demo_tree q))"
    by (rule tool_write_then_read [where sid = "''s''" and v = v and ti = ti and ws = ws and enc = ?enc and e = demo_entry])
      (use key gp free target in \<open>auto simp: c demo_server_simps body_bytes_of_def demo_sessions_def
        session_map_new_def get_str_def json_get_def as_str_def name_ok_def starts_with_iff demo_tree_def\<close>)
  then obtain w st' where
    "execute (lv_client jl ?tr ?lc) ''fixus_write'' (JObj [(''file_path'', JStr ''n''), (''content'', JStr ''one'')])
       5 ''t'' None (demo_sessions, demo_server sched) = (Inr w, (demo_sessions, st'))"
    "execute (lv_client jl ?tr ?lc) ''fixus_read'' (JObj [(''file_path'', JStr ''n'')]) 5 ''t'' None (demo_sessions, st')
      = (Inr (read_output ''one''), (demo_sessions, st'))"
    "view (ss_disk (ap_sess st')) [''w'', ''n''] = Some (VFile ''one'')"
    by (auto simp: c)
  then show "\<exists>tr st' w.
     execute (lv_client jl tr ?lc) ''fixus_write''
       (JObj [(''file_path'', JStr ''n''), (''content'', JStr ''one'')]) 5 ''t'' None (demo_sessions, demo_server sched)
       = (Inr w, (demo_sessions, st'))
     \<and> execute (lv_client jl tr ?lc) ''fixus_read''
       (JObj [(''file_path'', JStr ''n'')]) 5 ''t'' None (demo_sessions, st') = (Inr (read_output ''one''), (demo_sessions, st'))
     \<and> view (ss_disk (ap_sess st')) [''w'', ''n''] = Some (VFile ''one'')"
    by blast
qed

section \<open>Paths in addresses\<close>

text \<open>
  The address parser of the HTTP library resolves dot segments: a plain segment and a following
  parent segment behind the server's address are dropped, before a query or fragment.
\<close>

definition plain_segment :: "string \<Rightarrow> bool" where
  "plain_segment x \<longleftrightarrow> x \<noteq> [] \<and> list_all (\<lambda>c. c \<notin> {CHR ''/'', CHR ''.'', CHR ''%'', CHR ''?'', CHR ''#'', CHR 0x5C}) x"

definition resolves_dots :: "string \<Rightarrow> 's transport \<Rightarrow> bool" where
  "resolves_dots base tr \<longleftrightarrow>
     (\<forall>call p x post st. hc_url call = base @ p @ ''/'' @ x @ ''/../'' @ post \<longrightarrow> plain_segment x \<longrightarrow>
        CHR ''?'' \<notin> set p \<longrightarrow> CHR ''#'' \<notin> set p \<longrightarrow> tr call st = tr (call\<lparr>hc_url := base @ p @ ''/'' @ post\<rparr>) st)"

lemma resolves_dotsD:
  "resolves_dots base tr \<Longrightarrow> hc_url call = base @ p @ ''/'' @ x @ ''/../'' @ post \<Longrightarrow> plain_segment x \<Longrightarrow>
     CHR ''?'' \<notin> set p \<Longrightarrow> CHR ''#'' \<notin> set p \<Longrightarrow> tr call st = tr (call\<lparr>hc_url := base @ p @ ''/'' @ post\<rparr>) st"
  unfolding resolves_dots_def by blast

text \<open>
  C38. The path of a file tool can name another session. The client puts the path that a tool was
  given into the address as it is; with the HTTP library's resolution of dot segments, a task that
  reads \<open>../../B/files/f\<close> gets the file \<open>f\<close> of session \<open>B\<close>, although the task belongs to another
  session.
\<close>

theorem tool_path_reaches_other_session:
  fixes url key
  defines "lc \<equiv> lv_client_new url (Some key)"
  assumes key: "header_to_str (''Bearer '' @ key) \<noteq> None"
    and dots: "resolves_dots (lc_base lc) tr"
    and tr: "\<And>st. tr (get_call lc B f) st = carried v (Some key) ti ws enc (file_url B f) (GetFile B f) (get_call lc B f) st"
    and enc: "\<And>ct d. enc (PBytes ct d) = d"
    and mine: "sm_sessions sm task = Some A" "A \<noteq> B" "plain_segment A"
    and theirs: "session_get_file B f (ap_sess st) = (Inr data, s')"
    and input: "get_str input ''file_path'' = Some (''../../'' @ B @ ''/files/'' @ f)"
      "json_get input ''offset'' = None" "json_get input ''limit'' = None"
  shows "execute (lv_client jl tr lc) ''fixus_read'' input n task ov (sm, st) =
    (Inr (read_output data), (sm, st\<lparr>ap_sess := s'\<rparr>))"
proof -
  let ?rel = "''../../'' @ B @ ''/files/'' @ f" and ?b = "lc_base lc"
  let ?c0 = "get_call lc A ?rel"
  let ?c1 = "?c0\<lparr>hc_url := ?b @ (''/api/v1/sessions/'' @ A) @ ''/'' @ ''../'' @ B @ ''/files/'' @ f\<rparr>"
  have chars: "CHR ''?'' \<notin> set A" "CHR ''#'' \<notin> set A" using mine(3) by (auto simp: plain_segment_def list_all_iff)
  have fs: "plain_segment ''files''" by (simp add: plain_segment_def)
  have "tr ?c0 st = tr ?c1 st"
    by (rule resolves_dotsD [OF dots _ fs]) (use chars in \<open>simp_all add: get_call_def file_url_def session_url_def\<close>)
  also have "\<dots> = tr (?c1\<lparr>hc_url := ?b @ ''/api/v1/sessions'' @ ''/'' @ B @ ''/files/'' @ f\<rparr>) st"
    by (rule resolves_dotsD [OF dots _ mine(3)]) simp_all
  also have "?c1\<lparr>hc_url := ?b @ ''/api/v1/sessions'' @ ''/'' @ B @ ''/files/'' @ f\<rparr> = get_call lc B f"
    by (simp add: get_call_def file_url_def session_url_def)
  also have "tr (get_call lc B f) st = carried v (Some key) ti ws enc (file_url B f) (GetFile B f) ?c0 st"
    using tr [of st] by (simp add: carried_def get_call_def)
  finally have reach: "tr ?c0 st = carried v (Some key) ti ws enc (file_url B f) (GetFile B f) ?c0 st" .
  have "lc_auth lc = Some (''Bearer '' @ key)" unfolding lc_def using key by (rule client_auth)
  note get = get_file_carried [where tr = tr, OF key this reach enc theirs]
  have "run_tool (lv_client jl tr lc) A (if 0 < n then Some (show_nat n @ ''s'') else None) ''fixus_read'' input st =
      (Inr (read_output data), st\<lparr>ap_sess := s'\<rparr>)"
    by (rule tool_read_whole [OF input]) (simp only: lv_client_def sandbox_http.simps get)
  then show ?thesis using execute_known [of "(sm, st)" task A] mine(1) by (simp add: beside_map_def)
qed

text \<open>A parser of addresses that resolves dot segments.\<close>

lemma split_char_app: "split_char d (a @ d # b) = split_char d a @ split_char d b"
proof (induction a)
  case (Cons c a)
  then show ?case by (cases "split_char d a") (auto simp: split: list.splits)
qed simp

definition resolve_segments :: "string \<Rightarrow> string list" where
  "resolve_segments p = fold (\<lambda>x acc. if x = ''..'' then tl acc else x # acc) (split_char (CHR ''/'') p) []"

definition resolve_url :: "string \<Rightarrow> string \<Rightarrow> string list option" where
  "resolve_url base u = map_option resolve_segments (strip_prefix base u)"

lemma resolve_url_dots:
  assumes "plain_segment x"
  shows "resolve_url base (base @ p @ ''/'' @ x @ ''/../'' @ post) = resolve_url base (base @ p @ ''/'' @ post)"
proof -
  have "CHR ''.'' \<notin> set x" and slash: "CHR ''/'' \<notin> set x"
    using assms unfolding plain_segment_def list_all_iff by blast+
  then have x: "CHR ''/'' \<notin> set x" "x \<noteq> ''..''" by (simp_all add: slash) auto
  let ?d = "CHR ''/''" and ?up = "''..'' :: string"
  have up: "?d \<notin> set ?up" by simp
  have a: "split_char ?d (p @ ?d # x @ ?d # ?up @ ?d # post) = split_char ?d p @ split_char ?d (x @ ?d # ?up @ ?d # post)"
    by (rule split_char_app)
  have b: "split_char ?d (x @ ?d # ?up @ ?d # post) = x # ?up # split_char ?d post"
    by (simp only: split_char_append [OF x(1)] split_char_append [OF up])
  have c: "split_char ?d (p @ ?d # post) = split_char ?d p @ split_char ?d post"
    by (rule split_char_app)
  have "resolve_segments (p @ ?d # x @ ?d # ?up @ ?d # post) = resolve_segments (p @ ?d # post)"
    unfolding resolve_segments_def a b c using x(2) by simp
  then show ?thesis by (simp add: resolve_url_def)
qed

theorem tool_path_reaches_other_session_witness:
  "\<forall>v ti ws sched jl. \<exists>tr.
     resolves_dots ''http://h'' tr
     \<and> execute (lv_client jl tr (lv_client_new ''http://h'' (Some ''k''))) ''fixus_read''
       (JObj [(''file_path'', JStr ''../../s/files/a.txt'')]) 5 ''t'' None
       ((session_map_new ''shell'' 60)\<lparr>sm_sessions := [''t'' \<mapsto> ''mine'']\<rparr>, demo_server sched)
       = (Inr (read_output ''old''), ((session_map_new ''shell'' 60)\<lparr>sm_sessions := [''t'' \<mapsto> ''mine'']\<rparr>, demo_server sched))"
proof (intro allI)
  fix v ti ws and sched :: "runner_parts scheduler" and jl
  let ?lc = "lv_client_new ''http://h'' (Some ''k'')" and ?url = "file_url ''s'' ''a.txt''"
  let ?g = "get_call ?lc ''s'' ''a.txt''" and ?sm = "(session_map_new ''shell'' 60)\<lparr>sm_sessions := [''t'' \<mapsto> ''mine'']\<rparr>"
  let ?tr = "\<lambda>call st. if resolve_url ''http://h'' (hc_url call) = resolve_url ''http://h'' (hc_url ?g)
    then carried v (Some ''k'') ti ws body_bytes_of ?url (GetFile ''s'' ''a.txt'') call st else (Inl [], st)"
  have base: "lc_base ?lc = ''http://h''" by (simp add: lv_client_new_def trim_end_char_def)
  have key: "header_to_str (''Bearer '' @ ''k'') \<noteq> None" by (simp add: header_to_str_def)
  have same: "carried v (Some ''k'') ti ws body_bytes_of ?url c (call\<lparr>hc_url := u\<rparr>) st
      = carried v (Some ''k'') ti ws body_bytes_of ?url c call st" for c call u st
    by (simp add: carried_def)
  have dots: "resolves_dots ''http://h'' ?tr"
    unfolding resolves_dots_def
  proof (intro allI impI)
    fix call :: http_call and p x post st
    assume "hc_url call = ''http://h'' @ p @ ''/'' @ x @ ''/../'' @ post" "plain_segment x"
    then have "resolve_url ''http://h'' (hc_url call) = resolve_url ''http://h'' (''http://h'' @ p @ ''/'' @ post)"
      by (simp only: resolve_url_dots)
    moreover have "hc_url (call\<lparr>hc_url := ''http://h'' @ p @ ''/'' @ post\<rparr>) = ''http://h'' @ p @ ''/'' @ post"
      by simp
    ultimately show "?tr call st = ?tr (call\<lparr>hc_url := ''http://h'' @ p @ ''/'' @ post\<rparr>) st"
      by (simp only: same)
  qed
  have c: "comps ''w'' = [''w'']" "comps ''a.txt'' = [''a.txt'']" "kcomps ''w'' = [''w'']" "kcomps ''w/a.txt'' = [''w'', ''a.txt'']"
    by (simp_all add: comps_def kcomps_def)
  have join: "path_join ''w'' ''a.txt'' = ''w/a.txt''" by (simp add: path_join_def starts_with_def)
  have "plain demo_tree [''w'', ''a.txt'']" "dir_at demo_tree []" "lookup demo_tree [''w'', ''a.txt''] = Some (FFile ''old'')"
    by (simp_all add: plain_def demo_tree_def name_ok_def is_link_node_def)
  then have "fs_read ''w/a.txt'' demo_tree = Inr ''old''"
    using fs_read_file [of demo_tree "''w/a.txt''" "''old''"] by (simp add: c)
  then have "get_file ''w'' ''a.txt'' demo_tree = (Inr ''old'', demo_tree)"
    by (simp add: get_file_def sanitize_relpath_def c join lift_query_def starts_with_def)
  then have theirs: "session_get_file ''s'' ''a.txt'' (ap_sess (demo_server sched)) = (Inr ''old'', ap_sess (demo_server sched))"
    by (simp add: session_get_file_def in_workspace_def workspace_dir_def demo_server_simps on_disk_def)
      (simp add: demo_server_def set_disk_def)
  have "execute (lv_client jl ?tr ?lc) ''fixus_read'' (JObj [(''file_path'', JStr ''../../s/files/a.txt'')]) 5 ''t'' None (?sm, demo_server sched)
      = (Inr (read_output ''old''), (?sm, (demo_server sched)\<lparr>ap_sess := ap_sess (demo_server sched)\<rparr>))"
    by (rule tool_path_reaches_other_session [where A = "''mine''" and B = "''s''" and f = "''a.txt''" and v = v
          and ti = ti and ws = ws and enc = body_bytes_of, OF key])
      (use dots theirs in \<open>simp_all add: base plain_segment_def body_bytes_of_def get_str_def json_get_def as_str_def\<close>)
  then show "\<exists>tr. resolves_dots ''http://h'' tr \<and>
     execute (lv_client jl tr ?lc) ''fixus_read'' (JObj [(''file_path'', JStr ''../../s/files/a.txt'')]) 5 ''t'' None (?sm, demo_server sched)
       = (Inr (read_output ''old''), (?sm, demo_server sched))"
    using dots by auto
qed

end
