(* ===== verification/SwapProxy.thy ===== *)
theory SwapProxy
  imports RustStr Prelude
begin

text \<open>
  The proxy outside the sandbox that exchanges a placeholder for the real token,
  \<open>egress-swap-proxy\<close>: its configuration from the environment (\<open>config.rs\<close>), the rewriting of a
  request head (\<open>swap.rs\<close>), and one connection from the head to the relay (\<open>server.rs\<close>). TLS and
  the network are parameters: a connection yields what each read gave, and the upstream can be
  reached or not. Strings and headers are bytes.
\<close>

section \<open>Configuration\<close>

record SwapConfig =
  sw_listen :: string
  sw_sentinel :: string
  sw_real_token :: string
  sw_upstream :: string
  sw_cert_pem :: string
  sw_key_pem :: string
  sw_upstream_ca_pem :: "string option"

definition has_newline :: "string \<Rightarrow> bool" where
  "has_newline s = (CHR 0x0D \<in> set s \<or> CHR 0x0A \<in> set s)"

definition newline_error :: "string \<Rightarrow> string" where
  "newline_error name = name @ '' must not contain CR or LF (header injection)''"

definition required :: "(string \<rightharpoonup> string) \<Rightarrow> string \<Rightarrow> string \<Rightarrow> string + string" where
  "required envv name msg = (case envv name of None \<Rightarrow> Inl msg | Some x \<Rightarrow> Inr x)"

definition env_or :: "(string \<rightharpoonup> string) \<Rightarrow> string \<Rightarrow> string \<Rightarrow> string" where
  "env_or envv name dflt = (case envv name of None \<Rightarrow> dflt | Some x \<Rightarrow> x)"

definition swap_from_env :: "(string \<rightharpoonup> string) \<Rightarrow> string + SwapConfig" where
  "swap_from_env envv =
     res_bind (required envv ''FIXUS_SWAP_SENTINEL'' ''FIXUS_SWAP_SENTINEL required'') (\<lambda>sentinel.
     res_bind (required envv ''FIXUS_SWAP_TOKEN'' ''FIXUS_SWAP_TOKEN required'') (\<lambda>real_token.
     if has_newline sentinel then Inl (newline_error ''FIXUS_SWAP_SENTINEL'')
     else if has_newline real_token then Inl (newline_error ''FIXUS_SWAP_TOKEN'')
     else
     res_bind (required envv ''FIXUS_SWAP_CERT_PEM'' ''FIXUS_SWAP_CERT_PEM required (no self-signed fallback)'') (\<lambda>cert_pem.
     if cert_pem = [] then Inl ''FIXUS_SWAP_CERT_PEM must not be empty''
     else
     res_bind (required envv ''FIXUS_SWAP_KEY_PEM'' ''FIXUS_SWAP_KEY_PEM required (no self-signed fallback)'') (\<lambda>key_pem.
     if key_pem = [] then Inl ''FIXUS_SWAP_KEY_PEM must not be empty''
     else Inr
       \<lparr>sw_listen = env_or envv ''FIXUS_SWAP_LISTEN'' ''127.0.0.1:8443'',
        sw_sentinel = sentinel, sw_real_token = real_token,
        sw_upstream = env_or envv ''FIXUS_SWAP_UPSTREAM'' ''github.com:443'',
        sw_cert_pem = cert_pem, sw_key_pem = key_pem,
        sw_upstream_ca_pem = (case envv ''FIXUS_SWAP_UPSTREAM_CA_PEM'' of
          Some s \<Rightarrow> if s = [] then None else Some s | None \<Rightarrow> None)\<rparr>))))"

section \<open>Rewriting the head\<close>

datatype SwapError = MissingAuthorization | SentinelMismatch | MultipleAuthorization | MalformedHeaderBlock

definition CRLF :: string where
  "CRLF = [CHR 0x0D, CHR 0x0A]"

text \<open>\<open>str::split\<close> by CR LF.\<close>

fun split_crlf :: "string \<Rightarrow> string list" where
  "split_crlf (a # b # s) =
     (if a = CHR 0x0D \<and> b = CHR 0x0A then [] # split_crlf s
      else (case split_crlf (b # s) of [] \<Rightarrow> [[a]] | w # ws \<Rightarrow> (a # w) # ws))"
| "split_crlf s = [s]"

text \<open>\<open>split_once(char::is_whitespace)\<close>.\<close>

definition split_once_ws :: "string \<Rightarrow> (string \<times> string) option" where
  "split_once_ws s =
     (case dropWhile (\<lambda>c. \<not> is_whitespace c) (chars s) of
        [] \<Rightarrow> None
      | _ # r \<Rightarrow> Some (concat (takeWhile (\<lambda>c. \<not> is_whitespace c) (chars s)), concat r))"

definition header_is :: "string \<Rightarrow> string \<Rightarrow> bool" where
  "header_is name line =
     (case split_once (CHR '':'') line of
        Some (n, _) \<Rightarrow> eq_ignore_ascii_case (trim n) name
      | None \<Rightarrow> False)"

text \<open>One header line: whether it was the authorization, and the line to send.\<close>

definition rewrite_line :: "string \<Rightarrow> string \<Rightarrow> string \<Rightarrow> string \<Rightarrow> SwapError + (bool \<times> string)" where
  "rewrite_line sentinel real_token upstream_host line =
     (case split_once (CHR '':'') line of
        None \<Rightarrow> Inr (False, line)
      | Some (name, value) \<Rightarrow>
          (let name = trim name
           in if eq_ignore_ascii_case name ''authorization'' then
                (case split_once_ws (trim value) of
                   Some (scheme, token) \<Rightarrow>
                     if eq_ignore_ascii_case scheme ''bearer'' \<and> trim token = sentinel
                     then Inr (True, ''Authorization: Bearer '' @ real_token)
                     else Inl SentinelMismatch
                 | None \<Rightarrow> Inl SentinelMismatch)
              else if eq_ignore_ascii_case name ''host'' then Inr (False, ''Host: '' @ upstream_host)
              else Inr (False, line)))"

fun rewrite_lines ::
    "string \<Rightarrow> string \<Rightarrow> string \<Rightarrow> string list \<Rightarrow> bool \<Rightarrow> string list \<Rightarrow> SwapError + (bool \<times> string list)" where
  "rewrite_lines sentinel real_token upstream_host [] auth_found acc = Inr (auth_found, acc)"
| "rewrite_lines sentinel real_token upstream_host (l # ls) auth_found acc =
     res_bind (rewrite_line sentinel real_token upstream_host l) (\<lambda>(found, l').
     rewrite_lines sentinel real_token upstream_host ls (auth_found \<or> found) (acc @ [l']))"

definition rewrite_request_headers :: "string \<Rightarrow> string \<Rightarrow> string \<Rightarrow> string \<Rightarrow> SwapError + string" where
  "rewrite_request_headers header_block sentinel real_token upstream_host =
     (if \<not> utf8_valid header_block then Inl MalformedHeaderBlock
      else
        (let ls = split_crlf header_block
         in if ls = [] then Inl MalformedHeaderBlock
            else if length (filter (header_is ''authorization'') (drop 1 ls)) > 1
            then Inl MultipleAuthorization
            else res_bind (rewrite_lines sentinel real_token upstream_host (drop 1 ls) False []) (\<lambda>(auth_found, ls').
              if \<not> auth_found then Inl MissingAuthorization
              else Inr (join CRLF (take 1 ls @ ls')))))"

section \<open>One connection\<close>

definition MAX_HEADER_BYTES :: nat where
  "MAX_HEADER_BYTES = 64 * 1024"

text \<open>The first empty line: what is before it and what is after it.\<close>

fun split_head :: "string \<Rightarrow> (string \<times> string) option" where
  "split_head [] = None"
| "split_head (c # s) =
     (case strip_prefix (CRLF @ CRLF) (c # s) of
        Some r \<Rightarrow> Some ([], r)
      | None \<Rightarrow> map_option (\<lambda>(h, r). (c # h, r)) (split_head s))"

datatype head_result = HeadEof | HeadReadError | HeadTooLarge | HeadRead string string "string option list"

text \<open>A read gives bytes (none at the end of the stream) or fails.\<close>

fun read_head :: "string option list \<Rightarrow> string \<Rightarrow> head_result" where
  "read_head [] buf = HeadEof"
| "read_head (None # rs) buf = HeadReadError"
| "read_head (Some tmp # rs) buf =
     (if tmp = [] then HeadEof
      else
        (let buf = buf @ tmp
         in case split_head buf of
              Some (h, body) \<Rightarrow> HeadRead h body rs
            | None \<Rightarrow> if length buf > MAX_HEADER_BYTES then HeadTooLarge else read_head rs buf))"

text \<open>\<open>rsplit_once\<close>.\<close>

definition rsplit_once :: "char \<Rightarrow> string \<Rightarrow> (string \<times> string) option" where
  "rsplit_once d s = map_option (\<lambda>(b, a). (rev a, rev b)) (split_once d (rev s))"

definition split_host_port :: "string \<Rightarrow> string \<times> u16" where
  "split_host_port s =
     (case rsplit_once (CHR '':'') s of
        Some (h, p) \<Rightarrow> (h, case parse_uint 16 10 p of Some n \<Rightarrow> of_nat n | None \<Rightarrow> 443)
      | None \<Rightarrow> (s, 443))"

definition upstream_host_header :: "string \<Rightarrow> u16 \<Rightarrow> string" where
  "upstream_host_header up_host up_port =
     (if up_port = 443 then up_host else up_host @ '':'' @ show_nat (unat up_port))"

text \<open>
  What a connection came to: nothing, an error, an answer of the proxy itself, or a connection to
  the upstream on which these bytes were sent before the relay of the reads that are left.
\<close>

datatype swap_outcome =
    ConnDropped
  | ConnError
  | Answered string
  | Relayed string u16 string "string option list"

definition answer_431 :: string where
  "answer_431 = ''HTTP/1.1 431 Request Header Fields Too Large'' @ CRLF @ ''Content-Length: 0'' @ CRLF @ CRLF"

definition answer_401 :: string where
  "answer_401 = ''HTTP/1.1 401 Unauthorized'' @ CRLF @ ''Content-Length: 0'' @ CRLF @ CRLF"

definition swap_handle_conn ::
    "(string \<Rightarrow> u16 \<Rightarrow> bool) \<Rightarrow> SwapConfig \<Rightarrow> string option list \<Rightarrow> swap_outcome" where
  "swap_handle_conn reachable cfg reads =
     (case read_head reads [] of
        HeadEof \<Rightarrow> ConnDropped
      | HeadReadError \<Rightarrow> ConnError
      | HeadTooLarge \<Rightarrow> Answered answer_431
      | HeadRead header_block body rs \<Rightarrow>
          (let (up_host, up_port) = split_host_port (sw_upstream cfg)
           in case rewrite_request_headers header_block (sw_sentinel cfg) (sw_real_token cfg)
                     (upstream_host_header up_host up_port) of
                Inl e \<Rightarrow> Answered answer_401
              | Inr rewritten \<Rightarrow>
                  if \<not> reachable up_host up_port then ConnError
                  else Relayed up_host up_port (rewritten @ CRLF @ CRLF @ body) rs))"


section \<open>What is rewritten\<close>

text \<open>An authorization line with the placeholder, and what is sent in the place of a line.\<close>

definition bears :: "string \<Rightarrow> string \<Rightarrow> bool" where
  "bears sentinel line =
     (case split_once (CHR '':'') line of
        None \<Rightarrow> False
      | Some (_, value) \<Rightarrow>
          (case split_once_ws (trim value) of
             None \<Rightarrow> False
           | Some (scheme, token) \<Rightarrow> eq_ignore_ascii_case scheme ''bearer'' \<and> trim token = sentinel))"

definition sent_line :: "string \<Rightarrow> string \<Rightarrow> string \<Rightarrow> string" where
  "sent_line real_token upstream_host line =
     (if header_is ''authorization'' line then ''Authorization: Bearer '' @ real_token
      else if header_is ''host'' line then ''Host: '' @ upstream_host
      else line)"

lemma rewrite_line_spec:
  "rewrite_line sentinel real_token upstream_host l =
     (if header_is ''authorization'' l \<and> \<not> bears sentinel l then Inl SentinelMismatch
      else Inr (header_is ''authorization'' l, sent_line real_token upstream_host l))"
  by (auto simp: rewrite_line_def header_is_def bears_def sent_line_def Let_def split: option.splits prod.splits)

lemma rewrite_lines_spec:
  "rewrite_lines sentinel real_token upstream_host ls auth_found acc =
     (if \<exists>l\<in>set ls. header_is ''authorization'' l \<and> \<not> bears sentinel l then Inl SentinelMismatch
      else Inr (auth_found \<or> (\<exists>l\<in>set ls. header_is ''authorization'' l), acc @ map (sent_line real_token upstream_host) ls))"
  by (induction ls arbitrary: auth_found acc) (auto simp: rewrite_line_spec)

lemma split_crlf_ne [simp]: "split_crlf s \<noteq> []"
  by (induction s rule: split_crlf.induct) (auto split: list.splits)

lemma rewrite_spec:
  "rewrite_request_headers header_block sentinel real_token upstream_host =
     (if \<not> utf8_valid header_block then Inl MalformedHeaderBlock
      else (case filter (header_is ''authorization'') (tl (split_crlf header_block)) of
              [] \<Rightarrow> Inl MissingAuthorization
            | [a] \<Rightarrow>
                if bears sentinel a
                then Inr (join CRLF (hd (split_crlf header_block)
                       # map (sent_line real_token upstream_host) (tl (split_crlf header_block))))
                else Inl SentinelMismatch
            | _ \<Rightarrow> Inl MultipleAuthorization))"
proof -
  let ?hs = "tl (split_crlf header_block)"
  obtain r where ls: "split_crlf header_block = r # ?hs" by (metis list.exhaust_sel split_crlf_ne)
  have ex: "(\<exists>l\<in>set ?hs. header_is ''authorization'' l) \<longleftrightarrow> filter (header_is ''authorization'') ?hs \<noteq> []"
    by (auto simp: filter_empty_conv)
  have bad: "(\<exists>l\<in>set ?hs. header_is ''authorization'' l \<and> \<not> bears sentinel l)
      \<longleftrightarrow> (\<exists>l\<in>set (filter (header_is ''authorization'') ?hs). \<not> bears sentinel l)" by auto
  have hd: "hd (split_crlf header_block) = r" using ls by (metis list.sel(1))
  have d: "drop 1 (split_crlf header_block) = ?hs" "take 1 (split_crlf header_block) = [r]"
    by (simp add: drop_Suc) (subst ls, simp)
  show ?thesis
    unfolding rewrite_request_headers_def Let_def d rewrite_lines_spec ex bad hd
    by (cases "filter (header_is ''authorization'') ?hs") (auto split: list.splits)
qed

text \<open>The lines that are sent are the lines that the upstream sees, when no part has a newline.\<close>

lemma split_crlf_Cons:
  "\<not> starts_with CRLF (c # s) \<Longrightarrow> split_crlf (c # s) = (c # hd (split_crlf s)) # tl (split_crlf s)"
  by (cases s) (auto simp: CRLF_def starts_with_iff split: list.splits)

lemma split_crlf_line:
  "CHR 0x0A \<notin> set w \<Longrightarrow> split_crlf (w @ CRLF @ s) = w # split_crlf s"
proof (induction w)
  case (Cons c w)
  have "\<not> starts_with CRLF (c # w @ CRLF @ s)"
    using Cons.prems by (cases w) (auto simp: starts_with_iff CRLF_def)
  then show ?case using Cons by (simp add: split_crlf_Cons)
qed (simp add: CRLF_def)

lemma split_crlf_end: "CHR 0x0A \<notin> set w \<Longrightarrow> split_crlf w = [w]"
proof (induction w)
  case (Cons c w)
  have "\<not> starts_with CRLF (c # w)" using Cons.prems by (cases w) (auto simp: starts_with_iff CRLF_def)
  then show ?case using Cons by (simp add: split_crlf_Cons)
qed simp

lemma split_crlf_join:
  "ws \<noteq> [] \<Longrightarrow> \<forall>w\<in>set ws. CHR 0x0A \<notin> set w \<Longrightarrow> split_crlf (join CRLF ws) = ws"
proof (induction ws)
  case (Cons w ws)
  then show ?case by (cases "ws = []") (simp_all add: join_Cons split_crlf_line split_crlf_end)
qed simp

lemma config_no_newline: "swap_from_env envv = Inr cfg \<Longrightarrow> \<not> has_newline (sw_real_token cfg) \<and> \<not> has_newline (sw_sentinel cfg)
    \<and> sw_cert_pem cfg \<noteq> [] \<and> sw_key_pem cfg \<noteq> []"
  by (auto simp: swap_from_env_def required_def res_bind_Inr_iff split: option.splits if_splits)

text \<open>
  A line is what is between two CR LF, so that a line feed alone hides a second authorization from
  the check, and both are sent.
\<close>

lemma lone_newline_hides_authorization:
  "rewrite_request_headers
     (''GET / HTTP/1.1'' @ CRLF @ ''Authorization: Bearer s'' @ CRLF @ ''X: y'' @ [CHR 0x0A] @ ''Authorization: Bearer e'')
     ''s'' ''t'' ''h'' =
   Inr (''GET / HTTP/1.1'' @ CRLF @ ''Authorization: Bearer t'' @ CRLF @ ''X: y'' @ [CHR 0x0A] @ ''Authorization: Bearer e'')"
  unfolding rewrite_spec CRLF_def
  by (simp add: header_is_def trim_def eq_ignore_ascii_case_def to_ascii_lowercase_def ascii_lower_def
      bears_def split_once_ws_def sent_line_def is_whitespace_def ascii_def)
     (simp add: char_of_def bit_simps)

section \<open>Properties\<close>

text \<open>
  C26. The real token leaves only for the placeholder. For every sequence of reads, configuration
  and network, a connection is relayed exactly when a whole head was read within the limit, the
  head is valid UTF-8, it has exactly one authorization line, that line is a bearer with exactly the
  configured placeholder, and the upstream can be reached. Then the upstream is the configured one,
  and the first bytes it gets are the head with that line and every host line replaced and all
  other lines as they were, an empty line, and what was read of the body.
\<close>

theorem swap_relays_iff:
  "swap_handle_conn reachable cfg reads = Relayed h p bytes rs \<longleftrightarrow>
     (\<exists>block body a. read_head reads [] = HeadRead block body rs \<and> utf8_valid block
        \<and> filter (header_is ''authorization'') (tl (split_crlf block)) = [a] \<and> bears (sw_sentinel cfg) a
        \<and> (h, p) = split_host_port (sw_upstream cfg) \<and> reachable h p
        \<and> bytes = join CRLF (hd (split_crlf block)
              # map (sent_line (sw_real_token cfg) (upstream_host_header h p)) (tl (split_crlf block)))
            @ CRLF @ CRLF @ body)"
proof (cases "read_head reads []")
  case (HeadRead block body rs')
  obtain h' p' where hp: "split_host_port (sw_upstream cfg) = (h', p')" by (cases "split_host_port (sw_upstream cfg)")
  show ?thesis
    by (simp add: swap_handle_conn_def HeadRead hp rewrite_spec split: list.split) auto
qed (simp_all add: swap_handle_conn_def)

end
