(* ===== verification/GitHttp.thy ===== *)
theory GitHttp
  imports SwapProxy
begin

text \<open>
  The HTTP client of the git helper, \<open>git-remote-fixus/src/http.rs\<close>: one connection per request,
  the bytes of the request, and the reading of the response over its three framings. The TLS
  stream is a parameter: what each read of it gives, bytes (none at the end) or an error. The part
  of \<open>read_buf\<close> from \<open>read_buf_pos\<close> on is \<open>hc_buf\<close>.
\<close>

section \<open>The connection\<close>

datatype io_kind = PermissionDenied | InvalidInput | ConnectionRefused | ConnectionAborted | UnexpectedEofKind | OtherKind

type_synonym io_err = "io_kind \<times> string"

datatype seg = Bytes string | ReadFail io_err

datatype framing = FrLen nat | FrChunked | FrEof

record http_conn =
  hc_segs :: "seg list"
  hc_buf :: string
  hc_src_eof :: bool
  hc_resp_parsed :: bool
  hc_status :: nat
  hc_status_err :: "io_err option"
  hc_head_lines :: string
  hc_framing :: framing
  hc_body_read :: nat
  hc_chunk_rem :: nat
  hc_chunk_done :: bool
  hc_sent :: string
  hc_request_sent :: bool

definition http_new :: "seg list \<Rightarrow> http_conn" where
  "http_new segs =
     \<lparr>hc_segs = segs, hc_buf = [], hc_src_eof = False, hc_resp_parsed = False, hc_status = 0,
      hc_status_err = None, hc_head_lines = [], hc_framing = FrEof, hc_body_read = 0,
      hc_chunk_rem = 0, hc_chunk_done = False, hc_sent = [], hc_request_sent = False\<rparr>"

type_synonym 'a hst = "http_conn \<Rightarrow> (io_err + 'a) \<times> http_conn"

definition pump :: "unit hst" where
  "pump c =
     (if hc_buf c \<noteq> [] then (Inr (), c)
      else case hc_segs c of
          [] \<Rightarrow> (Inr (), c\<lparr>hc_src_eof := True\<rparr>)
        | ReadFail e # r \<Rightarrow> (Inl e, c\<lparr>hc_segs := r\<rparr>)
        | Bytes b # r \<Rightarrow>
            (Inr (), if b = [] then c\<lparr>hc_segs := r, hc_src_eof := True\<rparr>
                     else c\<lparr>hc_segs := r, hc_buf := b\<rparr>))"

text \<open>What is left to read, which every read makes smaller.\<close>

fun seg_size :: "seg \<Rightarrow> nat" where
  "seg_size (Bytes b) = length b + 1"
| "seg_size (ReadFail e) = 1"

definition left :: "http_conn \<Rightarrow> nat" where
  "left c = length (hc_buf c) + sum_list (map seg_size (hc_segs c))"

definition at_eof :: "http_conn \<Rightarrow> bool" where
  "at_eof c = (hc_src_eof c \<and> hc_buf c = [])"

lemma pump_left: "left (snd (pump c)) \<le> left c"
  by (auto simp: pump_def left_def split: list.splits seg.splits)

lemma pump_more:
  "pump c = (Inr u, c1) \<Longrightarrow> hc_buf c = [] \<Longrightarrow> \<not> at_eof c1 \<Longrightarrow> left c1 < left c \<and> hc_buf c1 \<noteq> []"
  by (auto simp: pump_def left_def at_eof_def split: list.splits seg.splits if_splits)

definition strip_cr :: "string \<Rightarrow> string" where
  "strip_cr w = (if w \<noteq> [] \<and> last w = CHR 0x0D then butlast w else w)"

text \<open>\<open>read_crlf_line\<close>; \<open>line\<close> is what earlier rounds of the loop have gathered.\<close>

function read_line_loop :: "string \<Rightarrow> string option hst" where
  "read_line_loop line c =
     (case pump c of
        (Inl e, c1) \<Rightarrow> (Inl e, c1)
      | (Inr _, c1) \<Rightarrow>
          if hc_buf c = [] \<and> at_eof c1
          then (Inr (if line = [] then None else Some (utf8_lossy line)), c1)
          else case split_once (CHR 0x0A) (hc_buf c1) of
              Some (a, b) \<Rightarrow> (Inr (Some (utf8_lossy (strip_cr (line @ a)))), c1\<lparr>hc_buf := b\<rparr>)
            | None \<Rightarrow> read_line_loop (line @ hc_buf c1) (c1\<lparr>hc_buf := []\<rparr>))"
  by pat_completeness auto
termination
proof (relation "measure (\<lambda>(line, c). left c)", goal_cases)
  case (2 line c x c1 u)
  then have p: "pump c = (Inr u, c1)" and e: "\<not> (hc_buf c = [] \<and> at_eof c1)" by simp_all
  show ?case
  proof (cases "hc_buf c = []")
    case True
    with pump_more [OF p] e show ?thesis by (simp add: left_def)
  next
    case False
    with p have "c1 = c" by (simp add: pump_def)
    with False show ?thesis by (simp add: left_def)
  qed
qed simp

declare read_line_loop.simps [simp del]

definition read_crlf_line :: "string option hst" where
  "read_crlf_line c = read_line_loop [] c"

section \<open>The request\<close>

definition header_bytes :: "string \<Rightarrow> string" where
  "header_bytes h = h @ (if ends_with [CHR 0x0A] h then [] else CRLF)"

definition is_connection_header :: "string \<Rightarrow> bool" where
  "is_connection_header h = starts_with ''connection:'' (to_ascii_lowercase h)"

definition request_bytes ::
    "string \<Rightarrow> string \<Rightarrow> string \<Rightarrow> string list \<Rightarrow> string option \<Rightarrow> string" where
  "request_bytes meth path host headers body =
     meth @ '' '' @ path @ '' HTTP/1.1'' @ CRLF
     @ ''Host: '' @ host @ CRLF
     @ concat (map header_bytes headers)
     @ (if list_ex is_connection_header headers then [] else ''Connection: close'' @ CRLF)
     @ (case body of
          Some b \<Rightarrow> ''Content-Length: '' @ show_nat (length b) @ CRLF @ CRLF @ b
        | None \<Rightarrow> CRLF)"

text \<open>\<open>wr\<close> is the error of the stream, if it fails before everything is written.\<close>

definition send_request ::
    "io_err option \<Rightarrow> string \<Rightarrow> string \<Rightarrow> string \<Rightarrow> string list \<Rightarrow> string option \<Rightarrow> unit hst" where
  "send_request wr meth path host headers body c =
     (case wr of
        Some e \<Rightarrow> (Inl e, c)
      | None \<Rightarrow> (Inr (), c\<lparr>hc_sent := hc_sent c @ request_bytes meth path host headers body,
                            hc_request_sent := True\<rparr>))"

section \<open>The head of the response\<close>

text \<open>The effect of one header line on whether the body is chunked and on its length.\<close>

definition header_effect :: "string \<Rightarrow> bool \<times> nat option \<Rightarrow> bool \<times> nat option" where
  "header_effect line fr =
     (case split_once (CHR '':'') line of
        None \<Rightarrow> fr
      | Some (n, v) \<Rightarrow>
          (let name = trim n; value = trim v
           in if eq_ignore_ascii_case name ''content-length'' then (fst fr, parse_uint 64 10 (trim value))
              else if eq_ignore_ascii_case name ''transfer-encoding'' \<and> eq_ignore_ascii_case value ''chunked''
              then (True, snd fr)
              else fr))"

lemma read_line_loop_left:
  "left (snd (read_line_loop line c)) \<le> left c \<and>
   (\<forall>l. fst (read_line_loop line c) = Inr (Some l) \<longrightarrow> left (snd (read_line_loop line c)) < left c \<or> line \<noteq> [])"
proof (induction line c rule: read_line_loop.induct)
  case (1 line c)
  show ?case
  proof (cases "pump c")
    case (Pair r c1)
    have le: "left c1 \<le> left c" using pump_left [of c] by (simp add: Pair)
    show ?thesis
    proof (cases r)
      case (Inr u)
      show ?thesis
      proof (cases "hc_buf c = [] \<and> at_eof c1")
        case False
        show ?thesis
        proof (cases "split_once (CHR 0x0A) (hc_buf c1)")
          case None
          have lt: "left (c1\<lparr>hc_buf := []\<rparr>) < left c"
            using False le pump_more [of c u c1] Pair Inr
            by (cases "hc_buf c = []") (auto simp: left_def pump_def)
          show ?thesis
            using "1.IH" [OF Pair [symmetric] Inr False None] Pair Inr False None lt le
            by (subst (1 2 3) read_line_loop.simps) auto
        next
          case (Some ab)
          then show ?thesis using Pair Inr False le
            by (subst (1 2 3) read_line_loop.simps) (auto simp: left_def split_once_Some split: prod.splits)
        qed
      qed (use Pair Inr le in \<open>subst (1 2 3) read_line_loop.simps, simp\<close>)
    qed (use Pair le in \<open>subst (1 2 3) read_line_loop.simps, simp\<close>)
  qed
qed

lemma read_crlf_line_left: "left (snd (read_crlf_line c)) \<le> left c"
  using read_line_loop_left [of "[]" c] by (simp add: read_crlf_line_def)

lemma read_crlf_line_less: "read_crlf_line c = (Inr (Some l), c1) \<Longrightarrow> left c1 < left c"
  using read_line_loop_left [of "[]" c] by (simp add: read_crlf_line_def)

text \<open>\<open>parse_response\<close>: the header lines up to the empty one, then the framing and the status.\<close>

function header_loop :: "bool \<times> nat option \<Rightarrow> (bool \<times> nat option) hst" where
  "header_loop fr c =
     (case read_crlf_line c of
        (Inl e, c1) \<Rightarrow> (Inl e, c1)
      | (Inr None, c1) \<Rightarrow> (Inr fr, c1)
      | (Inr (Some l), c1) \<Rightarrow>
          if l = [] then (Inr fr, c1)
          else header_loop (header_effect l fr)
                 (c1\<lparr>hc_head_lines := hc_head_lines c1 @ l @ [CHR 0x0A]\<rparr>))"
  by pat_completeness auto
termination
proof (relation "measure (\<lambda>(fr, c). left c)", goal_cases)
  case (2 fr c x c1 y l)
  then show ?case using read_crlf_line_less [of c l c1] by (simp add: left_def)
qed simp

declare header_loop.simps [simp del]

definition status_error :: "nat \<Rightarrow> io_err option" where
  "status_error status =
     (if status = 401 then Some (PermissionDenied, ''HTTP 401 Unauthorized'')
      else if \<not> (200 \<le> status \<and> status < 300) then Some (OtherKind, ''HTTP status '' @ show_nat status)
      else None)"

definition status_of_line :: "string \<Rightarrow> nat" where
  "status_of_line l =
     (case drop 1 (split_char (CHR '' '') l) of
        [] \<Rightarrow> 0
      | code_word # _ \<Rightarrow> (case parse_uint 16 10 code_word of Some n \<Rightarrow> n | None \<Rightarrow> 0))"

definition framing_of :: "bool \<times> nat option \<Rightarrow> framing" where
  "framing_of fr = (if fst fr then FrChunked else case snd fr of Some n \<Rightarrow> FrLen n | None \<Rightarrow> FrEof)"

definition parse_response :: "unit hst" where
  "parse_response c =
     (if hc_resp_parsed c then (Inr (), c)
      else case read_crlf_line (c\<lparr>hc_resp_parsed := True\<rparr>) of
          (Inl e, c1) \<Rightarrow> (Inl e, c1)
        | (Inr None, c1) \<Rightarrow> (Inr (), c1\<lparr>hc_status_err := Some (OtherKind, ''empty HTTP response'')\<rparr>)
        | (Inr (Some status_line), c1) \<Rightarrow>
            (case header_loop (False, None) (c1\<lparr>hc_status := status_of_line status_line\<rparr>) of
               (Inl e, c2) \<Rightarrow> (Inl e, c2)
             | (Inr fr, c2) \<Rightarrow>
                 (Inr (), c2\<lparr>hc_framing := framing_of fr,
                    hc_status_err := (case status_error (hc_status c2) of
                       Some e \<Rightarrow> Some e | None \<Rightarrow> hc_status_err c2)\<rparr>)))"

section \<open>The body\<close>

definition read_raw :: "nat \<Rightarrow> string hst" where
  "read_raw room c =
     (case pump c of
        (Inl e, c1) \<Rightarrow> (Inl e, c1)
      | (Inr _, c1) \<Rightarrow>
          if hc_buf c1 = [] then (Inr [], c1)
          else (Inr (take room (hc_buf c1)), c1\<lparr>hc_buf := drop room (hc_buf c1)\<rparr>))"

definition chunk_size :: "string \<Rightarrow> nat" where
  "chunk_size line =
     (let s = trim (hd (split_char (CHR '';'') line))
      in if s = [] then 0 else case parse_uint 64 16 s of Some n \<Rightarrow> n | None \<Rightarrow> 0)"

text \<open>The size line of the next chunk: whether there is one.\<close>

definition next_chunk :: "bool hst" where
  "next_chunk c =
     (case read_crlf_line c of
        (Inl e, c1) \<Rightarrow> (Inl e, c1)
      | (Inr None, c1) \<Rightarrow> (Inr False, c1\<lparr>hc_chunk_done := True\<rparr>)
      | (Inr (Some line), c1) \<Rightarrow>
          if chunk_size line = 0
          then (Inr False, (snd (read_crlf_line c1))\<lparr>hc_chunk_done := True\<rparr>)
          else (Inr True, c1\<lparr>hc_chunk_rem := chunk_size line\<rparr>))"

text \<open>The part of the current chunk that is buffered, and the line end after a whole chunk.\<close>

definition take_chunk :: "nat \<Rightarrow> http_conn \<Rightarrow> string \<times> http_conn" where
  "take_chunk room c =
     (let want = min (hc_chunk_rem c) room;
          avail = min (length (hc_buf c)) want;
          c1 = c\<lparr>hc_buf := drop avail (hc_buf c), hc_chunk_rem := hc_chunk_rem c - avail\<rparr>
      in (take avail (hc_buf c), if hc_chunk_rem c1 = 0 then snd (read_crlf_line c1) else c1))"

lemma next_chunk_less: "next_chunk c = (Inr True, c1) \<Longrightarrow> left c1 < left c \<and> 0 < hc_chunk_rem c1"
  using read_crlf_line_less [of c]
  by (auto simp: next_chunk_def left_def split: prod.splits sum.splits option.splits if_splits)

lemma take_chunk_left:
  "left (snd (take_chunk room c)) + length (fst (take_chunk room c)) \<le> left c"
proof -
  let ?k = "min (length (hc_buf c)) (min (hc_chunk_rem c) room)"
  let ?c1 = "c\<lparr>hc_buf := drop ?k (hc_buf c), hc_chunk_rem := hc_chunk_rem c - ?k\<rparr>"
  have "left ?c1 + ?k = left c" by (simp add: left_def)
  moreover have "left (snd (read_crlf_line ?c1)) \<le> left ?c1" by (rule read_crlf_line_left)
  ultimately show ?thesis by (auto simp: take_chunk_def Let_def)
qed

text \<open>\<open>read_chunked\<close>: \<open>room\<close> is what is left of the caller's buffer, \<open>acc\<close> what was written.\<close>

lemma take_chunk_stalls:
  "take_chunk room c = ([], c1) \<Longrightarrow> 0 < room \<Longrightarrow> 0 < hc_chunk_rem c \<Longrightarrow> hc_buf c = [] \<and> c1 = c"
  by (auto simp: take_chunk_def Let_def min_def split: if_splits)

function read_chunked :: "nat \<Rightarrow> string \<Rightarrow> string hst" where
  "read_chunked room acc c =
     (if room = 0 \<or> hc_chunk_done c then (Inr acc, c)
      else case (if hc_chunk_rem c = 0 then next_chunk c else (Inr True, c)) of
          (Inl e, c1) \<Rightarrow> (Inl e, c1)
        | (Inr another, c1) \<Rightarrow>
            if \<not> another then (Inr acc, c1)
            else (case take_chunk room c1 of
               (got, c2) \<Rightarrow>
                 if length got < room \<and> hc_buf c2 = [] then
                   (case pump c2 of
                      (Inl e, c3) \<Rightarrow> (Inl e, c3)
                    | (Inr _, c3) \<Rightarrow>
                        if at_eof c3 then (Inr (acc @ got), c3)
                        else read_chunked (room - length got) (acc @ got) c3)
                 else read_chunked (room - length got) (acc @ got) c2))"
  by pat_completeness auto
termination
proof (relation "measure (\<lambda>(room, acc, c). left c)", goal_cases)
  case (2 room acc c x c1 another got c2 z c3 u)
  have "left c1 \<le> left c" using 2 next_chunk_less [of c c1] by (auto split: if_splits)
  moreover have "left c2 \<le> left c1" using take_chunk_left [of room c1] 2 by (metis add_leD1 snd_conv)
  moreover have "left c3 < left c2" using pump_more [of c2 u c3] 2 by auto
  ultimately show ?case by simp
next
  case (3 room acc c x c1 another got c2)
  have le: "left c1 \<le> left c" and rem: "0 < hc_chunk_rem c1"
    using 3 next_chunk_less [of c c1] by (auto split: if_splits)
  have "left c2 + length got \<le> left c1" using take_chunk_left [of room c1] 3 by (metis fst_conv snd_conv)
  moreover have "got \<noteq> []" using take_chunk_stalls [of room c1 c2] rem 3 by auto
  ultimately show ?case using le by (cases got) auto
qed simp

declare read_chunked.simps [simp del]

definition read_body :: "nat \<Rightarrow> string hst" where
  "read_body room c =
     (case hc_status_err c of
        Some e \<Rightarrow> (Inl e, c)
      | None \<Rightarrow>
          (case parse_response c of
             (Inl e, c1) \<Rightarrow> (Inl e, c1)
           | (Inr _, c1) \<Rightarrow>
               (case hc_status_err c1 of
                  Some e \<Rightarrow> (Inl e, c1)
                | None \<Rightarrow>
                    (case hc_framing c1 of
                       FrEof \<Rightarrow> read_raw room c1
                     | FrLen n \<Rightarrow>
                         if n \<le> hc_body_read c1 then (Inr [], c1)
                         else (case read_raw (min (n - hc_body_read c1) room) c1 of
                            (Inl e, c2) \<Rightarrow> (Inl e, c2)
                          | (Inr got, c2) \<Rightarrow>
                              (Inr got, c2\<lparr>hc_body_read := hc_body_read c2 + length got\<rparr>))
                     | FrChunked \<Rightarrow> read_chunked room [] c1))))"

lemma read_chunked_left:
  "fst (read_chunked room acc c) = Inr b \<Longrightarrow> left (snd (read_chunked room acc c)) + length b \<le> left c + length acc"
proof (induction room acc c rule: read_chunked.induct)
  case (1 room acc c)
  show ?case
  proof (cases "room = 0 \<or> hc_chunk_done c")
    case True
    then have "read_chunked room acc c = (Inr acc, c)" by (subst read_chunked.simps) auto
    then show ?thesis using "1.prems" by simp
  next
    case open_: False
    obtain r c1 where nc: "(if hc_chunk_rem c = 0 then next_chunk c else (Inr True, c)) = (r, c1)" by fastforce
    have next_le: "\<And>k d. next_chunk c = (Inr k, d) \<Longrightarrow> left d \<le> left c"
      using read_crlf_line_left [of c] read_crlf_line_left
      by (auto simp: next_chunk_def left_def split: prod.splits sum.splits option.splits if_splits)
         (metis left_def order.trans snd_conv)+
    show ?thesis
    proof (cases r)
      case (Inl e)
      then show ?thesis using "1.prems" open_ nc by (simp add: read_chunked.simps [of room acc c])
    next
      case (Inr another)
      have le1: "left c1 \<le> left c" using nc Inr next_le by (auto split: if_splits)
      obtain got c2 where tc: "take_chunk room c1 = (got, c2)" by fastforce
      have le2: "left c2 + length got \<le> left c1" using take_chunk_left [of room c1] by (simp add: tc)
      obtain p c3 where pc: "pump c2 = (p, c3)" by fastforce
      have le3: "left c3 \<le> left c2" using pump_left [of c2] by (simp add: pc)
      show ?thesis
      proof (cases "\<not> another")
        case True
        then have "read_chunked room acc c = (Inr acc, c1)"
          using open_ nc Inr by (subst read_chunked.simps) auto
        then show ?thesis using "1.prems" le1 by simp
      next
        case another: False
        show ?thesis
        proof (cases "length got < room \<and> hc_buf c2 = []")
          case stall: True
          show ?thesis
          proof (cases p)
            case (Inl e)
            then show ?thesis using "1.prems" open_ nc Inr another tc stall pc
              by (simp add: read_chunked.simps [of room acc c])
          next
            case p: (Inr u)
            show ?thesis
              using "1.IH"(1) [OF open_ nc [symmetric] Inr another tc [symmetric] stall pc [symmetric] p]
                "1.prems" open_ nc Inr another tc stall pc p le1 le2 le3
              by (auto simp: read_chunked.simps [of room acc c] split: if_splits)
          qed
        next
          case go: False
          show ?thesis
            using "1.IH"(2) [OF open_ nc [symmetric] Inr another tc [symmetric] go] "1.prems" open_ nc Inr another tc go le1 le2
            by (auto simp: read_chunked.simps [of room acc c] split: if_splits)
        qed
      qed
    qed
  qed
qed

lemma header_loop_left: "left (snd (header_loop fr c)) \<le> left c"
proof (induction fr c rule: header_loop.induct)
  case (1 fr c)
  have le: "left (snd (read_crlf_line c)) \<le> left c" by (rule read_crlf_line_left)
  show ?case
    using le "1.IH" by (subst header_loop.simps) (fastforce simp: left_def split: prod.splits sum.splits option.splits)
qed

lemma parse_response_left: "left (snd (parse_response c)) \<le> left c"
proof -
  obtain r c1 where rl: "read_crlf_line (c\<lparr>hc_resp_parsed := True\<rparr>) = (r, c1)" by fastforce
  have le: "left c1 \<le> left c"
    using read_crlf_line_left [of "c\<lparr>hc_resp_parsed := True\<rparr>"] by (simp add: left_def rl)
  obtain q c2 where hl: "\<And>l. r = Inr (Some l) \<Longrightarrow> header_loop (False, None) (c1\<lparr>hc_status := status_of_line l\<rparr>) = (q, c2)"
    by (metis (no_types) option.inject prod.exhaust sum.inject(2))
  have "r = Inr (Some l) \<Longrightarrow> left c2 \<le> left c" for l
    using header_loop_left [of "(False, None)" "c1\<lparr>hc_status := status_of_line l\<rparr>"] hl [of l] le
    by (simp add: left_def)
  then show ?thesis
    using rl hl le by (auto simp: parse_response_def left_def split: sum.splits option.splits)
qed

lemma read_raw_left: "read_raw room c = (Inr b, c1) \<Longrightarrow> left c1 + length b \<le> left c"
  using pump_left [of c] by (auto simp: read_raw_def left_def split: prod.splits sum.splits if_splits)

lemma read_body_left: "read_body room c = (Inr b, c1) \<Longrightarrow> left c1 + length b \<le> left c"
proof -
  assume r: "read_body room c = (Inr b, c1)"
  obtain q c2 where p: "parse_response c = (q, c2)" by fastforce
  have le: "left c2 \<le> left c" using parse_response_left [of c] by (simp add: p)
  from r p have "hc_status_err c = None" "hc_status_err c2 = None" "q = Inr ()"
    by (auto simp: read_body_def split: option.splits sum.splits)
  note ok = this
  show ?thesis
  proof (cases "hc_framing c2")
    case (FrLen n)
    have "read_raw (min (n - hc_body_read c2) room) c2 = (Inr d, c3) \<Longrightarrow> left c3 + length d \<le> left c" for d c3
      using read_raw_left le by (meson order.trans)
    then show ?thesis using r p ok FrLen le
      by (fastforce simp: read_body_def left_def split: if_splits prod.splits sum.splits)
  next
    case FrChunked
    then show ?thesis using r p ok le read_chunked_left [of room "[]" c2 b] by (simp add: read_body_def)
  next
    case FrEof
    then show ?thesis using r p ok le read_raw_left [of room c2 b c1] by (simp add: read_body_def)
  qed
qed

text \<open>
  \<open>BodyReader\<close>: its buffer is filled by reads of 8192 bytes until one gives nothing or an error;
  a consumer that reads to the end gets what these reads gave, and then the error.
\<close>

function body_bytes :: "http_conn \<Rightarrow> string \<times> io_err option" where
  "body_bytes c =
     (case read_body 8192 c of
        (Inl e, c1) \<Rightarrow> ([], Some e)
      | (Inr b, c1) \<Rightarrow>
          if b = [] then ([], None)
          else (case body_bytes c1 of (rest, e) \<Rightarrow> (b @ rest, e)))"
  by pat_completeness auto
termination
proof (relation "measure left", goal_cases)
  case (2 c x c1 b)
  then show ?case using read_body_left [of 8192 c b c1] by (cases b) auto
qed simp

declare body_bytes.simps [simp del]

section \<open>The client\<close>

record FixusHttp =
  fh_auth_header :: "string option"

definition with_default_roots :: "(string \<rightharpoonup> string) \<Rightarrow> FixusHttp" where
  "with_default_roots envv =
     \<lparr>fh_auth_header = (case envv ''FIXUS_GIT_SENTINEL'' of
        None \<Rightarrow> None
      | Some s \<Rightarrow> if trim s = [] then None else Some (''Authorization: Bearer '' @ s))\<rparr>"

definition split_url :: "string \<Rightarrow> io_err + (string \<times> string)" where
  "split_url url =
     (if CHR 0x0D \<in> set url \<or> CHR 0x0A \<in> set url
      then Inl (InvalidInput, ''URL must not contain CR or LF'')
      else
        (let rest = (case strip_prefix ''https://'' url of
                       Some r \<Rightarrow> r
                     | None \<Rightarrow> (case strip_prefix ''http://'' url of Some r \<Rightarrow> r | None \<Rightarrow> url))
         in Inr (takeWhile (\<lambda>c. c \<noteq> CHR ''/'') rest,
                 if CHR ''/'' \<in> set rest then dropWhile (\<lambda>c. c \<noteq> CHR ''/'') rest else ''/'')))"

definition port_from_auth :: "string \<Rightarrow> nat" where
  "port_from_auth auth =
     (case rsplit_once (CHR '':'') auth of
        Some (_, p) \<Rightarrow> (case parse_uint 16 10 p of Some n \<Rightarrow> n | None \<Rightarrow> 443)
      | None \<Rightarrow> 443)"

definition all_headers :: "FixusHttp \<Rightarrow> string list \<Rightarrow> string list" where
  "all_headers h headers = (case fh_auth_header h of Some auth \<Rightarrow> auth # headers | None \<Rightarrow> headers)"

text \<open>
  \<open>get\<close> and \<open>post\<close>: \<open>dial host port\<close> is the dialled stream. The request of \<open>post\<close> is sent when
  its body is dropped, and an error of sending it is not looked at.
\<close>

definition http_get ::
    "(string \<Rightarrow> nat \<Rightarrow> io_err + seg list) \<Rightarrow> io_err option \<Rightarrow> FixusHttp \<Rightarrow> string \<Rightarrow> string list \<Rightarrow> io_err + http_conn" where
  "http_get dial wr h url headers =
     res_bind (split_url url) (\<lambda>(host, path).
     res_bind (dial (hd (split_char (CHR '':'') host)) (port_from_auth host)) (\<lambda>segs.
       case send_request wr ''GET'' path host (all_headers h headers) None (http_new segs) of
         (Inl e, _) \<Rightarrow> Inl e
       | (Inr _, c) \<Rightarrow> Inr c))"

definition http_post ::
    "(string \<Rightarrow> nat \<Rightarrow> io_err + seg list) \<Rightarrow> io_err option \<Rightarrow> FixusHttp \<Rightarrow> string \<Rightarrow> string list \<Rightarrow> string \<Rightarrow> io_err + http_conn" where
  "http_post dial wr h url headers body =
     res_bind (split_url url) (\<lambda>(host, path).
     res_bind (dial (hd (split_char (CHR '':'') host)) (port_from_auth host)) (\<lambda>segs.
       Inr (snd (send_request wr ''POST'' path host (all_headers h headers) (Some body) (http_new segs)))))"

end
