(* ===== verification/Certs.thy ===== *)
theory Certs
  imports Prelude
begin

text \<open>
  Certificates to trust, as the git helper (\<open>git-remote-fixus/src/dialer.rs\<close>) and the swap proxy
  (\<open>egress-swap-proxy/src/server.rs\<close>) read them from PEM texts. The library gives the items of a text:
  a certificate, or an error for an item that cannot be read; and whether a store accepts one.
\<close>

datatype 'cert roots = WebpkiRoots | OnlyRoots "'cert list"

text \<open>A certificate that the store does not accept is left out; a store with none is the error \<open>none\<close>.\<close>

fun roots_from_pem :: "string \<Rightarrow> ('cert \<Rightarrow> bool) \<Rightarrow> (string + 'cert) list \<Rightarrow> 'cert list \<Rightarrow> string + 'cert list" where
  "roots_from_pem none accepts [] roots = (if roots = [] then Inl none else Inr roots)"
| "roots_from_pem none accepts (Inl e # items) roots = Inl e"
| "roots_from_pem none accepts (Inr cert # items) roots =
     roots_from_pem none accepts items (if accepts cert then roots @ [cert] else roots)"

text \<open>A set of roots is never empty and holds only certificates of the text.\<close>

lemma roots_from_pem_set:
  "roots_from_pem none accepts items roots = Inr rs \<Longrightarrow>
     rs \<noteq> [] \<and> set rs = set roots \<union> {c. Inr c \<in> set items \<and> accepts c} \<and> (\<forall>e. Inl e \<notin> set items)"
  by (induction none accepts items roots rule: roots_from_pem.induct) (auto split: if_splits)

end
