(* ===== verification/GitDial.thy ===== *)
theory GitDial
  imports GitHttp Socks Certs
begin

text \<open>
  The dialling layer of the git helper, \<open>git-remote-fixus/src/dialer.rs\<close>: the certificates it trusts
  and the SOCKS5h handshake with the proxy of the job, after which TLS begins. The socket is seen
  from the client: the bytes it has sent and how many it has read; \<open>peer\<close> gives all that the other
  side answers to what was sent so far. TLS is a parameter.
\<close>

section \<open>Trust\<close>

definition pem_config :: "('cert \<Rightarrow> bool) \<Rightarrow> (string \<Rightarrow> (string + 'cert) list) \<Rightarrow> string \<Rightarrow> string + 'cert roots" where
  "pem_config accepts certs pem = res_bind (roots_from_pem ''no CA certs found in PEM'' accepts (certs pem) []) (\<lambda>rs. Inr (OnlyRoots rs))"

definition ca_file_config ::
    "('cert \<Rightarrow> bool) \<Rightarrow> (string \<Rightarrow> (string + 'cert) list) \<Rightarrow> (string \<Rightarrow> string + string) \<Rightarrow> string \<Rightarrow> string + 'cert roots" where
  "ca_file_config accepts certs read_file path = res_bind (read_file path) (pem_config accepts certs)"

definition env_client_config ::
    "('cert \<Rightarrow> bool) \<Rightarrow> (string \<Rightarrow> (string + 'cert) list) \<Rightarrow> (string \<Rightarrow> string + string) \<Rightarrow> (string \<rightharpoonup> string) \<Rightarrow> 'cert roots" where
  "env_client_config accepts certs read_file envv =
     (let from_file = (case envv ''SANDBOX_CA_FILE'' of
            Some path \<Rightarrow>
              if path \<noteq> [] then (case ca_file_config accepts certs read_file path of Inr c \<Rightarrow> c | Inl _ \<Rightarrow> WebpkiRoots)
              else WebpkiRoots
          | None \<Rightarrow> WebpkiRoots)
      in case envv ''SANDBOX_CA_PEM'' of
           Some pem \<Rightarrow>
             if pem \<noteq> [] then (case pem_config accepts certs pem of Inr c \<Rightarrow> c | Inl _ \<Rightarrow> from_file) else from_file
         | None \<Rightarrow> from_file)"

text \<open>The roots are certificates of a text that was given, or the built-in ones.\<close>

lemma env_client_config_roots:
  assumes "env_client_config accepts certs read_file envv = OnlyRoots rs"
  shows "rs \<noteq> [] \<and> (\<exists>pem. set rs = {c. Inr c \<in> set (certs pem) \<and> accepts c}
    \<and> (envv ''SANDBOX_CA_PEM'' = Some pem \<or> (\<exists>path. envv ''SANDBOX_CA_FILE'' = Some path \<and> read_file path = Inr pem)))"
proof -
  have p: "rs \<noteq> [] \<and> set rs = {c. Inr c \<in> set (certs pem) \<and> accepts c}" if "pem_config accepts certs pem = Inr (OnlyRoots rs)" for pem
    using that roots_from_pem_set [of "''no CA certs found in PEM''" accepts "certs pem" "[]" rs]
    by (auto simp: pem_config_def res_bind_def split: sum.splits)
  show ?thesis
    using assms
    by (auto simp: env_client_config_def ca_file_config_def res_bind_def Let_def
        split: option.splits if_splits sum.splits dest!: p)
qed

text \<open>A PEM text that cannot be used makes the helper trust the built-in roots instead.\<close>

lemma unusable_pem_falls_back:
  assumes "envv ''SANDBOX_CA_PEM'' = Some pem" and "roots_from_pem ''no CA certs found in PEM'' accepts (certs pem) [] = Inl e"
    and "envv ''SANDBOX_CA_FILE'' = None"
  shows "env_client_config accepts certs read_file envv = WebpkiRoots"
  using assms by (simp add: env_client_config_def pem_config_def res_bind_def)

section \<open>The handshake\<close>

record sock =
  sk_sent :: string
  sk_read :: nat

type_synonym 'a sst = "(sock, io_err, 'a) st"

definition sock_write :: "(string \<Rightarrow> io_err option) \<Rightarrow> string \<Rightarrow> unit sst" where
  "sock_write wr data k =
     (case wr (sk_sent k) of Some e \<Rightarrow> (Inl e, k) | None \<Rightarrow> (Inr (), k\<lparr>sk_sent := sk_sent k @ data\<rparr>))"

text \<open>When the peer answers too little, the error is the one that comes when it closes the connection.\<close>

definition sock_read_exact :: "(string \<Rightarrow> string) \<Rightarrow> nat \<Rightarrow> string sst" where
  "sock_read_exact peer n k =
     (let avail = drop (sk_read k) (peer (sk_sent k))
      in if n \<le> length avail then (Inr (take n avail), k\<lparr>sk_read := sk_read k + n\<rparr>)
         else (Inl (UnexpectedEofKind, ''failed to fill whole buffer''), k\<lparr>sk_read := sk_read k + length avail\<rparr>))"

text \<open>
  TLS: whether a host is a valid server name, whether a connection can be set up, and what flushing,
  which drives the handshake over the socket, gives: an error or the decrypted reads.
\<close>

record 'cfg tls_lib =
  tl_server_name :: "string \<Rightarrow> string option"
  tl_new :: "'cfg \<Rightarrow> string \<Rightarrow> string option"
  tl_flush :: "'cfg \<Rightarrow> string \<Rightarrow> io_err + seg list"

definition tls_connect :: "'cfg tls_lib \<Rightarrow> 'cfg \<Rightarrow> string \<Rightarrow> io_err + seg list" where
  "tls_connect tls cfg host =
     (case tl_server_name tls host of
        Some e \<Rightarrow> Inl (InvalidInput, e)
      | None \<Rightarrow> (case tl_new tls cfg host of Some e \<Rightarrow> Inl (ConnectionAborted, e) | None \<Rightarrow> tl_flush tls cfg host))"

definition debug_bytes :: "string \<Rightarrow> string" where
  "debug_bytes b = ''['' @ join '', '' (map (\<lambda>c. show_nat (code c)) b) @ '']''"

definition rejected :: "nat \<Rightarrow> io_err" where
  "rejected rep = (PermissionDenied, ''socks5 connect rejected: REP='' @ show_nat rep)"

definition too_long :: io_err where
  "too_long = (InvalidInput, ''host name too long for SOCKS5 DOMAIN (>255 bytes)'')"

definition connect_with_config ::
    "io_err option \<Rightarrow> (string \<Rightarrow> io_err option) \<Rightarrow> (string \<Rightarrow> string) \<Rightarrow> 'cfg tls_lib \<Rightarrow> 'cfg \<Rightarrow> string \<Rightarrow> u16 \<Rightarrow> seg list sst" where
  "connect_with_config conn_err wr peer tls cfg host port =
     (case conn_err of
        Some e \<Rightarrow> st_err e
      | None \<Rightarrow>
     st_bind (sock_write wr (map byte [5, 1, 0])) (\<lambda>_.
     st_bind (sock_read_exact peer 2) (\<lambda>greeting_reply.
       if greeting_reply \<noteq> map byte [5, 0]
       then st_err (ConnectionRefused, ''socks5 greeting rejected: got '' @ debug_bytes greeting_reply @ '', expected [05 00]'')
       else if 255 < length host then st_err too_long
       else
     st_bind (sock_write wr (map byte [5, 1, 0, 3, length host] @ host
         @ map byte [unat port div 256, unat port mod 256])) (\<lambda>_.
     st_bind (sock_read_exact peer 10) (\<lambda>rep.
       if code (rep ! 0) \<noteq> 5 then st_err (OtherKind, ''socks5 reply bad VER: '' @ show_nat (code (rep ! 0)))
       else if code (rep ! 1) \<noteq> 0 then st_err (rejected (code (rep ! 1)))
       else (\<lambda>k. (tls_connect tls cfg host, k)))))))"

definition connect_default ::
    "io_err option \<Rightarrow> (string \<Rightarrow> io_err option) \<Rightarrow> (string \<Rightarrow> string) \<Rightarrow> 'cert roots tls_lib \<Rightarrow> string \<Rightarrow> u16 \<Rightarrow> seg list sst" where
  "connect_default conn_err wr peer tls host port = connect_with_config conn_err wr peer tls WebpkiRoots host port"

definition fresh_sock :: sock where
  "fresh_sock = \<lparr>sk_sent = [], sk_read = 0\<rparr>"

section \<open>Through the proxy of the job\<close>

text \<open>What the proxy has answered when it has got these bytes.\<close>

definition job_proxy ::
    "(string \<Rightarrow> string) \<Rightarrow> AllowlistMatcher \<Rightarrow> (string \<Rightarrow> io_error + 'addr list) \<Rightarrow> ('addr \<Rightarrow> bool) \<Rightarrow> string \<Rightarrow> 'addr conn" where
  "job_proxy lower m lookup_host connect sent =
     snd (handle_conn (\<lambda>_. True) lower m lookup_host connect (new_conn sent))"

lemma job_proxy_greeting:
  "cn_out (job_proxy lower m lookup_host connect (map byte [5, 1, 0])) = map byte [5, 0]
   \<and> cn_lookups (job_proxy lower m lookup_host connect (map byte [5, 1, 0])) = []
   \<and> cn_relay (job_proxy lower m lookup_host connect (map byte [5, 1, 0])) = None"
  by (simp add: job_proxy_def handle_conn_def st_bind_def new_conn_def read_exact_def write_all_def)

text \<open>The answer of the proxy to a request, as the code in its second byte.\<close>

definition proxy_code ::
    "(string \<Rightarrow> string) \<Rightarrow> AllowlistMatcher \<Rightarrow> (string \<Rightarrow> io_error + 'addr list) \<Rightarrow> ('addr \<Rightarrow> bool) \<Rightarrow> string \<Rightarrow> u16 \<Rightarrow> nat" where
  "proxy_code lower m lookup_host connect host port =
     (if \<not> is_allowed lower m host port then 2
      else case lookup_host (host_port host port) of
          Inl _ \<Rightarrow> 4
        | Inr as \<Rightarrow> if as = [] then 4 else if \<not> list_ex connect as then 5 else 0)"

lemma job_proxy_request:
  assumes "length host < 256" and "utf8_valid host"
  shows "cn_out (job_proxy lower m lookup_host connect (socks_request host port)) =
      map byte [5, 0] @ reply_bytes (proxy_code lower m lookup_host connect host port)"
  using proxy_answers [OF assms, of lower m lookup_host connect port "[]"]
  by (auto simp: job_proxy_def proxy_code_def Let_def split: sum.splits if_splits)

lemma reply_bytes_parts [simp]:
  "length (reply_bytes n) = 10" "n < 256 \<Longrightarrow> code (reply_bytes n ! 0) = 5" "n < 256 \<Longrightarrow> code (reply_bytes n ! Suc 0) = n"
  by (simp_all add: reply_bytes_def)

text \<open>
  C27. The helper dials through the proxy of its job. With the proxy at the other end, dialling a host
  ends in one of these ways and no other: the name is too long, and the proxy is asked for nothing;
  the proxy refuses with the code 2 for a host that is not allowed, 4 for a name it cannot resolve, 5
  when no address accepts; or the proxy relays to the first address that accepts and the result is
  that of TLS over the relay, for the host that was asked for. The proxy asks the name service only
  for an allowed host.
\<close>

theorem dial_through_proxy:
  fixes tls :: "'cfg tls_lib" and cfg host port and lower m and lookup_host :: "string \<Rightarrow> io_error + 'addr list" and connect
  defines "peer \<equiv> (\<lambda>sent. cn_out (job_proxy lower m lookup_host connect sent))"
  assumes "utf8_valid host"
  shows "case connect_with_config None (\<lambda>_. None) peer tls cfg host port fresh_sock of
     (r, k) \<Rightarrow>
       (let c = job_proxy lower m lookup_host connect (sk_sent k) in
        if 255 < length host then r = Inl too_long \<and> cn_lookups c = [] \<and> cn_relay c = None
        else if \<not> is_allowed lower m host port then r = Inl (rejected 2) \<and> cn_lookups c = [] \<and> cn_relay c = None
        else case lookup_host (host_port host port) of
            Inl _ \<Rightarrow> r = Inl (rejected 4) \<and> cn_relay c = None
          | Inr as \<Rightarrow>
              if as = [] then r = Inl (rejected 4) \<and> cn_relay c = None
              else if \<not> list_ex connect as then r = Inl (rejected 5) \<and> cn_relay c = None
              else r = tls_connect tls cfg host \<and> cn_relay c = find connect as)"
proof -
  let ?dial = "connect_with_config None (\<lambda>_. None) peer tls cfg host port fresh_sock"
  have greet: "peer (map byte [5, 1, 0]) = map byte [5, 0]"
    using job_proxy_greeting [of lower m lookup_host connect] by (simp add: peer_def)
  show ?thesis
  proof (cases "255 < length host")
    case True
    have "?dial = (Inl too_long, \<lparr>sk_sent = map byte [5, 1, 0], sk_read = 2\<rparr>)"
      using greet True
      by (simp add: connect_with_config_def st_bind_def sock_write_def sock_read_exact_def fresh_sock_def st_err_def Let_def)
    then show ?thesis using True job_proxy_greeting [of lower m lookup_host connect] by simp
  next
    case False
    let ?rep = "proxy_code lower m lookup_host connect host port"
    have req: "map byte [5, 1, 0] @ map byte [5, 1, 0, 3, length host] @ host @ map byte [unat port div 256, unat port mod 256]
        = socks_request host port" by (simp add: socks_request_def)
    have answer: "peer (socks_request host port) = map byte [5, 0] @ reply_bytes ?rep"
      unfolding peer_def by (rule job_proxy_request) (use False assms(2) in auto)
    have code: "?rep < 256" by (auto simp: proxy_code_def split: sum.split)
    have dial: "?dial = (if ?rep = 0 then tls_connect tls cfg host else Inl (rejected ?rep),
        \<lparr>sk_sent = socks_request host port, sk_read = 12\<rparr>)"
      using greet False answer req code
      by (simp add: connect_with_config_def st_bind_def sock_write_def sock_read_exact_def fresh_sock_def st_err_def Let_def)
    have answers: "length host < 256" using False by simp
    show ?thesis
      unfolding dial using False proxy_answers [OF answers assms(2), of lower m lookup_host connect port "[]"]
      by (simp add: job_proxy_def Let_def proxy_code_def split: sum.splits if_splits)
  qed
qed

theorem dial_through_proxy_witness:
  "fst (connect_with_config None (\<lambda>_. None)
      (\<lambda>sent. cn_out (job_proxy to_ascii_lowercase (matcher_new to_ascii_lowercase [\<lparr>er_host = ''a.io'', er_port = None\<rparr>])
         (\<lambda>_. Inr [(1::nat), 2]) (\<lambda>a. 1 < a) sent))
      \<lparr>tl_server_name = (\<lambda>_. None), tl_new = (\<lambda>_ _. None), tl_flush = (\<lambda>_ _. Inr [Bytes ''hello''])\<rparr> () ''a.io'' 443 fresh_sock)
    = Inr [Bytes ''hello'']"
proof -
  let ?m = "matcher_new to_ascii_lowercase [\<lparr>er_host = ''a.io'', er_port = None\<rparr>]"
  let ?tls = "\<lparr>tl_server_name = (\<lambda>_. None), tl_new = (\<lambda>_ _. None), tl_flush = (\<lambda>_ _. Inr [Bytes ''hello''])\<rparr> :: unit tls_lib"
  have al: "is_allowed to_ascii_lowercase ?m ''a.io'' 443"
    by (simp add: is_allowed_def matcher_new_def host_matches_def port_matches_def to_ascii_lowercase_def ascii_lower_eval)
  have "utf8_valid ''a.io''" by simp
  from dial_through_proxy [OF this, where lower = to_ascii_lowercase and m = ?m and lookup_host = "\<lambda>_. Inr [(1::nat), 2]"
      and connect = "\<lambda>a. 1 < a" and port = 443 and tls = ?tls and cfg = "()"] al
  show ?thesis by (simp add: tls_connect_def Let_def split: prod.splits)
qed

end
