(* ===== verification/GitHttpProofs.thy ===== *)
theory GitHttpProofs
  imports GitHttp
begin

text \<open>
  What the HTTP client of the git helper reads. The reference functions read the response as one
  string; the client reads it in pieces, with a buffer and a position inside the current chunk.
  Both agree on every response, well formed or not, however the network cuts it.
\<close>

section \<open>The reference\<close>

definition next_line :: "string \<Rightarrow> string option \<times> string" where
  "next_line s =
     (if s = [] then (None, [])
      else case split_once (CHR 0x0A) s of
          Some (a, b) \<Rightarrow> (Some (utf8_lossy (strip_cr a)), b)
        | None \<Rightarrow> (Some (utf8_lossy s), []))"

lemma next_line_less: "next_line s = (Some l, r) \<Longrightarrow> length r < length s"
  by (auto simp: next_line_def split_once_Some split: if_splits option.splits prod.splits)

lemma next_line_le: "length (snd (next_line s)) \<le> length s"
  by (auto simp: next_line_def split_once_Some split: option.split prod.split)

lemma next_line_Nil [simp]: "next_line [] = (None, [])"
  by (simp add: next_line_def)

function head_reference :: "bool \<times> nat option \<Rightarrow> string \<Rightarrow> (bool \<times> nat option) \<times> string" where
  "head_reference fr s =
     (case next_line s of
        (None, r) \<Rightarrow> (fr, r)
      | (Some l, r) \<Rightarrow> if l = [] then (fr, r) else head_reference (header_effect l fr) r)"
  by pat_completeness auto
termination
  by (relation "measure (\<lambda>(fr, s). length s)") (auto dest: next_line_less [OF sym])

declare head_reference.simps [simp del]

function chunk_decode :: "string \<Rightarrow> string" where
  "chunk_decode s =
     (case next_line s of
        (None, _) \<Rightarrow> []
      | (Some l, r) \<Rightarrow>
          if chunk_size l = 0 then []
          else take (chunk_size l) r
            @ (if length r < chunk_size l then [] else chunk_decode (snd (next_line (drop (chunk_size l) r)))))"
  by pat_completeness auto
termination
proof (relation "measure length", goal_cases)
  case (2 s a r l)
  then show ?case
    using next_line_less [of s l r] next_line_le [of "drop (chunk_size l) r"] by simp
qed simp

declare chunk_decode.simps [simp del]

lemma chunk_decode_Nil [simp]: "chunk_decode [] = []"
  by (simp add: chunk_decode.simps)

definition http_reference :: "string \<Rightarrow> string \<times> io_err option" where
  "http_reference s =
     (case next_line s of
        (None, _) \<Rightarrow> ([], Some (OtherKind, ''empty HTTP response''))
      | (Some status_line, r) \<Rightarrow>
          (case (status_error (status_of_line status_line), head_reference (False, None) r) of
             (Some e, _) \<Rightarrow> ([], Some e)
           | (None, (fr, body)) \<Rightarrow>
               (case framing_of fr of
                  FrLen n \<Rightarrow> take n body
                | FrEof \<Rightarrow> body
                | FrChunked \<Rightarrow> chunk_decode body, None)))"

section \<open>Reading in pieces\<close>

fun seg_bytes :: "seg \<Rightarrow> string" where
  "seg_bytes (Bytes b) = b"
| "seg_bytes (ReadFail e) = []"

definition data_seg :: "seg \<Rightarrow> bool" where
  "data_seg s = (seg_bytes s \<noteq> [])"

definition clean :: "http_conn \<Rightarrow> bool" where
  "clean c = list_all data_seg (hc_segs c)"

definition flat :: "http_conn \<Rightarrow> string" where
  "flat c = hc_buf c @ concat (map seg_bytes (hc_segs c))"

text \<open>A read changes the stream, the buffer and the end-of-file mark only.\<close>

definition moved :: "http_conn \<Rightarrow> http_conn \<Rightarrow> bool" where
  "moved c c1 = (c1 = c\<lparr>hc_buf := hc_buf c1, hc_segs := hc_segs c1, hc_src_eof := hc_src_eof c1\<rparr>)"

lemma moved_refl [simp]: "moved c c"
  by (simp add: moved_def)

lemma moved_trans: "moved c c1 \<Longrightarrow> moved c1 c2 \<Longrightarrow> moved c c2"
  by (cases c; cases c1; cases c2) (simp add: moved_def)

lemma moved_buf: "moved c c1 \<Longrightarrow> moved c (c1\<lparr>hc_buf := b\<rparr>)"
  by (cases c; cases c1) (simp add: moved_def)

lemma moved_fields:
  "moved c c1 \<Longrightarrow> hc_resp_parsed c1 = hc_resp_parsed c \<and> hc_status c1 = hc_status c
     \<and> hc_status_err c1 = hc_status_err c \<and> hc_framing c1 = hc_framing c
     \<and> hc_body_read c1 = hc_body_read c \<and> hc_chunk_rem c1 = hc_chunk_rem c \<and> hc_chunk_done c1 = hc_chunk_done c"
  by (cases c; cases c1) (simp add: moved_def)

lemma pump_flat:
  assumes "clean c"
  obtains c1 where "pump c = (Inr (), c1)" "clean c1" "flat c1 = flat c" "moved c c1"
    "hc_buf c1 = [] \<Longrightarrow> at_eof c1" "at_eof c1 \<Longrightarrow> hc_buf c = [] \<Longrightarrow> flat c = []"
proof (cases "hc_buf c = []")
  case buf: True
  show ?thesis
  proof (cases "hc_segs c")
    case Nil
    with buf assms show ?thesis
      by (intro that [of "c\<lparr>hc_src_eof := True\<rparr>"])
         (simp_all add: pump_def clean_def flat_def moved_def at_eof_def)
  next
    case (Cons s r)
    then obtain b where s: "s = Bytes b" "b \<noteq> []" using assms by (cases s) (auto simp: clean_def data_seg_def)
    with buf assms Cons show ?thesis
      by (intro that [of "c\<lparr>hc_segs := r, hc_buf := b\<rparr>"])
         (simp_all add: pump_def clean_def flat_def moved_def at_eof_def)
  qed
next
  case False
  then show ?thesis using assms by (intro that [of c]) (simp_all add: pump_def)
qed

lemma split_once_append:
  "split_once d (a @ b) = (case split_once d a of Some (p, q) \<Rightarrow> Some (p, q @ b)
     | None \<Rightarrow> map_option (\<lambda>(p, q). (a @ p, q)) (split_once d b))"
proof (induction a)
  case (Cons x a)
  then show ?case by (cases "split_once d a"; cases "split_once d b") auto
qed (cases "split_once d b"; auto)

lemma read_line_flat:
  assumes "clean c" "CHR 0x0A \<notin> set line"
  shows "\<exists>c1. read_line_loop line c = (Inr (fst (next_line (line @ flat c))), c1)
     \<and> clean c1 \<and> flat c1 = snd (next_line (line @ flat c)) \<and> moved c c1"
  using assms
proof (induction line c rule: read_line_loop.induct)
  case (1 line c)
  obtain c1 where p: "pump c = (Inr (), c1)" "clean c1" "flat c1 = flat c" "moved c c1"
    "hc_buf c1 = [] \<Longrightarrow> at_eof c1" "at_eof c1 \<Longrightarrow> hc_buf c = [] \<Longrightarrow> flat c = []"
    using pump_flat [OF "1.prems"(1)] by blast
  have none: "split_once (CHR 0x0A) line = None" using "1.prems"(2) by (simp add: split_once_None)
  show ?case
  proof (cases "hc_buf c = [] \<and> at_eof c1")
    case True
    then show ?thesis using p none by (subst read_line_loop.simps) (simp add: next_line_def)
  next
    case False
    show ?thesis
    proof (cases "split_once (CHR 0x0A) (hc_buf c1)")
      case (Some ab)
      obtain a b where ab: "ab = (a, b)" by fastforce
      have so: "split_once (CHR 0x0A) (line @ flat c) = Some (line @ a, b @ concat (map seg_bytes (hc_segs c1)))"
        unfolding p(3) [symmetric] using Some ab none by (simp add: split_once_append flat_def [of c1])
      then have "line @ flat c \<noteq> []" by (metis option.distinct(1) split_once.simps(1))
      then have nl: "next_line (line @ flat c) =
          (Some (utf8_lossy (strip_cr (line @ a))), b @ concat (map seg_bytes (hc_segs c1)))"
        by (simp add: next_line_def so)
      show ?thesis using p False Some ab nl
        by (subst read_line_loop.simps) (auto simp add: clean_def flat_def moved_buf)
    next
      case None
      let ?c = "c1\<lparr>hc_buf := []\<rparr>"
      have eq: "(line @ hc_buf c1) @ flat ?c = line @ flat c" using p(3) by (simp add: flat_def)
      have m: "moved c ?c" using p(4) by (rule moved_buf)
      have "clean ?c" "CHR 0x0A \<notin> set (line @ hc_buf c1)"
        using p(2) None "1.prems"(2) by (simp_all add: clean_def split_once_None)
      then show ?thesis
        using "1.IH" [OF p(1) [symmetric] refl False None] p False None moved_trans [OF m]
        unfolding eq by (subst read_line_loop.simps) auto
    qed
  qed
qed

lemma read_crlf_line_flat:
  assumes "clean c"
  obtains c1 where "read_crlf_line c = (Inr (fst (next_line (flat c))), c1)"
    "clean c1" "flat c1 = snd (next_line (flat c))" "moved c c1"
  using read_line_flat [of c "[]"] assms by (auto simp: read_crlf_line_def)

section \<open>Chunked bodies\<close>

text \<open>What a connection inside a chunked body has still to give.\<close>

definition pending :: "http_conn \<Rightarrow> string" where
  "pending c =
     (if hc_chunk_done c then []
      else if hc_chunk_rem c = 0 then chunk_decode (flat c)
      else take (hc_chunk_rem c) (flat c)
        @ (if length (flat c) < hc_chunk_rem c then []
           else chunk_decode (snd (next_line (drop (hc_chunk_rem c) (flat c))))))"

definition keeps :: "http_conn \<Rightarrow> http_conn \<Rightarrow> bool" where
  "keeps c c1 = (hc_resp_parsed c1 = hc_resp_parsed c \<and> hc_status_err c1 = hc_status_err c
     \<and> hc_framing c1 = hc_framing c \<and> hc_body_read c1 = hc_body_read c)"

lemma keeps_refl [simp]: "keeps c c"
  by (simp add: keeps_def)

lemma keeps_trans: "keeps c c1 \<Longrightarrow> keeps c1 c2 \<Longrightarrow> keeps c c2"
  by (simp add: keeps_def)

lemma moved_keeps: "moved c c1 \<Longrightarrow> keeps c c1"
  by (simp add: keeps_def moved_fields)

lemma next_chunk_flat:
  assumes c: "clean c" "\<not> hc_chunk_done c" "hc_chunk_rem c = 0"
  obtains b c1 where "next_chunk c = (Inr b, c1)" "clean c1" "pending c1 = pending c" "keeps c c1"
    "hc_chunk_done c1 = (\<not> b)" "b \<Longrightarrow> 0 < hc_chunk_rem c1"
proof -
  obtain c1 where r: "read_crlf_line c = (Inr (fst (next_line (flat c))), c1)" "clean c1"
    "flat c1 = snd (next_line (flat c))" "moved c c1"
    using read_crlf_line_flat [OF c(1)] by blast
  note f = moved_fields [OF r(4)]
  show ?thesis
  proof (cases "fst (next_line (flat c))")
    case None
    have "chunk_decode (flat c) = []" using None by (subst chunk_decode.simps) (auto split: prod.split)
    then show ?thesis using r None c f
      by (intro that [of False "c1\<lparr>hc_chunk_done := True\<rparr>"])
         (simp_all add: next_chunk_def clean_def pending_def keeps_def)
  next
    case (Some l)
    then have nl: "next_line (flat c) = (Some l, flat c1)" using r(3) by (metis prod.collapse)
    show ?thesis
    proof (cases "chunk_size l = 0")
      case True
      obtain c2 where r2: "read_crlf_line c1 = (Inr (fst (next_line (flat c1))), c2)" "clean c2" "moved c1 c2"
        using read_crlf_line_flat [OF r(2)] by blast
      have "chunk_decode (flat c) = []" using True nl by (subst chunk_decode.simps) simp
      then show ?thesis using r r2 Some True c f moved_fields [OF r2(3)]
        by (intro that [of False "c2\<lparr>hc_chunk_done := True\<rparr>"])
           (simp_all add: next_chunk_def clean_def pending_def keeps_def)
    next
      case False
      have "chunk_decode (flat c) = take (chunk_size l) (flat c1) @ (if length (flat c1) < chunk_size l then []
          else chunk_decode (snd (next_line (drop (chunk_size l) (flat c1)))))"
        using False nl by (subst chunk_decode.simps) simp
      moreover have "flat (c1\<lparr>hc_chunk_rem := chunk_size l\<rparr>) = flat c1" by (simp add: flat_def)
      ultimately show ?thesis using r Some False c f
        by (intro that [of True "c1\<lparr>hc_chunk_rem := chunk_size l\<rparr>"])
           (simp_all add: next_chunk_def clean_def pending_def keeps_def)
    qed
  qed
qed

lemma take_chunk_flat:
  assumes c: "clean c" "\<not> hc_chunk_done c" "0 < hc_chunk_rem c"
  obtains got c1 where "take_chunk room c = (got, c1)" "clean c1" "pending c = got @ pending c1"
    "length got \<le> room" "\<not> hc_chunk_done c1" "keeps c c1"
proof -
  define k where "k = min (length (hc_buf c)) (min (hc_chunk_rem c) room)"
  define d where "d = c\<lparr>hc_buf := drop k (hc_buf c), hc_chunk_rem := hc_chunk_rem c - k\<rparr>"
  define got where "got = take k (hc_buf c)"
  have k: "k \<le> length (hc_buf c)" "k \<le> hc_chunk_rem c" "k \<le> room" by (simp_all add: k_def)
  have d: "clean d" "\<not> hc_chunk_done d" "keeps c d" "hc_chunk_rem d = hc_chunk_rem c - k"
    using c by (simp_all add: d_def clean_def keeps_def)
  have fl: "flat c = got @ flat d" "length got = k" using k by (simp_all add: flat_def d_def got_def)
  have tc: "take_chunk room c = (got, if hc_chunk_rem d = 0 then snd (read_crlf_line d) else d)"
    by (simp add: take_chunk_def Let_def k_def d_def got_def)
  show ?thesis
  proof (cases "hc_chunk_rem d = 0")
    case True
    then have rem: "hc_chunk_rem c = k" using d k by simp
    obtain e where e: "read_crlf_line d = (Inr (fst (next_line (flat d))), e)" "clean e"
      "flat e = snd (next_line (flat d))" "moved d e"
      using read_crlf_line_flat [OF d(1)] by blast
    note f = moved_fields [OF e(4)]
    have "pending c = got @ pending e"
      using c d f True e(3) fl by (simp add: pending_def rem)
    then show ?thesis using tc True e d f k fl moved_keeps [OF e(4)]
      by (intro that [of got e]) (auto intro: keeps_trans)
  next
    case False
    then have "pending c = got @ pending d"
      using c d fl by (auto simp: pending_def)
    then show ?thesis using tc False d k fl by (intro that [of got d]) simp_all
  qed
qed

lemma read_chunked_flat:
  assumes "clean c"
  shows "\<exists>c1. read_chunked room acc c = (Inr (acc @ take room (pending c)), c1)
     \<and> clean c1 \<and> pending c1 = drop room (pending c) \<and> keeps c c1"
  using assms
proof (induction room acc c rule: read_chunked.induct)
  case (1 room acc c)
  show ?case
  proof (cases "room = 0 \<or> hc_chunk_done c")
    case True
    then show ?thesis using "1.prems" by (subst read_chunked.simps) (auto simp: pending_def)
  next
    case go: False
    obtain b c1 where nc: "(if hc_chunk_rem c = 0 then next_chunk c else (Inr True, c)) = (Inr b, c1)"
      "clean c1" "pending c1 = pending c" "keeps c c1" "hc_chunk_done c1 = (\<not> b)" "b \<Longrightarrow> 0 < hc_chunk_rem c1"
    proof (cases "hc_chunk_rem c = 0")
      case True
      with next_chunk_flat [of c] go "1.prems" that show ?thesis by (metis (full_types))
    next
      case False
      with go "1.prems" that [of True c] show ?thesis by simp
    qed
    show ?thesis
    proof (cases b)
      case False
      with nc have "pending c = []" by (simp add: pending_def)
      then show ?thesis using go nc False by (subst read_chunked.simps) simp
    next
      case b: True
      obtain got c2 where tc: "take_chunk room c1 = (got, c2)" "clean c2" "pending c1 = got @ pending c2"
        "length got \<le> room" "\<not> hc_chunk_done c2" "keeps c1 c2"
        using take_chunk_flat [where c = c1 and room = room] nc b by auto
      have keep: "keeps c c2" using nc tc by (auto intro: keeps_trans)
      have tk: "take room (pending c) = got @ take (room - length got) (pending c2)"
        "drop room (pending c) = drop (room - length got) (pending c2)"
        using tc(3,4) nc(3) by simp_all
      show ?thesis
      proof (cases "length got < room \<and> hc_buf c2 = []")
        case stall: True
        obtain c3 where p: "pump c2 = (Inr (), c3)" "clean c3" "flat c3 = flat c2" "moved c2 c3"
          "at_eof c3 \<Longrightarrow> flat c2 = []"
          using pump_flat [OF tc(2)] stall by metis
        have pend: "pending c3 = pending c2" using p moved_fields [OF p(4)] by (simp add: pending_def)
        show ?thesis
        proof (cases "at_eof c3")
          case True
          then have "pending c2 = []" using p(5) by (simp add: pending_def)
          then show ?thesis using go nc b tc stall p True tk pend keep moved_keeps [OF p(4)]
            by (subst read_chunked.simps) (auto intro: keeps_trans)
        next
          case False
          note ih = "1.IH"(1) [OF go nc(1) [symmetric] refl _ tc(1) [symmetric] stall p(1) [symmetric] refl False p(2)]
          then show ?thesis using go nc b tc stall p False tk pend keeps_trans [OF keeps_trans [OF keep moved_keeps [OF p(4)]]]
            by (subst read_chunked.simps) auto
        qed
      next
        case False
        note ih = "1.IH"(2) [OF go nc(1) [symmetric] refl _ tc(1) [symmetric] False tc(2)]
        then show ?thesis using go nc b tc False tk keeps_trans [OF keep]
          by (subst read_chunked.simps) auto
      qed
    qed
  qed
qed

section \<open>The whole response\<close>

definition same_state :: "http_conn \<Rightarrow> http_conn \<Rightarrow> bool" where
  "same_state c c1 = (keeps c c1 \<and> hc_status c1 = hc_status c
     \<and> hc_chunk_rem c1 = hc_chunk_rem c \<and> hc_chunk_done c1 = hc_chunk_done c)"

lemma moved_same: "moved c c1 \<Longrightarrow> same_state c c1"
  by (simp add: same_state_def keeps_def moved_fields)

lemma header_loop_flat:
  assumes "clean c"
  shows "\<exists>c1. header_loop fr c = (Inr (fst (head_reference fr (flat c))), c1)
     \<and> clean c1 \<and> flat c1 = snd (head_reference fr (flat c)) \<and> same_state c c1"
  using assms
proof (induction fr c rule: header_loop.induct)
  case (1 fr c)
  obtain c1 where r: "read_crlf_line c = (Inr (fst (next_line (flat c))), c1)" "clean c1"
    "flat c1 = snd (next_line (flat c))" "moved c c1"
    using read_crlf_line_flat [OF "1.prems"] by blast
  show ?case
  proof (cases "fst (next_line (flat c))")
    case None
    then have "next_line (flat c) = (None, flat c1)" using r(3) by (metis prod.collapse)
    then have "head_reference fr (flat c) = (fr, flat c1)" by (subst head_reference.simps) simp
    then show ?thesis using None r moved_same [OF r(4)] by (subst header_loop.simps) simp
  next
    case (Some l)
    then have nl: "next_line (flat c) = (Some l, flat c1)" using r(3) by (metis prod.collapse)
    show ?thesis
    proof (cases "l = []")
      case True
      then have "head_reference fr (flat c) = (fr, flat c1)" using nl by (subst head_reference.simps) simp
      then show ?thesis using True Some r moved_same [OF r(4)] by (subst header_loop.simps) simp
    next
      case False
      let ?c = "c1\<lparr>hc_head_lines := hc_head_lines c1 @ l @ [CHR 0x0A]\<rparr>"
      have c: "clean ?c" "flat ?c = flat c1" using r(2) by (simp_all add: clean_def flat_def)
      have "head_reference fr (flat c) = head_reference (header_effect l fr) (flat c1)"
        using False nl by (subst head_reference.simps) simp
      then show ?thesis
        using "1.IH" [OF r(1) [symmetric] refl Some False c(1)] r(1) c Some False moved_same [OF r(4)]
        by (subst header_loop.simps) (auto simp: same_state_def keeps_def)
    qed
  qed
qed

definition body_of :: "http_conn \<Rightarrow> string" where
  "body_of c = (case hc_framing c of
     FrEof \<Rightarrow> flat c | FrLen n \<Rightarrow> take (n - hc_body_read c) (flat c) | FrChunked \<Rightarrow> pending c)"

lemma read_raw_flat:
  assumes "clean c" "0 < room"
  obtains b c1 where "read_raw room c = (Inr b, c1)" "clean c1" "flat c = b @ flat c1"
    "length b \<le> room" "b = [] \<Longrightarrow> flat c = []" "moved c c1"
proof -
  obtain c1 where p: "pump c = (Inr (), c1)" "clean c1" "flat c1 = flat c" "moved c c1"
    "hc_buf c1 = [] \<Longrightarrow> at_eof c1" "at_eof c1 \<Longrightarrow> hc_buf c = [] \<Longrightarrow> flat c = []"
    using pump_flat [OF assms(1)] by blast
  show ?thesis
  proof (cases "hc_buf c1 = []")
    case True
    then have "hc_buf c = []" using p(1) by (auto simp: pump_def split: if_splits)
    with True p that [of "[]" c1] show ?thesis by (simp add: read_raw_def)
  next
    case False
    let ?d = "c1\<lparr>hc_buf := drop room (hc_buf c1)\<rparr>"
    have "flat c1 = take room (hc_buf c1) @ flat ?d" by (simp add: flat_def)
    with False p assms(2) show ?thesis
      by (intro that [of "take room (hc_buf c1)" ?d]) (simp_all add: read_raw_def clean_def moved_buf)
  qed
qed

lemma read_body_flat:
  assumes c: "clean c" "0 < room" "hc_resp_parsed c" "hc_status_err c = None"
  obtains b c1 where "read_body room c = (Inr b, c1)" "clean c1" "body_of c = b @ body_of c1"
    "b = [] \<Longrightarrow> body_of c = []" "hc_resp_parsed c1" "hc_status_err c1 = None"
proof (cases "hc_framing c")
  case FrChunked
  with c read_chunked_flat [OF c(1), of room "[]"] that show ?thesis
    by (fastforce simp: read_body_def parse_response_def body_of_def keeps_def)
next
  case FrEof
  obtain b c1 where r: "read_raw room c = (Inr b, c1)" "clean c1" "flat c = b @ flat c1"
    "b = [] \<Longrightarrow> flat c = []" "moved c c1"
    using read_raw_flat [OF c(1,2)] by metis
  with FrEof c moved_fields [OF r(5)] that [of b c1] show ?thesis
    by (simp add: read_body_def parse_response_def body_of_def)
next
  case (FrLen n)
  show ?thesis
  proof (cases "n \<le> hc_body_read c")
    case True
    with FrLen c that [of "[]" c] show ?thesis
      by (simp add: read_body_def parse_response_def body_of_def)
  next
    case False
    let ?k = "min (n - hc_body_read c) room"
    obtain b c1 where r: "read_raw ?k c = (Inr b, c1)" "clean c1" "flat c = b @ flat c1"
      "length b \<le> ?k" "b = [] \<Longrightarrow> flat c = []" "moved c c1"
    proof -
      have "0 < ?k" using False c(2) by simp
      from read_raw_flat [OF c(1) this] that show ?thesis by blast
    qed
    let ?c1 = "c1\<lparr>hc_body_read := hc_body_read c1 + length b\<rparr>"
    have "clean ?c1" "flat ?c1 = flat c1" using r(2) by (simp_all add: clean_def flat_def)
    with False FrLen c r moved_fields [OF r(6)] that [of b ?c1] show ?thesis
      by (simp add: read_body_def parse_response_def body_of_def)
  qed
qed

lemma body_bytes_flat:
  assumes "clean c" "hc_resp_parsed c" "hc_status_err c = None"
  shows "body_bytes c = (body_of c, None)"
  using assms
proof (induction c rule: body_bytes.induct)
  case (1 c)
  obtain b c1 where r: "read_body 8192 c = (Inr b, c1)" "clean c1" "body_of c = b @ body_of c1"
    "b = [] \<Longrightarrow> body_of c = []" "hc_resp_parsed c1" "hc_status_err c1 = None"
    using read_body_flat [OF "1.prems"(1) _ "1.prems"(2,3), of 8192] by auto
  show ?case
  proof (cases "b = []")
    case True
    then show ?thesis using r by (subst body_bytes.simps) simp
  next
    case False
    then show ?thesis using r "1.IH" [OF r(1) [symmetric] refl False] by (subst body_bytes.simps) simp
  qed
qed

text \<open>A fresh connection: the first read of the body parses the head.\<close>

definition fresh :: "http_conn \<Rightarrow> bool" where
  "fresh c = (\<not> hc_resp_parsed c \<and> hc_status_err c = None \<and> hc_body_read c = 0
     \<and> hc_chunk_rem c = 0 \<and> \<not> hc_chunk_done c)"

lemma body_bytes_parsed:
  assumes "hc_status_err c = None" "parse_response c = (Inr (), c1)" "hc_resp_parsed c1"
  shows "body_bytes c = body_bytes c1"
proof -
  have "parse_response c1 = (Inr (), c1)" using assms(3) by (simp add: parse_response_def)
  then have "fst (read_body 8192 c) = fst (read_body 8192 c1) \<and> snd (read_body 8192 c) = snd (read_body 8192 c1)"
    using assms by (simp add: read_body_def split: option.split)
  then have "read_body 8192 c = read_body 8192 c1" by (simp add: prod_eq_iff)
  then show ?thesis by (subst (1 2) body_bytes.simps) simp
qed

lemma body_bytes_error: "hc_status_err c = Some e \<Longrightarrow> body_bytes c = ([], Some e)"
  by (subst body_bytes.simps) (simp add: read_body_def)

lemma fresh_body:
  assumes c: "clean c" "fresh c"
  shows "body_bytes c = http_reference (flat c)"
proof -
  let ?p = "c\<lparr>hc_resp_parsed := True\<rparr>"
  have p: "clean ?p" "flat ?p = flat c" using c by (simp_all add: clean_def flat_def)
  obtain c1 where r: "read_crlf_line ?p = (Inr (fst (next_line (flat c))), c1)" "clean c1"
    "flat c1 = snd (next_line (flat c))" "moved ?p c1"
    using read_crlf_line_flat [OF p(1)] p(2) by metis
  note f = moved_fields [OF r(4)] c(2) [unfolded fresh_def]
  show ?thesis
  proof (cases "fst (next_line (flat c))")
    case None
    let ?d = "c1\<lparr>hc_status_err := Some (OtherKind, ''empty HTTP response'')\<rparr>"
    have "parse_response c = (Inr (), ?d)" "hc_resp_parsed ?d"
      using r None f by (simp_all add: parse_response_def)
    moreover obtain x where "next_line (flat c) = (None, x)" using None by (metis prod.collapse)
    ultimately show ?thesis using body_bytes_parsed [of c ?d] body_bytes_error [of ?d] f
      by (simp add: http_reference_def)
  next
    case (Some l)
    then have nl: "next_line (flat c) = (Some l, flat c1)" using r(3) by (metis prod.collapse)
    let ?s = "c1\<lparr>hc_status := status_of_line l\<rparr>"
    have s: "clean ?s" "flat ?s = flat c1" using r(2) by (simp_all add: clean_def flat_def)
    obtain fr rest where hr: "head_reference (False, None) (flat c1) = (fr, rest)" by fastforce
    obtain c2 where h: "header_loop (False, None) ?s = (Inr fr, c2)" "clean c2" "flat c2 = rest" "same_state ?s c2"
      using header_loop_flat [OF s(1), of "(False, None)"] s(2) hr by auto
    note g = h(4) [unfolded same_state_def keeps_def]
    let ?d = "c2\<lparr>hc_framing := framing_of fr, hc_status_err := status_error (status_of_line l)\<rparr>"
    have d: "parse_response c = (Inr (), ?d)" "hc_resp_parsed ?d" "clean ?d" "flat ?d = rest"
      using r Some f h g by (auto simp: parse_response_def clean_def flat_def split: option.split)
    have bb: "body_bytes c = body_bytes ?d" using body_bytes_parsed [OF _ d(1,2)] f by simp
    show ?thesis
    proof (cases "status_error (status_of_line l)")
      case None
      have "body_of ?d = (case framing_of fr of FrLen n \<Rightarrow> take n rest | FrEof \<Rightarrow> rest | FrChunked \<Rightarrow> chunk_decode rest)"
        using h(3) f g by (simp add: body_of_def pending_def flat_def split: framing.split)
      with body_bytes_flat [OF d(3,2)] None bb nl hr show ?thesis by (simp add: http_reference_def)
    next
      case err: (Some e)
      then show ?thesis using bb body_bytes_error [of ?d e] nl hr by (simp add: http_reference_def)
    qed
  qed
qed

section \<open>Well-formed responses\<close>

text \<open>Lower-case hexadecimal output (\<open>{:x}\<close>), which is read back.\<close>

definition hex_char :: "nat \<Rightarrow> char" where
  "hex_char d = (if d < 10 then char_of (48 + d) else char_of (87 + d))"

function show_hex :: "nat \<Rightarrow> string" where
  "show_hex n = (if n < 16 then [hex_char n] else show_hex (n div 16) @ [hex_char (n mod 16)])"
  by pat_completeness auto
termination
  by (relation "measure id") auto

declare show_hex.simps [simp del]

lemma digit_hex: "d < 16 \<Longrightarrow> digit 16 (hex_char d) = Some d"
  by (simp add: digit_def hex_char_def Let_def)

lemma digits_val_show_hex: "digits_val 16 0 (show_hex n) = Some n"
proof (induction n rule: show_hex.induct)
  case (1 n)
  then show ?case
    by (cases "n < 16") (simp_all add: show_hex.simps [of n] digits_val_append digit_hex)
qed

definition hex_digit :: "char \<Rightarrow> bool" where
  "hex_digit c = ((48 \<le> code c \<and> code c \<le> 57) \<or> (97 \<le> code c \<and> code c \<le> 102))"

lemma show_hex_digits: "list_all hex_digit (show_hex n)"
proof (induction n rule: show_hex.induct)
  case (1 n)
  then show ?case
    by (cases "n < 16") (auto simp: show_hex.simps [of n] hex_digit_def hex_char_def)
qed

lemma show_hex_ne [simp]: "show_hex n \<noteq> []"
  by (simp add: show_hex.simps [of n])

lemma parse_hex_digits:
  "list_all hex_digit ds \<Longrightarrow> ds \<noteq> [] \<Longrightarrow> digits_val 16 0 ds = Some n \<Longrightarrow> n < 2 ^ bits
     \<Longrightarrow> parse_uint bits 16 ds = Some n"
  by (cases ds) (auto simp: parse_uint_def hex_digit_def split: list.split)

lemma hex_ascii: "list_all hex_digit ds \<Longrightarrow> ascii ds"
  by (induction ds) (auto simp: hex_digit_def)

lemma dropWhile_hex: "list_all hex_digit ds \<Longrightarrow> dropWhile is_whitespace (map (\<lambda>c. [c]) ds) = map (\<lambda>c. [c]) ds"
  by (cases ds) (auto simp: is_whitespace_def hex_digit_def)

lemma trim_hex: "list_all hex_digit ds \<Longrightarrow> trim ds = ds"
proof -
  assume h: "list_all hex_digit ds"
  then have r: "list_all hex_digit (rev ds)" by (simp add: list_all_iff)
  have "concat (map (\<lambda>c. [c]) xs) = xs" for xs :: string by (induction xs) auto
  then show ?thesis
    using dropWhile_hex [OF h] dropWhile_hex [OF r] by (simp add: trim_def chars_ascii [OF hex_ascii [OF h], of "[]", simplified] rev_map)
qed

lemma show_hex_0: "show_hex 0 = ''0''"
  by (simp add: show_hex.simps hex_char_def) (simp add: char_of_def bit_simps)

text \<open>
  A chunk is its extension, empty or from a semicolon on, and its data. The last chunk is empty and
  has no trailer.
\<close>

definition chunk_enc :: "(string \<times> string) list \<Rightarrow> string" where
  "chunk_enc chs =
     concat (map (\<lambda>(ext, data). show_hex (length data) @ ext @ CRLF @ data @ CRLF) chs) @ ''0'' @ CRLF @ CRLF"

definition chunk_ok :: "string \<times> string \<Rightarrow> bool" where
  "chunk_ok ch = (snd ch \<noteq> [] \<and> length (snd ch) < 2 ^ 64 \<and> CHR 0x0A \<notin> set (fst ch)
     \<and> (fst ch = [] \<or> hd (fst ch) = CHR '';''))"

lemma utf8_lossy_ascii: "ascii a \<Longrightarrow> utf8_lossy (a @ b) = a @ utf8_lossy b"
  by (induction a) auto

lemma strip_cr_append [simp]: "strip_cr (a @ [CHR 0x0D]) = a"
  by (simp add: strip_cr_def)

lemma split_once_line: "d \<notin> set a \<Longrightarrow> split_once d (a @ d # b) = Some (a, b)"
  by (simp add: split_once_Some)

lemma next_line_crlf: "CHR 0x0A \<notin> set a \<Longrightarrow> next_line (a @ CRLF @ b) = (Some (utf8_lossy a), b)"
  using split_once_line [of "CHR 0x0A" "a @ [CHR 0x0D]" b] by (simp add: next_line_def CRLF_def)

lemma chunk_size_line:
  assumes "CHR 0x0A \<notin> set ext" "ext = [] \<or> hd ext = CHR '';''" "n < 2 ^ 64"
  shows "chunk_size (utf8_lossy (show_hex n @ ext)) = n"
proof -
  let ?h = "show_hex n"
  have h: "list_all hex_digit ?h" "ascii ?h" by (simp_all add: show_hex_digits hex_ascii)
  have semi: "CHR '';'' \<notin> set ?h" using h(1) by (auto simp: list_all_iff hex_digit_def)
  have "hd (split_char (CHR '';'') (utf8_lossy (?h @ ext))) = ?h"
  proof (cases ext)
    case Nil
    then show ?thesis using semi h by (simp add: utf8_lossy_valid split_char_notin)
  next
    case (Cons c e)
    with assms(2) have "utf8_lossy (?h @ ext) = ?h @ CHR '';'' # utf8_lossy e"
      using h by (simp add: utf8_lossy_ascii)
    with semi show ?thesis by (simp add: split_char_append)
  qed
  then show ?thesis
    using trim_hex [OF h(1)] parse_hex_digits [OF h(1) _ digits_val_show_hex assms(3)]
    by (simp add: chunk_size_def)
qed

lemma show_hex_no_newline: "CHR 0x0A \<notin> set (show_hex n)"
  using show_hex_digits [of n] by (auto simp: list_all_iff hex_digit_def)

lemma chunk_decode_enc:
  "list_all chunk_ok chs \<Longrightarrow> chunk_decode (chunk_enc chs @ rest) = concat (map snd chs)"
proof (induction chs)
  case Nil
  have "next_line (''0'' @ CRLF @ CRLF @ rest) = (Some ''0'', CRLF @ rest)"
    using next_line_crlf [of "''0''" "CRLF @ rest"] by simp
  moreover have "chunk_size ''0'' = 0"
    using chunk_size_line [of "[]" 0] by (simp add: show_hex_0)
  ultimately show ?case by (subst chunk_decode.simps) (simp add: chunk_enc_def)
next
  case (Cons ch chs)
  obtain ext data where ch: "ch = (ext, data)" by fastforce
  let ?h = "show_hex (length data) @ ext"
  let ?tail = "chunk_enc chs @ rest"
  have enc: "chunk_enc (ch # chs) @ rest = ?h @ CRLF @ data @ CRLF @ ?tail" by (simp add: chunk_enc_def ch)
  have ok: "CHR 0x0A \<notin> set ext" "ext = [] \<or> hd ext = CHR '';''" "length data < 2 ^ 64" "data \<noteq> []"
    using Cons.prems by (auto simp: ch chunk_ok_def)
  have nl: "next_line (?h @ CRLF @ data @ CRLF @ ?tail) = (Some (utf8_lossy ?h), data @ CRLF @ ?tail)"
    by (rule next_line_crlf) (use ok show_hex_no_newline in simp)
  have "snd (next_line (CRLF @ ?tail)) = ?tail" using next_line_crlf [of "[]" ?tail] by simp
  then show ?case
    unfolding enc using Cons nl chunk_size_line [OF ok(1-3)] ok(4)
    by (subst chunk_decode.simps) (simp add: ch)
qed

text \<open>A response with a chunked body: the status line, the header lines, the empty line, the chunks.\<close>

lemma head_reference_lines:
  "\<forall>l\<in>set hs. l \<noteq> [] \<and> ascii l \<and> CHR 0x0A \<notin> set l \<Longrightarrow>
     head_reference fr (concat (map (\<lambda>l. l @ CRLF) hs) @ CRLF @ body) = (fold header_effect hs fr, body)"
proof (induction hs arbitrary: fr)
  case Nil
  have "next_line (CRLF @ body) = (Some [], body)" using next_line_crlf [of "[]" body] by simp
  then show ?case by (subst head_reference.simps) simp
next
  case (Cons l hs)
  let ?r = "concat (map (\<lambda>l. l @ CRLF) hs) @ CRLF @ body"
  have "next_line (l @ CRLF @ ?r) = (Some l, ?r)"
    using Cons.prems next_line_crlf [of l ?r] by (simp add: utf8_lossy_valid)
  moreover have "l \<noteq> []" using Cons.prems by simp
  ultimately show ?case using Cons.IH [of "header_effect l fr"] Cons.prems by (subst head_reference.simps) simp
qed

definition chunked_response :: "string \<Rightarrow> string list \<Rightarrow> (string \<times> string) list \<Rightarrow> string" where
  "chunked_response status_line hs chs =
     status_line @ CRLF @ concat (map (\<lambda>l. l @ CRLF) hs) @ CRLF @ chunk_enc chs"

definition wf_chunked :: "string \<Rightarrow> string list \<Rightarrow> (string \<times> string) list \<Rightarrow> bool" where
  "wf_chunked status_line hs chs =
     (ascii status_line \<and> CHR 0x0A \<notin> set status_line \<and> status_error (status_of_line status_line) = None
      \<and> list_all (\<lambda>l. l \<noteq> [] \<and> ascii l \<and> CHR 0x0A \<notin> set l) hs \<and> fst (fold header_effect hs (False, None))
      \<and> list_all chunk_ok chs)"

lemma chunked_response_reference:
  assumes "wf_chunked sl hs chs"
  shows "http_reference (chunked_response sl hs chs) = (concat (map snd chs), None)"
proof -
  have "next_line (chunked_response sl hs chs) = (Some sl, concat (map (\<lambda>l. l @ CRLF) hs) @ CRLF @ chunk_enc chs)"
    unfolding chunked_response_def using assms by (simp add: wf_chunked_def next_line_crlf utf8_lossy_valid)
  then show ?thesis
    using assms head_reference_lines [of hs "(False, None)" "chunk_enc chs"] chunk_decode_enc [of chs "[]"]
    by (simp add: http_reference_def framing_of_def wf_chunked_def list_all_iff)
qed

lemma client_reads:
  assumes "list_all data_seg segs"
    and "http_get (\<lambda>_ _. Inr segs) wr h url headers = Inr c
      \<or> http_post (\<lambda>_ _. Inr segs) wr h url headers body = Inr c"
  shows "body_bytes c = http_reference (concat (map seg_bytes segs))"
proof -
  have "clean c \<and> fresh c \<and> flat c = concat (map seg_bytes segs)"
    using assms by (auto simp: http_get_def http_post_def res_bind_Inr_iff send_request_def http_new_def
        clean_def fresh_def flat_def split: option.splits sum.splits prod.splits)
  then show ?thesis using fresh_body by metis
qed

section \<open>Properties\<close>

text \<open>
  What the client of the git helper reads as the body of a response, from a GET or a POST, is
  what the reference reads from the response as one string: the body under its framing
  (content length, chunks or end of file), or the error of its status. It does not depend on how the
  network cuts the response into reads. A response of well-formed chunks in particular gives
  exactly their data.
\<close>

theorem response_independent_of_reads:
  assumes "list_all data_seg segs"
    and "http_get (\<lambda>_ _. Inr segs) wr h url headers = Inr c
      \<or> http_post (\<lambda>_ _. Inr segs) wr h url headers body = Inr c"
  shows "body_bytes c = http_reference (concat (map seg_bytes segs))
    \<and> (wf_chunked sl hs chs \<and> concat (map seg_bytes segs) = chunked_response sl hs chs
       \<longrightarrow> body_bytes c = (concat (map snd chs), None))"
  using client_reads [OF assms] chunked_response_reference [of sl hs chs] by auto

text \<open>A chunked response in three reads.\<close>

definition demo_segs :: "seg list" where
  "demo_segs = [Bytes (''HTTP/1.1 200 OK'' @ CRLF @ ''Transfer-Encoding: chunked'' @ CRLF @ CRLF @ ''3'' @ CRLF @ ''ab''),
     Bytes (''c'' @ CRLF @ ''0''), Bytes (CRLF @ CRLF)]"

lemma demo_segs_data: "list_all data_seg demo_segs"
  by (simp add: demo_segs_def data_seg_def CRLF_def)

lemma demo_segs_get: "\<exists>c. http_get (\<lambda>_ _. Inr demo_segs) None \<lparr>fh_auth_header = None\<rparr> ''https://h/r'' [] = Inr c"
  by (simp add: http_get_def split_url_def send_request_def)

lemma demo_segs_chunked:
  "wf_chunked ''HTTP/1.1 200 OK'' [''Transfer-Encoding: chunked''] [([], ''abc'')]
   \<and> concat (map seg_bytes demo_segs) = chunked_response ''HTTP/1.1 200 OK'' [''Transfer-Encoding: chunked''] [([], ''abc'')]"
proof
  have "show_hex 3 = ''3''"
    by (simp add: show_hex.simps hex_char_def) (simp add: char_of_def bit_simps)
  then have "show_hex (Suc (Suc (Suc 0))) = ''3''" by (simp only: numeral_3_eq_3)
  then show "concat (map seg_bytes demo_segs) = chunked_response ''HTTP/1.1 200 OK'' [''Transfer-Encoding: chunked''] [([], ''abc'')]"
    by (simp add: demo_segs_def chunked_response_def chunk_enc_def)
  have "status_of_line ''HTTP/1.1 200 OK'' = 200"
    by (simp add: status_of_line_def parse_uint_def digit_def)
  moreover have "header_effect ''Transfer-Encoding: chunked'' (False, None) = (True, None)"
    by (simp add: header_effect_def trim_def eq_ignore_ascii_case_def to_ascii_lowercase_def ascii_lower_def is_whitespace_def)
       (simp add: char_of_def bit_simps)
  ultimately show "wf_chunked ''HTTP/1.1 200 OK'' [''Transfer-Encoding: chunked''] [([], ''abc'')]"
    by (simp add: wf_chunked_def status_error_def chunk_ok_def)
qed

end
