(* ===== verification/GitReader.thy ===== *)
theory GitReader
  imports GitHttpProofs
begin

text \<open>
  The readers and the writer that the git library gets from the HTTP client, \<open>git-remote-fixus/src/http.rs\<close>:
  \<open>HeadersReader\<close>, \<open>BodyReader\<close> and \<open>PostBody\<close>. A reader is asked for any number of bytes at a time. The
  part of its buffer from \<open>pos\<close> on is \<open>br_buf\<close> or \<open>hr_buf\<close>.
\<close>

section \<open>The body\<close>

record body_reader =
  br_conn :: http_conn
  br_buf :: string
  br_eof :: bool

type_synonym 'a brst = "body_reader \<Rightarrow> (io_err + 'a) \<times> body_reader"

definition body_reader_new :: "http_conn \<Rightarrow> body_reader" where
  "body_reader_new c = \<lparr>br_conn = c, br_buf = [], br_eof = False\<rparr>"

definition br_ensure :: "unit brst" where
  "br_ensure r =
     (if br_buf r \<noteq> [] \<or> br_eof r then (Inr (), r)
      else (case read_body 8192 (br_conn r) of
              (Inl e, c) \<Rightarrow> (Inl e, r\<lparr>br_conn := c\<rparr>)
            | (Inr b, c) \<Rightarrow> (Inr (), r\<lparr>br_conn := c, br_buf := b, br_eof := (b = [])\<rparr>)))"

definition br_read :: "nat \<Rightarrow> string brst" where
  "br_read n r =
     (case br_ensure r of
        (Inl e, r) \<Rightarrow> (Inl e, r)
      | (Inr _, r) \<Rightarrow>
          if br_eof r \<and> br_buf r = [] then (Inr [], r)
          else (Inr (take n (br_buf r)), r\<lparr>br_buf := drop n (br_buf r)\<rparr>))"

definition br_fill_buf :: "string brst" where
  "br_fill_buf r = (case br_ensure r of (Inl e, r) \<Rightarrow> (Inl e, r) | (Inr _, r) \<Rightarrow> (Inr (br_buf r), r))"

definition br_consume :: "nat \<Rightarrow> body_reader \<Rightarrow> body_reader" where
  "br_consume amt r = r\<lparr>br_buf := drop amt (br_buf r)\<rparr>"

text \<open>All that a reader still gives: the specification of a reader.\<close>

definition br_rest :: "body_reader \<Rightarrow> string \<times> io_err option" where
  "br_rest r =
     (if br_eof r then (br_buf r, None)
      else (case body_bytes (br_conn r) of (b, e) \<Rightarrow> (br_buf r @ b, e)))"

text \<open>A client that reads with these sizes, until a read gives nothing or fails.\<close>

datatype reading = Reading | ReadToEnd | ReadFailed io_err

fun br_reads :: "nat list \<Rightarrow> body_reader \<Rightarrow> string \<times> reading \<times> body_reader" where
  "br_reads [] r = ([], Reading, r)"
| "br_reads (n # ns) r =
     (case br_read n r of
        (Inl e, r) \<Rightarrow> ([], ReadFailed e, r)
      | (Inr b, r) \<Rightarrow>
          if b = [] then ([], ReadToEnd, r)
          else (case br_reads ns r of (bs, x, r) \<Rightarrow> (b @ bs, x, r)))"

lemma br_ensure_rest:
  "case br_ensure r of
     (Inl e, r') \<Rightarrow> br_rest r = ([], Some e)
   | (Inr _, r') \<Rightarrow> br_rest r' = br_rest r \<and> (br_buf r' = [] \<longrightarrow> br_eof r')"
  by (simp add: br_ensure_def br_rest_def body_bytes.simps [of "br_conn r"] split: sum.split prod.split)

lemma br_read_rest:
  assumes "0 < n"
  shows "case br_read n r of
     (Inl e, r') \<Rightarrow> br_rest r = ([], Some e)
   | (Inr b, r') \<Rightarrow>
       if b = [] then br_rest r = ([], None)
       else br_rest r = (b @ fst (br_rest r'), snd (br_rest r')) \<and> length b \<le> n"
proof (cases "br_ensure r")
  case (Pair x r')
  show ?thesis
  proof (cases x)
    case (Inl e)
    then show ?thesis using br_ensure_rest [of r] by (simp add: br_read_def Pair)
  next
    case (Inr u)
    then have r': "br_rest r = br_rest r'" "br_buf r' = [] \<longrightarrow> br_eof r'"
      using br_ensure_rest [of r] Pair by simp_all
    show ?thesis
    proof (cases "br_buf r' = []")
      case True
      then show ?thesis using r' by (simp add: br_read_def Pair Inr br_rest_def)
    next
      case False
      then have "take n (br_buf r') \<noteq> []" using assms by simp
      then show ?thesis
        using False unfolding r'(1)
        by (simp add: br_read_def Pair Inr br_rest_def append_assoc [symmetric] del: append_assoc split: prod.split)
    qed
  qed
qed

lemma br_fill_consume:
  "br_fill_buf r = (Inr b, r') \<Longrightarrow> amt \<le> length b \<Longrightarrow>
     br_rest r = (take amt b @ fst (br_rest (br_consume amt r')), snd (br_rest (br_consume amt r')))"
  using br_ensure_rest [of r]
  by (auto simp: br_fill_buf_def br_consume_def br_rest_def append_assoc [symmetric] simp del: append_assoc
      split: prod.splits sum.splits)

lemma br_reads_rest:
  "list_all ((<) 0) ns \<Longrightarrow>
   (case br_reads ns r of
      (bs, Reading, r') \<Rightarrow> br_rest r = (bs @ fst (br_rest r'), snd (br_rest r'))
    | (bs, ReadToEnd, r') \<Rightarrow> br_rest r = (bs, None)
    | (bs, ReadFailed e, r') \<Rightarrow> br_rest r = (bs, Some e))"
proof (induction ns arbitrary: r)
  case (Cons n ns)
  obtain x r1 where x: "br_read n r = (x, r1)" by fastforce
  have n: "0 < n" using Cons.prems by simp
  note one = br_read_rest [OF n, of r, unfolded x]
  obtain bs y r2 where t: "br_reads ns r1 = (bs, y, r2)" by (cases "br_reads ns r1")
  have ih: "case (bs, y, r2) of
      (bs, Reading, r') \<Rightarrow> br_rest r1 = (bs @ fst (br_rest r'), snd (br_rest r'))
    | (bs, ReadToEnd, r') \<Rightarrow> br_rest r1 = (bs, None)
    | (bs, ReadFailed e, r') \<Rightarrow> br_rest r1 = (bs, Some e)"
    using Cons.IH [of r1] Cons.prems unfolding t by simp
  show ?case
    using one ih by (auto simp: x t split: sum.splits reading.splits if_splits)
qed simp

text \<open>
  C28. What the git library reads as the body of a response, from a GET or a POST, is what the reference
  reads from the response as one string, whatever the sizes of its reads and however the network cuts
  the response: when a read gives nothing, exactly that body under its framing (content length,
  chunks or end of file); when a read fails, exactly the bytes before the error; and a beginning of
  it until then. Of a response of well-formed chunks it is exactly their data.
\<close>

theorem body_reader_refines:
  assumes "list_all data_seg segs"
    and "http_get (\<lambda>_ _. Inr segs) wr h url headers = Inr c
      \<or> http_post (\<lambda>_ _. Inr segs) wr h url headers body = Inr c"
    and "list_all ((<) 0) ns"
  shows "(case br_reads ns (body_reader_new c) of
      (bs, Reading, r') \<Rightarrow> prefix bs (fst (http_reference (concat (map seg_bytes segs))))
    | (bs, ReadToEnd, r') \<Rightarrow> http_reference (concat (map seg_bytes segs)) = (bs, None)
    | (bs, ReadFailed e, r') \<Rightarrow> http_reference (concat (map seg_bytes segs)) = (bs, Some e))
    \<and> (wf_chunked sl hs chs \<and> concat (map seg_bytes segs) = chunked_response sl hs chs
       \<longrightarrow> http_reference (concat (map seg_bytes segs)) = (concat (map snd chs), None))"
proof -
  have "br_rest (body_reader_new c) = http_reference (concat (map seg_bytes segs))"
    using client_reads [OF assms(1,2)] by (simp add: br_rest_def body_reader_new_def split: prod.split)
  then show ?thesis
    using br_reads_rest [OF assms(3), of "body_reader_new c"] chunked_response_reference [of sl hs chs]
    by (auto split: prod.splits reading.splits) (metis fst_conv prefixI)
qed

theorem body_reader_refines_witness:
  "\<exists>c. http_get (\<lambda>_ _. Inr demo_segs) None \<lparr>fh_auth_header = None\<rparr> ''https://h/r'' [] = Inr c
     \<and> (case br_reads [2, 5, 1] (body_reader_new c) of
          (bs, Reading, r') \<Rightarrow> prefix bs ''abc'' | (bs, ReadToEnd, r') \<Rightarrow> bs = ''abc'' | (bs, ReadFailed e, r') \<Rightarrow> False)"
proof -
  obtain c where c: "http_get (\<lambda>_ _. Inr demo_segs) None \<lparr>fh_auth_header = None\<rparr> ''https://h/r'' [] = Inr c"
    using demo_segs_get by blast
  have "list_all ((<) 0) [2, 5, 1 :: nat]" by simp
  note r = body_reader_refines [OF demo_segs_data disjI1 [OF c] this, where chs = "[([], ''abc'')]"
      and sl = "''HTTP/1.1 200 OK''" and hs = "[''Transfer-Encoding: chunked'']"]
  have "http_reference (concat (map seg_bytes demo_segs)) = (concat (map snd [([] :: string, ''abc'')]), None)"
    by (rule mp [OF conjunct2 [OF r] demo_segs_chunked])
  then have ref: "http_reference (concat (map seg_bytes demo_segs)) = (''abc'', None)" by simp
  show ?thesis using c conjunct1 [OF r] unfolding ref by (auto split: prod.splits reading.splits)
qed

section \<open>The head\<close>

record headers_reader =
  hr_conn :: http_conn
  hr_buf :: string
  hr_loaded :: bool
  hr_err_served :: bool

type_synonym 'a hrst = "headers_reader \<Rightarrow> (io_err + 'a) \<times> headers_reader"

definition headers_reader_new :: "http_conn \<Rightarrow> headers_reader" where
  "headers_reader_new c = \<lparr>hr_conn = c, hr_buf = [], hr_loaded = False, hr_err_served = False\<rparr>"

definition ensure_loaded :: "unit hrst" where
  "ensure_loaded r =
     (if hr_loaded r then (Inr (), r)
      else (case parse_response (hr_conn r) of
              (Inl e, c) \<Rightarrow> (Inl e, r\<lparr>hr_loaded := True, hr_conn := c\<rparr>)
            | (Inr _, c) \<Rightarrow> (Inr (), r\<lparr>hr_loaded := True, hr_conn := c, hr_buf := hc_head_lines c\<rparr>)))"

text \<open>The error of the status is given once, at the first read.\<close>

definition serve_err :: "unit hrst" where
  "serve_err r =
     (if hr_err_served r then (Inr (), r)
      else (case hc_status_err (hr_conn r) of
              Some e \<Rightarrow> (Inl e, r\<lparr>hr_err_served := True\<rparr>)
            | None \<Rightarrow> (Inr (), r\<lparr>hr_err_served := True\<rparr>)))"

definition hr_ready :: "unit hrst" where
  "hr_ready r = (case ensure_loaded r of (Inl e, r) \<Rightarrow> (Inl e, r) | (Inr _, r) \<Rightarrow> serve_err r)"

definition hr_read :: "nat \<Rightarrow> string hrst" where
  "hr_read n r =
     (case hr_ready r of
        (Inl e, r) \<Rightarrow> (Inl e, r)
      | (Inr _, r) \<Rightarrow> (Inr (take n (hr_buf r)), r\<lparr>hr_buf := drop n (hr_buf r)\<rparr>))"

definition hr_fill_buf :: "string hrst" where
  "hr_fill_buf r = (case hr_ready r of (Inl e, r) \<Rightarrow> (Inl e, r) | (Inr _, r) \<Rightarrow> (Inr (hr_buf r), r))"

definition hr_consume :: "nat \<Rightarrow> headers_reader \<Rightarrow> headers_reader" where
  "hr_consume amt r = r\<lparr>hr_buf := drop amt (hr_buf r)\<rparr>"

fun hr_reads :: "nat list \<Rightarrow> headers_reader \<Rightarrow> (io_err + string) \<times> headers_reader" where
  "hr_reads [] r = (Inr [], r)"
| "hr_reads (n # ns) r =
     (case hr_read n r of
        (Inl e, r) \<Rightarrow> (Inl e, r)
      | (Inr b, r) \<Rightarrow> (case hr_reads ns r of (Inl e, r) \<Rightarrow> (Inl e, r) | (Inr bs, r) \<Rightarrow> (Inr (b @ bs), r)))"

lemma hr_reads_loaded:
  "hr_loaded r \<Longrightarrow> hr_err_served r \<Longrightarrow> \<exists>r'. hr_reads ns r = (Inr (take (sum_list ns) (hr_buf r)), r')"
proof (induction ns arbitrary: r)
  case (Cons n ns)
  have one: "hr_read n r = (Inr (take n (hr_buf r)), r\<lparr>hr_buf := drop n (hr_buf r)\<rparr>)"
    using Cons.prems by (simp add: hr_read_def hr_ready_def ensure_loaded_def serve_err_def)
  obtain r' where "hr_reads ns (r\<lparr>hr_buf := drop n (hr_buf r)\<rparr>) = (Inr (take (sum_list ns) (drop n (hr_buf r))), r')"
    using Cons.IH [of "r\<lparr>hr_buf := drop n (hr_buf r)\<rparr>"] Cons.prems by auto
  then show ?case by (simp add: one take_add)
qed simp

text \<open>Reading the head gives its lines, or at once the error of the response.\<close>

theorem headers_reader_reads:
  assumes "ns \<noteq> []"
  shows "fst (hr_reads ns (headers_reader_new c)) =
    (case parse_response c of
       (Inl e, _) \<Rightarrow> Inl e
     | (Inr _, c1) \<Rightarrow> (case hc_status_err c1 of Some e \<Rightarrow> Inl e | None \<Rightarrow> Inr (take (sum_list ns) (hc_head_lines c1))))"
proof -
  obtain n ms where ns: "ns = n # ms" using assms by (cases ns) auto
  obtain x c1 where p: "parse_response c = (x, c1)" by fastforce
  show ?thesis
  proof (cases "x = Inr () \<and> hc_status_err c1 = None")
    case True
    let ?r = "\<lparr>hr_conn = c1, hr_buf = drop n (hc_head_lines c1), hr_loaded = True, hr_err_served = True\<rparr>"
    obtain r' where "hr_reads ms ?r = (Inr (take (sum_list ms) (drop n (hc_head_lines c1))), r')"
      using hr_reads_loaded [of ?r ms] by auto
    then show ?thesis using True p
      by (simp add: ns hr_read_def hr_ready_def ensure_loaded_def serve_err_def headers_reader_new_def take_add)
  next
    case False
    then show ?thesis using p
      by (cases x) (auto simp: ns hr_read_def hr_ready_def ensure_loaded_def serve_err_def headers_reader_new_def)
  qed
qed

section \<open>The body of a POST\<close>

text \<open>Writes are collected; the request goes out once, when the writer is dropped.\<close>

record post_body =
  pb_host :: string
  pb_path :: string
  pb_headers :: "string list"
  pb_buf :: string
  pb_sent :: bool

definition pb_write :: "string \<Rightarrow> post_body \<Rightarrow> (io_err + nat) \<times> post_body" where
  "pb_write b p =
     (if pb_sent p then (Inl (OtherKind, ''post body already sent''), p)
      else (Inr (length b), p\<lparr>pb_buf := pb_buf p @ b\<rparr>))"

definition pb_drop :: "io_err option \<Rightarrow> post_body \<Rightarrow> http_conn \<Rightarrow> post_body \<times> http_conn" where
  "pb_drop wr p c =
     (if pb_sent p then (p, c)
      else (p\<lparr>pb_sent := True\<rparr>,
            snd (send_request wr ''POST'' (pb_path p) (pb_host p) (pb_headers p) (Some (pb_buf p)) c)))"

lemma pb_writes:
  "\<not> pb_sent p \<Longrightarrow> fold (\<lambda>b p. snd (pb_write b p)) bs p = p\<lparr>pb_buf := pb_buf p @ concat bs\<rparr>"
  by (induction bs arbitrary: p) (simp_all add: pb_write_def)

text \<open>\<open>http_post\<close> is writing the body in any pieces and dropping the writer.\<close>

theorem post_body_sends:
  assumes "split_url url = Inr (host, path)" and "dial (hd (split_char (CHR '':'') host)) (port_from_auth host) = Inr segs"
    and "concat bs = body"
  shows "http_post dial wr h url headers body =
    Inr (snd (pb_drop wr (fold (\<lambda>b p. snd (pb_write b p)) bs
      \<lparr>pb_host = host, pb_path = path, pb_headers = all_headers h headers, pb_buf = [], pb_sent = False\<rparr>) (http_new segs)))"
  using assms by (simp add: http_post_def res_bind_def pb_writes pb_drop_def)

end
