(* ===== verification/GitSmart.thy ===== *)
theory GitSmart
  imports GitHttpProofs
begin

text \<open>
  The git protocol of the helper, \<open>git-remote-fixus/src/smart.rs\<close>: packet lines, the reference
  advertisement, the request and the side band of a fetch, the request and the report of a push.
  A response is read to its end as \<open>body_bytes\<close> gives it: the bytes, then an end of file or an
  error. The processes of git (\<open>index-pack\<close>, \<open>pack-objects\<close>) are parameters.
\<close>

section \<open>Packet lines\<close>

type_synonym body_in = "string \<times> io_err option"

definition other_err :: "string \<Rightarrow> io_err" where
  "other_err msg = (OtherKind, msg)"

definition FLUSH :: string where
  "FLUSH = ''0000''"

definition hex4 :: "nat \<Rightarrow> string" where
  "hex4 n = replicate (4 - length (show_hex n)) (CHR ''0'') @ show_hex n"

definition PKT_MAX_TOTAL :: nat where
  "PKT_MAX_TOTAL = 65520"

definition pkt :: "string \<Rightarrow> io_err + string" where
  "pkt data =
     (let total_len = 4 + length data
      in if total_len > PKT_MAX_TOTAL
         then Inl (other_err (''pkt-line too large: '' @ show_nat total_len @ '' bytes (max '' @ show_nat PKT_MAX_TOTAL @ '')''))
         else Inr (hex4 total_len @ data))"

datatype Pkt = PktData string | PktFlush | PktDelim

text \<open>\<open>read_exact\<close> on the rest of a body.\<close>

definition body_exact :: "nat \<Rightarrow> body_in \<Rightarrow> io_err + (string \<times> body_in)" where
  "body_exact n st =
     (case st of (s, e) \<Rightarrow>
        if n \<le> length s then Inr (take n s, (drop n s, e))
        else Inl (case e of Some err \<Rightarrow> err | None \<Rightarrow> (UnexpectedEofKind, ''failed to fill whole buffer'')))"

definition read_one :: "body_in \<Rightarrow> io_err + (Pkt \<times> body_in) option" where
  "read_one st =
     (case st of
        ([], Some e) \<Rightarrow> Inl e
      | ([], None) \<Rightarrow> Inr None
      | (peek # r, e) \<Rightarrow>
          res_bind (body_exact 3 (r, e)) (\<lambda>(t, st).
          let len_hex = peek # t
          in if \<not> utf8_valid len_hex then Inl (other_err ''invalid utf-8 sequence'')
             else case parse_uint 16 16 len_hex of
                 None \<Rightarrow> Inl (other_err ''bad pkt-line length'')
               | Some n \<Rightarrow>
                   if n = 0 then Inr (Some (PktFlush, st))
                   else if n = 1 then Inr (Some (PktDelim, st))
                   else if n < 4 then Inl (other_err ''pkt-line length < 4'')
                   else if n > 65520 then Inl (other_err (''pkt-line length '' @ show_nat n
                     @ '' exceeds max 65520 (65521..65535 reserved)''))
                   else res_bind (body_exact (n - 4) st) (\<lambda>(data, st). Inr (Some (PktData data, st)))))"

lemma read_one_less: "read_one st = Inr (Some (p, st1)) \<Longrightarrow> length (fst st1) < length (fst st)"
proof -
  assume r: "read_one st = Inr (Some (p, st1))"
  then obtain h s e where st: "st = (h # s, e)"
    by (cases st; cases "fst st"; cases "snd st") (auto simp: read_one_def)
  with r have "3 \<le> length s"
    by (auto simp: read_one_def body_exact_def split: if_splits)
  with r st show ?thesis
    by (auto simp: read_one_def body_exact_def Let_def split: if_splits option.splits)
qed

text \<open>
  The loop \<open>while let Some(p) = pr.read_one()?\<close>: a step gives the new state and whether to leave
  the loop. Every packet takes at least four bytes, so it ends.
\<close>

function pkt_loop :: "('a \<Rightarrow> Pkt \<Rightarrow> 'a \<times> bool) \<Rightarrow> 'a \<Rightarrow> body_in \<Rightarrow> io_err + 'a" where
  "pkt_loop step a st =
     (case read_one st of
        Inl e \<Rightarrow> Inl e
      | Inr None \<Rightarrow> Inr a
      | Inr (Some (p, st1)) \<Rightarrow>
          (case step a p of (a1, stop) \<Rightarrow> if stop then Inr a1 else pkt_loop step a1 st1))"
  by pat_completeness auto
termination
  by (relation "measure (\<lambda>(step, a, st). length (fst st))") (auto dest: read_one_less)

declare pkt_loop.simps [simp del]

section \<open>The reference advertisement\<close>

record AdvertisedRef =
  ar_name :: string
  ar_sha :: string

definition symref_target :: "string \<Rightarrow> string \<Rightarrow> string option" where
  "symref_target caps head =
     (case List.map_filter (strip_prefix (''symref='' @ head @ '':'')) (split_whitespace caps) of
        [] \<Rightarrow> None
      | rest # _ \<Rightarrow> Some rest)"

record advert =
  ad_refs :: "AdvertisedRef list"
  ad_head_sha :: "string option"
  ad_head_target :: "string option"
  ad_first_ref :: bool

definition advert0 :: advert where
  "advert0 = \<lparr>ad_refs = [], ad_head_sha = None, ad_head_target = None, ad_first_ref = True\<rparr>"

definition chomp :: "string \<Rightarrow> string" where
  "chomp s = (case strip_suffix [CHR 0x0A] s of Some t \<Rightarrow> t | None \<Rightarrow> s)"

definition advert_line :: "advert \<Rightarrow> string \<Rightarrow> advert" where
  "advert_line a line =
     (if starts_with ''# service='' line then a
      else
        (let (main, caps) = (case split_once (CHR 0x00) line of Some (m, c) \<Rightarrow> (m, c) | None \<Rightarrow> (line, []));
             (sha, name) = (case split_once (CHR '' '') main of Some (s, n) \<Rightarrow> (s, n) | None \<Rightarrow> (main, []))
         in if name = [] then a
            else
              (let a = (if ad_first_ref a
                        then a\<lparr>ad_first_ref := False,
                               ad_head_target := (case symref_target caps ''HEAD'' of
                                  Some t \<Rightarrow> Some t | None \<Rightarrow> ad_head_target a)\<rparr>
                        else a)
               in if name = ''HEAD'' then a\<lparr>ad_head_sha := Some sha\<rparr>
                  else a\<lparr>ad_refs := ad_refs a @ [\<lparr>ar_name = name, ar_sha = sha\<rparr>]\<rparr>)))"

definition advert_step :: "advert \<Rightarrow> Pkt \<Rightarrow> advert \<times> bool" where
  "advert_step a p =
     (case p of PktData d \<Rightarrow> (advert_line a (chomp (utf8_lossy d)), False) | _ \<Rightarrow> (a, False))"

definition service :: "bool \<Rightarrow> string" where
  "service for_push = (if for_push then ''git-receive-pack'' else ''git-upload-pack'')"

definition refs_url :: "string \<Rightarrow> bool \<Rightarrow> string" where
  "refs_url base_url for_push =
     (if CHR ''?'' \<in> set base_url then base_url @ ''&service='' @ service for_push
      else base_url @ ''/info/refs?service='' @ service for_push)"

text \<open>An error of the HTTP client, shown by the description that \<open>io_err\<close> of the code puts into it.\<close>

definition http_err :: "io_err \<Rightarrow> io_err" where
  "http_err e = other_err (''http: '' @ snd e)"

definition list_refs ::
    "(string \<Rightarrow> nat \<Rightarrow> io_err + seg list) \<Rightarrow> io_err option \<Rightarrow> FixusHttp \<Rightarrow> string \<Rightarrow> bool
     \<Rightarrow> io_err + (AdvertisedRef list \<times> string option \<times> string option)" where
  "list_refs dial wr http base_url for_push =
     res_bind (map_err http_err (http_get dial wr http (refs_url base_url for_push) [])) (\<lambda>c.
     res_bind (pkt_loop advert_step advert0 (body_bytes c)) (\<lambda>a.
       Inr (ad_refs a, ad_head_sha a, ad_head_target a)))"

section \<open>Fetch\<close>

definition want_line :: "bool \<Rightarrow> string \<Rightarrow> string" where
  "want_line first w =
     (if first then ''want '' @ w @ '' ofs-delta side-band-64k agent=git-remote-fixus/0.1'' @ [CHR 0x0A]
      else ''want '' @ w @ [CHR 0x0A])"

text \<open>The lines of a request body, the first one with the capabilities.\<close>

fun pkt_lines :: "string list \<Rightarrow> io_err + string" where
  "pkt_lines [] = Inr []"
| "pkt_lines (l # ls) = res_bind (pkt l) (\<lambda>p. res_bind (pkt_lines ls) (\<lambda>ps. Inr (p @ ps)))"

definition first_rest :: "(bool \<Rightarrow> 'a \<Rightarrow> string) \<Rightarrow> 'a list \<Rightarrow> string list" where
  "first_rest f xs = map (\<lambda>(i, x). f (i = 0) x) (enumerate 0 xs)"

definition fetch_body :: "string list \<Rightarrow> io_err + string" where
  "fetch_body wants =
     res_bind (pkt_lines (first_rest want_line wants)) (\<lambda>ls.
     res_bind (pkt (''done'' @ [CHR 0x0A])) (\<lambda>d. Inr (ls @ FLUSH @ d)))"

record fetch_state =
  ft_pack :: string
  ft_pack_started :: bool
  ft_err_msg :: "string option"

definition fetch0 :: fetch_state where
  "fetch0 = \<lparr>ft_pack = [], ft_pack_started = False, ft_err_msg = None\<rparr>"

text \<open>\<open>pipe_ok\<close>: whether \<open>index-pack\<close> still takes the payload after what it was given.\<close>

definition fetch_step :: "(string \<Rightarrow> string \<Rightarrow> bool) \<Rightarrow> fetch_state \<Rightarrow> Pkt \<Rightarrow> fetch_state \<times> bool" where
  "fetch_step pipe_ok f p =
     (case p of
        PktData d \<Rightarrow>
          (case d of
             [] \<Rightarrow> (f, False)
           | b # payload \<Rightarrow>
               if 1 \<le> code b \<and> code b \<le> 3 then
                 (let f = f\<lparr>ft_pack_started := True\<rparr>
                  in if code b = 1 then
                       (if pipe_ok (ft_pack f) payload then (f\<lparr>ft_pack := ft_pack f @ payload\<rparr>, False)
                        else (f, True))
                     else if code b = 2 then (f, False)
                     else (f\<lparr>ft_err_msg := Some (utf8_lossy payload)\<rparr>, True))
               else if \<not> ft_pack_started f then
                 (case strip_prefix ''ERR '' (utf8_lossy d) of
                    Some m \<Rightarrow> (f\<lparr>ft_err_msg := Some (trim m)\<rparr>, True)
                  | None \<Rightarrow> (f, False))
               else (f, False))
      | _ \<Rightarrow> (f, True))"

definition upload_headers :: "string list" where
  "upload_headers =
     [''Content-Type: application/x-git-upload-pack-request'',
      ''Accept: application/x-git-upload-pack-result'']"

text \<open>
  What the dropped request body holds: when it cannot be built nothing was written, and the
  request goes out with an empty body.
\<close>

definition written :: "io_err + string \<Rightarrow> string" where
  "written body = (case body of Inl _ \<Rightarrow> [] | Inr b \<Rightarrow> b)"

text \<open>
  \<open>spawn\<close> is the error of starting \<open>index-pack\<close>, \<open>index_pack\<close> its exit status (none: success)
  for the pack it was given; the result is that pack.
\<close>

definition fetch_pack ::
    "(string \<Rightarrow> nat \<Rightarrow> io_err + seg list) \<Rightarrow> io_err option \<Rightarrow> io_err option \<Rightarrow> (string \<Rightarrow> string \<Rightarrow> bool) \<Rightarrow>
     (string \<Rightarrow> string option) \<Rightarrow> FixusHttp \<Rightarrow> string \<Rightarrow> string list \<Rightarrow> io_err + string" where
  "fetch_pack dial wr spawn pipe_ok index_pack http base_url wants =
     (let body = fetch_body wants
      in res_bind (map_err http_err (http_post dial wr http (base_url @ ''/git-upload-pack'') upload_headers (written body))) (\<lambda>c.
         res_bind body (\<lambda>_.
           case spawn of
             Some e \<Rightarrow> Inl e
           | None \<Rightarrow>
               res_bind (pkt_loop (fetch_step pipe_ok) fetch0 (body_bytes c)) (\<lambda>f.
                 case ft_err_msg f of
                   Some m \<Rightarrow> Inl (other_err (''upload-pack error: '' @ m))
                 | None \<Rightarrow>
                     (case index_pack (ft_pack f) of
                        Some status \<Rightarrow> Inl (other_err (''index-pack failed: '' @ status))
                      | None \<Rightarrow> Inr (ft_pack f))))))"

section \<open>Push\<close>

record PushUpdate =
  pu_old :: string
  pu_new :: string
  pu_dst :: string

definition ZERO :: string where
  "ZERO = replicate 40 (CHR ''0'')"

definition update_line :: "bool \<Rightarrow> PushUpdate \<Rightarrow> string" where
  "update_line first u =
     (let old = (if pu_old u = [] then ZERO else pu_old u);
          new = (if pu_new u = [] then ZERO else pu_new u)
      in if first
         then old @ '' '' @ new @ '' '' @ pu_dst u @ [CHR 0x00]
           @ ''report-status agent=git-remote-fixus/0.1'' @ [CHR 0x0A]
         else old @ '' '' @ new @ '' '' @ pu_dst u @ [CHR 0x0A])"

text \<open>The revisions for \<open>pack-objects\<close>, which is asked only when there is something new.\<close>

definition push_revs :: "PushUpdate list \<Rightarrow> string" where
  "push_revs updates =
     concat (map (\<lambda>u. (if pu_new u \<noteq> [] then pu_new u @ [CHR 0x0A] else [])
                      @ (if pu_old u \<noteq> [] then ''^'' @ pu_old u @ [CHR 0x0A] else [])) updates)"

definition build_push_pack :: "(string \<Rightarrow> io_err + string) \<Rightarrow> PushUpdate list \<Rightarrow> io_err + string" where
  "build_push_pack pack_objects updates =
     (if updates = [] then Inr []
      else if \<not> list_ex (\<lambda>u. pu_new u \<noteq> []) updates then Inr []
      else pack_objects (push_revs updates))"

definition push_body :: "PushUpdate list \<Rightarrow> string \<Rightarrow> io_err + string" where
  "push_body updates pack =
     res_bind (pkt_lines (first_rest update_line updates)) (\<lambda>ls. Inr (ls @ FLUSH @ pack))"

text \<open>The report: a status is \<open>Inr ()\<close> or the reason of the refusal.\<close>

type_synonym ref_status = "string \<times> (string + unit)"

record report =
  rp_saw_unpack :: bool
  rp_unpack_ok :: bool
  rp_results :: "ref_status list"

definition report0 :: report where
  "report0 = \<lparr>rp_saw_unpack = False, rp_unpack_ok = False, rp_results = []\<rparr>"

definition report_line :: "report \<Rightarrow> string \<Rightarrow> report" where
  "report_line r s =
     (case strip_prefix ''unpack '' s of
        Some rest \<Rightarrow> r\<lparr>rp_saw_unpack := True, rp_unpack_ok := (trim rest = ''ok'')\<rparr>
      | None \<Rightarrow>
          (case strip_prefix ''ok '' s of
             Some rest \<Rightarrow> r\<lparr>rp_results := rp_results r @ [(trim rest, Inr ())]\<rparr>
           | None \<Rightarrow>
               (case strip_prefix ''ng '' s of
                  Some rest \<Rightarrow>
                    (let (dst, why) = (case split_once (CHR '' '') rest of Some (d, w) \<Rightarrow> (d, w) | None \<Rightarrow> (rest, []))
                     in r\<lparr>rp_results := rp_results r @ [(dst, Inl why)]\<rparr>)
                | None \<Rightarrow> r)))"

definition report_step :: "report \<Rightarrow> Pkt \<Rightarrow> report \<times> bool" where
  "report_step r p =
     (case p of PktData d \<Rightarrow> (report_line r (chomp (utf8_lossy d)), False) | _ \<Rightarrow> (r, True))"

definition add_unreported :: "ref_status list \<Rightarrow> PushUpdate \<Rightarrow> ref_status list" where
  "add_unreported results u =
     (if list_ex (\<lambda>(d, _). d = pu_dst u) results then results else results @ [(pu_dst u, Inr ())])"

definition report_results :: "PushUpdate list \<Rightarrow> report \<Rightarrow> io_err + ref_status list" where
  "report_results updates r =
     (if \<not> rp_saw_unpack r then Inl (other_err ''push: no unpack status from server'')
      else if \<not> rp_unpack_ok r then Inr (map (\<lambda>u. (pu_dst u, Inl ''unpack failed'')) updates)
      else Inr (foldl add_unreported (rp_results r) updates))"

definition receive_headers :: "string list" where
  "receive_headers =
     [''Content-Type: application/x-git-receive-pack-request'',
      ''Accept: application/x-git-receive-pack-result'']"

definition push_refs ::
    "(string \<Rightarrow> nat \<Rightarrow> io_err + seg list) \<Rightarrow> io_err option \<Rightarrow> (string \<Rightarrow> io_err + string) \<Rightarrow>
     FixusHttp \<Rightarrow> string \<Rightarrow> PushUpdate list \<Rightarrow> io_err + ref_status list" where
  "push_refs dial wr pack_objects http base_url updates =
     res_bind (build_push_pack pack_objects updates) (\<lambda>pack.
     let body = push_body updates pack
     in res_bind (map_err http_err (http_post dial wr http (base_url @ ''/git-receive-pack'') receive_headers (written body))) (\<lambda>c.
        res_bind body (\<lambda>_.
        res_bind (pkt_loop report_step report0 (body_bytes c)) (report_results updates))))"

end
