(* ===== verification/GitHelper.thy ===== *)
theory GitHelper
  imports GitSmart
begin

text \<open>
  The command loop of the git helper, \<open>git-remote-fixus/src/main.rs\<close>: its arguments, the batches
  of fetch and push commands, and what it writes to its standard output. What the remote answers to
  a list, fetch or push is a function of a state of the world, which it changes; \<open>git rev-parse\<close> is
  a parameter. A line of the input is what \<open>BufRead::lines\<close> gave, or its error.
\<close>

section \<open>Arguments\<close>

definition parse_url :: "string list \<Rightarrow> io_err + string" where
  "parse_url args =
     res_bind (if 2 < length args \<and> args ! 2 \<noteq> [] then Inr (args ! 2)
               else if 1 < length args then Inr (args ! 1)
               else Inl (other_err ''missing URL argument'')) (\<lambda>raw.
     Inr (case strip_prefix ''fixus::'' raw of Some s \<Rightarrow> s | None \<Rightarrow> raw))"

definition strip_trailing_slash :: "string \<Rightarrow> string" where
  "strip_trailing_slash s =
     (let s = rev (dropWhile (\<lambda>c. c = CHR ''/'') (rev s)) in if s = [] then ''/'' else s)"

text \<open>\<open>trim_start_matches\<close> with a string: the prefix is removed as often as it is there.\<close>

function strip_all :: "string \<Rightarrow> string \<Rightarrow> string" where
  "strip_all p s =
     (case strip_prefix p s of None \<Rightarrow> s | Some t \<Rightarrow> if p = [] then s else strip_all p t)"
  by pat_completeness auto
termination
  by (relation "measure (\<lambda>(p, s). length s)") auto

declare strip_all.simps [simp del]

section \<open>Batches\<close>

definition push_unique :: "string list \<Rightarrow> string \<Rightarrow> string list" where
  "push_unique v s = (if s \<in> set v then v else v @ [s])"

fun fetch_batch :: "(io_err + string) list \<Rightarrow> string list \<Rightarrow> io_err + (string list \<times> (io_err + string) list)" where
  "fetch_batch [] wants = Inr (wants, [])"
| "fetch_batch (Inl e # ls) wants = Inl e"
| "fetch_batch (Inr l # ls) wants =
     (if trim l = [] then Inr (wants, ls)
      else fetch_batch ls (case drop 1 (split_whitespace l) of [] \<Rightarrow> wants | sha # _ \<Rightarrow> push_unique wants sha))"

fun push_batch :: "(io_err + string) list \<Rightarrow> string list \<Rightarrow> io_err + (string list \<times> (io_err + string) list)" where
  "push_batch [] specs = Inr (specs, [])"
| "push_batch (Inl e # ls) specs = Inl e"
| "push_batch (Inr l # ls) specs =
     (let t = trim l
      in if t = [] then Inr (specs, ls)
         else push_batch ls (if starts_with ''push '' t then specs @ [strip_all ''push '' t] else specs))"

lemma fetch_batch_shrinks: "fetch_batch ls wants = Inr (ws, rest) \<Longrightarrow> length rest \<le> length ls"
  by (induction ls wants rule: fetch_batch.induct) (auto split: if_splits)

lemma push_batch_shrinks: "push_batch ls specs = Inr (ws, rest) \<Longrightarrow> length rest \<le> length ls"
  by (induction ls specs rule: push_batch.induct) (auto simp: Let_def split: if_splits)

text \<open>\<open>git rev-parse\<close> gives whether it succeeded, its output and its errors.\<close>

definition resolve_ref_or_obj :: "(string \<Rightarrow> io_err + (bool \<times> string \<times> string)) \<Rightarrow> string \<Rightarrow> io_err + string" where
  "resolve_ref_or_obj rev_parse name =
     res_bind (rev_parse (name @ ''^{commit}'')) (\<lambda>(ok, out, _).
       if ok then Inr (trim (utf8_lossy out))
       else res_bind (rev_parse name) (\<lambda>(ok2, out2, err2).
         if ok2 then Inr (trim (utf8_lossy out2))
         else Inl (other_err (''cannot resolve ref '' @ name @ '': '' @ trim (utf8_lossy err2)))))"

fun build_push_updates ::
    "(string \<Rightarrow> io_err + (bool \<times> string \<times> string)) \<Rightarrow> (string \<rightharpoonup> string) \<Rightarrow> string list \<Rightarrow> io_err + PushUpdate list" where
  "build_push_updates rev_parse remote_refs [] = Inr []"
| "build_push_updates rev_parse remote_refs (spec # specs) =
     (case split_once (CHR '':'') (dropWhile (\<lambda>c. c = CHR ''+'') spec) of
        None \<Rightarrow> build_push_updates rev_parse remote_refs specs
      | Some (s, d) \<Rightarrow>
          (let src = trim s; dst = trim d;
               old = (case remote_refs dst of Some v \<Rightarrow> v | None \<Rightarrow> [])
           in res_bind (if src = [] then Inr [] else resolve_ref_or_obj rev_parse src) (\<lambda>new.
              res_bind (build_push_updates rev_parse remote_refs specs) (\<lambda>us.
                Inr (\<lparr>pu_old = old, pu_new = new, pu_dst = dst\<rparr> # us)))))"

section \<open>The command loop\<close>

record 'w remote =
  rm_list :: "bool \<Rightarrow> 'w \<Rightarrow> (io_err + (AdvertisedRef list \<times> string option \<times> string option)) \<times> 'w"
  rm_fetch :: "string list \<Rightarrow> 'w \<Rightarrow> (io_err + unit) \<times> 'w"
  rm_push :: "PushUpdate list \<Rightarrow> 'w \<Rightarrow> (io_err + ref_status list) \<times> 'w"

record 'w helper =
  hp_out :: string
  hp_remote_refs :: "string \<rightharpoonup> string"
  hp_world :: 'w

definition LF :: string where
  "LF = [CHR 0x0A]"

definition put_lines :: "string list \<Rightarrow> 'w helper \<Rightarrow> 'w helper" where
  "put_lines ls h = h\<lparr>hp_out := hp_out h @ concat (map (\<lambda>l. l @ LF) ls)\<rparr>"

definition head_lines :: "string option \<Rightarrow> string option \<Rightarrow> string list" where
  "head_lines head_sha head_target =
     (case head_sha of
        None \<Rightarrow> []
      | Some sha \<Rightarrow> [case head_target of Some t \<Rightarrow> ''@'' @ t @ '' HEAD'' | None \<Rightarrow> sha @ '' HEAD''])"

definition list_lines :: "AdvertisedRef list \<times> string option \<times> string option \<Rightarrow> string list" where
  "list_lines res =
     (case res of (refs, head_sha, head_target) \<Rightarrow>
        head_lines head_sha head_target @ map (\<lambda>r. ar_sha r @ '' '' @ ar_name r) refs @ [[]])"

definition table_of :: "AdvertisedRef list \<Rightarrow> string \<rightharpoonup> string" where
  "table_of refs = fold (\<lambda>r m. m(ar_name r \<mapsto> ar_sha r)) refs Map.empty"

definition do_list :: "'w remote \<Rightarrow> bool \<Rightarrow> 'w helper \<Rightarrow> io_err option \<times> 'w helper" where
  "do_list rm for_push h =
     (case rm_list rm for_push (hp_world h) of
        (Inl e, w) \<Rightarrow> (Some e, h\<lparr>hp_world := w\<rparr>)
      | (Inr res, w) \<Rightarrow>
          (let h = put_lines (list_lines res) (h\<lparr>hp_world := w\<rparr>)
           in (None, if for_push then h\<lparr>hp_remote_refs := table_of (fst res)\<rparr> else h)))"

definition do_fetch :: "'w remote \<Rightarrow> string list \<Rightarrow> 'w helper \<Rightarrow> io_err option \<times> 'w helper" where
  "do_fetch rm wants h =
     (case rm_fetch rm wants (hp_world h) of
        (Inl e, w) \<Rightarrow> (Some e, h\<lparr>hp_world := w\<rparr>)
      | (Inr _, w) \<Rightarrow> (None, put_lines [[]] (h\<lparr>hp_world := w\<rparr>)))"

definition status_line :: "ref_status \<Rightarrow> string" where
  "status_line r =
     (case r of (dst, Inr _) \<Rightarrow> ''ok '' @ dst | (dst, Inl why) \<Rightarrow> ''error '' @ dst @ '' '' @ why)"

definition do_push ::
    "'w remote \<Rightarrow> (string \<Rightarrow> io_err + (bool \<times> string \<times> string)) \<Rightarrow> string list \<Rightarrow> 'w helper \<Rightarrow> io_err option \<times> 'w helper" where
  "do_push rm rev_parse specs h =
     (case build_push_updates rev_parse (hp_remote_refs h) specs of
        Inl e \<Rightarrow> (Some e, h)
      | Inr updates \<Rightarrow>
          (case rm_push rm updates (hp_world h) of
             (res, w) \<Rightarrow>
               (let results = (case res of Inr r \<Rightarrow> r
                    | Inl _ \<Rightarrow> map (\<lambda>u. (pu_dst u, Inl ''transport error'')) updates)
                in (None, put_lines (map status_line results @ [[]]) (h\<lparr>hp_world := w\<rparr>)))))"

text \<open>The lines of one command are consumed; the loop ends at the end of input or an empty line.\<close>

function run_loop ::
    "'w remote \<Rightarrow> (string \<Rightarrow> io_err + (bool \<times> string \<times> string)) \<Rightarrow> (io_err + string) list \<Rightarrow> 'w helper \<Rightarrow> io_err option \<times> 'w helper" where
  "run_loop rm rev_parse [] h = (None, h)"
| "run_loop rm rev_parse (Inl e # ls) h = (Some e, h)"
| "run_loop rm rev_parse (Inr line # ls) h =
     (let cmd = rev (dropWhile (\<lambda>c. c = CHR 0x0A) (rev line))
      in if cmd = [] then (None, h)
         else if cmd = ''capabilities''
         then run_loop rm rev_parse ls (put_lines [''fetch'', ''push'', []] h)
         else if cmd = ''list'' \<or> cmd = ''list for-push'' then
           (case do_list rm (cmd = ''list for-push'') h of
              (Some e, h1) \<Rightarrow> (Some e, h1)
            | (None, h1) \<Rightarrow> run_loop rm rev_parse ls h1)
         else if starts_with ''fetch '' cmd then
           (case fetch_batch ls (case split_whitespace (strip_all ''fetch '' cmd) of [] \<Rightarrow> [] | sha # _ \<Rightarrow> [sha]) of
              Inl e \<Rightarrow> (Some e, h)
            | Inr (wants, rest) \<Rightarrow>
                (case do_fetch rm wants h of
                   (Some e, h1) \<Rightarrow> (Some e, h1)
                 | (None, h1) \<Rightarrow> run_loop rm rev_parse rest h1))
         else if starts_with ''push '' cmd then
           (case push_batch ls (let s = strip_all ''push '' cmd in if s = [] then [] else [s]) of
              Inl e \<Rightarrow> (Some e, h)
            | Inr (specs, rest) \<Rightarrow>
                (case do_push rm rev_parse specs h of
                   (Some e, h1) \<Rightarrow> (Some e, h1)
                 | (None, h1) \<Rightarrow> run_loop rm rev_parse rest h1))
         else if starts_with ''option '' cmd
         then run_loop rm rev_parse ls (put_lines [''unsupported''] h)
         else run_loop rm rev_parse ls h)"
  by pat_completeness auto
termination
  by (relation "measure (\<lambda>(rm, rev_parse, ls, h). length ls)")
     (auto dest!: fetch_batch_shrinks push_batch_shrinks)

declare run_loop.simps(3) [simp del]

text \<open>\<open>run\<close>, with the arguments, the environment and the way to reach the remote at a base URL.\<close>

definition helper_run ::
    "(string \<Rightarrow> string \<Rightarrow> FixusHttp \<Rightarrow> 'w remote) \<Rightarrow> (string \<Rightarrow> io_err + (bool \<times> string \<times> string)) \<Rightarrow>
     string list \<Rightarrow> (string \<rightharpoonup> string) \<Rightarrow> (io_err + string) list \<Rightarrow> 'w \<Rightarrow> io_err option \<times> string \<times> 'w" where
  "helper_run remote_at rev_parse args envv ls w =
     (case parse_url args of
        Inl e \<Rightarrow> (Some e, [], w)
      | Inr url \<Rightarrow>
          (case envv ''SANDBOX_PROXY_SOCK'' of
             None \<Rightarrow> (Some (other_err ''SANDBOX_PROXY_SOCK not set''), [], w)
           | Some proxy_sock \<Rightarrow>
               (case run_loop (remote_at proxy_sock (strip_trailing_slash url) (with_default_roots envv)) rev_parse ls
                       \<lparr>hp_out = [], hp_remote_refs = Map.empty, hp_world = w\<rparr> of
                  (e, h) \<Rightarrow> (e, hp_out h, hp_world h))))"

text \<open>The remote that the HTTP client reaches; every operation moves the world on.\<close>

record 'w network =
  nw_dial :: "'w \<Rightarrow> string \<Rightarrow> nat \<Rightarrow> io_err + seg list"
  nw_write_err :: "'w \<Rightarrow> io_err option"
  nw_spawn_err :: "'w \<Rightarrow> io_err option"
  nw_pipe_ok :: "'w \<Rightarrow> string \<Rightarrow> string \<Rightarrow> bool"
  nw_index_pack :: "'w \<Rightarrow> string \<Rightarrow> string option"
  nw_pack_objects :: "'w \<Rightarrow> string \<Rightarrow> io_err + string"
  nw_next :: "'w \<Rightarrow> 'w"

definition http_remote :: "'w network \<Rightarrow> FixusHttp \<Rightarrow> string \<Rightarrow> 'w remote" where
  "http_remote n http base =
     \<lparr>rm_list = (\<lambda>for_push w. (list_refs (nw_dial n w) (nw_write_err n w) http base for_push, nw_next n w)),
      rm_fetch = (\<lambda>wants w.
        (res_bind (fetch_pack (nw_dial n w) (nw_write_err n w) (nw_spawn_err n w) (nw_pipe_ok n w)
            (nw_index_pack n w) http base wants) (\<lambda>_. Inr ()), nw_next n w)),
      rm_push = (\<lambda>updates w.
        (push_refs (nw_dial n w) (nw_write_err n w) (nw_pack_objects n w) http base updates, nw_next n w))\<rparr>"

end
