(* ===== verification/GitProofs.thy ===== *)
theory GitProofs
  imports GitHelper
begin

text \<open>
  Properties of the git helper from the bytes of the network to its standard output: packet lines
  are a self-delimiting encoding, so that what a server sends as an advertisement or a report comes
  out of the HTTP client and the packet reader as it was meant.
\<close>

section \<open>Packet lines are read back\<close>

definition pkt_enc :: "string \<Rightarrow> string" where
  "pkt_enc data = hex4 (4 + length data) @ data"

definition pkt_fits :: "string \<Rightarrow> bool" where
  "pkt_fits data = (4 + length data \<le> PKT_MAX_TOTAL)"

lemma pkt_eq: "pkt data = (if pkt_fits data then Inr (pkt_enc data) else Inl (other_err
    (''pkt-line too large: '' @ show_nat (4 + length data) @ '' bytes (max '' @ show_nat PKT_MAX_TOTAL @ '')'')))"
  by (auto simp: pkt_def pkt_fits_def pkt_enc_def Let_def)

lemma show_hex_length: "n < 16 ^ k \<Longrightarrow> 0 < k \<Longrightarrow> length (show_hex n) \<le> k"
proof (induction k arbitrary: n)
  case (Suc k)
  show ?case
  proof (cases "n < 16")
    case False
    then have "n div 16 < 16 ^ k" "0 < k"
      using Suc.prems by (auto simp: less_mult_imp_div_less mult.commute intro: ccontr)
    then show ?thesis using Suc.IH [of "n div 16"] False by (simp add: show_hex.simps [of n])
  qed (simp add: show_hex.simps [of n])
qed simp

lemma digits_val_zeros: "digits_val 16 0 (replicate k (CHR ''0'') @ s) = digits_val 16 0 s"
  by (induction k) (simp_all add: digit_def)

lemma hex4_facts:
  assumes "n < 65536"
  shows "length (hex4 n) = 4" "list_all hex_digit (hex4 n)" "parse_uint 16 16 (hex4 n) = Some n"
proof -
  have "length (show_hex n) \<le> 4" using show_hex_length [of n 4] assms by simp
  then show l: "length (hex4 n) = 4" by (simp add: hex4_def)
  show h: "list_all hex_digit (hex4 n)"
    by (simp add: hex4_def show_hex_digits list_all_iff hex_digit_def)
       (use show_hex_digits [of n] in \<open>auto simp: list_all_iff hex_digit_def\<close>)
  have "digits_val 16 0 (hex4 n) = Some n" by (simp add: hex4_def digits_val_zeros digits_val_show_hex)
  moreover have "hex4 n \<noteq> []" using l by auto
  ultimately show "parse_uint 16 16 (hex4 n) = Some n"
    using parse_hex_digits [OF h, of n 16] assms by simp
qed

lemma read_one_enc:
  assumes "pkt_fits d"
  shows "read_one (pkt_enc d @ rest, e) = Inr (Some (PktData d, (rest, e)))"
proof -
  let ?n = "4 + length d"
  have n: "?n < 65536" "?n \<le> 65520" using assms by (simp_all add: pkt_fits_def PKT_MAX_TOTAL_def)
  note h = hex4_facts [OF n(1)]
  obtain x t where x: "hex4 ?n = x # t" using h(1) by (cases "hex4 ?n") auto
  then have "length t = 3" using h(1) by simp
  then have ex: "body_exact 3 (t @ d @ rest, e) = Inr (t, (d @ rest, e))" by (simp add: body_exact_def)
  have "utf8_valid (x # t)" using hex_ascii [OF h(2)] x by (metis ascii_valid)
  then show ?thesis using ex h(3) n x
    by (simp add: read_one_def pkt_enc_def body_exact_def)
qed

definition pkt_dec :: "string \<Rightarrow> (string \<times> string) option" where
  "pkt_dec s = (case read_one (s, None) of Inr (Some (PktData d, (r, _))) \<Rightarrow> Some (d, r) | _ \<Rightarrow> None)"

interpretation packets: codec pkt_enc pkt_dec pkt_fits
  by unfold_locales (simp add: pkt_dec_def read_one_enc)

lemma read_one_flush: "read_one (FLUSH @ rest, e) = Inr (Some (PktFlush, (rest, e)))"
  by (simp add: read_one_def FLUSH_def body_exact_def parse_uint_def digit_def)

lemma pkt_loop_data:
  assumes "\<forall>d\<in>set ds. pkt_fits d" "\<And>a d. step a (PktData d) = (next a d, False)"
  shows "pkt_loop step a (concat (map pkt_enc ds) @ rest, e) = pkt_loop step (foldl next a ds) (rest, e)"
  using assms(1)
proof (induction ds arbitrary: a)
  case (Cons d ds)
  then have "read_one (pkt_enc d @ concat (map pkt_enc ds) @ rest, e)
      = Inr (Some (PktData d, (concat (map pkt_enc ds) @ rest, e)))" by (simp add: read_one_enc)
  then show ?case using Cons assms(2) by (subst pkt_loop.simps) simp
qed simp

lemma pkt_loop_end: "pkt_loop step a ([], None) = Inr a"
  by (subst pkt_loop.simps) (simp add: read_one_def)

lemma pkt_loop_flush: "pkt_loop step a (FLUSH @ rest, e)
    = (case step a PktFlush of (a1, stop) \<Rightarrow> if stop then Inr a1 else pkt_loop step a1 (rest, e))"
  by (subst pkt_loop.simps) (simp add: read_one_flush)

lemma pkt_lines_enc: "\<forall>l\<in>set ls. pkt_fits l \<Longrightarrow> pkt_lines ls = Inr (concat (map pkt_enc ls))"
  by (induction ls) (simp_all add: pkt_eq)

text \<open>The request of a fetch, as the server reads it: the want lines, a flush, the end.\<close>

lemma fetch_body_reads:
  assumes "\<forall>l\<in>set (first_rest want_line wants). pkt_fits l"
  shows "\<exists>body. fetch_body wants = Inr body
     \<and> packets.dec_n (length wants) body = Some (first_rest want_line wants, FLUSH @ pkt_enc (''done'' @ [CHR 0x0A]))"
proof -
  let ?ls = "first_rest want_line wants"
  have len: "length ?ls = length wants" by (simp add: first_rest_def)
  have "list_all pkt_fits ?ls" using assms by (simp add: list_all_iff)
  from packets.dec_n_concat [OF this] show ?thesis
    using assms by (simp add: fetch_body_def pkt_lines_enc pkt_eq pkt_fits_def PKT_MAX_TOTAL_def len)
qed

section \<open>What a server sends\<close>

definition service_line :: "bool \<Rightarrow> string" where
  "service_line for_push = ''# service='' @ service for_push @ LF"

text \<open>The references by name and object, the capabilities of the server on the first.\<close>

fun adv_lines :: "string \<Rightarrow> (string \<times> string) list \<Rightarrow> string list" where
  "adv_lines caps [] = []"
| "adv_lines caps ((name, sha) # es) =
     (sha @ '' '' @ name @ [CHR 0x00] @ caps @ LF) # map (\<lambda>(name, sha). sha @ '' '' @ name @ LF) es"

definition advertisement :: "bool \<Rightarrow> string \<Rightarrow> (string \<times> string) list \<Rightarrow> string" where
  "advertisement for_push caps es =
     pkt_enc (service_line for_push) @ FLUSH @ concat (map pkt_enc (adv_lines caps es)) @ FLUSH"

definition entry_ok :: "string \<times> string \<Rightarrow> bool" where
  "entry_ok e = (case e of (name, sha) \<Rightarrow>
     name \<noteq> [] \<and> ascii name \<and> ascii sha \<and> CHR 0x00 \<notin> set name \<and> CHR 0x00 \<notin> set sha
     \<and> CHR '' '' \<notin> set sha \<and> CHR ''#'' \<notin> set sha)"

definition wf_advert :: "string \<Rightarrow> (string \<times> string) list \<Rightarrow> bool" where
  "wf_advert caps es = (ascii caps \<and> list_all entry_ok es \<and> list_all pkt_fits (adv_lines caps es))"

definition adv_result :: "string \<Rightarrow> (string \<times> string) list \<Rightarrow> AdvertisedRef list \<times> string option \<times> string option" where
  "adv_result caps es =
     (map (\<lambda>(name, sha). \<lparr>ar_name = name, ar_sha = sha\<rparr>) (filter (\<lambda>(name, _). name \<noteq> ''HEAD'') es),
      map_of (rev es) ''HEAD'', if es = [] then None else symref_target caps ''HEAD'')"

lemma chomp_LF [simp]: "chomp (s @ LF) = s"
proof -
  have "strip_suffix LF (s @ LF) = Some s" by (simp add: strip_suffix_Some)
  then show ?thesis by (simp add: chomp_def LF_def)
qed

lemma ascii_LF [simp]: "ascii LF"
  by (simp add: LF_def)

definition add_entry :: "advert \<Rightarrow> string \<times> string \<Rightarrow> advert" where
  "add_entry a e = (case e of (name, sha) \<Rightarrow>
     if name = ''HEAD'' then a\<lparr>ad_head_sha := Some sha\<rparr>
     else a\<lparr>ad_refs := ad_refs a @ [\<lparr>ar_name = name, ar_sha = sha\<rparr>]\<rparr>)"

lemma not_service: "CHR ''#'' \<notin> set sha \<Longrightarrow> \<not> starts_with ''# service='' (sha @ CHR '' '' # s)"
  by (cases sha) (auto simp: starts_with_iff)

lemma advert_line_entry:
  "entry_ok (name, sha) \<Longrightarrow> \<not> ad_first_ref a \<Longrightarrow> advert_line a (sha @ '' '' @ name) = add_entry a (name, sha)"
proof -
  assume e: "entry_ok (name, sha)" "\<not> ad_first_ref a"
  then have "split_once (CHR 0x00) (sha @ CHR '' '' # name) = None"
    "split_once (CHR '' '') (sha @ CHR '' '' # name) = Some (sha, name)"
    by (simp_all add: entry_ok_def split_once_None split_once_line)
  with e show ?thesis by (simp add: advert_line_def not_service entry_ok_def add_entry_def Let_def)
qed

lemma advert_line_first:
  "entry_ok (name, sha) \<Longrightarrow> ad_first_ref a \<Longrightarrow>
     advert_line a (sha @ '' '' @ name @ [CHR 0x00] @ caps) =
       add_entry (a\<lparr>ad_first_ref := False, ad_head_target := (case symref_target caps ''HEAD'' of
          Some t \<Rightarrow> Some t | None \<Rightarrow> ad_head_target a)\<rparr>) (name, sha)"
proof -
  assume e: "entry_ok (name, sha)" "ad_first_ref a"
  have "split_once (CHR 0x00) ((sha @ CHR '' '' # name) @ CHR 0x00 # caps) = Some (sha @ CHR '' '' # name, caps)"
    by (rule split_once_line) (use e in \<open>simp add: entry_ok_def\<close>)
  moreover have "split_once (CHR '' '') (sha @ CHR '' '' # name) = Some (sha, name)"
    using e by (simp add: entry_ok_def split_once_line)
  ultimately show ?thesis using e by (simp add: advert_line_def not_service entry_ok_def add_entry_def Let_def)
qed

lemma fold_entries:
  "foldl add_entry a es = a\<lparr>ad_refs := ad_refs a @ map (\<lambda>(name, sha). \<lparr>ar_name = name, ar_sha = sha\<rparr>) (filter (\<lambda>(name, _). name \<noteq> ''HEAD'') es),
     ad_head_sha := (case map_of (rev es) ''HEAD'' of Some s \<Rightarrow> Some s | None \<Rightarrow> ad_head_sha a)\<rparr>"
proof (induction es arbitrary: a)
  case (Cons e es)
  then show ?case
    by (cases e) (auto simp: add_entry_def map_add_def map_of_append split: option.splits)
qed simp

abbreviation advert_next :: "advert \<Rightarrow> string \<Rightarrow> advert" where
  "advert_next a d \<equiv> advert_line a (chomp (utf8_lossy d))"

lemma fold_adv_rest:
  "list_all entry_ok es \<Longrightarrow> \<not> ad_first_ref a \<Longrightarrow>
     foldl advert_next a (map (\<lambda>(name, sha). sha @ '' '' @ name @ LF) es) = foldl add_entry a es"
proof (induction es arbitrary: a)
  case (Cons e es)
  obtain name sha where e: "e = (name, sha)" by fastforce
  have "ascii (sha @ '' '' @ name @ LF)" using Cons.prems e by (simp add: entry_ok_def)
  then have "chomp (utf8_lossy (sha @ '' '' @ name @ LF)) = sha @ '' '' @ name"
    using chomp_LF [of "sha @ '' '' @ name"] by (simp add: utf8_lossy_valid)
  moreover have "\<not> ad_first_ref (add_entry a e)" using Cons.prems e by (simp add: add_entry_def)
  ultimately show ?case using Cons e advert_line_entry [of name sha a] by simp
qed simp

lemma fold_adv_lines:
  assumes "wf_advert caps es"
  shows "foldl advert_next advert0 (adv_lines caps es) =
    \<lparr>ad_refs = fst (adv_result caps es), ad_head_sha = fst (snd (adv_result caps es)),
     ad_head_target = snd (snd (adv_result caps es)), ad_first_ref = (es = [])\<rparr>"
proof (cases es)
  case (Cons e r)
  obtain name sha where e: "e = (name, sha)" by fastforce
  have "es \<noteq> []" using Cons by simp
  let ?l = "sha @ '' '' @ name @ [CHR 0x00] @ caps"
  let ?a = "add_entry (advert0\<lparr>ad_first_ref := False, ad_head_target := symref_target caps ''HEAD''\<rparr>) e"
  have ok: "entry_ok (name, sha)" "list_all entry_ok r" using assms Cons e by (simp_all add: wf_advert_def)
  have "ascii (?l @ LF)" using assms ok by (simp add: wf_advert_def entry_ok_def)
  then have "chomp (utf8_lossy (?l @ LF)) = ?l" using chomp_LF [of ?l] utf8_lossy_valid [of "?l @ LF"] by simp
  then have "advert_next advert0 (?l @ LF) = ?a"
    using advert_line_first [OF ok(1), of advert0 caps] e by (simp add: advert0_def split: option.split)
  moreover have "\<not> ad_first_ref ?a" using e by (simp add: add_entry_def)
  ultimately have "foldl advert_next advert0 (adv_lines caps es) = foldl add_entry ?a r"
    using Cons e fold_adv_rest [OF ok(2), of ?a] by simp
  also have "\<dots> = foldl add_entry (advert0\<lparr>ad_first_ref := False, ad_head_target := symref_target caps ''HEAD''\<rparr>) es"
    by (simp add: Cons)
  finally show ?thesis
    unfolding fold_entries using \<open>es \<noteq> []\<close> by (simp add: adv_result_def advert0_def split: option.split)
qed (simp add: adv_result_def advert0_def)

lemma advertisement_read:
  assumes "wf_advert caps es"
  shows "pkt_loop advert_step advert0 (advertisement for_push caps es, None) = Inr
    \<lparr>ad_refs = fst (adv_result caps es), ad_head_sha = fst (snd (adv_result caps es)),
     ad_head_target = snd (snd (adv_result caps es)), ad_first_ref = (es = [])\<rparr>"
proof -
  have step: "advert_step a (PktData d) = (advert_next a d, False)" for a d by (simp add: advert_step_def)
  have ls: "\<forall>d\<in>set (adv_lines caps es). pkt_fits d" using assms by (simp add: wf_advert_def list_all_iff)
  have svc: "\<forall>d\<in>set [service_line for_push]. pkt_fits d"
    by (simp add: service_line_def service_def LF_def pkt_fits_def PKT_MAX_TOTAL_def)
  have "ascii (service_line for_push)" by (simp add: service_line_def service_def)
  then have "advert_next advert0 (service_line for_push) = advert0"
    using chomp_LF [of "''# service='' @ service for_push"] utf8_lossy_valid [of "service_line for_push"]
    by (simp add: service_line_def advert_line_def starts_with_iff)
  then show ?thesis
    using pkt_loop_data [OF svc, of advert_step advert_next advert0, OF step]
      pkt_loop_data [OF ls, of advert_step advert_next advert0 FLUSH None, OF step] pkt_loop_flush [of advert_step _ "[]" None]
    by (simp add: advertisement_def pkt_loop_flush pkt_loop_end fold_adv_lines [OF assms] advert_step_def)
qed

lemma table_of_map: "table_of refs = map_of (rev (map (\<lambda>r. (ar_name r, ar_sha r)) refs))"
  by (induction refs rule: rev_induct) (simp_all add: table_of_def)

section \<open>The report of a push\<close>

definition status_pkt :: "ref_status \<Rightarrow> string" where
  "status_pkt st = (case st of (dst, Inr _) \<Rightarrow> ''ok '' @ dst @ LF | (dst, Inl why) \<Rightarrow> ''ng '' @ dst @ '' '' @ why @ LF)"

definition report_bytes :: "string \<Rightarrow> ref_status list \<Rightarrow> string" where
  "report_bytes unpack sts = pkt_enc (''unpack '' @ unpack @ LF) @ concat (map pkt_enc (map status_pkt sts)) @ FLUSH"

definition status_ok :: "ref_status \<Rightarrow> bool" where
  "status_ok st = (ascii (fst st) \<and> pkt_fits (status_pkt st) \<and> (case snd st of
     Inr _ \<Rightarrow> trim (fst st) = fst st | Inl why \<Rightarrow> CHR '' '' \<notin> set (fst st) \<and> ascii why))"

definition wf_report :: "string \<Rightarrow> ref_status list \<Rightarrow> bool" where
  "wf_report unpack sts = (ascii unpack \<and> trim unpack = unpack \<and> pkt_fits (''unpack '' @ unpack @ LF) \<and> list_all status_ok sts)"

abbreviation report_next :: "report \<Rightarrow> string \<Rightarrow> report" where
  "report_next r d \<equiv> report_line r (chomp (utf8_lossy d))"

lemma lossy_line: "ascii s \<Longrightarrow> chomp (utf8_lossy (s @ LF)) = s"
  by (simp add: utf8_lossy_valid)

lemma report_status: "status_ok st \<Longrightarrow> report_next r (status_pkt st) = r\<lparr>rp_results := rp_results r @ [st]\<rparr>"
proof (cases st)
  case (Pair dst res)
  assume ok: "status_ok st"
  show ?thesis
  proof (cases res)
    case (Inr u)
    have "chomp (utf8_lossy ((''ok '' @ dst) @ LF)) = ''ok '' @ dst"
      by (rule lossy_line) (use ok Pair in \<open>simp add: status_ok_def\<close>)
    then show ?thesis using ok Pair Inr by (simp add: status_pkt_def report_line_def status_ok_def)
  next
    case (Inl why)
    have "chomp (utf8_lossy ((''ng '' @ dst @ '' '' @ why) @ LF)) = ''ng '' @ dst @ '' '' @ why"
      by (rule lossy_line) (use ok Pair Inl in \<open>simp add: status_ok_def\<close>)
    then show ?thesis using ok Pair Inl
      by (simp add: status_pkt_def report_line_def status_ok_def split_once_line)
  qed
qed

lemma report_statuses:
  "list_all status_ok sts \<Longrightarrow> foldl report_next r (map status_pkt sts) = r\<lparr>rp_results := rp_results r @ sts\<rparr>"
  by (induction sts arbitrary: r) (simp_all add: report_status)

lemma report_read:
  assumes "wf_report unpack sts"
  shows "pkt_loop report_step report0 (report_bytes unpack sts, None) =
    Inr \<lparr>rp_saw_unpack = True, rp_unpack_ok = (unpack = ''ok''), rp_results = sts\<rparr>"
proof -
  have step: "report_step a (PktData d) = (report_next a d, False)" for a d by (simp add: report_step_def)
  let ?u = "''unpack '' @ unpack @ LF"
  have u: "\<forall>d\<in>set [?u]. pkt_fits d" using assms by (simp add: wf_report_def)
  have ls: "\<forall>d\<in>set (map status_pkt sts). pkt_fits d" using assms by (auto simp: wf_report_def list_all_iff status_ok_def)
  have "chomp (utf8_lossy ((''unpack '' @ unpack) @ LF)) = ''unpack '' @ unpack"
    by (rule lossy_line) (use assms in \<open>simp add: wf_report_def\<close>)
  then have first: "report_next report0 ?u = \<lparr>rp_saw_unpack = True, rp_unpack_ok = (unpack = ''ok''), rp_results = []\<rparr>"
    using assms by (simp add: report_line_def report0_def wf_report_def)
  have sts: "foldl report_next (report_next report0 ?u) (map status_pkt sts)
      = \<lparr>rp_saw_unpack = True, rp_unpack_ok = (unpack = ''ok''), rp_results = sts\<rparr>"
    using report_statuses [of sts "report_next report0 ?u"] assms first by (simp add: wf_report_def)
  show ?thesis
    using pkt_loop_data [OF u, of report_step report_next report0, OF step]
      pkt_loop_data [OF ls, of report_step report_next "report_next report0 ?u" FLUSH None, OF step] sts
      pkt_loop_flush [of report_step _ "[]" None]
    by (simp add: report_bytes_def report_step_def)
qed

lemma unreported_ok:
  "distinct (map pu_dst us) \<Longrightarrow> foldl add_unreported sts us =
     sts @ map (\<lambda>u. (pu_dst u, Inr ())) (filter (\<lambda>u. pu_dst u \<notin> fst ` set sts) us)"
proof (induction us arbitrary: sts)
  case (Cons u us)
  have ex: "list_ex (\<lambda>(d, _). d = pu_dst u) sts \<longleftrightarrow> pu_dst u \<in> fst ` set sts"
    by (force simp: list_ex_iff)
  show ?case
  proof (cases "pu_dst u \<in> fst ` set sts")
    case False
    have ne: "pu_dst v \<noteq> pu_dst u" if "v \<in> set us" for v
    proof
      assume "pu_dst v = pu_dst u"
      with that have "pu_dst u \<in> pu_dst ` set us" by (rule rev_image_eqI [OF _ sym])
      with Cons.prems show False by simp
    qed
    have "filter (\<lambda>v. pu_dst v \<notin> fst ` set (sts @ [(pu_dst u, Inr ())])) us = filter (\<lambda>v. pu_dst v \<notin> fst ` set sts) us"
      using ne by (intro filter_cong) auto
    then have "foldl add_unreported (sts @ [(pu_dst u, Inr ())]) us = sts @ (pu_dst u, Inr ())
        # map (\<lambda>u. (pu_dst u, Inr ())) (filter (\<lambda>v. pu_dst v \<notin> fst ` set sts) us)"
      using Cons.IH [of "sts @ [(pu_dst u, Inr ())]"] Cons.prems by (simp only: append_assoc append_Cons append_Nil list.map distinct.simps if_True simp_thms)
    with False ex show ?thesis by (simp add: add_unreported_def [of sts u])
  qed (use Cons ex in \<open>simp add: add_unreported_def [of sts u]\<close>)
qed simp

text \<open>The results of a push, and the request that it sends.\<close>

definition push_results :: "string \<Rightarrow> ref_status list \<Rightarrow> PushUpdate list \<Rightarrow> ref_status list" where
  "push_results unpack sts us =
     (if unpack \<noteq> ''ok'' then map (\<lambda>u. (pu_dst u, Inl ''unpack failed'')) us
      else sts @ map (\<lambda>u. (pu_dst u, Inr ())) (filter (\<lambda>u. pu_dst u \<notin> fst ` set sts) us))"

text \<open>
  A report that is cut after its first line, by the end of the connection, is taken for a success of
  every reference.
\<close>

lemma truncated_report_is_success:
  assumes "distinct (map pu_dst us)"
  shows "res_bind (pkt_loop report_step report0 (pkt_enc (''unpack ok'' @ LF), None)) (report_results us)
    = Inr (map (\<lambda>u. (pu_dst u, Inr ())) us)"
proof -
  have step: "report_step a (PktData d) = (report_next a d, False)" for a d by (simp add: report_step_def)
  have u: "\<forall>d\<in>set [''unpack ok'' @ LF]. pkt_fits d" by (simp add: pkt_fits_def PKT_MAX_TOTAL_def LF_def)
  have "report_next report0 (''unpack ok'' @ LF) = \<lparr>rp_saw_unpack = True, rp_unpack_ok = True, rp_results = []\<rparr>"
    using lossy_line [of "''unpack ok''"] by (simp add: report_line_def report0_def trim_hex trim_def is_whitespace_def)
  then show ?thesis
    using pkt_loop_data [OF u, of report_step report_next report0 "[]" None, OF step] unreported_ok [OF assms, of "[]"]
    by (simp add: pkt_loop_end report_results_def)
qed

section \<open>Properties\<close>

lemma split_url_ok: "\<not> has_newline url \<Longrightarrow> \<exists>hp. split_url url = Inr hp"
  by (auto simp: split_url_def has_newline_def Let_def)

text \<open>The network gives this response to the request that is made now, in these pieces.\<close>

definition gives :: "'w network \<Rightarrow> 'w \<Rightarrow> seg list \<Rightarrow> string \<Rightarrow> bool" where
  "gives n w segs body =
     (nw_dial n w = (\<lambda>_ _. Inr segs) \<and> nw_write_err n w = None \<and> list_all data_seg segs
      \<and> http_reference (concat (map seg_bytes segs)) = (body, None))"

text \<open>A network that gives the same response to every request, for the witnesses.\<close>

definition answering :: "seg list \<Rightarrow> unit network" where
  "answering segs =
     \<lparr>nw_dial = (\<lambda>_ _ _. Inr segs), nw_write_err = (\<lambda>_. None), nw_spawn_err = (\<lambda>_. None),
      nw_pipe_ok = (\<lambda>_ _ _. True), nw_index_pack = (\<lambda>_ _. None),
      nw_pack_objects = (\<lambda>_ revs. Inr revs), nw_next = id\<rparr>"

definition ok_head :: string where
  "ok_head = ''HTTP/1.1 200 OK'' @ CRLF @ ''Transfer-Encoding: chunked'' @ CRLF @ CRLF"

lemma ok_head_gives:
  assumes "body \<noteq> []" "length body < 2 ^ 64"
  shows "gives (answering [Bytes ok_head, Bytes (chunk_enc [([], body)])]) w
     [Bytes ok_head, Bytes (chunk_enc [([], body)])] body"
proof -
  have "status_of_line ''HTTP/1.1 200 OK'' = 200"
    by (simp add: status_of_line_def parse_uint_def digit_def)
  moreover have "header_effect ''Transfer-Encoding: chunked'' (False, None) = (True, None)"
    by (simp add: header_effect_def trim_def eq_ignore_ascii_case_def to_ascii_lowercase_def ascii_lower_def is_whitespace_def)
       (simp add: char_of_def bit_simps)
  ultimately have "wf_chunked ''HTTP/1.1 200 OK'' [''Transfer-Encoding: chunked''] [([], body)]"
    using assms by (simp add: wf_chunked_def status_error_def chunk_ok_def)
  from chunked_response_reference [OF this]
  have "http_reference (ok_head @ chunk_enc [([], body)]) = (body, None)"
    by (simp add: chunked_response_def ok_head_def)
  moreover have "data_seg (Bytes ok_head)" "data_seg (Bytes (chunk_enc [([], body)]))"
    by (simp_all add: data_seg_def ok_head_def chunk_enc_def)
  ultimately show ?thesis by (simp add: gives_def answering_def)
qed

lemma length_pkt_enc: "pkt_fits d \<Longrightarrow> length (pkt_enc d) = 4 + length d"
  using hex4_facts(1) [of "4 + length d"] by (simp add: pkt_enc_def pkt_fits_def PKT_MAX_TOTAL_def)

text \<open>
  C29. A list command prints exactly what the server advertises. When the network answers the
  request with a response whose body is a well-formed advertisement, in whatever pieces, the helper
  prints HEAD (as a symbolic reference when the server names its target), then each other reference
  with its object in the order of the server, then the empty line; a list for a push also replaces
  the table of the remote's references by these.
\<close>

theorem list_prints_advertisement:
  assumes "gives n (hp_world h) segs (advertisement for_push caps es)"
    and "wf_advert caps es" and "\<not> has_newline (refs_url base for_push)"
  shows "do_list (http_remote n http base) for_push h =
    (None, h\<lparr>hp_out := hp_out h @ concat (map (\<lambda>l. l @ LF)
         ((case map_of (rev es) ''HEAD'' of
             None \<Rightarrow> []
           | Some sha \<Rightarrow> [(case symref_target caps ''HEAD'' of Some t \<Rightarrow> ''@'' @ t | None \<Rightarrow> sha) @ '' HEAD''])
          @ map (\<lambda>(name, sha). sha @ '' '' @ name) (filter (\<lambda>(name, _). name \<noteq> ''HEAD'') es) @ [[]])),
       hp_world := nw_next n (hp_world h),
       hp_remote_refs := if for_push then map_of (rev (filter (\<lambda>(name, _). name \<noteq> ''HEAD'') es))
         else hp_remote_refs h\<rparr>)"
proof -
  obtain hp where url: "split_url (refs_url base for_push) = Inr hp"
    using split_url_ok [OF assms(3)] by blast
  obtain c where c: "http_get (\<lambda>_ _. Inr segs) None http (refs_url base for_push) [] = Inr c"
    using url by (cases hp) (simp add: http_get_def send_request_def)
  have "body_bytes c = (advertisement for_push caps es, None)"
    using client_reads [OF _ disjI1 [OF c]] assms(1) by (simp add: gives_def)
  then have "list_refs (nw_dial n (hp_world h)) (nw_write_err n (hp_world h)) http base for_push = Inr (adv_result caps es)"
    using c advertisement_read [OF assms(2)] assms(1) by (simp add: list_refs_def map_err_def gives_def)
  moreover have "table_of (fst (adv_result caps es)) = map_of (rev (filter (\<lambda>(name, _). name \<noteq> ''HEAD'') es))"
    by (simp add: table_of_map adv_result_def comp_def case_prod_unfold)
  moreover have "es = [] \<Longrightarrow> map_of (rev es) ''HEAD'' = None" by simp
  ultimately show ?thesis
    by (auto simp: do_list_def http_remote_def put_lines_def list_lines_def head_lines_def adv_result_def
        comp_def case_prod_unfold split: option.splits)
qed

text \<open>An advertisement of HEAD and one branch, in two pieces, listed for a push.\<close>

theorem list_prints_advertisement_witness:
  "(let h = snd (do_list
      (http_remote (answering [Bytes ok_head, Bytes (chunk_enc [([], advertisement True ''symref=HEAD:refs/heads/m''
          [(''HEAD'', ''b1''), (''refs/heads/m'', ''b1'')])])]) \<lparr>fh_auth_header = None\<rparr> ''https://h/r.git'')
      True \<lparr>hp_out = [], hp_remote_refs = Map.empty, hp_world = ()\<rparr>)
    in hp_out h = ''@refs/heads/m HEAD'' @ LF @ ''b1 refs/heads/m'' @ LF @ LF
     \<and> hp_remote_refs h = [''refs/heads/m'' \<mapsto> ''b1''])"
proof -
  let ?es = "[(''HEAD'', ''b1''), (''refs/heads/m'', ''b1'')]"
  let ?caps = "''symref=HEAD:refs/heads/m''"
  let ?body = "advertisement True ?caps ?es"
  let ?segs = "[Bytes ok_head, Bytes (chunk_enc [([], ?body)])]"
  let ?h = "\<lparr>hp_out = [], hp_remote_refs = Map.empty, hp_world = ()\<rparr>"
  have wf: "wf_advert ?caps ?es"
    by (simp add: wf_advert_def entry_ok_def pkt_fits_def PKT_MAX_TOTAL_def LF_def)
  then have fits: "\<forall>d\<in>set (adv_lines ?caps ?es). pkt_fits d" by (simp add: wf_advert_def list_all_iff)
  have svc: "pkt_fits (service_line True)"
    by (simp add: service_line_def service_def LF_def pkt_fits_def PKT_MAX_TOTAL_def)
  have len: "length ?body < 2 ^ 64" "?body \<noteq> []"
    using fits svc by (simp_all add: advertisement_def length_pkt_enc FLUSH_def service_line_def service_def LF_def)
  have target: "symref_target ?caps ''HEAD'' = Some ''refs/heads/m''"
    by (simp add: symref_target_def split_whitespace_def is_whitespace_def map_filter_simps)
  have url: "\<not> has_newline (refs_url ''https://h/r.git'' True)"
    by (simp add: has_newline_def refs_url_def service_def)
  have "gives (answering ?segs) (hp_world ?h) ?segs ?body" by (rule ok_head_gives [OF len(2,1)])
  from list_prints_advertisement [OF this wf url] show ?thesis
    by (simp add: target Let_def LF_def)
qed

text \<open>
  C30. A push prints what the server reports. When the network answers with a well-formed report, in
  whatever pieces, the helper prints the status of every reference that the report names, then a
  success for each pushed reference that it does not name, or, when the server could not unpack, a
  failure for each pushed reference; then the empty line. The request held the update lines, which
  the server reads back, a flush and the pack.
\<close>

theorem push_prints_report:
  assumes "gives n (hp_world h) segs (report_bytes unpack sts)" and "wf_report unpack sts"
    and "build_push_updates rev_parse (hp_remote_refs h) specs = Inr us" and "distinct (map pu_dst us)"
    and "build_push_pack (nw_pack_objects n (hp_world h)) us = Inr pack"
    and "list_all pkt_fits (first_rest update_line us)" and "\<not> has_newline base"
  shows "do_push (http_remote n http base) rev_parse specs h =
      (None, h\<lparr>hp_out := hp_out h @ concat (map (\<lambda>l. l @ LF) (map status_line (push_results unpack sts us) @ [[]])),
        hp_world := nw_next n (hp_world h)\<rparr>)
    \<and> (\<exists>body. push_body us pack = Inr body
        \<and> packets.dec_n (length us) body = Some (first_rest update_line us, FLUSH @ pack))"
proof -
  let ?ls = "first_rest update_line us"
  have body: "push_body us pack = Inr (concat (map pkt_enc ?ls) @ FLUSH @ pack)"
    using assms(6) by (simp add: push_body_def pkt_lines_enc list_all_iff)
  have "length ?ls = length us" by (simp add: first_rest_def)
  then have sent: "packets.dec_n (length us) (concat (map pkt_enc ?ls) @ FLUSH @ pack) = Some (?ls, FLUSH @ pack)"
    using packets.dec_n_concat [OF assms(6), of "FLUSH @ pack"] by simp
  have "\<not> has_newline (base @ ''/git-receive-pack'')" using assms(7) by (auto simp: has_newline_def)
  then obtain hp where url: "split_url (base @ ''/git-receive-pack'') = Inr hp" using split_url_ok by blast
  let ?body = "concat (map pkt_enc ?ls) @ FLUSH @ pack"
  obtain c where c: "http_post (\<lambda>_ _. Inr segs) None http (base @ ''/git-receive-pack'') receive_headers ?body = Inr c"
    using url by (cases hp) (simp add: http_post_def)
  have "body_bytes c = (report_bytes unpack sts, None)"
    using client_reads [OF _ disjI2 [OF c]] assms(1) by (simp add: gives_def)
  then have "push_refs (nw_dial n (hp_world h)) (nw_write_err n (hp_world h)) (nw_pack_objects n (hp_world h)) http base us
      = Inr (push_results unpack sts us)"
    using c body assms(1,5) report_read [OF assms(2)] unreported_ok [OF assms(4), of sts]
    by (simp add: push_refs_def Let_def map_err_def gives_def written_def report_results_def push_results_def)
  then show ?thesis using assms(3) body sent
    by (simp add: do_push_def http_remote_def put_lines_def)
qed

theorem push_prints_report_witness:
  "hp_out (snd (do_push
      (http_remote (answering [Bytes ok_head, Bytes (chunk_enc [([], report_bytes ''ok'' [(''b'', Inl ''stale'')])])])
         \<lparr>fh_auth_header = None\<rparr> ''https://h/r.git'')
      (\<lambda>_. Inr (True, ''c1'' @ LF, [])) [''+a:b'', ''a:d''] \<lparr>hp_out = [], hp_remote_refs = Map.empty, hp_world = ()\<rparr>))
   = ''error b stale'' @ LF @ ''ok d'' @ LF @ LF"
proof -
  let ?sts = "[(''b'', Inl ''stale'')] :: ref_status list"
  let ?body = "report_bytes ''ok'' ?sts"
  let ?h = "\<lparr>hp_out = [], hp_remote_refs = Map.empty, hp_world = ()\<rparr>"
  let ?us = "[\<lparr>pu_old = [], pu_new = ''c1'', pu_dst = ''b''\<rparr>, \<lparr>pu_old = [], pu_new = ''c1'', pu_dst = ''d''\<rparr>]"
  let ?rev = "\<lambda>_::string. Inr (True, ''c1'' @ LF, []) :: io_err + (bool \<times> string \<times> string)"
  have wf: "wf_report ''ok'' ?sts"
    by (simp add: wf_report_def status_ok_def status_pkt_def pkt_fits_def PKT_MAX_TOTAL_def LF_def trim_def is_whitespace_def)
  have fits: "pkt_fits (''unpack '' @ ''ok'' @ LF)" "pkt_fits (status_pkt (''b'', Inl ''stale''))"
    by (simp_all add: status_pkt_def pkt_fits_def PKT_MAX_TOTAL_def LF_def)
  have len: "length ?body < 2 ^ 64" "?body \<noteq> []"
    using fits by (simp_all add: report_bytes_def length_pkt_enc FLUSH_def status_pkt_def LF_def)
  have us: "build_push_updates ?rev (hp_remote_refs ?h) [''+a:b'', ''a:d''] = Inr ?us"
    by (simp add: resolve_ref_or_obj_def trim_def is_whitespace_def LF_def)
  let ?segs = "[Bytes ok_head, Bytes (chunk_enc [([], ?body)])]"
  have pack: "build_push_pack (nw_pack_objects (answering ?segs) (hp_world ?h)) ?us = Inr (push_revs ?us)"
    by (simp add: build_push_pack_def answering_def)
  have lines_fit: "list_all pkt_fits (first_rest update_line ?us)"
    by (simp add: first_rest_def update_line_def pkt_fits_def PKT_MAX_TOTAL_def ZERO_def)
  have "gives (answering ?segs) (hp_world ?h) ?segs ?body" by (rule ok_head_gives [OF len(2,1)])
  from push_prints_report [OF this wf us _ pack lines_fit, of "''https://h/r.git''" "\<lparr>fh_auth_header = None\<rparr>"]
  show ?thesis by (simp add: push_results_def status_line_def has_newline_def)
qed

end
