(* ===== verification/SwapTls.thy ===== *)
theory SwapTls
  imports SwapProxy Certs
begin

text \<open>
  The start of the swap proxy: \<open>main.rs\<close>, and the TLS configurations and the accept loop of \<open>server.rs\<close>
  in \<open>egress-swap-proxy\<close>. The PEM reader and the checks of the TLS library are parameters.
\<close>

record ('cert, 'key) pem_lib =
  pl_certs :: "string \<Rightarrow> (string + 'cert) list"
  pl_key :: "string \<Rightarrow> string + 'key option"
  pl_accepts :: "'cert \<Rightarrow> bool"
  pl_single_cert :: "'cert list \<Rightarrow> 'key \<Rightarrow> string option"

fun collect_certs :: "(string + 'cert) list \<Rightarrow> string + 'cert list" where
  "collect_certs [] = Inr []"
| "collect_certs (Inl e # items) = Inl e"
| "collect_certs (Inr c # items) = res_bind (collect_certs items) (\<lambda>cs. Inr (c # cs))"

definition load_certs :: "('cert, 'key) pem_lib \<Rightarrow> string \<Rightarrow> string + 'cert list" where
  "load_certs pl pem = collect_certs (pl_certs pl pem)"

definition load_key :: "('cert, 'key) pem_lib \<Rightarrow> string \<Rightarrow> string + 'key" where
  "load_key pl pem =
     res_bind (pl_key pl pem) (\<lambda>k. case k of
         None \<Rightarrow> Inl ''no private key found in FIXUS_SWAP_KEY_PEM''
       | Some k \<Rightarrow> Inr k)"

definition build_server_config :: "('cert, 'key) pem_lib \<Rightarrow> SwapConfig \<Rightarrow> string + ('cert list \<times> 'key)" where
  "build_server_config pl cfg =
     res_bind (load_certs pl (sw_cert_pem cfg)) (\<lambda>chain.
     res_bind (load_key pl (sw_key_pem cfg)) (\<lambda>k.
     case pl_single_cert pl chain k of Some e \<Rightarrow> Inl e | None \<Rightarrow> Inr (chain, k)))"

definition no_upstream_certs :: string where
  "no_upstream_certs = ''FIXUS_SWAP_UPSTREAM_CA_PEM set but contained no certs''"

definition build_upstream_client_config :: "('cert, 'key) pem_lib \<Rightarrow> SwapConfig \<Rightarrow> string + 'cert roots" where
  "build_upstream_client_config pl cfg =
     (case sw_upstream_ca_pem cfg of
        None \<Rightarrow> Inr WebpkiRoots
      | Some pem \<Rightarrow>
          res_bind (roots_from_pem no_upstream_certs (pl_accepts pl) (pl_certs pl pem) []) (\<lambda>rs. Inr (OnlyRoots rs)))"

section \<open>The start\<close>

text \<open>The program ends with a status, or listens.\<close>

datatype ('cert, 'key) swap_start = SwapExit int string | SwapServes SwapConfig "'cert list \<times> 'key" "'cert roots"

definition swap_main :: "('cert, 'key) pem_lib \<Rightarrow> (string \<Rightarrow> string option) \<Rightarrow> (string \<rightharpoonup> string) \<Rightarrow> ('cert, 'key) swap_start" where
  "swap_main pl bind_err envv =
     (case swap_from_env envv of
        Inl e \<Rightarrow> SwapExit 2 e
      | Inr cfg \<Rightarrow>
          (case build_server_config pl cfg of
             Inl e \<Rightarrow> SwapExit 2 e
           | Inr server_cfg \<Rightarrow>
               (case build_upstream_client_config pl cfg of
                  Inl e \<Rightarrow> SwapExit 1 e
                | Inr upstream_cfg \<Rightarrow>
                    (case bind_err (sw_listen cfg) of
                       Some e \<Rightarrow> SwapExit 1 e
                     | None \<Rightarrow> SwapServes cfg server_cfg upstream_cfg))))"

text \<open>
  The accept loop: an error of accepting is passed over, every connection gets a task of its own, and
  one that takes longer than five minutes is dropped, with its relay.
\<close>

definition CONN_TIMEOUT_SECS :: nat where
  "CONN_TIMEOUT_SECS = 300"

datatype conn_end = ConnEnded swap_outcome | ConnTimedOut

definition conn_task :: "(string \<Rightarrow> u16 \<Rightarrow> bool) \<Rightarrow> SwapConfig \<Rightarrow> string option list \<times> nat \<Rightarrow> conn_end" where
  "conn_task reachable cfg c =
     (case c of (reads, secs) \<Rightarrow>
        if CONN_TIMEOUT_SECS < secs then ConnTimedOut else ConnEnded (swap_handle_conn reachable cfg reads))"

fun swap_serve :: "(string \<Rightarrow> u16 \<Rightarrow> bool) \<Rightarrow> SwapConfig \<Rightarrow> (string + string option list \<times> nat) list \<Rightarrow> conn_end list" where
  "swap_serve reachable cfg [] = []"
| "swap_serve reachable cfg (Inl e # rounds) = swap_serve reachable cfg rounds"
| "swap_serve reachable cfg (Inr c # rounds) = conn_task reachable cfg c # swap_serve reachable cfg rounds"

section \<open>What a start guarantees\<close>

lemma swap_from_env_fields:
  "swap_from_env envv = Inr cfg \<Longrightarrow>
     envv ''FIXUS_SWAP_SENTINEL'' = Some (sw_sentinel cfg) \<and> envv ''FIXUS_SWAP_TOKEN'' = Some (sw_real_token cfg)
     \<and> envv ''FIXUS_SWAP_CERT_PEM'' = Some (sw_cert_pem cfg) \<and> envv ''FIXUS_SWAP_KEY_PEM'' = Some (sw_key_pem cfg)
     \<and> sw_cert_pem cfg \<noteq> [] \<and> sw_key_pem cfg \<noteq> []
     \<and> \<not> has_newline (sw_sentinel cfg) \<and> \<not> has_newline (sw_real_token cfg)
     \<and> (\<forall>pem. envv ''FIXUS_SWAP_UPSTREAM_CA_PEM'' = Some pem \<and> pem \<noteq> [] \<longleftrightarrow> sw_upstream_ca_pem cfg = Some pem)"
  by (auto simp: swap_from_env_def required_def res_bind_def split: option.splits sum.splits if_splits)

text \<open>
  A proxy that serves has a configured placeholder and token without line breaks and the configured
  certificate and key, and trusts upstream exactly the certificates it was given: the built-in roots
  only when none were, never because those that were given cannot be used.
\<close>

theorem swap_start_trust:
  assumes "swap_main pl bind_err envv = SwapServes cfg (chain, k) upstream"
  shows "envv ''FIXUS_SWAP_SENTINEL'' = Some (sw_sentinel cfg) \<and> envv ''FIXUS_SWAP_TOKEN'' = Some (sw_real_token cfg)
    \<and> \<not> has_newline (sw_sentinel cfg) \<and> \<not> has_newline (sw_real_token cfg)
    \<and> load_certs pl (sw_cert_pem cfg) = Inr chain \<and> load_key pl (sw_key_pem cfg) = Inr k
    \<and> (case sw_upstream_ca_pem cfg of
         None \<Rightarrow> upstream = WebpkiRoots
       | Some pem \<Rightarrow> \<exists>rs. upstream = OnlyRoots rs \<and> rs \<noteq> [] \<and> set rs = {c. Inr c \<in> set (pl_certs pl pem) \<and> pl_accepts pl c})"
proof -
  have cfg: "swap_from_env envv = Inr cfg" and srv: "build_server_config pl cfg = Inr (chain, k)"
    and up: "build_upstream_client_config pl cfg = Inr upstream"
    using assms by (auto simp: swap_main_def split: sum.splits option.splits)
  have "case sw_upstream_ca_pem cfg of
         None \<Rightarrow> upstream = WebpkiRoots
       | Some pem \<Rightarrow> \<exists>rs. upstream = OnlyRoots rs \<and> rs \<noteq> [] \<and> set rs = {c. Inr c \<in> set (pl_certs pl pem) \<and> pl_accepts pl c}"
    using up by (auto simp: build_upstream_client_config_def res_bind_def split: option.splits sum.splits dest: roots_from_pem_set)
  moreover have "load_certs pl (sw_cert_pem cfg) = Inr chain" "load_key pl (sw_key_pem cfg) = Inr k"
    using srv by (auto simp: build_server_config_def res_bind_def split: sum.splits option.splits)
  ultimately show ?thesis using swap_from_env_fields [OF cfg] by simp
qed

text \<open>A failing connection or accept does not keep the proxy from the others.\<close>

lemma swap_serve_length: "length (swap_serve reachable cfg rounds) = length (filter (\<lambda>r. \<not> isl r) rounds)"
  by (induction reachable cfg rounds rule: swap_serve.induct) simp_all

end
