(* ===== verification/Spec2Isabelle.thy ===== *)
theory Spec2Isabelle
  imports SeccompVerdict Landlock EnvFd Rlimit Recovery ExecReport RateLimit SchedulerProofs SessionRestart SessionSearch
    SessionExec TtyProofs Watch ApiTypes ServerStart Config CliProofs Mcp BrokerProofs BrokerTools GitDial GitReader GitProofs SwapTls
begin

text \<open>
  A model of \<open>lv-sandbox\<close>, a server that runs untrusted commands in a sandbox of Linux kernel
  features. A request names a profile and a command; the server gives the command a directory, a
  clean environment, resource limits, a Landlock ruleset, a seccomp filter, a cgroup and, for
  profiles that may reach the network, a SOCKS proxy with an allowlist; it supervises the child,
  and returns status, output and violations. Commands run once (jobs) or in a workspace that lives
  on (sessions).

  \<^bold>\<open>Parts and theories\<close> (paths under \<open>src/crates\<close>)

  \<^item> \<^theory_text>\<open>Prelude\<close>, \<^theory_text>\<open>RustStr\<close>: words, results as sums, state passing with errors, the interfaces
    (locales \<open>registry\<close>, \<open>removable_registry\<close>, \<open>codec\<close>, \<open>guarded_system\<close>); strings as lists of
    bytes with the functions of \<open>str\<close> and \<open>Path\<close> that the code uses.
  \<^item> \<^theory_text>\<open>Errors\<close>: \<open>sandbox-core\<close> \<open>error.rs\<close>, \<open>job.rs\<close> and the error types of the other crates.
  \<^item> \<^theory_text>\<open>Egress\<close>, \<^theory_text>\<open>Socks\<close>: \<open>egress.rs\<close>, \<open>proxy.rs\<close>. A connection is a pair of byte streams; the
    network is a parameter.
  \<^item> \<^theory_text>\<open>EnvFd\<close>, \<^theory_text>\<open>Rlimit\<close>: \<open>env.rs\<close>, \<open>fd.rs\<close>, \<open>rlimit.rs\<close>.
  \<^item> \<^theory_text>\<open>Seccomp\<close>, \<^theory_text>\<open>SeccompFilter\<close>, \<^theory_text>\<open>SeccompVerdict\<close>: \<open>sandbox-seccomp\<close>. The built-in lists, the
    preparation of a filter, the decoder of its BPF program, and the verdict on a call. The
    compiler of rules is the crate \<open>seccompiler\<close>, taken by its documented semantics.
  \<^item> \<^theory_text>\<open>Landlock\<close>: \<open>sandbox-landlock\<close>; \<^theory_text>\<open>Cgroup\<close>: \<open>sandbox-cgroup\<close> on a file system of control files.
  \<^item> \<^theory_text>\<open>FsModel\<close>, \<^theory_text>\<open>FsLemmas\<close>, \<^theory_text>\<open>FsView\<close>: the file system the workspaces live on, a tree with
    directories, files and links. A path is resolved as Linux does it, with at most 40 links.
    \<open>view\<close> abstracts from the order of the entries; on link-free paths each call is an update of it.
  \<^item> \<^theory_text>\<open>Workspace\<close>, \<^theory_text>\<open>WorkspaceProofs\<close>, \<^theory_text>\<open>CopyProofs\<close>, \<^theory_text>\<open>WorkspaceLife\<close>, \<^theory_text>\<open>Recovery\<close>:
    \<open>workspace.rs\<close> and \<open>recovery.rs\<close>.
  \<^item> \<^theory_text>\<open>Profile\<close>: \<open>profile.rs\<close>; \<^theory_text>\<open>Process\<close>, \<^theory_text>\<open>Confinement\<close>: \<open>process.rs\<close> and \<open>capability.rs\<close>,
    what is prepared in the parent and applied in the child.
  \<^item> \<^theory_text>\<open>Runner\<close>, \<^theory_text>\<open>RunnerProofs\<close>, \<^theory_text>\<open>ExecReport\<close>: \<open>sandbox_context.rs\<close>, one command from its request to
    its result, and what becomes of a program that cannot be executed. What the operating system and
    the child do is a \<open>world\<close>.
  \<^item> \<^theory_text>\<open>AuditLog\<close>: \<open>sandbox-server\<close> \<open>audit.rs\<close>, \<open>webhook.rs\<close>, \<open>metrics.rs\<close>, \<open>redact.rs\<close>.
  \<^item> \<^theory_text>\<open>RateLimit\<close>: \<open>ratelimit.rs\<close>. \<^theory_text>\<open>Scheduler\<close>, \<^theory_text>\<open>SchedulerProofs\<close>: \<open>scheduler.rs\<close> and
    \<open>worker.rs\<close>, a machine whose events are client calls and moves of background tasks.
  \<^item> \<^theory_text>\<open>Session\<close>, \<^theory_text>\<open>SessionFiles\<close>, \<^theory_text>\<open>SessionExec\<close>: \<open>session.rs\<close>; \<^theory_text>\<open>SessionDisk\<close>,
    \<^theory_text>\<open>SessionProofs\<close>, \<^theory_text>\<open>SessionLife\<close>, \<^theory_text>\<open>SessionRestart\<close>, \<^theory_text>\<open>SessionSearch\<close>: its lemmas and
    properties.
  \<^item> \<^theory_text>\<open>Tty\<close>, \<^theory_text>\<open>TtyProofs\<close>: \<open>tty.rs\<close>, one terminal of a session as a list of timed events. \<^theory_text>\<open>Watch\<close>:
    \<open>watch.rs\<close>, and the waiting for jobs at the end of \<open>sandbox-server/src/main.rs\<close>.
  \<^item> \<^theory_text>\<open>Config\<close>: \<open>config.rs\<close> and the building of the runner at the start; the YAML parser and the shell
    that sets up templates are parameters. \<^theory_text>\<open>ServerStart\<close>: \<open>main\<close> up to serving, composed of them, the
    scheduler and the sessions, with the reaper of expired sessions.
  \<^item> \<^theory_text>\<open>Api\<close>: \<open>api.rs\<close>, one handler for each endpoint, inside the API key and the rate limit.
    \<^theory_text>\<open>ApiProofs\<close>, \<^theory_text>\<open>ApiTypes\<close>: who may act, what names can do, and the types of responses. \<^theory_text>\<open>ApiClient\<close>: a
    client's call carried to \<open>serve\<close>.
  \<^item> \<^theory_text>\<open>HttpJson\<close>: JSON values and HTTP calls as the clients see them. \<^theory_text>\<open>Cli\<close>, \<^theory_text>\<open>CliProofs\<close>: \<open>lv-cli\<close>.
    \<^theory_text>\<open>Mcp\<close>: \<open>sandbox-mcp\<close>. \<^theory_text>\<open>Broker\<close>, \<^theory_text>\<open>BrokerLoop\<close>: \<open>sandbox-broker\<close>, its tools and its consumer, a
    machine whose events are records and the ends of executions; \<^theory_text>\<open>BrokerProofs\<close>, \<^theory_text>\<open>BrokerTools\<close>: its
    properties, the latter together with the server behind it.
  \<^item> \<^theory_text>\<open>Certs\<close>: roots of trust from PEM texts. \<^theory_text>\<open>SwapProxy\<close>, \<^theory_text>\<open>SwapTls\<close>: \<open>egress-swap-proxy\<close>, a connection
    and the start. \<^theory_text>\<open>GitHttp\<close>, \<^theory_text>\<open>GitSmart\<close>, \<^theory_text>\<open>GitHelper\<close>: \<open>git-remote-fixus\<close>
    \<open>http.rs\<close>, \<open>smart.rs\<close>, \<open>main.rs\<close>; \<^theory_text>\<open>GitHttpProofs\<close>, \<^theory_text>\<open>GitReader\<close>, \<^theory_text>\<open>GitProofs\<close>: their
    properties, the second with the readers of any sizes. \<^theory_text>\<open>GitDial\<close>:
    \<open>dialer.rs\<close>, composed with the proxy of \<^theory_text>\<open>Socks\<close>.

  \<^bold>\<open>How they interact\<close>

  The server's scheduler and session manager call the runner; the runner makes the workspace,
  starts the proxy, prepares the confinement, forks, and in the child \<open>apply_in_child\<close> applies
  limits, Landlock and the filter in this order; the parent collects output and outcome and cleans
  up. The properties follow this: each mechanism alone (filter verdicts, Landlock access, limits,
  descriptors, environment, allowlist), their composition in the child (\<^theory_text>\<open>Confinement\<close>), the
  supervision (\<^theory_text>\<open>RunnerProofs\<close>), the tables of the server and their agreement with the disk, the
  interface in front of them. Clients are composed with the server: the exit status of the command
  line client and the tools of the broker are stated over \<open>serve\<close>, the dialling of the git helper over
  \<open>handle_conn\<close> of the proxy of the job. The limits, Landlock rules and filter of a terminal are those of
  a job, its group is not.

  \<^bold>\<open>Bounds and fuel\<close>

  Link resolution carries the kernel's bound of 40. The recursive copy of a snapshot has fuel for
  its depth, because a copy into its own source does not end; the round trip of a snapshot holds
  for every fuel above the depth of the source. The polling of the MCP gateway ends within 6002
  rounds, because each round takes 50 ms of its 300 s; that of the command line client has no limit
  in the code and fuel for the number of polls; the waiting at the end of the server takes at most one
  round a second. The readers of the git helper recurse on what is left to read. All other recursions
  are on data or on a measure. Unsigned integers of the code are words and wrap where the code
  computes with them; lengths, durations and counters that cannot overflow in practice are natural
  numbers. Hash maps are lists of entries in iteration order or maps. A mutex, a token and an
  identifier are given values.

  \<^bold>\<open>Parameters\<close>

  What is not in the repository is an argument: the kernel's answers, the name service and the
  network, TLS and certificates, the git processes, YAML and JSON texts and the derived decoders, the
  HTTP and WebSocket libraries, the stream broker, globs, regular expressions, directory walks and
  the text of the counters.

  \<^bold>\<open>Not modelled\<close>

  Logging and tracing (\<open>otel.rs\<close>), argument parsing, the matching of URL paths to handlers (axum),
  listening for connections and signals, and the byte relay of an open connection
  (\<open>copy_bidirectional\<close>), which is the operating system's. A client that goes away and so drops
  the future of a call in the middle is not an event of the models.
\<close>

end
